(* ===== verification/Prelude.thy ===== *)
theory Prelude
  imports Main "HOL-Library.Word"
begin

text \<open>
  Shared vocabulary of the development: the integer types of the C++ code, the exceptions it
  throws, the execution monad its methods are written in, and the automation (frame,
  invariant and termination rules) that every component uses.

  A C++ method that reads and writes the state of an object of type \<open>'s\<close>, may throw, and may
  fail to return is a value of type \<open>('s, 'a) exec\<close>: \<open>None\<close> says that the call does not return,
  \<open>Some (Inl e, s')\<close> that it throws \<open>e\<close> and leaves the object in \<open>s'\<close> (assignments made before
  the throw stay), \<open>Some (Inr x, s')\<close> that it returns \<open>x\<close>.
\<close>

section \<open>Integers\<close>

text \<open>
  Signed C++ integers are mathematical integers; the conversions that can lose bits are written
  out with the functions below.
\<close>

type_synonym i64 = int
type_synonym i32 = int

definition to_i32 :: "int \<Rightarrow> i32" where
  "to_i32 x = signed_take_bit 31 x"

definition to_u64 :: "int \<Rightarrow> int" where
  "to_u64 x = x mod 2 ^ 64"

definition i32_range :: "int \<Rightarrow> bool" where
  "i32_range x \<longleftrightarrow> - (2 ^ 31) \<le> x \<and> x < 2 ^ 31"

definition i64_range :: "int \<Rightarrow> bool" where
  "i64_range x \<longleftrightarrow> - (2 ^ 63) \<le> x \<and> x < 2 ^ 63"

lemma to_i32_id: "i32_range x \<Longrightarrow> to_i32 x = x"
  by (simp add: to_i32_def i32_range_def signed_take_bit_int_eq_self)

lemma to_u64_inj: "i64_range x \<Longrightarrow> i64_range y \<Longrightarrow> to_u64 x = to_u64 y \<longleftrightarrow> x = y"
proof -
  assume r: "i64_range x" "i64_range y"
  have "x = y" if "x mod 2 ^ 64 = y mod 2 ^ 64"
  proof -
    from that have "(2 ^ 64 :: int) dvd (x - y)"
      by (simp add: mod_eq_dvd_iff)
    moreover have "\<bar>x - y\<bar> < 2 ^ 64" using r by (auto simp: i64_range_def)
    ultimately have "x - y = 0" by (metis dvd_imp_le_int not_less abs_numeral power_abs)
    then show ?thesis by simp
  qed
  then show ?thesis by (auto simp: to_u64_def)
qed

text \<open>\<open>std::to_string\<close>.\<close>

fun decimal_digits :: "nat \<Rightarrow> string" where
  "decimal_digits n =
     (if n < 10 then [char_of (48 + n)] else decimal_digits (n div 10) @ [char_of (48 + n mod 10)])"

declare decimal_digits.simps [simp del]

definition to_string :: "int \<Rightarrow> string" where
  "to_string i = (if i < 0 then CHR ''-'' # decimal_digits (nat (- i)) else decimal_digits (nat i))"

text \<open>The \<open>std::string\<close> made from a pointer: the bytes from there on up to the first zero byte.\<close>

definition c_string :: "char list \<Rightarrow> string" where
  "c_string bytes = takeWhile (\<lambda>c. c \<noteq> CHR 0x00) bytes"

section \<open>Exceptions\<close>

text \<open>
  One constructor for every \<open>throw\<close> of the sources, with the values its message carries, plus
  exceptions of the standard library, of the libraries the code calls and of user callbacks.
  \<open>NullDereference\<close> stands for the undefined behaviour of using a null pointer, and
  \<open>ThrownPointer\<close> for a \<open>throw new\<close>, whose exception no handler by reference catches.
\<close>

datatype cluster_error =
    UnexpectedPublicationState i64
  | ServiceIsNull
  | UnknownClusterSession i64
  | InvalidInvocationFrom string
  | InvalidInvocationBackground
  | UnexpectedAeronClose
  | CommitPositionClosed
  | ClashingOpen i64 i64 i64
  | UnknownSessionClose i64 i64 i64 i64
  | JoinImageNotContiguous i64 i64
  | JoinEventNotContiguous i64 i64
  | UnexpectedSchemaId int int
  | UnexpectedSnapshotType i64
  | AlreadyInSnapshot
  | MissingBeginSnapshot
  | SnapshotEndedUnexpectedly
  | RecordingStopped i64
  | InvalidRoleCode i32
  | InvalidServiceId i32 i32
  | ActiveCounterNotFound i32
  | ServiceIdOutsideRange i32
  | ArchiveControlNotIpc
  | EndpointMissingSeparator string
  | LostClusterConnection
  | ClusterRejected string
  | ConnectTimeout
  | MarkFileTypeMismatch
  | StdInvalidArgument
  | StdOutOfRange
  | StdLengthError
  | StdBadFunctionCall
  | RegistrationException
  | LibraryError nat
  | UserError nat
  | NullDereference string
  | ThrownPointer cluster_error

section \<open>The execution monad\<close>

type_synonym ('s, 'a) exec = "'s \<Rightarrow> ((cluster_error + 'a) \<times> 's) option"

text \<open>A call of a library function: it returns or throws, and may change the world \<open>'w\<close>.\<close>

type_synonym ('w, 'a) call = "'w \<Rightarrow> (cluster_error + 'a) \<times> 'w"

definition retE :: "'a \<Rightarrow> ('s, 'a) exec" where
  "retE x = (\<lambda>s. Some (Inr x, s))"

definition throwE :: "cluster_error \<Rightarrow> ('s, 'a) exec" where
  "throwE e = (\<lambda>s. Some (Inl e, s))"

definition bindE :: "('s, 'a) exec \<Rightarrow> ('a \<Rightarrow> ('s, 'b) exec) \<Rightarrow> ('s, 'b) exec" where
  "bindE m f = (\<lambda>s. case m s of
       None \<Rightarrow> None
     | Some (r, s') \<Rightarrow> (case r of Inl e \<Rightarrow> Some (Inl e, s') | Inr x \<Rightarrow> f x s'))"

definition catchE :: "('s, 'a) exec \<Rightarrow> (cluster_error \<Rightarrow> ('s, 'a) exec) \<Rightarrow> ('s, 'a) exec" where
  "catchE m h = (\<lambda>s. case m s of
       None \<Rightarrow> None
     | Some (r, s') \<Rightarrow> (case r of Inl e \<Rightarrow> h e s' | Inr x \<Rightarrow> Some (Inr x, s')))"

text \<open>Running \<open>m\<close> and going on with its outcome, be it a result or an exception.\<close>

definition attemptE :: "('s, 'a) exec \<Rightarrow> (cluster_error + 'a \<Rightarrow> ('s, 'b) exec) \<Rightarrow> ('s, 'b) exec" where
  "attemptE m k = (\<lambda>s. case m s of None \<Rightarrow> None | Some (r, s') \<Rightarrow> k r s')"

definition getsE :: "('s \<Rightarrow> 'a) \<Rightarrow> ('s, 'a) exec" where
  "getsE f = (\<lambda>s. Some (Inr (f s), s))"

definition modifyE :: "('s \<Rightarrow> 's) \<Rightarrow> ('s, unit) exec" where
  "modifyE f = (\<lambda>s. Some (Inr (), f s))"

definition whenE :: "bool \<Rightarrow> ('s, unit) exec \<Rightarrow> ('s, unit) exec" where
  "whenE b m = (if b then m else retE ())"

definition callE :: "('w, 'a) call \<Rightarrow> ('w, 'a) exec" where
  "callE f = (\<lambda>w. Some (f w))"

definition zoomE :: "('s \<Rightarrow> 't) \<Rightarrow> ('t \<Rightarrow> 's \<Rightarrow> 's) \<Rightarrow> ('t, 'a) exec \<Rightarrow> ('s, 'a) exec" where
  "zoomE get put m = (\<lambda>s. case m (get s) of None \<Rightarrow> None | Some (r, t) \<Rightarrow> Some (r, put t s))"

definition liftE :: "cluster_error + 'a \<Rightarrow> ('s, 'a) exec" where
  "liftE r = (\<lambda>s. Some (r, s))"

text \<open>Dereferencing a pointer that may be null.\<close>

definition derefE :: "string \<Rightarrow> 'a option \<Rightarrow> ('s, 'a) exec" where
  "derefE what p = (case p of None \<Rightarrow> throwE (NullDereference what) | Some x \<Rightarrow> retE x)"

text \<open>A range-based \<open>for\<close> loop.\<close>

fun for_each :: "('x \<Rightarrow> ('s, unit) exec) \<Rightarrow> 'x list \<Rightarrow> ('s, unit) exec" where
  "for_each f [] = retE ()"
| "for_each f (x # xs) = bindE (f x) (\<lambda>_. for_each f xs)"

section \<open>Symbolic execution\<close>

named_theorems exec_simps

lemma exec_run [exec_simps]:
  "retE x s = Some (Inr x, s)"
  "throwE e s = Some (Inl e, s)"
  "getsE f s = Some (Inr (f s), s)"
  "modifyE g s = Some (Inr (), g s)"
  "callE c s = Some (c s)"
  "liftE r s = Some (r, s)"
  by (simp_all add: retE_def throwE_def getsE_def modifyE_def callE_def liftE_def)

lemma bindE_run [exec_simps]:
  "bindE (retE x) f = f x"
  "bindE (throwE e) f = throwE e"
  "bindE (getsE g) f s = f (g s) s"
  "bindE (modifyE k) u s = u () (k s)"
  "bindE (bindE m h) f = bindE m (\<lambda>x. bindE (h x) f)"
  by (auto simp: bindE_def fun_eq_iff exec_run split: option.splits sum.splits)

lemma bindE_Some:
  "m s = Some (Inr x, s') \<Longrightarrow> bindE m f s = f x s'"
  "m s = Some (Inl e, s') \<Longrightarrow> bindE m f s = Some (Inl e, s')"
  "m s = None \<Longrightarrow> bindE m f s = None"
  by (simp_all add: bindE_def)

lemma bindE_if [exec_simps]:
  "bindE (if b then m else n) f = (if b then bindE m f else bindE n f)"
  by simp

lemma whenE_run [exec_simps]: "whenE True m = m" "whenE False m = retE ()"
  by (simp_all add: whenE_def)

lemma derefE_run [exec_simps]:
  "derefE w (Some x) = retE x"
  "derefE w None = throwE (NullDereference w)"
  by (simp_all add: derefE_def)

lemma catchE_run [exec_simps]:
  "catchE (retE x) h = retE x"
  "catchE (throwE e) h = h e"
  by (simp_all add: catchE_def fun_eq_iff exec_run)

lemma bindE_eq_Some_Inr:
  "bindE m f s = Some (Inr y, s'') \<longleftrightarrow> (\<exists>x s'. m s = Some (Inr x, s') \<and> f x s' = Some (Inr y, s''))"
  by (auto simp: bindE_def split: option.splits sum.splits)

lemma bindE_eq_Some:
  "bindE m f s = Some (r, s'') \<longleftrightarrow>
     (\<exists>x s'. m s = Some (Inr x, s') \<and> f x s' = Some (r, s''))
   \<or> (\<exists>e. m s = Some (Inl e, s'') \<and> r = Inl e)"
  by (auto simp: bindE_def split: option.splits sum.splits)

lemma catchE_eq_Some:
  "catchE m h s = Some (r, s'') \<longleftrightarrow>
     (\<exists>e s'. m s = Some (Inl e, s') \<and> h e s' = Some (r, s''))
   \<or> (\<exists>x. m s = Some (Inr x, s'') \<and> r = Inr x)"
  by (auto simp: catchE_def split: option.splits sum.splits)

lemma attemptE_run [exec_simps]:
  "attemptE (retE x) k = k (Inr x)"
  "attemptE (throwE e) k = k (Inl e)"
  by (simp_all add: attemptE_def fun_eq_iff exec_run)

lemma attemptE_Some: "m s = Some (r, s') \<Longrightarrow> attemptE m k s = k r s'"
  by (simp add: attemptE_def)

lemma attemptE_eq_Some:
  "attemptE m k s = Some (r, s'') \<longleftrightarrow> (\<exists>q s'. m s = Some (q, s') \<and> k q s' = Some (r, s''))"
  by (auto simp: attemptE_def split: option.splits)

lemma whenE_eq_Some:
  "whenE b m s = Some (r, s') \<longleftrightarrow> (if b then m s = Some (r, s') else r = Inr () \<and> s' = s)"
  by (auto simp: whenE_def exec_simps)

lemma derefE_eq_Some_Inr: "derefE w p s = Some (Inr x, s') \<longleftrightarrow> p = Some x \<and> s' = s"
  by (cases p) (auto simp: exec_simps)

lemma zoomE_eq_Some:
  "zoomE get put m s = Some (r, s') \<longleftrightarrow> (\<exists>t. m (get s) = Some (r, t) \<and> s' = put t s)"
  by (auto simp: zoomE_def split: option.splits)

section \<open>Frames, invariants and termination\<close>

definition keeps :: "('s \<Rightarrow> 'v) \<Rightarrow> ('s, 'a) exec \<Rightarrow> bool" where
  "keeps f m \<longleftrightarrow> (\<forall>s r s'. m s = Some (r, s') \<longrightarrow> f s' = f s)"

definition preserves :: "('s \<Rightarrow> bool) \<Rightarrow> ('s, 'a) exec \<Rightarrow> bool" where
  "preserves P m \<longleftrightarrow> (\<forall>s r s'. P s \<longrightarrow> m s = Some (r, s') \<longrightarrow> P s')"

definition total :: "('s, 'a) exec \<Rightarrow> bool" where
  "total m \<longleftrightarrow> (\<forall>s. m s \<noteq> None)"

named_theorems keeps_rules
named_theorems preserves_rules
named_theorems total_rules

lemma keepsI: "(\<And>s r s'. m s = Some (r, s') \<Longrightarrow> f s' = f s) \<Longrightarrow> keeps f m"
  by (simp add: keeps_def)

lemma keepsD: "keeps f m \<Longrightarrow> m s = Some (r, s') \<Longrightarrow> f s' = f s"
  by (simp add: keeps_def)

lemma preservesI: "(\<And>s r s'. P s \<Longrightarrow> m s = Some (r, s') \<Longrightarrow> P s') \<Longrightarrow> preserves P m"
  by (simp add: preserves_def)

lemma preservesD: "preserves P m \<Longrightarrow> P s \<Longrightarrow> m s = Some (r, s') \<Longrightarrow> P s'"
  by (auto simp: preserves_def exec_simps)

lemma totalD: "total m \<Longrightarrow> \<exists>r s'. m s = Some (r, s')"
  by (auto simp: total_def exec_simps)

lemma preserves_keeps: "keeps f m \<Longrightarrow> preserves (\<lambda>s. P (f s)) m"
  by (auto simp: keeps_def preserves_def)

lemma keeps_atoms [keeps_rules]:
  "keeps f (retE x)" "keeps f (throwE e)" "keeps f (getsE g)" "keeps f (liftE r)"
  by (auto simp: keeps_def exec_simps)

lemma keeps_modifyE [keeps_rules]: "(\<And>s. f (k s) = f s) \<Longrightarrow> keeps f (modifyE k)"
  by (auto simp: keeps_def exec_simps)

lemma keeps_bindE [keeps_rules]:
  "keeps f m \<Longrightarrow> (\<And>x. keeps f (h x)) \<Longrightarrow> keeps f (bindE m h)"
  by (fastforce simp: keeps_def bindE_eq_Some)

lemma keeps_catchE [keeps_rules]:
  "keeps f m \<Longrightarrow> (\<And>e. keeps f (h e)) \<Longrightarrow> keeps f (catchE m h)"
  by (fastforce simp: keeps_def catchE_def split: option.splits sum.splits)

lemma keeps_attemptE [keeps_rules]:
  "keeps f m \<Longrightarrow> (\<And>r. keeps f (k r)) \<Longrightarrow> keeps f (attemptE m k)"
  by (fastforce simp: keeps_def attemptE_eq_Some)

lemma keeps_whenE [keeps_rules]: "(b \<Longrightarrow> keeps f m) \<Longrightarrow> keeps f (whenE b m)"
  by (auto simp: whenE_def keeps_def exec_simps)

lemma keeps_derefE [keeps_rules]: "keeps f (derefE w p)"
  by (cases p) (auto simp: keeps_def exec_simps)

lemma keeps_zoomE [keeps_rules]:
  "(\<And>t s. f (put t s) = f s) \<Longrightarrow> keeps f (zoomE get put m)"
  by (auto simp: keeps_def zoomE_eq_Some)

lemma keeps_cases [keeps_rules]:
  "(b \<Longrightarrow> keeps f m) \<Longrightarrow> (\<not> b \<Longrightarrow> keeps f n) \<Longrightarrow> keeps f (if b then m else n)"
  "(p = None \<Longrightarrow> keeps f n') \<Longrightarrow> (\<And>x. p = Some x \<Longrightarrow> keeps f (k x)) \<Longrightarrow>
     keeps f (case p of None \<Rightarrow> n' | Some x \<Rightarrow> k x)"
  "(\<And>a b. q = (a, b) \<Longrightarrow> keeps f (g a b)) \<Longrightarrow> keeps f (case q of (a, b) \<Rightarrow> g a b)"
  "(\<And>e. r = Inl e \<Longrightarrow> keeps f (u e)) \<Longrightarrow> (\<And>x. r = Inr x \<Longrightarrow> keeps f (v x)) \<Longrightarrow>
     keeps f (case r of Inl e \<Rightarrow> u e | Inr x \<Rightarrow> v x)"
  by (auto split: option.splits prod.splits sum.splits)

lemma keeps_for_each [keeps_rules]: "(\<And>x. keeps f (h x)) \<Longrightarrow> keeps f (for_each h xs)"
  by (induction xs) (auto intro!: keeps_rules)

lemma preserves_atoms [preserves_rules]:
  "preserves P (retE x)" "preserves P (throwE e)" "preserves P (getsE g)" "preserves P (liftE r)"
  by (auto simp: preserves_def exec_simps)

lemma preserves_modifyE [preserves_rules]:
  "(\<And>s. P s \<Longrightarrow> P (k s)) \<Longrightarrow> preserves P (modifyE k)"
  by (auto simp: preserves_def exec_simps)

lemma preserves_bindE [preserves_rules]:
  assumes m: "preserves P m" and h: "\<And>x. preserves P (h x)"
  shows "preserves P (bindE m h)"
proof (rule preservesI)
  fix s r s'
  assume P: "P s" and "bindE m h s = Some (r, s')"
  then consider x t where "m s = Some (Inr x, t)" "h x t = Some (r, s')"
    | e where "m s = Some (Inl e, s')"
    by (auto simp: bindE_eq_Some)
  then show "P s'" by cases (meson P m h preservesD)+
qed

lemma preserves_catchE [preserves_rules]:
  assumes m: "preserves P m" and h: "\<And>e. preserves P (h e)"
  shows "preserves P (catchE m h)"
proof (rule preservesI)
  fix s r s'
  assume P: "P s" and "catchE m h s = Some (r, s')"
  then consider e t where "m s = Some (Inl e, t)" "h e t = Some (r, s')"
    | x where "m s = Some (Inr x, s')"
    by (auto simp: catchE_eq_Some)
  then show "P s'" by cases (meson P m h preservesD)+
qed

lemma preserves_attemptE [preserves_rules]:
  "preserves P m \<Longrightarrow> (\<And>r. preserves P (k r)) \<Longrightarrow> preserves P (attemptE m k)"
  unfolding preserves_def attemptE_eq_Some by meson

lemma preserves_whenE [preserves_rules]: "(b \<Longrightarrow> preserves P m) \<Longrightarrow> preserves P (whenE b m)"
  by (auto simp: whenE_def preserves_def exec_simps)

lemma preserves_derefE [preserves_rules]: "preserves P (derefE w p)"
  by (cases p) (auto simp: preserves_def exec_simps)

lemma preserves_zoomE:
  "(\<And>t s. P (put t s) = P s) \<Longrightarrow> preserves P (zoomE get put m)"
  by (auto simp: preserves_def zoomE_eq_Some)

lemma preserves_cases [preserves_rules]:
  "(b \<Longrightarrow> preserves P m) \<Longrightarrow> (\<not> b \<Longrightarrow> preserves P n) \<Longrightarrow> preserves P (if b then m else n)"
  "(p = None \<Longrightarrow> preserves P n') \<Longrightarrow> (\<And>x. p = Some x \<Longrightarrow> preserves P (k x)) \<Longrightarrow>
     preserves P (case p of None \<Rightarrow> n' | Some x \<Rightarrow> k x)"
  "(\<And>a b. q = (a, b) \<Longrightarrow> preserves P (g a b)) \<Longrightarrow> preserves P (case q of (a, b) \<Rightarrow> g a b)"
  "(\<And>e. r = Inl e \<Longrightarrow> preserves P (u e)) \<Longrightarrow> (\<And>x. r = Inr x \<Longrightarrow> preserves P (v x)) \<Longrightarrow>
     preserves P (case r of Inl e \<Rightarrow> u e | Inr x \<Rightarrow> v x)"
  by (auto split: option.splits prod.splits sum.splits)

lemma preserves_for_each [preserves_rules]:
  "(\<And>x. preserves P (h x)) \<Longrightarrow> preserves P (for_each h xs)"
  by (induction xs) (auto intro!: preserves_rules)

lemma total_atoms [total_rules]:
  "total (retE x)" "total (throwE e)" "total (getsE g)" "total (liftE r)" "total (modifyE k)"
  "total (callE c)"
  by (auto simp: total_def exec_simps)

lemma total_bindE [total_rules]: "total m \<Longrightarrow> (\<And>x. total (h x)) \<Longrightarrow> total (bindE m h)"
  by (auto simp: total_def bindE_def split: option.splits sum.splits)

lemma total_catchE [total_rules]: "total m \<Longrightarrow> (\<And>e. total (h e)) \<Longrightarrow> total (catchE m h)"
  by (auto simp: total_def catchE_def split: option.splits sum.splits)

lemma total_attemptE [total_rules]:
  "total m \<Longrightarrow> (\<And>r. total (k r)) \<Longrightarrow> total (attemptE m k)"
  by (auto simp: total_def attemptE_def split: option.splits)

lemma total_whenE [total_rules]: "(b \<Longrightarrow> total m) \<Longrightarrow> total (whenE b m)"
  by (auto simp: whenE_def total_def exec_simps)

lemma total_derefE [total_rules]: "total (derefE w p)"
  by (cases p) (auto simp: total_def exec_simps)

lemma total_zoomE [total_rules]: "total m \<Longrightarrow> total (zoomE get put m)"
  by (auto simp: total_def zoomE_def split: option.splits)

lemma total_cases [total_rules]:
  "(b \<Longrightarrow> total m) \<Longrightarrow> (\<not> b \<Longrightarrow> total n) \<Longrightarrow> total (if b then m else n)"
  "(p = None \<Longrightarrow> total n') \<Longrightarrow> (\<And>x. p = Some x \<Longrightarrow> total (k x)) \<Longrightarrow>
     total (case p of None \<Rightarrow> n' | Some x \<Rightarrow> k x)"
  "(\<And>a b. q = (a, b) \<Longrightarrow> total (g a b)) \<Longrightarrow> total (case q of (a, b) \<Rightarrow> g a b)"
  "(\<And>e. r = Inl e \<Longrightarrow> total (u e)) \<Longrightarrow> (\<And>x. r = Inr x \<Longrightarrow> total (v x)) \<Longrightarrow>
     total (case r of Inl e \<Rightarrow> u e | Inr x \<Rightarrow> v x)"
  by (auto split: option.splits prod.splits sum.splits)

lemma total_for_each [total_rules]: "(\<And>x. total (h x)) \<Longrightarrow> total (for_each h xs)"
  by (induction xs) (auto intro!: total_rules)

lemma for_each_append: "for_each f (xs @ ys) = bindE (for_each f xs) (\<lambda>_. for_each f ys)"
  by (induction xs) (simp_all only: for_each.simps append.simps bindE_run)

text \<open>Loops of the monad may be defined as partial functions.\<close>

lemma bindE_mono [partial_function_mono]:
  fixes g :: "('x \<Rightarrow> 'y option) \<Rightarrow> 'a \<Rightarrow> ('s, 'b) exec"
  assumes "\<And>x s'. mono_option (\<lambda>f. g f x s')"
  shows "mono_option (\<lambda>f. bindE m (g f) s)"
proof (rule monotoneI)
  fix u v :: "'x \<Rightarrow> 'y option"
  assume uv: "option.le_fun u v"
  have "option_ord (g u x s') (g v x s')" for x s'
    using assms uv unfolding monotone_def by blast
  then show "option_ord (bindE m (g u) s) (bindE m (g v) s)"
    by (auto simp: bindE_def flat_ord_def split: option.splits sum.splits)
qed

lemma branches_mono [partial_function_mono]:
  "mono_option (\<lambda>f. u f s) \<Longrightarrow> mono_option (\<lambda>f. v f s) \<Longrightarrow> mono_option (\<lambda>f. (if b then u f else v f) s)"
  "mono_option (\<lambda>f. u f s) \<Longrightarrow> (\<And>x. mono_option (\<lambda>f. k f x s)) \<Longrightarrow>
   mono_option (\<lambda>f. (case p of None \<Rightarrow> u f | Some x \<Rightarrow> k f x) s)"
  by (cases b, simp_all) (cases p, simp_all)

end
