(* ===== verification/Environment.thy ===== *)
theory Environment
  imports Prelude
begin

text \<open>
  The code the program calls and that is not part of the repository, as parameters: the Aeron
  client library, the archive client and the generated SBE codecs. Each library function is a
  field of a record, of type \<open>('w, 'a) call\<close> when it acts on (or depends on) the outside world
  \<open>'w\<close>; nothing is assumed about any of them unless a theorem says so. Objects of the library
  (publications, subscriptions, images) are handles; \<open>'b\<close> is the type of a memory region.

  The messages the codecs carry are datatypes with one constructor per message, holding the
  fields the sources read or write. An accessor of a field of variable length returns a pointer
  into the message and moves the position of the decoder past the field; where the sources make
  a string from such a pointer, the field of the datatype holds the bytes from there on. The
  accessor of a length reads the prefix at the position reached so far: \<open>ch_lengthAfter\<close> is
  what it reads after the challenge has been consumed, \<open>ar_firstLength\<close> what it reads before
  the message of the response has been.
\<close>

section \<open>Handles and constants\<close>

type_synonym pub = nat
type_synonym sub = nat
type_synonym image = nat
type_synonym claim = nat

record counter =
  counter_registrationId :: i64
  counter_id :: i32

record aeron_consts =
  NULL_VALUE :: i64
  NULL_POSITION :: i64
  NOT_CONNECTED :: i64
  PUBLICATION_CLOSED :: i64
  MAX_POSITION_EXCEEDED :: i64
  NULL_COUNTER_ID :: i32
  RECORD_ALLOCATED :: i32
  RECORD_UNUSED :: i32
  KEY_OFFSET :: int
  metadataOffset :: "i32 \<Rightarrow> int"
  CLUSTER_RECOVERY_STATE_TYPE_ID :: i32
  CLUSTER_COMMIT_POSITION_TYPE_ID :: i32
  IPC_CHANNEL :: string
  UDP_MEDIA :: string
  LOCAL_SOURCE :: int
  UNFRAGMENTED :: "8 word"
  BEGIN_FRAG :: "8 word"
  END_FRAG :: "8 word"
  DataFrameHeader_LENGTH :: int
  FRAME_ALIGNMENT :: int
  BitUtil_align :: "int \<Rightarrow> int \<Rightarrow> int"
  arguments_right_to_left :: bool
  operands_right_to_left :: bool

text \<open>
  The last two are the compiler's choice of an evaluation order that C++ leaves open: of the
  arguments of a constructor and of the operands of a sum.
\<close>

text \<open>A view of the counters metadata and states, as one call reads them.\<close>

record counters =
  maxCounterId :: i32
  getCounterState :: "i32 \<Rightarrow> i32"
  getCounterTypeId :: "i32 \<Rightarrow> i32"
  getCounterRegistrationId :: "i32 \<Rightarrow> i64"
  metaInt32 :: "int \<Rightarrow> i32"
  metaInt64 :: "int \<Rightarrow> i64"

section \<open>Messages\<close>

datatype message_header =
  MessageHeader (mh_blockLength: int) (mh_templateId: int) (mh_schemaId: int) (mh_version: int)

datatype session_message_header =
  SessionMessageHeader (smh_leadershipTermId: i64) (smh_clusterSessionId: i64) (smh_timestamp: i64)

datatype timer_event = TimerEvent (te_correlationId: i64) (te_timestamp: i64)

datatype session_open_event =
  SessionOpenEvent (so_leadershipTermId: i64) (so_clusterSessionId: i64) (so_timestamp: i64)
    (so_responseStreamId: i32) (so_responseChannel: string) (so_encodedPrincipalLength: nat)

datatype session_close_event =
  SessionCloseEvent (sc_leadershipTermId: i64) (sc_clusterSessionId: i64) (sc_timestamp: i64)
    (sc_closeReason: i32)

datatype cluster_action = SNAPSHOT | OtherAction int

datatype cluster_action_request =
  ClusterActionRequest (ca_leadershipTermId: i64) (ca_logPosition: i64) (ca_timestamp: i64)
    (ca_action: cluster_action) (ca_flags: i32)

datatype new_leadership_term_event =
  NewLeadershipTermEvent (nl_leadershipTermId: i64) (nl_logPosition: i64) (nl_timestamp: i64)
    (nl_termBaseLogPosition: i64) (nl_leaderMemberId: i32) (nl_logSessionId: i32)
    (nl_appVersion: i32)

datatype change_type = QUIT | OtherChange int

datatype membership_change_event =
  MembershipChangeEvent (mc_logPosition: i64) (mc_timestamp: i64) (mc_changeType: change_type)
    (mc_memberId: i32)

datatype join_log =
  JoinLog (jl_logPosition: i64) (jl_maxLogPosition: i64) (jl_memberId: i32) (jl_logSessionId: i32)
    (jl_logStreamId: i32) (jl_isStartup: bool) (jl_role: i32) (jl_logChannel: string)

datatype service_termination_position = ServiceTerminationPosition (stp_logPosition: i64)

datatype request_service_ack = RequestServiceAck (rsa_logPosition: i64)

datatype snapshot_mark = BEGIN | END | SECTION | MARK_NULL_VALUE

datatype cluster_time_unit = MILLIS | MICROS | NANOS

datatype snapshot_marker =
  SnapshotMarker (sm_typeId: i64) (sm_logPosition: i64) (sm_leadershipTermId: i64) (sm_index: i32)
    (sm_mark: snapshot_mark) (sm_timeUnit: cluster_time_unit) (sm_appVersion: i32)

text \<open>What a \<open>ClientSession\<close> message is written from.\<close>

datatype client_session_msg =
  ClientSessionMsg (cm_clusterSessionId: i64) (cm_responseStreamId: i32)
    (cm_responseChannel: string) (cm_encodedPrincipal: string)

text \<open>Requests of a service to the consensus module.\<close>

datatype cm_request =
    RemoveMember i32 bool
  | ScheduleTimer i64 i64
  | CancelTimer i64
  | CloseSession i64
  | ServiceAck i64 i64 i64 i64 i32

datatype event_code =
  EC_OK | EC_ERROR | EC_REDIRECT | EC_AUTHENTICATION_REJECTED | EC_CLOSED | EC_NULL_VALUE

datatype session_event =
  SessionEvent (se_clusterSessionId: i64) (se_correlationId: i64) (se_leadershipTermId: i64)
    (se_leaderMemberId: i32) (se_code: event_code) (se_version: i32) (se_detail: string)

datatype new_leader_event =
  NewLeaderEvent (ne_clusterSessionId: i64) (ne_leadershipTermId: i64) (ne_leaderMemberId: i32)
    (ne_ingressEndpoints: string)

datatype challenge_msg =
  Challenge (ch_correlationId: i64) (ch_clusterSessionId: i64) (ch_encodedChallenge: string)
    (ch_lengthAfter: int)

datatype admin_response =
  AdminResponse (ar_clusterSessionId: i64) (ar_correlationId: i64) (ar_requestType: int)
    (ar_responseCode: int) (ar_message: string) (ar_offset: int) (ar_firstLength: int)

text \<open>Requests of a client to the cluster.\<close>

datatype client_request =
    SessionConnectRequest i64 i32 i32 string string
  | ChallengeResponse i64 i64 string

section \<open>Fragments\<close>

record frag_header =
  fh_position :: i64
  fh_flags :: "8 word"
  fh_context :: image

datatype 'b fragment =
  Fragment (frag_buffer: 'b) (frag_offset: int) (frag_length: int) (frag_header: frag_header)

datatype poll_action = ABORT | BREAK | COMMIT | CONTINUE

text \<open>
  A poll: the library picks fragments and hands them to the handler one by one until the handler
  answers \<open>BREAK\<close> or \<open>ABORT\<close> (the aborted fragment is not consumed) or throws. The library then
  returns (\<open>finish\<close>, given how many fragments were consumed) or deals with the exception
  (\<open>on_throw\<close>): it may let it out of the poll or swallow it.
\<close>

fun deliver :: "('f \<Rightarrow> ('s, poll_action) exec) \<Rightarrow> (nat \<Rightarrow> ('s, int) exec) \<Rightarrow>
    (nat \<Rightarrow> cluster_error \<Rightarrow> ('s, int) exec) \<Rightarrow> nat \<Rightarrow> 'f list \<Rightarrow> ('s, int) exec" where
  "deliver h finish on_throw k [] = finish k"
| "deliver h finish on_throw k (f # fs) =
     attemptE (h f) (\<lambda>r.
     case r of
       Inl e \<Rightarrow> on_throw k e
     | Inr action \<Rightarrow>
         if action = ABORT then finish k
         else if action = BREAK then finish (Suc k)
         else deliver h finish on_throw (Suc k) fs)"

definition pollE :: "('s, 'f list) exec \<Rightarrow> (nat \<Rightarrow> ('s, int) exec) \<Rightarrow>
    (nat \<Rightarrow> cluster_error \<Rightarrow> ('s, int) exec) \<Rightarrow> ('f \<Rightarrow> ('s, poll_action) exec) \<Rightarrow> ('s, int) exec" where
  "pollE poll finish on_throw h = bindE poll (\<lambda>fs. deliver h finish on_throw 0 fs)"

text \<open>A handler without a result is a handler that goes on.\<close>

definition continuing :: "('f \<Rightarrow> ('s, unit) exec) \<Rightarrow> 'f \<Rightarrow> ('s, poll_action) exec" where
  "continuing h f = bindE (h f) (\<lambda>_. retE CONTINUE)"

lemma keeps_deliver [keeps_rules]:
  assumes "\<And>x. keeps f (h x)" "\<And>k. keeps f (finish k)" "\<And>k e. keeps f (on_throw k e)"
  shows "keeps f (deliver h finish on_throw k fs)"
  by (induction fs arbitrary: k) (unfold deliver.simps, (intro keeps_rules assms | assumption)+)

lemma preserves_deliver [preserves_rules]:
  assumes "\<And>x. preserves P (h x)" "\<And>k. preserves P (finish k)" "\<And>k e. preserves P (on_throw k e)"
  shows "preserves P (deliver h finish on_throw k fs)"
  by (induction fs arbitrary: k) (unfold deliver.simps, (intro preserves_rules assms | assumption)+)

lemma total_deliver [total_rules]:
  assumes "\<And>x. total (h x)" "\<And>k. total (finish k)" "\<And>k e. total (on_throw k e)"
  shows "total (deliver h finish on_throw k fs)"
  by (induction fs arbitrary: k) (unfold deliver.simps, (intro total_rules assms | assumption)+)

lemma keeps_pollE [keeps_rules]:
  "keeps f poll \<Longrightarrow> (\<And>x. keeps f (h x)) \<Longrightarrow> (\<And>k. keeps f (finish k)) \<Longrightarrow>
   (\<And>k e. keeps f (on_throw k e)) \<Longrightarrow> keeps f (pollE poll finish on_throw h)"
  unfolding pollE_def by (intro keeps_rules)

lemma preserves_pollE [preserves_rules]:
  "preserves P poll \<Longrightarrow> (\<And>x. preserves P (h x)) \<Longrightarrow> (\<And>k. preserves P (finish k)) \<Longrightarrow>
   (\<And>k e. preserves P (on_throw k e)) \<Longrightarrow> preserves P (pollE poll finish on_throw h)"
  unfolding pollE_def by (intro preserves_rules)

lemma total_pollE [total_rules]:
  "total poll \<Longrightarrow> (\<And>x. total (h x)) \<Longrightarrow> (\<And>k. total (finish k)) \<Longrightarrow>
   (\<And>k e. total (on_throw k e)) \<Longrightarrow> total (pollE poll finish on_throw h)"
  unfolding pollE_def by (intro total_rules)

section \<open>Memory that is not initialised\<close>

text \<open>
  The members that a constructor leaves as the memory has them: each reads as it happens to be
  when the object is made. A member of a session is the member of the session with that id.
\<close>

datatype uninitialised =
    Agent_isAbort | Agent_isBackgroundInvocation | Agent_lastSlowTickNs | Adapter_maxLogPosition
  | Session_isClosing i64
  | Loader_appVersion
  | Connect_snapshotSubscriptionId | Connect_snapshotSessionId
  | Client_clusterSessionId | Client_leadershipTermId | Client_leaderMemberId
  | Cluster_leaderMemberId | Cluster_isClosed

section \<open>The Aeron client and archive libraries\<close>

record ('b, 'w) aeron = aeron_consts +
  aeron_connect :: "string \<Rightarrow> nat option \<Rightarrow> ('w, nat) call"
  defaultErrorHandler :: nat
  defaultAeronPath :: string
  aeron_addExclusivePublication :: "string \<Rightarrow> i32 \<Rightarrow> ('w, i64) call"
  aeron_addPublication :: "string \<Rightarrow> i32 \<Rightarrow> ('w, i64) call"
  aeron_addSubscription :: "string \<Rightarrow> i32 \<Rightarrow> ('w, i64) call"
  aeron_addCounter :: "i32 \<Rightarrow> i32 \<Rightarrow> string \<Rightarrow> ('w, i64) call"
  aeron_findExclusivePublication :: "i64 \<Rightarrow> ('w, pub option) call"
  aeron_findSubscription :: "i64 \<Rightarrow> ('w, sub option) call"
  aeron_countersReader :: "('w, counters) call"
  aeron_getCounterValue :: "i32 \<Rightarrow> ('w, i64) call"
  aeron_isClosed :: "('w, bool) call"
  aeron_usesAgentInvoker :: "('w, bool) call"
  aeron_invoke :: "('w, unit) call"
  aeron_clientId :: "('w, i64) call"
  aeron_nextCorrelationId :: "('w, i64) call"
  pub_isConnected :: "pub \<Rightarrow> ('w, bool) call"
  pub_tryClaim :: "pub \<Rightarrow> int \<Rightarrow> ('w, i64 \<times> claim) call"
  pub_offer :: "pub \<Rightarrow> 'b \<Rightarrow> ('w, i64) call"
  pub_position :: "pub \<Rightarrow> ('w, i64) call"
  pub_close :: "pub \<Rightarrow> ('w, unit) call"
  pub_sessionId :: "pub \<Rightarrow> i32"
  claim_write :: "claim \<Rightarrow> cm_request \<Rightarrow> ('w, unit) call"
  claim_commit :: "claim \<Rightarrow> ('w, unit) call"
  sub_poll :: "sub \<Rightarrow> int \<Rightarrow> ('w, 'b fragment list) call"
  sub_controlledPoll :: "sub \<Rightarrow> int \<Rightarrow> ('w, 'b fragment list) call"
  sub_imageBySessionId :: "sub \<Rightarrow> i32 \<Rightarrow> ('w, image option) call"
  sub_isConnected :: "sub \<Rightarrow> ('w, bool) call"
  sub_tryResolveChannelEndpointPort :: "sub \<Rightarrow> ('w, string) call"
  sub_closeAndRemoveImages :: "sub \<Rightarrow> ('w, unit) call"
  image_position :: "image \<Rightarrow> ('w, i64) call"
  image_isEndOfStream :: "image \<Rightarrow> ('w, bool) call"
  image_isClosed :: "image \<Rightarrow> ('w, bool) call"
  image_close :: "image \<Rightarrow> ('w, unit) call"
  image_joinPosition :: "image \<Rightarrow> i64"
  image_controlledPoll :: "image \<Rightarrow> int \<Rightarrow> ('w, 'b fragment list) call"
  image_boundedControlledPoll :: "image \<Rightarrow> i64 \<Rightarrow> int \<Rightarrow> ('w, 'b fragment list) call"
  poll_finish :: "nat \<Rightarrow> ('w, int) call"
  poll_on_throw :: "nat \<Rightarrow> cluster_error \<Rightarrow> ('w, int) call"
  commit_get :: "counter \<Rightarrow> ('w, i64) call"
  commit_isClosed :: "counter \<Rightarrow> ('w, bool) call"
  archive_asyncConnect :: "('w, unit) call"
  archive_connect_poll :: "('w, nat option) call"
  archive_startReplay :: "nat \<Rightarrow> i64 \<Rightarrow> i64 \<Rightarrow> i64 \<Rightarrow> string \<Rightarrow> i32 \<Rightarrow> ('w, i64) call"
  archive_startRecording :: "nat \<Rightarrow> string \<Rightarrow> i32 \<Rightarrow> int \<Rightarrow> bool \<Rightarrow> ('w, i64) call"
  archive_checkForErrorResponse :: "nat \<Rightarrow> ('w, unit) call"
  RecordingPos_findCounterIdBySessionId :: "i32 \<Rightarrow> ('w, i32) call"
  RecordingPos_getRecordingId :: "i32 \<Rightarrow> ('w, i64) call"
  RecordingPos_isActive :: "i32 \<Rightarrow> i64 \<Rightarrow> ('w, bool) call"
  ChannelUri_addSessionId :: "string \<Rightarrow> i64 \<Rightarrow> ('w, string) call"
  ChannelUri_withAlias :: "string \<Rightarrow> string \<Rightarrow> ('w, string) call"
  ChannelUri_media :: "string \<Rightarrow> cluster_error + string"
  ChannelUri_toString :: "string \<Rightarrow> string option \<Rightarrow> string"
  idle_idle :: "('w, unit) call"
  systemNanoClock :: "('w, i64) call"
  currentTimeMillis :: "('w, i64) call"
  builder_reset :: "('w, unit) call"
  builder_append :: "'b fragment \<Rightarrow> ('w, unit) call"
  builder_nextTermOffset :: "('w, int) call"
  builder_setNextTermOffset :: "int \<Rightarrow> ('w, unit) call"
  builder_limit :: "('w, int) call"
  builder_setLimit :: "int \<Rightarrow> ('w, unit) call"
  builder_buffer :: "('w, 'b) call"
  uninit_bool :: "uninitialised \<Rightarrow> 'w \<Rightarrow> bool"
  uninit_int :: "uninitialised \<Rightarrow> 'w \<Rightarrow> int"

section \<open>The generated codecs\<close>

text \<open>
  A decoder is called with the buffer, the offset added to the buffer's address, the offset
  argument, the buffer length, the acting block length and the acting version.
\<close>

type_synonym ('b, 'm) decoder = "'b \<Rightarrow> int \<Rightarrow> int \<Rightarrow> int \<Rightarrow> int \<Rightarrow> int \<Rightarrow> cluster_error + 'm"

text \<open>
  The decoder of \<open>ClientSession\<close> after its fixed fields are read: the buffer, its length and the
  position. The accessors of the fields of variable length take it and return a pointer and the
  decoder with its new position; the accessors of the lengths read at the current position.
\<close>

record 'b flyweight =
  fw_buffer :: 'b
  fw_bufferLength :: int
  fw_position :: int

record ('b, 'w) codecs = "('b, 'w) aeron" +
  MessageHeader_wrap :: "'b \<Rightarrow> int \<Rightarrow> int \<Rightarrow> int \<Rightarrow> cluster_error + message_header"
  MessageHeader_sbeSchemaId :: int
  MessageHeader_sbeSchemaVersion :: int
  MessageHeader_encodedLength :: int
  SessionMessageHeader_sbeTemplateId :: int
  SessionMessageHeader_sbeBlockLength :: int
  SessionMessageHeader_sbeBlockAndHeaderLength :: int
  SessionMessageHeader_wrap :: "('b, session_message_header) decoder"
  TimerEvent_sbeTemplateId :: int
  TimerEvent_wrap :: "('b, timer_event) decoder"
  SessionOpenEvent_sbeTemplateId :: int
  SessionOpenEvent_wrap :: "('b, session_open_event) decoder"
  SessionCloseEvent_sbeTemplateId :: int
  SessionCloseEvent_wrap :: "('b, session_close_event) decoder"
  ClusterActionRequest_sbeTemplateId :: int
  ClusterActionRequest_wrap :: "('b, cluster_action_request) decoder"
  NewLeadershipTermEvent_sbeTemplateId :: int
  NewLeadershipTermEvent_wrap :: "('b, new_leadership_term_event) decoder"
  MembershipChangeEvent_sbeTemplateId :: int
  MembershipChangeEvent_wrap :: "('b, membership_change_event) decoder"
  JoinLog_sbeTemplateId :: int
  JoinLog_wrap :: "('b, join_log) decoder"
  ServiceTerminationPosition_sbeTemplateId :: int
  ServiceTerminationPosition_wrap :: "('b, service_termination_position) decoder"
  RequestServiceAck_sbeTemplateId :: int
  RequestServiceAck_wrap :: "('b, request_service_ack) decoder"
  SnapshotMarker_sbeTemplateId :: int
  SnapshotMarker_sbeBlockAndHeaderLength :: int
  SnapshotMarker_wrap :: "('b, snapshot_marker) decoder"
  SnapshotMarker_encode :: "int \<Rightarrow> snapshot_marker \<Rightarrow> cluster_error + 'b"
  ClientSession_sbeTemplateId :: int
  ClientSession_sbeBlockAndHeaderLength :: int
  ClientSession_responseChannelHeaderLength :: int
  ClientSession_encodedPrincipalHeaderLength :: int
  ClientSession_wrap :: "('b, i64 \<times> i32 \<times> 'b flyweight) decoder"
  ClientSession_responseChannel :: "'b flyweight \<Rightarrow> cluster_error + int \<times> 'b flyweight"
  ClientSession_responseChannelLength :: "'b flyweight \<Rightarrow> int"
  ClientSession_encodedPrincipal :: "'b flyweight \<Rightarrow> cluster_error + int \<times> 'b flyweight"
  ClientSession_encodedPrincipalLength :: "'b flyweight \<Rightarrow> int"
  buffer_bytes :: "'b \<Rightarrow> int \<Rightarrow> int \<Rightarrow> string"
  buffer_view :: "'b \<Rightarrow> int \<Rightarrow> 'b"
  ClientSession_encode :: "int \<Rightarrow> client_session_msg \<Rightarrow> cluster_error + 'b"
  SessionEvent_sbeTemplateId :: int
  SessionEvent_wrap :: "('b, session_event) decoder"
  NewLeaderEvent_sbeTemplateId :: int
  NewLeaderEvent_wrap :: "('b, new_leader_event) decoder"
  Challenge_sbeTemplateId :: int
  Challenge_wrap :: "('b, challenge_msg) decoder"
  AdminResponse_sbeTemplateId :: int
  AdminResponse_sbeBlockLength :: int
  AdminResponse_messageHeaderLength :: int
  AdminResponse_payloadHeaderLength :: int
  AdminResponse_wrap :: "('b, admin_response) decoder"
  cm_blockAndHeaderLength :: "cm_request \<Rightarrow> int"
  client_encode :: "client_request \<Rightarrow> cluster_error + 'b"
  client_encodedLength :: "client_request \<Rightarrow> int"
  SessionMessageHeader_encode :: "int \<Rightarrow> session_message_header \<Rightarrow> cluster_error + 'b"

end
