(* ===== verification/Sessions.thy ===== *)
theory Sessions
  imports Environment
begin

text \<open>
  Client sessions of the service container (\<open>ContainerClientSession\<close>) and the table the agent
  keeps them in (\<open>m_sessionByIdMap\<close> and \<open>m_sessions\<close> of \<open>ClusteredServiceAgent\<close>).

  The two containers share the session objects: the vector owns them, the map points at them.
  The table therefore holds an explicit heap of session objects, the vector and the map hold
  addresses, and a change made through one of them is seen through the other.
\<close>

section \<open>ContainerClientSession\<close>

record session =
  cs_id :: i64
  cs_responseStreamId :: i32
  cs_responseChannel :: string
  cs_encodedPrincipal :: string
  cs_responsePublicationId :: i64
  cs_responsePublication :: "pub option"
  cs_isClosing :: bool

text \<open>
  The constructor does not initialise \<open>m_isClosing\<close>: the new object has whatever the memory
  held, the last argument here.
\<close>

definition new_session ::
  "('b, 'w, 'z) aeron_scheme \<Rightarrow> i64 \<Rightarrow> i32 \<Rightarrow> string \<Rightarrow> string \<Rightarrow> bool \<Rightarrow> session" where
  "new_session L sessionId responseStreamId responseChannel encodedPrincipal uninit =
     \<lparr> cs_id = sessionId, cs_responseStreamId = responseStreamId,
       cs_responseChannel = responseChannel, cs_encodedPrincipal = encodedPrincipal,
       cs_responsePublicationId = NULL_VALUE L, cs_responsePublication = None,
       cs_isClosing = uninit \<rparr>"

definition markClosing :: "session \<Rightarrow> session" where
  "markClosing s = s\<lparr>cs_isClosing := True\<rparr>"

definition resetClosing :: "session \<Rightarrow> session" where
  "resetClosing s = s\<lparr>cs_isClosing := False\<rparr>"

abbreviation on_world :: "('w, 'a) call \<Rightarrow> ('o \<times> 'w, 'a) exec" where
  "on_world c \<equiv> zoomE snd (\<lambda>w (x, _). (x, w)) (callE c)"

text \<open>The loop of \<open>connect\<close>: at most \<open>n\<close> attempts to find the publication.\<close>

fun find_publication :: "('b, 'w, 'z) aeron_scheme \<Rightarrow> nat \<Rightarrow> (session \<times> 'w, unit) exec" where
  "find_publication L 0 = retE ()"
| "find_publication L (Suc n) =
     bindE (getsE (\<lambda>(s, w). cs_responsePublicationId s)) (\<lambda>pid.
     bindE (on_world (aeron_findExclusivePublication L pid)) (\<lambda>p.
     bindE (modifyE (\<lambda>(s, w). (s\<lparr>cs_responsePublication := p\<rparr>, w))) (\<lambda>_.
     case p of
       None \<Rightarrow> bindE (on_world (idle_idle L)) (\<lambda>_. find_publication L n)
     | Some _ \<Rightarrow> retE ())))"

definition connect :: "('b, 'w, 'z) aeron_scheme \<Rightarrow> (session \<times> 'w, unit) exec" where
  "connect L = catchE
     (bindE (getsE (\<lambda>(s, w). cs_responsePublicationId s)) (\<lambda>pid.
      whenE (pid = NULL_VALUE L)
       (bindE (getsE fst) (\<lambda>s.
        bindE (on_world (aeron_addPublication L (cs_responseChannel s) (cs_responseStreamId s))) (\<lambda>i.
        bindE (modifyE (\<lambda>(s, w). (s\<lparr>cs_responsePublicationId := i\<rparr>, w))) (\<lambda>_.
        find_publication L 3))))))
     (\<lambda>_. retE ())"

definition disconnect :: "('b, 'w, 'z) aeron_scheme \<Rightarrow> (session \<times> 'w, unit) exec" where
  "disconnect L =
     bindE (getsE (\<lambda>(s, w). cs_responsePublication s)) (\<lambda>p.
     bindE (case p of
              None \<Rightarrow> retE ()
            | Some q \<Rightarrow>
                bindE (on_world (pub_close L q)) (\<lambda>_.
                modifyE (\<lambda>(s, w). (s\<lparr>cs_responsePublication := None\<rparr>, w)))) (\<lambda>_.
     modifyE (\<lambda>(s, w). (s\<lparr>cs_responsePublicationId := NULL_VALUE L\<rparr>, w))))"

text \<open>What a session shows to the service, and what no connection change touches.\<close>

definition session_view :: "session \<Rightarrow> i64 \<times> i32 \<times> string \<times> string" where
  "session_view s =
     (cs_id s, cs_responseStreamId s, cs_responseChannel s, cs_encodedPrincipal s)"

lemma session_view_simps [simp]:
  "session_view (s\<lparr>cs_responsePublicationId := i\<rparr>) = session_view s"
  "session_view (s\<lparr>cs_responsePublication := p\<rparr>) = session_view s"
  "session_view (s\<lparr>cs_isClosing := c\<rparr>) = session_view s"
  "session_view (markClosing s) = session_view s"
  "session_view (resetClosing s) = session_view s"
  by (simp_all add: session_view_def markClosing_def resetClosing_def)

lemma session_view_id: "session_view s = session_view t \<Longrightarrow> cs_id s = cs_id t"
  by (simp add: session_view_def)

lemma keeps_fst_on_world [keeps_rules]: "keeps (\<lambda>(s, w). f s) (on_world c)"
  by (intro keeps_rules) auto

lemma keeps_find_publication [keeps_rules]:
  assumes "\<And>s p. f (s\<lparr>cs_responsePublication := p\<rparr>) = f s"
  shows "keeps (\<lambda>(s, w). f s) (find_publication L n)"
  by (induction n) (auto intro!: keeps_rules simp: assms split: prod.splits)

lemma keeps_connect [keeps_rules]:
  assumes "\<And>s p. f (s\<lparr>cs_responsePublication := p\<rparr>) = f s"
    and "\<And>s i. f (s\<lparr>cs_responsePublicationId := i\<rparr>) = f s"
  shows "keeps (\<lambda>(s, w). f s) (connect L)"
  unfolding connect_def by (intro keeps_rules) (auto simp: assms split: prod.splits)

lemma keeps_disconnect [keeps_rules]:
  assumes "\<And>s p. f (s\<lparr>cs_responsePublication := p\<rparr>) = f s"
    and "\<And>s i. f (s\<lparr>cs_responsePublicationId := i\<rparr>) = f s"
  shows "keeps (\<lambda>(s, w). f s) (disconnect L)"
  unfolding disconnect_def by (intro keeps_rules) (auto simp: assms split: prod.splits)

lemma total_find_publication [total_rules]: "total (find_publication L n)"
  by (induction n) (auto intro!: total_rules)

lemma total_connect [total_rules]: "total (connect L)"
  unfolding connect_def by (intro total_rules)

lemma total_disconnect [total_rules]: "total (disconnect L)"
  unfolding disconnect_def by (intro total_rules)

end
