(* ===== verification/SessionTable.thy ===== *)
theory SessionTable
  imports Sessions "HOL-Library.AList"
begin

text \<open>
  The agent's session table: \<open>m_sessions\<close>, a vector of owned sessions ordered by id, and
  \<open>m_sessionByIdMap\<close>, an unordered map from ids to pointers into it. Each owned session is
  kept with the address of its object; a pointer of the map is dereferenced by that address.
  The order of the map's list stands for the unspecified iteration order of the container.

  The interface the rest of the agent relies on is the locale \<open>session_registry\<close>, interpreted at
  the end of the theory on the operations of the table.
\<close>

type_synonym addr = nat

record session_table =
  m_sessionByIdMap :: "(i64 \<times> addr) list"
  m_sessions :: "(addr \<times> session) list"
  next_addr :: addr

definition empty_table :: session_table where
  "empty_table = \<lparr>m_sessionByIdMap = [], m_sessions = [], next_addr = 0\<rparr>"

definition session_ids :: "session_table \<Rightarrow> i64 list" where
  "session_ids T = map (cs_id \<circ> snd) (m_sessions T)"

definition table_elems :: "session_table \<Rightarrow> session list" where
  "table_elems T = map snd (m_sessions T)"

section \<open>Operations\<close>

text \<open>\<open>std::lower_bound\<close>: bisection of the range that starts at \<open>first\<close> and has \<open>len\<close> elements.\<close>

function lower_bound_from :: "('a \<Rightarrow> bool) \<Rightarrow> 'a list \<Rightarrow> nat \<Rightarrow> nat \<Rightarrow> nat" where
  "lower_bound_from before xs first len =
     (if len = 0 then first
      else let half = len div 2; middle = first + half
           in if before (xs ! middle) then lower_bound_from before xs (Suc middle) (len - half - 1)
              else lower_bound_from before xs first half)"
  by pat_completeness auto
termination
  by (relation "measure (\<lambda>(before, xs, first, len). len)") auto

declare lower_bound_from.simps [simp del]

definition lower_bound :: "('a \<Rightarrow> bool) \<Rightarrow> 'a list \<Rightarrow> nat" where
  "lower_bound before xs = lower_bound_from before xs 0 (length xs)"

definition insert_at :: "nat \<Rightarrow> 'a \<Rightarrow> 'a list \<Rightarrow> 'a list" where
  "insert_at i x xs = take i xs @ x # drop i xs"

text \<open>\<open>std::unordered_map::insert\<close> leaves an existing entry as it is.\<close>

definition umap_insert :: "'k \<Rightarrow> 'v \<Rightarrow> ('k \<times> 'v) list \<Rightarrow> ('k \<times> 'v) list" where
  "umap_insert k v m = (if map_of m k = None then (k, v) # m else m)"

definition addSession :: "session \<Rightarrow> session_table \<Rightarrow> session_table" where
  "addSession s T =
     (let clusterSessionId = cs_id s; a = next_addr T;
          index = lower_bound (\<lambda>p. cs_id (snd p) < clusterSessionId) (m_sessions T)
      in T\<lparr> m_sessionByIdMap := umap_insert clusterSessionId a (m_sessionByIdMap T),
            m_sessions := insert_at index (a, s) (m_sessions T),
            next_addr := Suc a \<rparr>)"

fun remove_first :: "('a \<Rightarrow> bool) \<Rightarrow> 'a list \<Rightarrow> 'a option \<times> 'a list" where
  "remove_first P [] = (None, [])"
| "remove_first P (x # xs) =
     (if P x then (Some x, xs) else (let (r, ys) = remove_first P xs in (r, x # ys)))"

definition removeSession :: "i64 \<Rightarrow> session_table \<Rightarrow> session option \<times> session_table" where
  "removeSession clusterSessionId T =
     (let (r, ys) = remove_first (\<lambda>p. cs_id (snd p) = clusterSessionId) (m_sessions T)
      in (map_option snd r,
          T\<lparr> m_sessionByIdMap := AList.delete clusterSessionId (m_sessionByIdMap T),
             m_sessions := ys \<rparr>))"

definition find_pointer :: "session_table \<Rightarrow> i64 \<Rightarrow> addr option" where
  "find_pointer T clusterSessionId = map_of (m_sessionByIdMap T) clusterSessionId"

definition deref :: "session_table \<Rightarrow> addr \<Rightarrow> session option" where
  "deref T a = map_of (m_sessions T) a"

definition update_at :: "addr \<Rightarrow> session \<Rightarrow> session_table \<Rightarrow> session_table" where
  "update_at a s T =
     T\<lparr>m_sessions := map (\<lambda>p. if fst p = a then (a, s) else p) (m_sessions T)\<rparr>"

text \<open>The map a table stands for.\<close>

definition lookup_session :: "session_table \<Rightarrow> i64 \<Rightarrow> session option" where
  "lookup_session T i = Option.bind (find_pointer T i) (deref T)"

section \<open>Invariants\<close>

text \<open>
  \<open>table_safe\<close> holds of every table the code can build: no pointer of the map dangles and the
  vector is ordered. \<open>table_inv\<close> adds that ids are unique and every session is in the map.
\<close>

definition table_safe :: "session_table \<Rightarrow> bool" where
  "table_safe T \<longleftrightarrow>
     distinct (map fst (m_sessions T))
   \<and> (\<forall>a \<in> fst ` set (m_sessions T). a < next_addr T)
   \<and> sorted (session_ids T)
   \<and> (\<forall>i a. find_pointer T i = Some a \<longrightarrow> (\<exists>s. deref T a = Some s \<and> cs_id s = i))"

definition table_inv :: "session_table \<Rightarrow> bool" where
  "table_inv T \<longleftrightarrow> table_safe T \<and> distinct (session_ids T)
     \<and> (\<forall>p \<in> set (m_sessions T). find_pointer T (cs_id (snd p)) = Some (fst p))"

subsection \<open>Bisection finds the partition point\<close>

definition partitioned :: "('a \<Rightarrow> bool) \<Rightarrow> 'a list \<Rightarrow> bool" where
  "partitioned before xs \<longleftrightarrow> (\<forall>i j. i < j \<longrightarrow> j < length xs \<longrightarrow> before (xs ! j) \<longrightarrow> before (xs ! i))"

lemma lower_bound_from_spec:
  assumes "partitioned before xs" "first + len \<le> length xs"
    "\<forall>i < first. before (xs ! i)" "\<forall>i. first + len \<le> i \<longrightarrow> i < length xs \<longrightarrow> \<not> before (xs ! i)"
  shows "lower_bound_from before xs first len \<le> length xs
    \<and> (\<forall>i < lower_bound_from before xs first len. before (xs ! i))
    \<and> (\<forall>i. lower_bound_from before xs first len \<le> i \<longrightarrow> i < length xs \<longrightarrow> \<not> before (xs ! i))"
  using assms
proof (induction before xs first len rule: lower_bound_from.induct)
  case (1 before xs first len)
  note part = "1.prems"(1) and inr = "1.prems"(2) and lo = "1.prems"(3) and hi = "1.prems"(4)
  define m where "m = first + len div 2"
  show ?case
  proof (cases "len = 0")
    case True
    with lo hi inr show ?thesis by (simp add: lower_bound_from.simps)
  next
    case False
    then have mlt: "m < first + len" unfolding m_def by linarith
    with inr have mlen: "m < length xs" by linarith
    show ?thesis
    proof (cases "before (xs ! m)")
      case True
      have "before (xs ! i)" if "i < m" for i
        using part that mlen True unfolding partitioned_def by blast
      with True have below: "\<forall>i < Suc m. before (xs ! i)" by (auto simp: less_Suc_eq)
      have eq: "Suc m + (len - len div 2 - 1) = first + len" using False unfolding m_def by linarith
      have "lower_bound_from before xs first len
          = lower_bound_from before xs (Suc m) (len - len div 2 - 1)"
        using False True by (simp add: lower_bound_from.simps [of before xs first len] m_def Let_def)
      moreover have "Suc m + (len - len div 2 - 1) \<le> length xs" using eq inr by simp
      ultimately show ?thesis
        using "1.IH"(1) [OF False refl refl] True part below hi eq unfolding m_def by simp
    next
      case nl: False
      have above: "\<not> before (xs ! i)" if "m \<le> i" "i < length xs" for i
        using that nl part unfolding partitioned_def by (metis le_neq_implies_less)
      have "lower_bound_from before xs first len = lower_bound_from before xs first (len div 2)"
        using False nl by (simp add: lower_bound_from.simps [of before xs first len] m_def Let_def)
      moreover have "first + len div 2 \<le> length xs" using inr by linarith
      ultimately show ?thesis
        using "1.IH"(2) [OF False refl refl] part lo nl above unfolding m_def by simp
    qed
  qed
qed

lemma lower_bound_eq_takeWhile:
  assumes "partitioned before xs"
  shows "lower_bound before xs = length (takeWhile before xs)"
proof -
  let ?k = "lower_bound before xs"
  have k: "?k \<le> length xs" "\<forall>i < ?k. before (xs ! i)" "\<forall>i. ?k \<le> i \<longrightarrow> i < length xs \<longrightarrow> \<not> before (xs ! i)"
    using lower_bound_from_spec [OF assms, of 0 "length xs"] unfolding lower_bound_def by auto
  have "takeWhile before xs = take ?k xs"
    by (rule takeWhile_eq_take_P_nth) (use k in auto)
  with k(1) show ?thesis by simp
qed

subsection \<open>The vector\<close>

lemma partitioned_sorted:
  "sorted (map f xs) \<Longrightarrow> partitioned (\<lambda>p. f p < (k :: 'b :: linorder)) xs"
  unfolding partitioned_def sorted_iff_nth_mono
  by (simp, meson less_imp_le order.strict_trans1)

lemma insert_at_takeWhile:
  "insert_at (length (takeWhile P xs)) x xs = takeWhile P xs @ x # dropWhile P xs"
  unfolding insert_at_def
  by (metis takeWhile_eq_take dropWhile_eq_drop)

lemma addSession_vector:
  assumes "sorted (session_ids T)"
  shows "m_sessions (addSession s T) =
    takeWhile (\<lambda>p. cs_id (snd p) < cs_id s) (m_sessions T) @ (next_addr T, s) #
    dropWhile (\<lambda>p. cs_id (snd p) < cs_id s) (m_sessions T)"
proof -
  have "partitioned (\<lambda>p. cs_id (snd p) < cs_id s) (m_sessions T)"
    using partitioned_sorted [of "cs_id \<circ> snd" "m_sessions T" "cs_id s"] assms
    by (simp add: session_ids_def)
  then show ?thesis
    by (simp add: addSession_def Let_def lower_bound_eq_takeWhile insert_at_takeWhile)
qed

lemma sorted_insert_takeWhile:
  fixes k :: "'a :: linorder"
  assumes "sorted xs"
  shows "sorted (takeWhile (\<lambda>x. x < k) xs @ k # dropWhile (\<lambda>x. x < k) xs)"
proof -
  have "k \<le> x" if "x \<in> set (dropWhile (\<lambda>x. x < k) xs)" for x
    using assms that by (induction xs) (auto split: if_splits)
  moreover have "x < k" if "x \<in> set (takeWhile (\<lambda>x. x < k) xs)" for x
    using that by (rule set_takeWhileD [THEN conjunct2])
  ultimately show ?thesis
    using assms by (auto simp: sorted_append sorted_wrt_takeWhile sorted_wrt_dropWhile
      intro: less_imp_le order.strict_trans2)
qed

lemma session_ids_add:
  assumes "sorted (session_ids T)"
  shows "session_ids (addSession s T) =
    takeWhile (\<lambda>x. x < cs_id s) (session_ids T) @ cs_id s #
    dropWhile (\<lambda>x. x < cs_id s) (session_ids T)"
  using addSession_vector [OF assms, of s]
  by (simp add: session_ids_def takeWhile_map dropWhile_map comp_def)

lemma set_takeWhile_insert_dropWhile:
  "set (takeWhile P xs @ x # dropWhile P xs) = insert x (set xs)"
  by (metis insert_is_Un list.simps(15) set_append sup_left_commute takeWhile_dropWhile_id)

lemma distinct_insert_takeWhile:
  "distinct (map f xs) \<Longrightarrow> f y \<notin> f ` set xs \<Longrightarrow>
   distinct (map f (takeWhile P xs @ y # dropWhile P xs))"
  by (induction xs) (auto dest: set_takeWhileD set_dropWhileD)

lemma set_session_ids_add:
  "sorted (session_ids T) \<Longrightarrow> set (session_ids (addSession s T)) = insert (cs_id s) (set (session_ids T))"
  by (simp only: session_ids_add set_takeWhile_insert_dropWhile)

lemma set_vector_add:
  "sorted (session_ids T) \<Longrightarrow> set (m_sessions (addSession s T)) = insert (next_addr T, s) (set (m_sessions T))"
  by (simp only: addSession_vector set_takeWhile_insert_dropWhile)

lemma map_of_insert_fresh:
  assumes "a \<notin> fst ` set (us @ vs)"
  shows "map_of (us @ (a, s) # vs) = (map_of (us @ vs))(a \<mapsto> s)"
  using assms by (induction us) (auto simp: fun_upd_twist)

lemma remove_first_none: "\<forall>x \<in> set xs. \<not> P x \<Longrightarrow> remove_first P xs = (None, xs)"
  by (induction xs) auto

lemma remove_first_some:
  "\<forall>x \<in> set us. \<not> P x \<Longrightarrow> P x \<Longrightarrow> remove_first P (us @ x # vs) = (Some x, us @ vs)"
  by (induction us) auto

lemma remove_first_cases:
  obtains (none) "\<forall>x \<in> set xs. \<not> P x" "remove_first P xs = (None, xs)"
    | (some) us x vs where "xs = us @ x # vs" "P x" "\<forall>y \<in> set us. \<not> P y"
        "remove_first P xs = (Some x, us @ vs)"
proof (cases "\<exists>x \<in> set xs. P x")
  case True
  then obtain us x vs where "xs = us @ x # vs" "P x" "\<forall>y \<in> set us. \<not> P y"
    using split_list_first_prop [of xs P] by blast
  with some [of us x vs] show thesis by (simp add: remove_first_some)
next
  case False
  with none show thesis by (simp add: remove_first_none)
qed

lemma map_of_remove:
  assumes "distinct (map fst (us @ (a, s) # vs))"
  shows "map_of (us @ vs) = (map_of (us @ (a, s) # vs))(a := None)"
  using assms
proof (induction us)
  case Nil
  then show ?case by (auto simp: fun_eq_iff map_of_eq_None_iff)
next
  case (Cons p us)
  then show ?case by (cases p) (auto simp: fun_upd_twist)
qed

subsection \<open>Preservation\<close>

lemma table_safeD:
  assumes "table_safe T"
  shows "distinct (map fst (m_sessions T))" "a \<in> fst ` set (m_sessions T) \<Longrightarrow> a < next_addr T"
    "sorted (session_ids T)"
    "find_pointer T i = Some a \<Longrightarrow> \<exists>s. deref T a = Some s \<and> cs_id s = i"
  using assms unfolding table_safe_def by blast+

lemma fresh_addr: "table_safe T \<Longrightarrow> next_addr T \<notin> fst ` set (m_sessions T)"
  using table_safeD(2) by force

lemma deref_add:
  assumes "table_safe T"
  shows "deref (addSession s T) = (deref T)(next_addr T \<mapsto> s)"
proof -
  let ?P = "\<lambda>p. cs_id (snd p) < cs_id s" and ?xs = "m_sessions T"
  have "next_addr T \<notin> fst ` set (takeWhile ?P ?xs @ dropWhile ?P ?xs)"
    using fresh_addr [OF assms] by simp
  from map_of_insert_fresh [OF this, of s] show ?thesis
    using addSession_vector [OF table_safeD(3) [OF assms], of s] by (simp add: deref_def fun_eq_iff)
qed

lemma find_pointer_add:
  "find_pointer (addSession s T) i =
     (if i = cs_id s \<and> find_pointer T i = None then Some (next_addr T) else find_pointer T i)"
  by (auto simp: find_pointer_def addSession_def umap_insert_def Let_def)

lemma table_safe_empty: "table_safe empty_table"
  by (simp add: table_safe_def empty_table_def session_ids_def find_pointer_def)

lemma table_safe_add:
  assumes safe: "table_safe T"
  shows "table_safe (addSession s T)"
proof -
  note srt = table_safeD(3) [OF safe] and fresh = fresh_addr [OF safe]
  let ?P = "\<lambda>p. cs_id (snd p) < cs_id s" and ?xs = "m_sessions T"
  have vec: "m_sessions (addSession s T) = takeWhile ?P ?xs @ (next_addr T, s) # dropWhile ?P ?xs"
    by (rule addSession_vector [OF srt])
  have "distinct (map fst (m_sessions (addSession s T)))"
    unfolding vec using table_safeD(1) [OF safe] fresh by (intro distinct_insert_takeWhile) auto
  moreover have "a < next_addr (addSession s T)" if "a \<in> fst ` set (m_sessions (addSession s T))" for a
    using that table_safeD(2) [OF safe, of a] unfolding set_vector_add [OF srt, of s]
    by (auto simp: addSession_def Let_def less_Suc_eq)
  moreover have "sorted (session_ids (addSession s T))"
    by (subst session_ids_add [OF srt]) (rule sorted_insert_takeWhile [OF srt])
  moreover have "\<exists>t. deref (addSession s T) a = Some t \<and> cs_id t = i"
    if "find_pointer (addSession s T) i = Some a" for i a
  proof (cases "i = cs_id s \<and> find_pointer T i = None")
    case True
    with that show ?thesis by (auto simp: find_pointer_add deref_add [OF safe] split: if_splits)
  next
    case False
    with that have "find_pointer T i = Some a" by (simp add: find_pointer_add split: if_splits)
    then obtain t where t: "deref T a = Some t" "cs_id t = i" using table_safeD(4) [OF safe] by blast
    then have "a \<noteq> next_addr T" using fresh unfolding deref_def by (force dest: map_of_SomeD)
    with t show ?thesis by (simp add: deref_add [OF safe])
  qed
  ultimately show ?thesis unfolding table_safe_def by blast
qed

lemma removeSession_cases:
  obtains (unknown) "i \<notin> set (session_ids T)" "fst (removeSession i T) = None"
      "m_sessions (snd (removeSession i T)) = m_sessions T"
    | (known) us a s vs where "m_sessions T = us @ (a, s) # vs" "cs_id s = i"
      "\<forall>p \<in> set us. cs_id (snd p) \<noteq> i" "fst (removeSession i T) = Some s"
      "m_sessions (snd (removeSession i T)) = us @ vs"
proof (cases rule: remove_first_cases [of "m_sessions T" "\<lambda>p. cs_id (snd p) = i"])
  case none
  then show thesis
    by (intro unknown) (auto simp: removeSession_def session_ids_def)
next
  case (some us p vs)
  then show thesis
    by (intro known [of us "fst p" "snd p" vs]) (auto simp: removeSession_def)
qed

lemma find_pointer_remove:
  "find_pointer (snd (removeSession i T)) = (find_pointer T)(i := None)"
  by (auto simp: find_pointer_def removeSession_def delete_conv split: prod.splits)

lemma next_addr_remove: "next_addr (snd (removeSession i T)) = next_addr T"
  by (auto simp: removeSession_def split: prod.splits)

lemma deref_remove:
  assumes "table_safe T" "m_sessions T = us @ (a, s) # vs"
    "m_sessions (snd (removeSession i T)) = us @ vs"
  shows "deref (snd (removeSession i T)) = (deref T)(a := None)"
  using map_of_remove [of us a s vs] table_safeD(1) [OF assms(1)] assms(2,3)
  by (simp add: deref_def fun_eq_iff)

lemma table_safe_remove:
  assumes safe: "table_safe T"
  shows "table_safe (snd (removeSession i T))"
proof (cases rule: removeSession_cases [of i T])
  case unknown
  then have "deref (snd (removeSession i T)) = deref T" "session_ids (snd (removeSession i T)) = session_ids T"
    by (simp_all add: deref_def session_ids_def fun_eq_iff)
  with unknown safe show ?thesis
    unfolding table_safe_def by (auto simp: find_pointer_remove next_addr_remove)
next
  case (known us a s vs)
  have s_at: "deref T a = Some s"
    unfolding deref_def by (rule map_of_is_SomeI [OF table_safeD(1) [OF safe]]) (simp add: known(1))
  note d = deref_remove [OF safe known(1,5)]
  have "\<exists>t. deref (snd (removeSession i T)) b = Some t \<and> cs_id t = j"
    if "find_pointer (snd (removeSession i T)) j = Some b" for j b
  proof -
    from that have j: "j \<noteq> i" "find_pointer T j = Some b"
      by (auto simp: find_pointer_remove split: if_splits)
    then obtain t where t: "deref T b = Some t" "cs_id t = j" using table_safeD(4) [OF safe] by blast
    with j s_at known(2) have "b \<noteq> a" by auto
    with t show ?thesis by (simp add: d)
  qed
  moreover have "sorted (session_ids (snd (removeSession i T)))"
    using table_safeD(3) [OF safe] known(1,5) by (simp add: session_ids_def sorted_append)
  ultimately show ?thesis
    using safe known(1,5) unfolding table_safe_def by (auto simp: next_addr_remove)
qed

text \<open>Changing an object in place, through the map or through the vector, keeps its id.\<close>

lemma m_sessions_update: "m_sessions (update_at a s T) = map (\<lambda>p. if fst p = a then (a, s) else p) (m_sessions T)"
  by (simp add: update_at_def)

lemma find_pointer_update [simp]: "find_pointer (update_at a s T) = find_pointer T"
  by (simp add: find_pointer_def update_at_def fun_eq_iff)

lemma next_addr_update [simp]: "next_addr (update_at a s T) = next_addr T"
  by (simp add: update_at_def)

lemma deref_update:
  "deref (update_at a s T) b = (if b = a then map_option (\<lambda>_. s) (deref T a) else deref T b)"
proof -
  have "map_of (map (\<lambda>p. if fst p = a then (a, s) else p) xs) b =
      (if b = a then map_option (\<lambda>_. s) (map_of xs a) else map_of xs b)" for xs
    by (induction xs) auto
  then show ?thesis by (simp add: deref_def m_sessions_update)
qed

lemma session_ids_update:
  assumes "distinct (map fst (m_sessions T))" "deref T a = Some t" "cs_id s = cs_id t"
  shows "session_ids (update_at a s T) = session_ids T"
proof -
  have "cs_id (snd p) = cs_id s" if "p \<in> set (m_sessions T)" "fst p = a" for p
    using assms that by (cases p) (auto simp: deref_def dest: map_of_SomeD eq_key_imp_eq_value)
  then show ?thesis by (auto simp: session_ids_def m_sessions_update)
qed

lemma map_fst_update: "map fst (m_sessions (update_at a s T)) = map fst (m_sessions T)"
  by (auto simp: m_sessions_update)

lemma table_safe_update:
  assumes safe: "table_safe T" and t: "deref T a = Some t" "cs_id s = cs_id t"
  shows "table_safe (update_at a s T)"
proof -
  note ids = session_ids_update [OF table_safeD(1) [OF safe] t]
  have "\<exists>u. deref (update_at a s T) b = Some u \<and> cs_id u = i" if "find_pointer T i = Some b" for i b
    using table_safeD(4) [OF safe that] t by (cases "b = a") (auto simp: deref_update)
  moreover have "fst ` set (m_sessions (update_at a s T)) = fst ` set (m_sessions T)"
    by (metis map_fst_update set_map)
  ultimately show ?thesis
    using safe unfolding table_safe_def by (simp add: ids map_fst_update)
qed

subsection \<open>Unique ids\<close>

lemma table_invD:
  assumes "table_inv T"
  shows "table_safe T" "distinct (session_ids T)"
    "(a, s) \<in> set (m_sessions T) \<Longrightarrow> find_pointer T (cs_id s) = Some a"
  using assms unfolding table_inv_def by fastforce+

lemma table_inv_empty [simp]: "table_inv empty_table"
  by (simp add: table_inv_def table_safe_empty) (simp add: empty_table_def session_ids_def)

lemma lookup_empty [simp]: "lookup_session empty_table i = None"
  by (simp add: lookup_session_def find_pointer_def empty_table_def)

lemma lookup_session_iff:
  assumes "table_inv T"
  shows "lookup_session T i = Some s \<longleftrightarrow> s \<in> set (table_elems T) \<and> cs_id s = i"
proof
  assume "lookup_session T i = Some s"
  then obtain a where "find_pointer T i = Some a" "deref T a = Some s"
    by (auto simp: lookup_session_def bind_eq_Some_conv)
  then show "s \<in> set (table_elems T) \<and> cs_id s = i"
    using table_safeD(4) [OF table_invD(1) [OF assms]]
    by (force simp: table_elems_def deref_def dest: map_of_SomeD)
next
  assume "s \<in> set (table_elems T) \<and> cs_id s = i"
  then obtain a where a: "(a, s) \<in> set (m_sessions T)" "cs_id s = i"
    by (auto simp: table_elems_def)
  then have "deref T a = Some s"
    unfolding deref_def by (intro map_of_is_SomeI table_safeD(1) table_invD(1) assms)
  with a table_invD(3) [OF assms] show "lookup_session T i = Some s"
    by (auto simp: lookup_session_def)
qed

lemma lookup_session_None:
  assumes "table_inv T"
  shows "lookup_session T i = None \<longleftrightarrow> i \<notin> set (session_ids T)"
    "find_pointer T i = None \<longleftrightarrow> i \<notin> set (session_ids T)"
proof -
  show A: "lookup_session T i = None \<longleftrightarrow> i \<notin> set (session_ids T)"
  proof (cases "lookup_session T i")
    case None
    with lookup_session_iff [OF assms, of i] show ?thesis
      by (auto simp: session_ids_def table_elems_def)
  next
    case (Some s)
    with lookup_session_iff [OF assms, of i s] have "s \<in> set (table_elems T)" "cs_id s = i" by auto
    with Some show ?thesis by (auto simp: session_ids_def table_elems_def rev_image_eqI)
  qed
  have "find_pointer T i = None \<longleftrightarrow> lookup_session T i = None"
    using table_safeD(4) [OF table_invD(1) [OF assms], of i]
    by (cases "find_pointer T i") (auto simp: lookup_session_def)
  with A show "find_pointer T i = None \<longleftrightarrow> i \<notin> set (session_ids T)" by simp
qed

lemma table_inv_add:
  assumes inv: "table_inv T" and fresh: "lookup_session T (cs_id s) = None"
  shows "table_inv (addSession s T)"
proof -
  note safe = table_invD(1) [OF inv] and srt = table_safeD(3) [OF table_invD(1) [OF inv]]
  have new: "cs_id s \<notin> set (session_ids T)" "find_pointer T (cs_id s) = None"
    using fresh lookup_session_None [OF inv] by blast+
  have "distinct (session_ids (addSession s T))"
    unfolding session_ids_add [OF srt]
    using distinct_insert_takeWhile [of id "session_ids T" "cs_id s"] table_invD(2) [OF inv] new(1)
    by simp
  moreover have "find_pointer (addSession s T) (cs_id t) = Some a"
    if "(a, t) \<in> set (m_sessions (addSession s T))" for a t
  proof -
    from that consider "a = next_addr T" "t = s" | "(a, t) \<in> set (m_sessions T)"
      using set_vector_add [OF srt] by auto
    then show ?thesis
    proof cases
      case 1
      with new show ?thesis by (simp add: find_pointer_add)
    next
      case 2
      with table_invD(3) [OF inv] show ?thesis by (auto simp: find_pointer_add)
    qed
  qed
  ultimately show ?thesis
    unfolding table_inv_def using table_safe_add [OF safe] by fastforce
qed

lemma table_inv_remove:
  assumes inv: "table_inv T"
  shows "table_inv (snd (removeSession i T))"
proof (cases rule: removeSession_cases [of i T])
  case unknown
  then have ids: "session_ids (snd (removeSession i T)) = session_ids T" by (simp add: session_ids_def)
  have "cs_id (snd p) \<noteq> i" if "p \<in> set (m_sessions T)" for p
    using unknown(1) that by (auto simp: session_ids_def)
  then show ?thesis
    using inv table_safe_remove [OF table_invD(1) [OF inv]] unknown(3)
    unfolding table_inv_def ids by (simp add: find_pointer_remove)
next
  case (known us a s vs)
  have d: "distinct (session_ids T)" by (rule table_invD(2) [OF inv])
  have "cs_id (snd p) \<noteq> i \<and> find_pointer T (cs_id (snd p)) = Some (fst p)"
    if "p \<in> set (us @ vs)" for p
    using that d known(1,2) table_invD(3) [OF inv, of "fst p" "snd p"]
    by (auto simp: session_ids_def rev_image_eqI)
  moreover have "distinct (session_ids (snd (removeSession i T)))"
    using d known(1,5) by (simp add: session_ids_def)
  ultimately show ?thesis
    using table_safe_remove [OF table_invD(1) [OF inv]] known(5)
    unfolding table_inv_def by (simp add: find_pointer_remove)
qed

lemma table_inv_update:
  assumes inv: "table_inv T" and t: "deref T a = Some t" "cs_id s = cs_id t"
  shows "table_inv (update_at a s T)"
proof -
  note safe = table_invD(1) [OF inv]
  have "find_pointer T (cs_id s) = Some a"
    using t table_invD(3) [OF inv, of a t] unfolding deref_def by (auto dest: map_of_SomeD)
  then have "find_pointer T (cs_id (snd p)) = Some (fst p)"
    if "p \<in> set (m_sessions (update_at a s T))" for p
    using that table_invD(3) [OF inv] by (cases p) (auto simp: m_sessions_update split: if_splits)
  then show ?thesis
    using table_safe_update [OF safe t] session_ids_update [OF table_safeD(1) [OF safe] t]
      table_invD(2) [OF inv]
    unfolding table_inv_def by simp
qed

section \<open>The interface\<close>

text \<open>
  What the agent relies on: a registry is a finite map from ids to sessions whose elements are
  enumerated in the order of their ids.
\<close>

locale session_registry =
  fixes lookup :: "'t \<Rightarrow> i64 \<Rightarrow> session option"
    and add :: "session \<Rightarrow> 't \<Rightarrow> 't"
    and remove :: "i64 \<Rightarrow> 't \<Rightarrow> session option \<times> 't"
    and elems :: "'t \<Rightarrow> session list"
    and invar :: "'t \<Rightarrow> bool"
  assumes invar_add: "invar t \<Longrightarrow> lookup t (cs_id s) = None \<Longrightarrow> invar (add s t)"
    and invar_remove: "invar t \<Longrightarrow> invar (snd (remove i t))"
    and lookup_add: "invar t \<Longrightarrow> lookup t (cs_id s) = None \<Longrightarrow>
      lookup (add s t) = (lookup t)(cs_id s \<mapsto> s)"
    and lookup_remove: "invar t \<Longrightarrow> lookup (snd (remove i t)) = (lookup t)(i := None)"
    and remove_result: "invar t \<Longrightarrow> fst (remove i t) = lookup t i"
    and lookup_elems: "invar t \<Longrightarrow> lookup t i = Some s \<longleftrightarrow> s \<in> set (elems t) \<and> cs_id s = i"
    and elems_order: "invar t \<Longrightarrow> sorted_wrt (<) (map cs_id (elems t))"
begin

lemma elems_determined:
  assumes "invar t" "sorted_wrt (<) (map cs_id xs)" "set xs = set (elems t)"
  shows "elems t = xs"
proof -
  have "map cs_id (elems t) = map cs_id xs"
    using assms elems_order [OF assms(1)] by (intro strict_sorted_equal) auto
  moreover have "inj_on cs_id (set (elems t) \<union> set xs)"
    using elems_order [OF assms(1)] assms(3)
    by (simp add: strict_sorted_iff distinct_map)
  ultimately show ?thesis by (metis map_inj_on)
qed

lemma same_lookup_same_elems:
  assumes "invar t" "invar u" "lookup t = lookup u"
  shows "elems t = elems u"
proof (rule elems_determined [OF assms(1) elems_order [OF assms(2)]])
  show "set (elems u) = set (elems t)"
    using lookup_elems [OF assms(1)] lookup_elems [OF assms(2)] assms(3) by (metis subsetI subset_antisym)
qed

lemma set_elems_add:
  assumes "invar t" "lookup t (cs_id s) = None"
  shows "set (elems (add s t)) = insert s (set (elems t))"
proof -
  have "u \<in> set (elems (add s t)) \<longleftrightarrow> u = s \<or> u \<in> set (elems t)" for u
    using lookup_elems [OF invar_add [OF assms], of "cs_id u" u] lookup_elems [OF assms(1), of "cs_id u" u]
      assms(2) by (auto simp: lookup_add [OF assms] split: if_splits)
  then show ?thesis by auto
qed

lemma remove_add:
  assumes "invar t" "lookup t (cs_id s) = None"
  shows "fst (remove (cs_id s) (add s t)) = Some s"
    "elems (snd (remove (cs_id s) (add s t))) = elems t"
proof -
  show "fst (remove (cs_id s) (add s t)) = Some s"
    by (simp add: remove_result [OF invar_add [OF assms]] lookup_add [OF assms])
  have "lookup (snd (remove (cs_id s) (add s t))) = lookup t"
    using assms(2) by (auto simp: lookup_remove [OF invar_add [OF assms]] lookup_add [OF assms])
  then show "elems (snd (remove (cs_id s) (add s t))) = elems t"
    by (intro same_lookup_same_elems invar_remove invar_add assms)
qed

lemma add_all:
  assumes "invar t" "distinct (map cs_id xs)" "\<forall>x \<in> set xs. lookup t (cs_id x) = None"
  shows "invar (fold add xs t) \<and> set (elems (fold add xs t)) = set xs \<union> set (elems t)"
  using assms
proof (induction xs arbitrary: t)
  case Nil
  then show ?case by simp
next
  case (Cons x xs)
  have x: "lookup t (cs_id x) = None" using Cons.prems(3) by simp
  have "\<forall>y \<in> set xs. lookup (add x t) (cs_id y) = None"
    using Cons.prems by (auto simp: lookup_add [OF Cons.prems(1) x] rev_image_eqI)
  from Cons.IH [OF invar_add [OF Cons.prems(1) x] _ this] Cons.prems(2) show ?case
    by (auto simp: set_elems_add [OF Cons.prems(1) x])
qed

end

text \<open>With an empty registry, an ordered list of sessions is rebuilt exactly.\<close>

locale session_registry_init = session_registry +
  fixes empty :: 'a
  assumes invar_empty: "invar empty" and elems_empty: "elems empty = []"
begin

lemma rebuild:
  assumes "sorted_wrt (<) (map cs_id xs)"
  shows "invar (fold add xs empty)" "elems (fold add xs empty) = xs"
proof -
  have none: "lookup empty i = None" for i
    using lookup_elems [OF invar_empty, of i] elems_empty by (cases "lookup empty i") auto
  have d: "distinct (map cs_id xs)" using assms by (simp add: strict_sorted_iff)
  from add_all [OF invar_empty d] none show "invar (fold add xs empty)" by simp
  from add_all [OF invar_empty d] none assms show "elems (fold add xs empty) = xs"
    by (intro elems_determined) (auto simp: elems_empty)
qed

end

lemma removed_session:
  assumes inv: "table_inv T"
  shows "fst (removeSession i T) = lookup_session T i"
proof (cases rule: removeSession_cases [of i T])
  case unknown
  with lookup_session_None(1) [OF inv, of i] show ?thesis by simp
next
  case (known us a s vs)
  then have "lookup_session T i = Some s"
    by (simp add: lookup_session_iff [OF inv] table_elems_def)
  with known show ?thesis by simp
qed

lemma lookup_add_session:
  assumes inv: "table_inv T" and fresh: "lookup_session T (cs_id s) = None"
  shows "lookup_session (addSession s T) = (lookup_session T)(cs_id s \<mapsto> s)"
proof
  fix i
  note safe = table_invD(1) [OF inv]
  have new: "find_pointer T (cs_id s) = None"
    using fresh lookup_session_None [OF inv] by blast
  show "lookup_session (addSession s T) i = ((lookup_session T)(cs_id s \<mapsto> s)) i"
  proof (cases "find_pointer T i")
    case None
    then show ?thesis using new
      by (simp add: lookup_session_def find_pointer_add deref_add [OF safe])
  next
    case (Some a)
    then obtain t where "deref T a = Some t" using table_safeD(4) [OF safe] by blast
    then have "a \<noteq> next_addr T" using fresh_addr [OF safe] unfolding deref_def by (force dest: map_of_SomeD)
    with Some new show ?thesis
      by (auto simp: lookup_session_def find_pointer_add deref_add [OF safe])
  qed
qed

lemma lookup_remove_session:
  assumes inv: "table_inv T"
  shows "lookup_session (snd (removeSession i T)) = (lookup_session T)(i := None)"
proof -
  have "lookup_session (snd (removeSession i T)) j = Some s \<longleftrightarrow> ((lookup_session T)(i := None)) j = Some s"
    for j s
  proof (cases rule: removeSession_cases [of i T])
    case unknown
    then show ?thesis
      by (auto simp: lookup_session_iff [OF inv] lookup_session_iff [OF table_inv_remove [OF inv]]
        table_elems_def session_ids_def)
  next
    case (known us a t vs)
    have "distinct (session_ids T)" by (rule table_invD(2) [OF inv])
    with known show ?thesis
      by (auto simp: lookup_session_iff [OF inv] lookup_session_iff [OF table_inv_remove [OF inv]]
        table_elems_def session_ids_def rev_image_eqI)
  qed
  then show ?thesis by (metis (no_types, opaque_lifting) ext not_Some_eq)
qed

lemma table_elems_order: "table_inv T \<Longrightarrow> sorted_wrt (<) (map cs_id (table_elems T))"
  using table_safeD(3) [OF table_invD(1)] table_invD(2)
  by (auto simp: table_elems_def session_ids_def strict_sorted_iff comp_def)

interpretation registry: session_registry_init lookup_session addSession removeSession table_elems
    table_inv empty_table
  by unfold_locales
    (simp_all add: table_inv_add table_inv_remove lookup_add_session lookup_remove_session
      removed_session lookup_session_iff table_elems_order table_inv_empty,
     simp add: empty_table_def table_elems_def)

end
