(* ===== verification/Configuration.thy ===== *)
theory Configuration
  imports Environment
begin

text \<open>
  The service container's configuration: the constants of \<open>Configuration\<close> and the \<open>Context\<close>
  object with its \<open>conclude\<close> step (\<open>ClusteredServiceConfiguration\<close>).
\<close>

section \<open>Constants\<close>

definition SNAPSHOT_TYPE_ID :: i64 where "SNAPSHOT_TYPE_ID = 2"
definition MARK_FILE_UPDATE_INTERVAL_NS :: i64 where "MARK_FILE_UPDATE_INTERVAL_NS = 1000"
definition LIVENESS_TIMEOUT_MS :: i64 where "LIVENESS_TIMEOUT_MS = 10 * 1000"
definition CLUSTER_ID_DEFAULT :: i32 where "CLUSTER_ID_DEFAULT = 0"
definition SERVICE_ID_DEFAULT :: i32 where "SERVICE_ID_DEFAULT = 0"
definition SERVICE_NAME_DEFAULT :: string where "SERVICE_NAME_DEFAULT = ''clustered-service''"
definition REPLAY_CHANNEL_DEFAULT :: string where "REPLAY_CHANNEL_DEFAULT = ''aeron:ipc''"
definition REPLAY_STREAM_ID_DEFAULT :: i32 where "REPLAY_STREAM_ID_DEFAULT = 103"
definition CONTROL_CHANNEL_DEFAULT :: string where
  "CONTROL_CHANNEL_DEFAULT = ''aeron:ipc?term-length=128k''"
definition SERVICE_STREAM_ID_DEFAULT :: i32 where "SERVICE_STREAM_ID_DEFAULT = 104"
definition CONSENSUS_MODULE_STREAM_ID_DEFAULT :: i32 where "CONSENSUS_MODULE_STREAM_ID_DEFAULT = 105"
definition SNAPSHOT_CHANNEL_DEFAULT :: string where
  "SNAPSHOT_CHANNEL_DEFAULT = ''aeron:ipc?alias=snapshot''"
definition SNAPSHOT_STREAM_ID_DEFAULT :: i32 where "SNAPSHOT_STREAM_ID_DEFAULT = 106"
definition CLUSTER_DIR_DEFAULT :: string where "CLUSTER_DIR_DEFAULT = ''aeron-cluster''"
definition ERROR_BUFFER_LENGTH_DEFAULT :: i32 where "ERROR_BUFFER_LENGTH_DEFAULT = 1024 * 1024"
definition RESPONDER_SERVICE_DEFAULT :: bool where "RESPONDER_SERVICE_DEFAULT = True"
definition LOG_FRAGMENT_LIMIT_DEFAULT :: i32 where "LOG_FRAGMENT_LIMIT_DEFAULT = 50"
definition CYCLE_THRESHOLD_DEFAULT_NS :: i64 where "CYCLE_THRESHOLD_DEFAULT_NS = 1000000"
definition CLUSTER_ACTION_FLAGS_DEFAULT :: i32 where "CLUSTER_ACTION_FLAGS_DEFAULT = 0"
definition CLUSTER_ACTION_FLAGS_STANDBY_SNAPSHOT :: i32 where
  "CLUSTER_ACTION_FLAGS_STANDBY_SNAPSHOT = 1"

section \<open>Context\<close>

text \<open>The part of the archive client's context that the container reads or sets.\<close>

record archive_context =
  arc_controlRequestChannel :: string
  arc_controlResponseChannel :: string
  arc_aeron :: "nat option"
  arc_ownsAeronClient :: bool
  arc_errorHandler :: "nat option"

record service_context =
  ctx_appVersion :: i32
  ctx_clusterId :: i32
  ctx_serviceId :: i32
  ctx_serviceName :: string
  ctx_replayChannel :: string
  ctx_replayStreamId :: i32
  ctx_controlChannel :: string
  ctx_consensusModuleStreamId :: i32
  ctx_serviceStreamId :: i32
  ctx_snapshotChannel :: string
  ctx_snapshotStreamId :: i32
  ctx_isRespondingService :: bool
  ctx_logFragmentLimit :: i32
  ctx_errorHandler :: "nat option"
  ctx_archiveContext :: archive_context
  ctx_clusterDirectoryName :: string
  ctx_aeronDirectoryName :: string
  ctx_aeron :: "nat option"
  ctx_ownsAeronClient :: bool
  ctx_clusteredService :: bool
  ctx_standbySnapshotEnabled :: bool

text \<open>
  A default-constructed context. The archive context comes from the archive client; the
  application version has no initialiser, so it is an argument.
\<close>

definition default_context ::
  "('b, 'w, 'z) aeron_scheme \<Rightarrow> i32 \<Rightarrow> archive_context \<Rightarrow> service_context" where
  "default_context L uninit_appVersion arc =
     \<lparr> ctx_appVersion = uninit_appVersion, ctx_clusterId = CLUSTER_ID_DEFAULT,
       ctx_serviceId = SERVICE_ID_DEFAULT, ctx_serviceName = SERVICE_NAME_DEFAULT,
       ctx_replayChannel = REPLAY_CHANNEL_DEFAULT, ctx_replayStreamId = REPLAY_STREAM_ID_DEFAULT,
       ctx_controlChannel = CONTROL_CHANNEL_DEFAULT,
       ctx_consensusModuleStreamId = CONSENSUS_MODULE_STREAM_ID_DEFAULT,
       ctx_serviceStreamId = SERVICE_STREAM_ID_DEFAULT,
       ctx_snapshotChannel = SNAPSHOT_CHANNEL_DEFAULT,
       ctx_snapshotStreamId = SNAPSHOT_STREAM_ID_DEFAULT, ctx_isRespondingService = True,
       ctx_logFragmentLimit = LOG_FRAGMENT_LIMIT_DEFAULT, ctx_errorHandler = None,
       ctx_archiveContext = arc, ctx_clusterDirectoryName = CLUSTER_DIR_DEFAULT,
       ctx_aeronDirectoryName = defaultAeronPath L, ctx_aeron = None, ctx_ownsAeronClient = False,
       ctx_clusteredService = False, ctx_standbySnapshotEnabled = False \<rparr>"

section \<open>Setters\<close>

definition with_aeron :: "nat \<Rightarrow> service_context \<Rightarrow> service_context" where
  "with_aeron x c = c\<lparr>ctx_aeron := Some x\<rparr>"

definition with_aeronDirectoryName :: "string \<Rightarrow> service_context \<Rightarrow> service_context" where
  "with_aeronDirectoryName x c = c\<lparr>ctx_aeronDirectoryName := x\<rparr>"

definition with_ownsAeronClient :: "bool \<Rightarrow> service_context \<Rightarrow> service_context" where
  "with_ownsAeronClient x c = c\<lparr>ctx_ownsAeronClient := x\<rparr>"

definition with_errorHandler :: "nat \<Rightarrow> service_context \<Rightarrow> service_context" where
  "with_errorHandler x c = c\<lparr>ctx_errorHandler := Some x\<rparr>"

definition with_archiveContext :: "archive_context \<Rightarrow> service_context \<Rightarrow> service_context" where
  "with_archiveContext x c = c\<lparr>ctx_archiveContext := x\<rparr>"

definition with_clusterDirectoryName :: "string \<Rightarrow> service_context \<Rightarrow> service_context" where
  "with_clusterDirectoryName x c = c\<lparr>ctx_clusterDirectoryName := x\<rparr>"

definition with_serviceId :: "i32 \<Rightarrow> service_context \<Rightarrow> service_context" where
  "with_serviceId x c = c\<lparr>ctx_serviceId := x\<rparr>"

definition with_serviceName :: "string \<Rightarrow> service_context \<Rightarrow> service_context" where
  "with_serviceName x c = c\<lparr>ctx_serviceName := x\<rparr>"

definition with_controlChannel :: "string \<Rightarrow> service_context \<Rightarrow> service_context" where
  "with_controlChannel x c = c\<lparr>ctx_controlChannel := x\<rparr>"

definition with_replayChannel :: "string \<Rightarrow> service_context \<Rightarrow> service_context" where
  "with_replayChannel x c = c\<lparr>ctx_replayChannel := x\<rparr>"

definition with_replayStreamId :: "i32 \<Rightarrow> service_context \<Rightarrow> service_context" where
  "with_replayStreamId x c = c\<lparr>ctx_replayStreamId := x\<rparr>"

definition with_snapshotChannel :: "string \<Rightarrow> service_context \<Rightarrow> service_context" where
  "with_snapshotChannel x c = c\<lparr>ctx_snapshotChannel := x\<rparr>"

definition with_snapshotStreamId :: "i32 \<Rightarrow> service_context \<Rightarrow> service_context" where
  "with_snapshotStreamId x c = c\<lparr>ctx_snapshotStreamId := x\<rparr>"

definition with_consensusModuleStreamId :: "i32 \<Rightarrow> service_context \<Rightarrow> service_context" where
  "with_consensusModuleStreamId x c = c\<lparr>ctx_consensusModuleStreamId := x\<rparr>"

definition with_serviceStreamId :: "i32 \<Rightarrow> service_context \<Rightarrow> service_context" where
  "with_serviceStreamId x c = c\<lparr>ctx_serviceStreamId := x\<rparr>"

definition with_clusteredService :: "bool \<Rightarrow> service_context \<Rightarrow> service_context" where
  "with_clusteredService x c = c\<lparr>ctx_clusteredService := x\<rparr>"

definition with_standbySnapshotEnabled :: "bool \<Rightarrow> service_context \<Rightarrow> service_context" where
  "with_standbySnapshotEnabled x c = c\<lparr>ctx_standbySnapshotEnabled := x\<rparr>"

definition with_appVersion :: "i32 \<Rightarrow> service_context \<Rightarrow> service_context" where
  "with_appVersion x c = c\<lparr>ctx_appVersion := x\<rparr>"

definition with_clusterId :: "i32 \<Rightarrow> service_context \<Rightarrow> service_context" where
  "with_clusterId x c = c\<lparr>ctx_clusterId := x\<rparr>"

definition with_isRespondingService :: "bool \<Rightarrow> service_context \<Rightarrow> service_context" where
  "with_isRespondingService x c = c\<lparr>ctx_isRespondingService := x\<rparr>"

definition with_logFragmentLimit :: "i32 \<Rightarrow> service_context \<Rightarrow> service_context" where
  "with_logFragmentLimit x c = c\<lparr>ctx_logFragmentLimit := x\<rparr>"

definition starts_with :: "string \<Rightarrow> string \<Rightarrow> bool" where
  "starts_with p s \<longleftrightarrow> take (length p) s = p"

text \<open>\<open>Context::conclude\<close>: assignments made before a throw stay.\<close>

definition context_conclude :: "('b, 'w, 'z) aeron_scheme \<Rightarrow> (service_context \<times> 'w, unit) exec" where
  "context_conclude L =
     bindE (getsE fst) (\<lambda>c.
     if ctx_serviceId c < 0 \<or> ctx_serviceId c > 127
     then throwE (ServiceIdOutsideRange (ctx_serviceId c))
     else
     bindE (whenE (ctx_errorHandler c = None)
       (modifyE (\<lambda>(c, w). (c\<lparr>ctx_errorHandler := Some (defaultErrorHandler L)\<rparr>, w)))) (\<lambda>_.
     bindE (getsE fst) (\<lambda>c.
     bindE (whenE (ctx_aeron c = None)
       (bindE (zoomE snd (\<lambda>w (c, _). (c, w))
          (callE (aeron_connect L (ctx_aeronDirectoryName c) (ctx_errorHandler c)))) (\<lambda>a.
        modifyE (\<lambda>(c, w). (c\<lparr>ctx_aeron := Some a, ctx_ownsAeronClient := True\<rparr>, w))))) (\<lambda>_.
     if \<not> starts_with (IPC_CHANNEL L) (arc_controlRequestChannel (ctx_archiveContext c))
     then throwE ArchiveControlNotIpc
     else if \<not> starts_with (IPC_CHANNEL L) (arc_controlResponseChannel (ctx_archiveContext c))
     then throwE ArchiveControlNotIpc
     else modifyE (\<lambda>(c, w). (c\<lparr>ctx_archiveContext := (ctx_archiveContext c)
        \<lparr>arc_aeron := ctx_aeron c, arc_ownsAeronClient := False,
         arc_errorHandler := ctx_errorHandler c\<rparr>\<rparr>, w))))))"

definition valid_context :: "('z) aeron_consts_scheme \<Rightarrow> service_context \<Rightarrow> bool" where
  "valid_context L c \<longleftrightarrow> 0 \<le> ctx_serviceId c \<and> ctx_serviceId c \<le> 127
     \<and> starts_with (IPC_CHANNEL L) (arc_controlRequestChannel (ctx_archiveContext c))
     \<and> starts_with (IPC_CHANNEL L) (arc_controlResponseChannel (ctx_archiveContext c))"

lemma total_context_conclude [total_rules]: "total (context_conclude L)"
  unfolding context_conclude_def by (intro total_rules)

text \<open>The run of \<open>conclude\<close>, branch by branch.\<close>

definition concluded :: "('b, 'w, 'z) aeron_scheme \<Rightarrow> service_context \<Rightarrow> nat \<Rightarrow> bool \<Rightarrow> service_context" where
  "concluded L c a owns =
     (let h = (case ctx_errorHandler c of None \<Rightarrow> Some (defaultErrorHandler L) | Some h \<Rightarrow> Some h)
      in c\<lparr>ctx_errorHandler := h, ctx_aeron := Some a, ctx_ownsAeronClient := owns,
           ctx_archiveContext := (ctx_archiveContext c)
             \<lparr>arc_aeron := Some a, arc_ownsAeronClient := False, arc_errorHandler := h\<rparr>\<rparr>)"

lemma context_conclude_given_aeron:
  assumes "ctx_aeron c = Some a" "valid_context L c"
  shows "context_conclude L (c, w) = Some (Inr (), (concluded L c a (ctx_ownsAeronClient c), w))"
  using assms
  by (cases "ctx_errorHandler c")
    (simp_all add: context_conclude_def valid_context_def concluded_def exec_simps whenE_def Let_def)

lemma context_conclude_connects:
  assumes "ctx_aeron c = None" "valid_context L c"
    "aeron_connect L (ctx_aeronDirectoryName c)
       (case ctx_errorHandler c of None \<Rightarrow> Some (defaultErrorHandler L) | Some h \<Rightarrow> Some h) w = (r, w')"
  shows "case r of
      Inr a \<Rightarrow> context_conclude L (c, w) = Some (Inr (), (concluded L c a True, w'))
    | Inl e \<Rightarrow> \<exists>c'. context_conclude L (c, w) = Some (Inl e, (c', w'))"
  using assms
  by (cases "ctx_errorHandler c"; cases r)
    (simp_all add: context_conclude_def valid_context_def concluded_def exec_simps whenE_def Let_def
      bindE_def zoomE_def)

lemma context_conclude_valid:
  assumes "context_conclude L (c, w) = Some (Inr (), s)"
  shows "valid_context L c"
proof (rule ccontr)
  assume bad: "\<not> valid_context L c"
  show False
  proof (cases "ctx_serviceId c < 0 \<or> ctx_serviceId c > 127")
    case True
    with assms show False by (simp add: context_conclude_def exec_simps)
  next
    case False
    with assms bad show False
      by (cases "ctx_errorHandler c"; cases "ctx_aeron c")
        (auto simp: context_conclude_def valid_context_def exec_simps whenE_def bindE_eq_Some_Inr
          split: if_splits)
  qed
qed

end
