(* ===== verification/Service.thy ===== *)
theory Service
  imports SessionTable Configuration
begin

text \<open>
  The user's service and the \<open>Cluster\<close> interface it is given. A callback of the service
  (\<open>ClusteredService\<close>) is user code: a tree of what it does, where it may look at and change the
  world, call back into the cluster (\<open>getClientSession\<close>, \<open>closeClientSession\<close>) and see the
  result or exception of that call, and at the end return or throw.
\<close>

section \<open>Roles\<close>

datatype role = FOLLOWER | CANDIDATE | LEADER

fun role_code :: "role \<Rightarrow> i32" where
  "role_code FOLLOWER = 0"
| "role_code CANDIDATE = 1"
| "role_code LEADER = 2"

definition getRole :: "i32 \<Rightarrow> cluster_error + role" where
  "getRole code =
     (if code < 0 \<or> code > 2 then Inl (InvalidRoleCode code)
      else if code = 0 then Inr FOLLOWER else if code = 1 then Inr CANDIDATE else Inr LEADER)"

lemma getRole_role_code: "getRole code = Inr r \<longleftrightarrow> code = role_code r"
  by (cases r) (auto simp: getRole_def)

lemma getRole_Inl: "getRole code = Inl e \<longleftrightarrow> (code < 0 \<or> 2 < code) \<and> e = InvalidRoleCode code"
  by (auto simp: getRole_def)

section \<open>Callbacks\<close>

datatype ('r, 'w) callback =
    Return 'r
  | Raise cluster_error
  | World "'w \<Rightarrow> 'w" "'w \<Rightarrow> ('r, 'w) callback"
  | GetClientSession i64 "session option \<Rightarrow> ('r, 'w) callback"
  | CloseClientSession i64 "cluster_error + bool \<Rightarrow> ('r, 'w) callback"

record ('b, 'w) env = "('b, 'w) codecs" +
  svc_onStart :: "image option \<Rightarrow> (bool, 'w) callback"
  svc_onSessionOpen :: "session \<Rightarrow> i64 \<Rightarrow> (unit, 'w) callback"
  svc_onSessionClose :: "session \<Rightarrow> i64 \<Rightarrow> i32 \<Rightarrow> (unit, 'w) callback"
  svc_onSessionMessage :: "session \<Rightarrow> i64 \<Rightarrow> 'b \<Rightarrow> int \<Rightarrow> int \<Rightarrow> frag_header \<Rightarrow> (unit, 'w) callback"
  svc_onTimerEvent :: "i64 \<Rightarrow> i64 \<Rightarrow> (unit, 'w) callback"
  svc_onTakeSnapshot :: "pub \<Rightarrow> (bool, 'w) callback"
  svc_onRoleChange :: "role \<Rightarrow> (unit, 'w) callback"
  svc_onNewLeadershipTermEvent ::
    "i64 \<Rightarrow> i64 \<Rightarrow> i64 \<Rightarrow> i64 \<Rightarrow> i32 \<Rightarrow> i32 \<Rightarrow> i32 \<Rightarrow> (unit, 'w) callback"

end
