(* ===== verification/Retry.thy ===== *)
theory Retry
  imports Environment
begin

text \<open>
  Publications are offered messages in retry loops: an attempt answers with a position (a
  positive number) or with a negative status; three statuses end the loop with an exception,
  any other makes it back off and try again. This theory holds the two copies of the status
  check (\<open>ConsensusModuleProxy::checkResult\<close>, \<open>SnapshotTaker::checkResult\<close>) and what the loops
  built on it have in common, as a locale.
\<close>

definition fatal_status :: "('z) aeron_consts_scheme \<Rightarrow> i64 \<Rightarrow> bool" where
  "fatal_status L result \<longleftrightarrow>
     result = NOT_CONNECTED L \<or> result = PUBLICATION_CLOSED L \<or> result = MAX_POSITION_EXCEEDED L"

definition proxy_checkResult :: "('z) aeron_consts_scheme \<Rightarrow> i64 \<Rightarrow> ('s, unit) exec" where
  "proxy_checkResult L result =
     (if result = NOT_CONNECTED L \<or> result = PUBLICATION_CLOSED L \<or> result = MAX_POSITION_EXCEEDED L
      then throwE (UnexpectedPublicationState result) else retE ())"

definition taker_checkResult :: "('z) aeron_consts_scheme \<Rightarrow> i64 \<Rightarrow> ('s, unit) exec" where
  "taker_checkResult L result =
     (if result = NOT_CONNECTED L \<or> result = PUBLICATION_CLOSED L \<or> result = MAX_POSITION_EXCEEDED L
      then throwE (UnexpectedPublicationState result) else retE ())"

lemma checkResult_cases:
  "proxy_checkResult L r = (if fatal_status L r then throwE (UnexpectedPublicationState r) else retE ())"
  "taker_checkResult L r = (if fatal_status L r then throwE (UnexpectedPublicationState r) else retE ())"
  by (simp_all add: proxy_checkResult_def taker_checkResult_def fatal_status_def)

lemma keeps_checkResult [keeps_rules]:
  "keeps f (proxy_checkResult L r)" "keeps f (taker_checkResult L r)"
  unfolding checkResult_cases by (intro keeps_rules)+

lemma total_checkResult [total_rules]:
  "total (proxy_checkResult L r)" "total (taker_checkResult L r)"
  unfolding checkResult_cases by (intro total_rules)+

text \<open>\<open>backs_off attempt idle fatal n w w'\<close>: from \<open>w\<close>, \<open>n\<close> attempts in a row fail with a status
  that is not fatal, each followed by an idle call, and lead to \<open>w'\<close>.\<close>

inductive backs_off :: "('w, i64 \<times> 'c) call \<Rightarrow> ('w, unit) call \<Rightarrow> (i64 \<Rightarrow> bool) \<Rightarrow> nat \<Rightarrow> 'w \<Rightarrow> 'w \<Rightarrow> bool"
  for attempt :: "('w, i64 \<times> 'c) call" and idle :: "('w, unit) call" and fatal :: "i64 \<Rightarrow> bool" where
  none: "backs_off attempt idle fatal 0 w w"
| more: "attempt w = (Inr (r, c), w1) \<Longrightarrow> r \<le> 0 \<Longrightarrow> \<not> fatal r \<Longrightarrow> idle w1 = (Inr (), w2) \<Longrightarrow>
    backs_off attempt idle fatal n w2 w3 \<Longrightarrow> backs_off attempt idle fatal (Suc n) w w3"

inductive_cases backs_off_0: "backs_off attempt idle fatal 0 w w'"
inductive_cases backs_off_Suc: "backs_off attempt idle fatal (Suc n) w w'"

lemma backs_off_snoc:
  "backs_off attempt idle fatal n w w1 \<Longrightarrow> attempt w1 = (Inr (r, c), w2) \<Longrightarrow> r \<le> 0 \<Longrightarrow> \<not> fatal r \<Longrightarrow>
   idle w2 = (Inr (), w3) \<Longrightarrow> backs_off attempt idle fatal (Suc n) w w3"
  by (induction rule: backs_off.induct) (auto intro: backs_off.intros)

text \<open>
  A retry loop: its parameter \<open>k\<close> says whether attempts are left (\<open>ok k\<close>) and what the next
  round has (\<open>again k\<close>).
\<close>

locale retry_loop =
  fixes attempt :: "('w, i64 \<times> 'c) call"
    and idle :: "('w, unit) call"
    and fatal :: "i64 \<Rightarrow> bool"
    and success :: "'c \<Rightarrow> 'r"
    and ok :: "'k \<Rightarrow> bool"
    and again :: "'k \<Rightarrow> 'k"
    and loop :: "'k \<Rightarrow> ('w, 'r) exec"
  assumes loop_round: "ok k \<Longrightarrow> loop k w =
    bindE (callE attempt) (\<lambda>(r, c). if r > 0 then retE (success c)
      else bindE (if fatal r then throwE (UnexpectedPublicationState r) else retE ()) (\<lambda>_.
           bindE (callE idle) (\<lambda>_. loop (again k)))) w"
begin

lemma round_success:
  "ok k \<Longrightarrow> attempt w = (Inr (r, c), w') \<Longrightarrow> r > 0 \<Longrightarrow> loop k w = Some (Inr (success c), w')"
  by (simp add: loop_round bindE_Some exec_run)

lemma round_fatal:
  "ok k \<Longrightarrow> attempt w = (Inr (r, c), w') \<Longrightarrow> r \<le> 0 \<Longrightarrow> fatal r \<Longrightarrow>
   loop k w = Some (Inl (UnexpectedPublicationState r), w')"
  by (simp add: loop_round bindE_Some exec_run exec_simps)

lemma round_error:
  "ok k \<Longrightarrow> attempt w = (Inl e, w') \<Longrightarrow> loop k w = Some (Inl e, w')"
  by (simp add: loop_round bindE_Some exec_run)

lemma round_again:
  "ok k \<Longrightarrow> attempt w = (Inr (r, c), w1) \<Longrightarrow> r \<le> 0 \<Longrightarrow> \<not> fatal r \<Longrightarrow> idle w1 = (Inr (), w2) \<Longrightarrow>
   loop k w = loop (again k) w2"
  by (simp add: loop_round bindE_Some exec_run exec_simps)

lemma after_back_off:
  "backs_off attempt idle fatal n w w' \<Longrightarrow> (\<And>i. i < n \<Longrightarrow> ok ((again ^^ i) k)) \<Longrightarrow>
   loop k w = loop ((again ^^ n) k) w'"
proof (induction arbitrary: k rule: backs_off.induct)
  case (none w)
  then show ?case by simp
next
  case (more w r c w1 w2 n w3)
  have "ok k" using more.prems [of 0] by simp
  then have "loop k w = loop (again k) w2"
    using more.hyps by (intro round_again)
  also have "\<dots> = loop ((again ^^ n) (again k)) w3"
  proof (rule more.IH)
    fix i assume "i < n"
    then show "ok ((again ^^ i) (again k))"
      using more.prems [of "Suc i"] by (simp add: funpow_swap1)
  qed
  finally show ?case by (simp add: funpow_swap1)
qed

lemma succeeds_after:
  assumes "backs_off attempt idle fatal n w w1" "\<And>i. i \<le> n \<Longrightarrow> ok ((again ^^ i) k)"
    "attempt w1 = (Inr (r, c), w2)" "r > 0"
  shows "loop k w = Some (Inr (success c), w2)"
  using after_back_off [OF assms(1), of k] round_success [of "(again ^^ n) k" w1 r c w2] assms by simp

lemma fails_after:
  assumes "backs_off attempt idle fatal n w w1" "\<And>i. i \<le> n \<Longrightarrow> ok ((again ^^ i) k)"
    "attempt w1 = (Inr (r, c), w2)" "r \<le> 0" "fatal r"
  shows "loop k w = Some (Inl (UnexpectedPublicationState r), w2)"
  using after_back_off [OF assms(1), of k] round_fatal [of "(again ^^ n) k" w1 r c w2] assms by simp

end

end
