(* ===== verification/ConsensusModuleProxy.thy ===== *)
theory ConsensusModuleProxy
  imports Retry
begin

text \<open>
  \<open>ConsensusModuleProxy\<close>: the requests a service sends to the consensus module over IPC. A
  request claims space in the publication, at most \<open>ATTEMPTS\<close> times, is written in place and
  committed.
\<close>

definition ATTEMPTS :: nat where
  "ATTEMPTS = 3"

fun tryClaim_loop :: "('b, 'w, 'z) aeron_scheme \<Rightarrow> pub \<Rightarrow> int \<Rightarrow> nat \<Rightarrow> ('w, claim option) exec" where
  "tryClaim_loop L p len 0 = retE None"
| "tryClaim_loop L p len (Suc attempts) =
     bindE (callE (pub_tryClaim L p len)) (\<lambda>(result, bufferClaim).
     if result > 0 then retE (Some bufferClaim)
     else bindE (proxy_checkResult L result) (\<lambda>_.
          bindE (callE (idle_idle L)) (\<lambda>_. tryClaim_loop L p len attempts)))"

definition tryClaim :: "('b, 'w, 'z) aeron_scheme \<Rightarrow> pub \<Rightarrow> int \<Rightarrow> ('w, claim option) exec" where
  "tryClaim L p len = tryClaim_loop L p len ATTEMPTS"

definition claim :: "('b, 'w, 'z) codecs_scheme \<Rightarrow> pub \<Rightarrow> cm_request \<Rightarrow> ('w, bool) exec" where
  "claim L p request =
     bindE (tryClaim L p (cm_blockAndHeaderLength L request)) (\<lambda>c.
     case c of
       None \<Rightarrow> retE False
     | Some bufferClaim \<Rightarrow>
         bindE (callE (claim_write L bufferClaim request)) (\<lambda>_.
         bindE (callE (claim_commit L bufferClaim)) (\<lambda>_. retE True)))"

definition removeMember :: "('b, 'w, 'z) codecs_scheme \<Rightarrow> pub \<Rightarrow> i32 \<Rightarrow> bool \<Rightarrow> ('w, bool) exec" where
  "removeMember L p memberId isPassive = claim L p (RemoveMember memberId isPassive)"

definition scheduleTimer :: "('b, 'w, 'z) codecs_scheme \<Rightarrow> pub \<Rightarrow> i64 \<Rightarrow> i64 \<Rightarrow> ('w, bool) exec" where
  "scheduleTimer L p correlationId deadline = claim L p (ScheduleTimer correlationId deadline)"

definition proxy_cancelTimer :: "('b, 'w, 'z) codecs_scheme \<Rightarrow> pub \<Rightarrow> i64 \<Rightarrow> ('w, bool) exec" where
  "proxy_cancelTimer L p correlationId = claim L p (CancelTimer correlationId)"

definition closeSession :: "('b, 'w, 'z) codecs_scheme \<Rightarrow> pub \<Rightarrow> i64 \<Rightarrow> ('w, bool) exec" where
  "closeSession L p clusterSessionId = claim L p (CloseSession clusterSessionId)"

definition proxy_ack :: "('b, 'w, 'z) codecs_scheme \<Rightarrow> pub \<Rightarrow> i64 \<Rightarrow> i64 \<Rightarrow> i64 \<Rightarrow> i64 \<Rightarrow> i32 \<Rightarrow>
    ('w, bool) exec" where
  "proxy_ack L p logPosition timestamp ackId relevantId serviceId =
     claim L p (ServiceAck logPosition timestamp ackId relevantId serviceId)"

definition proxy_close :: "('b, 'w, 'z) aeron_scheme \<Rightarrow> pub \<Rightarrow> ('w, unit) exec" where
  "proxy_close L p = callE (pub_close L p)"

interpretation claim_loop: retry_loop "pub_tryClaim L p len" "idle_idle L" "fatal_status L" Some
    "\<lambda>k. 0 < k" "\<lambda>k. k - 1" "tryClaim_loop L p len" for L p len
proof unfold_locales
  fix k :: nat and w
  assume "0 < k"
  then obtain m where k: "k = Suc m" by (cases k) auto
  show "tryClaim_loop L p len k w =
    bindE (callE (pub_tryClaim L p len)) (\<lambda>(r, c). if r > 0 then retE (Some c)
      else bindE (if fatal_status L r then throwE (UnexpectedPublicationState r) else retE ()) (\<lambda>_.
           bindE (callE (idle_idle L)) (\<lambda>_. tryClaim_loop L p len (k - 1)))) w"
    unfolding k tryClaim_loop.simps checkResult_cases diff_Suc_1 by (rule refl)
qed

lemma total_tryClaim_loop [total_rules]: "total (tryClaim_loop L p len n)"
proof (induction n)
  case 0
  show ?case unfolding tryClaim_loop.simps by (intro total_rules)
next
  case (Suc n)
  then show ?case unfolding tryClaim_loop.simps by (intro total_rules)
qed

lemma total_claim [total_rules]: "total (claim L p r)"
  unfolding claim_def tryClaim_def by (intro total_rules)

lemma total_proxy [total_rules]:
  "total (removeMember L p m b)" "total (scheduleTimer L p c d)" "total (proxy_cancelTimer L p c)"
  "total (closeSession L p i)" "total (proxy_ack L p a t i r s)" "total (proxy_close L p)"
  unfolding removeMember_def scheduleTimer_def proxy_cancelTimer_def closeSession_def proxy_ack_def
    proxy_close_def by (intro total_rules)+

lemma pred_funpow: "((\<lambda>k. k - Suc 0) ^^ i) n = n - i"
  by (induction i) auto

text \<open>What a claim that does not throw has done.\<close>

lemma tryClaim_loop_result:
  "tryClaim_loop L p len n w = Some (Inr x, w') \<Longrightarrow>
     (case x of
        None \<Rightarrow> backs_off (pub_tryClaim L p len) (idle_idle L) (fatal_status L) n w w'
      | Some c \<Rightarrow> \<exists>i w1 r. i < n \<and> backs_off (pub_tryClaim L p len) (idle_idle L) (fatal_status L) i w w1
          \<and> pub_tryClaim L p len w1 = (Inr (r, c), w') \<and> r > 0)"
proof (induction n arbitrary: w)
  case 0
  then show ?case by (auto simp: exec_run intro: backs_off.none)
next
  case (Suc n)
  from Suc.prems obtain r c w1 where a: "pub_tryClaim L p len w = (Inr (r, c), w1)"
    by (auto simp: bindE_eq_Some exec_run)
  show ?case
  proof (cases "r > 0")
    case True
    with Suc.prems a have "x = Some c" "w' = w1" by (auto simp: bindE_Some exec_run)
    with True a backs_off.none [of "pub_tryClaim L p len" "idle_idle L" "fatal_status L" w]
    show ?thesis by fastforce
  next
    case False
    with Suc.prems a obtain w2 where ok: "\<not> fatal_status L r" "idle_idle L w1 = (Inr (), w2)"
      and rest: "tryClaim_loop L p len n w2 = Some (Inr x, w')"
      by (auto simp: bindE_eq_Some exec_run checkResult_cases split: if_splits)
    have step: "backs_off (pub_tryClaim L p len) (idle_idle L) (fatal_status L) (Suc m) w v"
      if "backs_off (pub_tryClaim L p len) (idle_idle L) (fatal_status L) m w2 v" for m v
      using a False ok that by (intro backs_off.more) auto
    show ?thesis
    proof (cases x)
      case None
      with Suc.IH [OF rest] step show ?thesis by auto
    next
      case (Some d)
      with Suc.IH [OF rest] obtain i v q where "i < n"
        "backs_off (pub_tryClaim L p len) (idle_idle L) (fatal_status L) i w2 v"
        "pub_tryClaim L p len v = (Inr (q, d), w')" "q > 0" by auto
      with step [of i v] Some show ?thesis
        by (auto intro!: exI [of _ "Suc i"])
    qed
  qed
qed

text \<open>
  \<open>request_sent L p q w w'\<close>: from \<open>w\<close>, space for the request \<open>q\<close> is claimed within the allowed
  attempts, the request is written there and committed, and nothing else is sent, leading to \<open>w'\<close>.
\<close>

definition request_sent :: "('b, 'w, 'z) codecs_scheme \<Rightarrow> pub \<Rightarrow> cm_request \<Rightarrow> 'w \<Rightarrow> 'w \<Rightarrow> bool" where
  "request_sent L p q w w' \<longleftrightarrow> (\<exists>i w1 r c w2 w3. i < ATTEMPTS
     \<and> backs_off (pub_tryClaim L p (cm_blockAndHeaderLength L q)) (idle_idle L) (fatal_status L) i w w1
     \<and> pub_tryClaim L p (cm_blockAndHeaderLength L q) w1 = (Inr (r, c), w2) \<and> r > 0
     \<and> claim_write L c q w2 = (Inr (), w3) \<and> claim_commit L c w3 = (Inr (), w'))"

definition request_refused :: "('b, 'w, 'z) codecs_scheme \<Rightarrow> pub \<Rightarrow> cm_request \<Rightarrow> 'w \<Rightarrow> 'w \<Rightarrow> bool" where
  "request_refused L p q w w' \<longleftrightarrow>
     backs_off (pub_tryClaim L p (cm_blockAndHeaderLength L q)) (idle_idle L) (fatal_status L) ATTEMPTS w w'"

lemma claim_True: "claim L p q w = Some (Inr True, w') \<longleftrightarrow> request_sent L p q w w'"
proof
  assume run: "claim L p q w = Some (Inr True, w')"
  then obtain x w2 where t: "tryClaim_loop L p (cm_blockAndHeaderLength L q) ATTEMPTS w = Some (Inr x, w2)"
    and rest: "(case x of None \<Rightarrow> retE False | Some c \<Rightarrow> bindE (callE (claim_write L c q)) (\<lambda>_.
         bindE (callE (claim_commit L c)) (\<lambda>_. retE True))) w2 = Some (Inr True, w')"
    by (auto simp: claim_def tryClaim_def bindE_eq_Some_Inr)
  then obtain c where x: "x = Some c" by (cases x) (auto simp: exec_run)
  from rest x have "\<exists>w3. claim_write L c q w2 = (Inr (), w3) \<and> claim_commit L c w3 = (Inr (), w')"
    by (auto simp: bindE_eq_Some_Inr exec_run)
  with tryClaim_loop_result [OF t] x show "request_sent L p q w w'"
    unfolding request_sent_def by simp blast
next
  assume "request_sent L p q w w'"
  then obtain i w1 r c w2 w3 where i: "i < ATTEMPTS"
      "backs_off (pub_tryClaim L p (cm_blockAndHeaderLength L q)) (idle_idle L) (fatal_status L) i w w1"
      "pub_tryClaim L p (cm_blockAndHeaderLength L q) w1 = (Inr (r, c), w2)" "r > 0"
    and w: "claim_write L c q w2 = (Inr (), w3)" "claim_commit L c w3 = (Inr (), w')"
    unfolding request_sent_def by auto
  have "tryClaim_loop L p (cm_blockAndHeaderLength L q) ATTEMPTS w = Some (Inr (Some c), w2)"
    by (rule claim_loop.succeeds_after [OF i(2) _ i(3,4)]) (use i(1) in \<open>simp add: pred_funpow\<close>)
  with w show "claim L p q w = Some (Inr True, w')"
    by (simp add: claim_def tryClaim_def bindE_Some exec_run)
qed

lemma claim_False: "claim L p q w = Some (Inr False, w') \<longleftrightarrow> request_refused L p q w w'"
proof
  assume run: "claim L p q w = Some (Inr False, w')"
  then obtain x w2 where t: "tryClaim_loop L p (cm_blockAndHeaderLength L q) ATTEMPTS w = Some (Inr x, w2)"
    and rest: "(case x of None \<Rightarrow> retE False | Some c \<Rightarrow> bindE (callE (claim_write L c q)) (\<lambda>_.
         bindE (callE (claim_commit L c)) (\<lambda>_. retE True))) w2 = Some (Inr False, w')"
    by (auto simp: claim_def tryClaim_def bindE_eq_Some_Inr)
  then have "x = None" "w2 = w'" by (auto simp: bindE_eq_Some_Inr exec_run split: option.splits)
  with tryClaim_loop_result [OF t] show "request_refused L p q w w'"
    unfolding request_refused_def by simp
next
  assume "request_refused L p q w w'"
  then have "tryClaim_loop L p (cm_blockAndHeaderLength L q) ATTEMPTS w
      = tryClaim_loop L p (cm_blockAndHeaderLength L q) 0 w'"
    unfolding request_refused_def by (subst claim_loop.after_back_off) (auto simp: pred_funpow)
  then show "claim L p q w = Some (Inr False, w')"
    by (simp add: claim_def tryClaim_def bindE_Some exec_run)
qed

lemmas claim_results = claim_True claim_False

end
