(* ===== verification/SnapshotTaker.thy ===== *)
theory SnapshotTaker
  imports Retry SessionTable
begin

text \<open>
  \<open>SnapshotTaker\<close> and \<open>ServiceSnapshotTaker\<close>: the messages of a snapshot, each offered to the
  snapshot publication until it is accepted. The offer loop has no bound, so it is a partial
  function: \<open>None\<close> says that it does not return.
\<close>

partial_function (option) offer :: "('b, 'w, 'z) aeron_scheme \<Rightarrow> pub \<Rightarrow> 'b \<Rightarrow> 'w \<Rightarrow>
    ((cluster_error + unit) \<times> 'w) option" where
  "offer L p buffer w =
     bindE (callE (pub_offer L p buffer)) (\<lambda>result.
     if result > 0 then retE ()
     else bindE (taker_checkResult L result) (\<lambda>_.
          bindE (callE (idle_idle L)) (\<lambda>_. offer L p buffer))) w"

definition markSnapshot :: "('b, 'w, 'z) codecs_scheme \<Rightarrow> pub \<Rightarrow> i64 \<Rightarrow> i64 \<Rightarrow> i64 \<Rightarrow> i32 \<Rightarrow>
    snapshot_mark \<Rightarrow> i32 \<Rightarrow> ('w, unit) exec" where
  "markSnapshot L p snapshotTypeId logPosition leadershipTermId snapshotIndex snapshotMark appVersion =
     bindE (liftE (SnapshotMarker_encode L (SnapshotMarker_sbeBlockAndHeaderLength L)
        (SnapshotMarker snapshotTypeId logPosition leadershipTermId snapshotIndex snapshotMark
           NANOS appVersion))) (\<lambda>buffer.
     offer L p buffer)"

definition markBegin :: "('b, 'w, 'z) codecs_scheme \<Rightarrow> pub \<Rightarrow> i64 \<Rightarrow> i64 \<Rightarrow> i64 \<Rightarrow> i32 \<Rightarrow> i32 \<Rightarrow>
    ('w, unit) exec" where
  "markBegin L p snapshotTypeId logPosition leadershipTermId snapshotIndex appVersion =
     markSnapshot L p snapshotTypeId logPosition leadershipTermId snapshotIndex BEGIN appVersion"

definition markEnd :: "('b, 'w, 'z) codecs_scheme \<Rightarrow> pub \<Rightarrow> i64 \<Rightarrow> i64 \<Rightarrow> i64 \<Rightarrow> i32 \<Rightarrow> i32 \<Rightarrow>
    ('w, unit) exec" where
  "markEnd L p snapshotTypeId logPosition leadershipTermId snapshotIndex appVersion =
     markSnapshot L p snapshotTypeId logPosition leadershipTermId snapshotIndex END appVersion"

definition session_message :: "session \<Rightarrow> client_session_msg" where
  "session_message s =
     ClientSessionMsg (cs_id s) (cs_responseStreamId s) (cs_responseChannel s) (cs_encodedPrincipal s)"

definition session_message_length :: "('b, 'w, 'z) codecs_scheme \<Rightarrow> session \<Rightarrow> i32" where
  "session_message_length L s = to_i32
     (ClientSession_sbeBlockAndHeaderLength L
      + ClientSession_responseChannelHeaderLength L + int (length (cs_responseChannel s))
      + ClientSession_encodedPrincipalHeaderLength L + int (length (cs_encodedPrincipal s)))"

definition snapshotSession :: "('b, 'w, 'z) codecs_scheme \<Rightarrow> pub \<Rightarrow> session \<Rightarrow> ('w, unit) exec" where
  "snapshotSession L p session =
     bindE (liftE (ClientSession_encode L (session_message_length L session) (session_message session)))
       (\<lambda>buffer. offer L p buffer)"

definition offer_attempt :: "('b, 'w, 'z) aeron_scheme \<Rightarrow> pub \<Rightarrow> 'b \<Rightarrow> ('w, i64 \<times> unit) call" where
  "offer_attempt L p buffer w = (case pub_offer L p buffer w of
      (Inl e, w') \<Rightarrow> (Inl e, w') | (Inr r, w') \<Rightarrow> (Inr (r, ()), w'))"

lemma offer_attempt_iff [simp]:
  "offer_attempt L p b w = (Inr (r, c), w') \<longleftrightarrow> pub_offer L p b w = (Inr r, w')"
  "offer_attempt L p b w = (Inl e, w') \<longleftrightarrow> pub_offer L p b w = (Inl e, w')"
  by (auto simp: offer_attempt_def split: prod.splits sum.splits)

interpretation offer_loop: retry_loop "offer_attempt L p buffer" "idle_idle L" "fatal_status L" id
    "\<lambda>_. True" id "\<lambda>_ :: unit. offer L p buffer" for L p buffer
proof unfold_locales
  fix k :: unit and w
  show "offer L p buffer w =
    bindE (callE (offer_attempt L p buffer)) (\<lambda>(r, c). if r > 0 then retE (id c)
      else bindE (if fatal_status L r then throwE (UnexpectedPublicationState r) else retE ()) (\<lambda>_.
           bindE (callE (idle_idle L)) (\<lambda>_. offer L p buffer))) w"
    by (cases "pub_offer L p buffer w")
      (auto simp: offer.simps [of L p buffer w] bindE_def exec_run checkResult_cases
        offer_attempt_def split: sum.splits)
qed

text \<open>How an offer can end: after some rounds of backing off, a last attempt decides.\<close>

definition offer_ends :: "('b, 'w, 'z) aeron_scheme \<Rightarrow> pub \<Rightarrow> 'b \<Rightarrow> 'w \<Rightarrow> cluster_error + unit \<Rightarrow> 'w \<Rightarrow> bool" where
  "offer_ends L p buffer w r w' \<longleftrightarrow>
     (\<exists>q. pub_offer L p buffer w = (Inr q, w') \<and> q > 0 \<and> r = Inr ())
   \<or> (\<exists>q. pub_offer L p buffer w = (Inr q, w') \<and> q \<le> 0 \<and> fatal_status L q
        \<and> r = Inl (UnexpectedPublicationState q))
   \<or> (\<exists>e. pub_offer L p buffer w = (Inl e, w') \<and> r = Inl e)
   \<or> (\<exists>q w1 e. pub_offer L p buffer w = (Inr q, w1) \<and> q \<le> 0 \<and> \<not> fatal_status L q
        \<and> idle_idle L w1 = (Inl e, w') \<and> r = Inl e)"

abbreviation offer_backs_off :: "('b, 'w, 'z) aeron_scheme \<Rightarrow> pub \<Rightarrow> 'b \<Rightarrow> nat \<Rightarrow> 'w \<Rightarrow> 'w \<Rightarrow> bool" where
  "offer_backs_off L p buffer \<equiv> backs_off (offer_attempt L p buffer) (idle_idle L) (fatal_status L)"

lemma offer_result:
  assumes "offer L p buffer w = Some (r, w')"
  shows "\<exists>n w1. offer_backs_off L p buffer n w w1 \<and> offer_ends L p buffer w1 r w'"
proof -
  have "case y of (r, w') \<Rightarrow> \<exists>n w1. offer_backs_off L p buffer n w w1 \<and> offer_ends L p buffer w1 r w'"
    if "offer L p buffer w = Some y" for y
  proof (rule offer.raw_induct [where P = "\<lambda>L p buffer w y. case y of (r, w') \<Rightarrow>
      \<exists>n w1. offer_backs_off L p buffer n w w1 \<and> offer_ends L p buffer w1 r w'", OF _ that])
    fix f :: "('b, 'w, 'z) aeron_scheme \<Rightarrow> pub \<Rightarrow> 'b \<Rightarrow> 'w \<Rightarrow> ((cluster_error + unit) \<times> 'w) option"
      and L p buffer w y
    assume IH: "\<And>L p buffer w y. f L p buffer w = Some y \<Longrightarrow> (case y of (r, w') \<Rightarrow>
        \<exists>n w1. offer_backs_off L p buffer n w w1 \<and> offer_ends L p buffer w1 r w')"
      and step: "bindE (callE (pub_offer L p buffer)) (\<lambda>result. if result > 0 then retE ()
        else bindE (taker_checkResult L result) (\<lambda>_. bindE (callE (idle_idle L)) (\<lambda>_. f L p buffer))) w
        = Some y"
    obtain r w' where y: "y = (r, w')" by (cases y)
    show "case y of (r, w') \<Rightarrow> \<exists>n w1. offer_backs_off L p buffer n w w1 \<and> offer_ends L p buffer w1 r w'"
    proof (cases "offer_ends L p buffer w r w'")
      case True
      with y show ?thesis by (auto intro!: exI [of _ 0] intro: backs_off.none)
    next
      case False
      with step y obtain q w1 w2 where q: "pub_offer L p buffer w = (Inr q, w1)" "q \<le> 0"
          "\<not> fatal_status L q" "idle_idle L w1 = (Inr (), w2)" "f L p buffer w2 = Some y"
        by (auto simp: offer_ends_def bindE_eq_Some exec_run checkResult_cases not_less split: if_splits)
      from IH [OF q(5)] y obtain n w3
        where "offer_backs_off L p buffer n w2 w3" "offer_ends L p buffer w3 r w'" by auto
      with q y show ?thesis
        by (auto intro!: exI [of _ "Suc n"] exI [of _ w3] intro: backs_off.more [of _ _ q "()" w1])
    qed
  qed
  from this [OF assms] show ?thesis by simp
qed

lemma offer_returns_iff:
  "offer L p buffer w = Some (Inr (), w') \<longleftrightarrow>
     (\<exists>n w1 q. offer_backs_off L p buffer n w w1 \<and> pub_offer L p buffer w1 = (Inr q, w') \<and> q > 0)"
proof
  assume "offer L p buffer w = Some (Inr (), w')"
  from offer_result [OF this] show "\<exists>n w1 q. offer_backs_off L p buffer n w w1 \<and>
      pub_offer L p buffer w1 = (Inr q, w') \<and> q > 0"
    by (auto simp: offer_ends_def)
next
  assume "\<exists>n w1 q. offer_backs_off L p buffer n w w1 \<and> pub_offer L p buffer w1 = (Inr q, w') \<and> q > 0"
  then obtain n w1 q where bo: "offer_backs_off L p buffer n w w1"
    and at: "offer_attempt L p buffer w1 = (Inr (q, ()), w')" "q > 0" by auto
  have "offer L p buffer w = Some (Inr (id ()), w')"
    by (rule offer_loop.succeeds_after [OF bo _ at]) simp
  then show "offer L p buffer w = Some (Inr (), w')" by simp
qed

text \<open>\<open>accepted L p bs w w'\<close>: from \<open>w\<close>, the buffers \<open>bs\<close> are accepted by the publication in this
  order and nothing else is offered, leading to \<open>w'\<close>.\<close>

inductive accepted :: "('b, 'w, 'z) aeron_scheme \<Rightarrow> pub \<Rightarrow> 'b list \<Rightarrow> 'w \<Rightarrow> 'w \<Rightarrow> bool" for L p where
  nothing: "accepted L p [] w w"
| one_more: "offer_backs_off L p b n w w1 \<Longrightarrow> pub_offer L p b w1 = (Inr q, w2) \<Longrightarrow> q > 0 \<Longrightarrow>
    accepted L p bs w2 w' \<Longrightarrow> accepted L p (b # bs) w w'"

inductive_simps accepted_simps: "accepted L p [] w w'" "accepted L p (b # bs) w w'"

lemma accepted_append:
  "accepted L p (bs @ cs) w w' \<longleftrightarrow> (\<exists>w1. accepted L p bs w w1 \<and> accepted L p cs w1 w')"
  by (induction bs arbitrary: w) (simp_all add: accepted_simps, blast)

lemma offer_accepted: "offer L p b w = Some (Inr (), w') \<longleftrightarrow> accepted L p [b] w w'"
  by (auto simp: offer_returns_iff accepted_simps)

end
