(* ===== verification/Agent.thy ===== *)
theory Agent
  imports Service ConsensusModuleProxy SnapshotTaker
begin

text \<open>
  \<open>ClusteredServiceAgent\<close>: its state, the operations a service may call, the callbacks it makes
  into the service, and the handlers of log and control events. The state record has the
  members of the class under their names; the members of the log adapter it owns have the
  prefix \<open>la_\<close>; \<open>world\<close> is everything outside.
\<close>

section \<open>State\<close>

record active_log_event =
  al_logPosition :: i64
  al_maxLogPosition :: i64
  al_memberId :: i32
  al_sessionId :: i32
  al_streamId :: i32
  al_isStartup :: bool
  al_role :: role
  al_channel :: string
  al_logSubscriptionId :: i64
  al_subscription :: "sub option"
  al_image :: "image option"

record snapshot_state =
  ss_snapshotChannel :: string
  ss_snapshotStreamId :: i32
  ss_publicationId :: i64
  ss_publication :: "pub option"
  ss_recordingCounterId :: i32
  ss_recordingId :: i64
  ss_snapshotComplete :: bool

record service_adapter =
  sa_subscription :: sub
  sa_fragmentLimit :: i32
  sa_agentBound :: bool

record 'w sys =
  m_ctx :: service_context
  m_archive :: "nat option"
  m_clusterTime :: i64
  m_isAbort :: bool
  m_isServiceActive :: bool
  m_lastSlowTickNs :: i64
  m_serviceId :: i32
  m_memberId :: i32
  m_ackId :: i64
  m_terminationPosition :: i64
  m_logPosition :: i64
  m_leadershipTermId :: i64
  m_proxy :: "pub option"
  m_serviceAdapter :: "service_adapter option"
  m_table :: session_table
  m_isBackgroundInvocation :: bool
  m_subscriptionAlias :: string
  m_activeLifecycleCallbackName :: "string option"
  m_role :: role
  m_requestedAckPosition :: i64
  m_commitPosition :: "counter option"
  m_markFileUpdateDeadlineMs :: i64
  m_standbySnapshotFlags :: i32
  la_fragmentLimit :: i32
  la_maxLogPosition :: i64
  la_image :: "image option"
  m_currentSnapshot :: "snapshot_state option"
  m_activeLogEvent :: "active_log_event option"
  world :: 'w

definition world_exec :: "('w, 'a) exec \<Rightarrow> ('w sys, 'a) exec" where
  "world_exec m = zoomE world (\<lambda>w s. s\<lparr>world := w\<rparr>) m"

abbreviation world_call :: "('w, 'a) call \<Rightarrow> ('w sys, 'a) exec" where
  "world_call c \<equiv> world_exec (callE c)"

text \<open>Dereferencing a pointer to a session, and running one of its methods.\<close>

definition session_at :: "addr \<Rightarrow> ('w sys, session) exec" where
  "session_at a = (\<lambda>s. derefE ''session'' (deref (m_table s) a) s)"

definition with_session :: "addr \<Rightarrow> (session \<times> 'w, 'a) exec \<Rightarrow> ('w sys, 'a) exec" where
  "with_session a m = (\<lambda>s. case deref (m_table s) a of
       None \<Rightarrow> Some (Inl (NullDereference ''session''), s)
     | Some x \<Rightarrow> (case m (x, world s) of
           None \<Rightarrow> None
         | Some (r, x', w') \<Rightarrow> Some (r, s\<lparr>m_table := update_at a x' (m_table s), world := w'\<rparr>)))"

text \<open>A method of a session that no container holds; the result is the session afterwards.\<close>

definition with_local :: "session \<Rightarrow> (session \<times> 'w, unit) exec \<Rightarrow> ('w sys, session) exec" where
  "with_local x m = (\<lambda>s. case m (x, world s) of
       None \<Rightarrow> None
     | Some (r, x', w') \<Rightarrow> Some (map_sum id (\<lambda>_. x') r, s\<lparr>world := w'\<rparr>))"

definition with_proxy :: "(pub \<Rightarrow> ('w, 'a) exec) \<Rightarrow> ('w sys, 'a) exec" where
  "with_proxy m = bindE (getsE m_proxy) (\<lambda>p. bindE (derefE ''m_proxy'' p) (\<lambda>p. world_exec (m p)))"

text \<open>
  The constructor. Members without an initialiser (\<open>m_isAbort\<close>, \<open>m_lastSlowTickNs\<close>,
  \<open>m_isBackgroundInvocation\<close> and the log adapter's \<open>m_maxLogPosition\<close>) get what the memory holds.
\<close>

definition new_agent :: "('b, 'w, 'z) aeron_scheme \<Rightarrow> service_context \<Rightarrow> 'w \<Rightarrow>
    cluster_error + 'w sys" where
  "new_agent L ctx w =
     (if \<not> ctx_clusteredService ctx then Inl ServiceIsNull else Inr
      \<lparr> m_ctx = ctx, m_archive = None, m_clusterTime = NULL_VALUE L, m_isAbort = uninit_bool L Agent_isAbort w,
        m_isServiceActive = False, m_lastSlowTickNs = uninit_int L Agent_lastSlowTickNs w,
        m_serviceId = ctx_serviceId ctx, m_memberId = to_i32 (NULL_VALUE L), m_ackId = 0,
        m_terminationPosition = NULL_POSITION L, m_logPosition = NULL_POSITION L,
        m_leadershipTermId = NULL_VALUE L, m_proxy = None, m_serviceAdapter = None,
        m_table = empty_table, m_isBackgroundInvocation = uninit_bool L Agent_isBackgroundInvocation w,
        m_subscriptionAlias = ''log-sc-'' @ to_string (ctx_serviceId ctx),
        m_activeLifecycleCallbackName = None,
        m_role = FOLLOWER, m_requestedAckPosition = NULL_POSITION L, m_commitPosition = None,
        m_markFileUpdateDeadlineMs = 1,
        m_standbySnapshotFlags = (if ctx_standbySnapshotEnabled ctx
          then CLUSTER_ACTION_FLAGS_STANDBY_SNAPSHOT else CLUSTER_ACTION_FLAGS_DEFAULT),
        la_fragmentLimit = ctx_logFragmentLimit ctx, la_maxLogPosition = uninit_int L Adapter_maxLogPosition w,
        la_image = None, m_currentSnapshot = None, m_activeLogEvent = None, world = w \<rparr>)"

section \<open>Operations for the service\<close>

definition checkForValidInvocation :: "('w sys, unit) exec" where
  "checkForValidInvocation =
     bindE (getsE m_activeLifecycleCallbackName) (\<lambda>name.
     case name of
       Some n \<Rightarrow> throwE (InvalidInvocationFrom n)
     | None \<Rightarrow>
         bindE (getsE m_isBackgroundInvocation) (\<lambda>background.
         whenE background (throwE InvalidInvocationBackground)))"

definition getClientSession :: "i64 \<Rightarrow> ('w sys, addr option) exec" where
  "getClientSession clusterSessionId = getsE (\<lambda>s. find_pointer (m_table s) clusterSessionId)"

definition closeClientSession :: "('b, 'w, 'z) codecs_scheme \<Rightarrow> i64 \<Rightarrow> ('w sys, bool) exec" where
  "closeClientSession L clusterSessionId =
     bindE checkForValidInvocation (\<lambda>_.
     bindE (getsE (\<lambda>s. find_pointer (m_table s) clusterSessionId)) (\<lambda>clientSession.
     case clientSession of
       None \<Rightarrow> throwE (UnknownClusterSession clusterSessionId)
     | Some a \<Rightarrow>
         bindE (session_at a) (\<lambda>x.
         if cs_isClosing x then retE True
         else
           bindE (with_proxy (\<lambda>p. closeSession L p clusterSessionId)) (\<lambda>sent.
           if sent then bindE (with_session a (modifyE (\<lambda>(x, w). (markClosing x, w)))) (\<lambda>_. retE True)
           else retE False))))"

text \<open>\<open>offer\<close> is unfinished in the source: it checks the invocation and returns 0.\<close>

definition agent_offer :: "('w sys, i64) exec" where
  "agent_offer = bindE checkForValidInvocation (\<lambda>_. retE 0)"

definition cancelTimer :: "('b, 'w, 'z) codecs_scheme \<Rightarrow> i64 \<Rightarrow> ('w sys, bool) exec" where
  "cancelTimer L correlationId =
     bindE checkForValidInvocation (\<lambda>_. with_proxy (\<lambda>p. proxy_cancelTimer L p correlationId))"

text \<open>\<open>ContainerClientSession::close\<close> and \<open>offer\<close>, which go through the agent.\<close>

definition session_close :: "('b, 'w, 'z) codecs_scheme \<Rightarrow> session \<Rightarrow> ('w sys, unit) exec" where
  "session_close L x =
     bindE (getClientSession (cs_id x)) (\<lambda>p.
     whenE (p \<noteq> None) (bindE (closeClientSession L (cs_id x)) (\<lambda>_. retE ())))"

definition session_offer :: "session \<Rightarrow> ('w sys, i64) exec" where
  "session_offer x = agent_offer"

text \<open>Running a callback of the service: its calls into the cluster are the operations above.\<close>

primrec run_callback :: "('b, 'w, 'z) codecs_scheme \<Rightarrow> ('r, 'w) callback \<Rightarrow> ('w sys, 'r) exec" where
  "run_callback L (Return r) = retE r"
| "run_callback L (Raise e) = throwE e"
| "run_callback L (World u k) =
     bindE (getsE world) (\<lambda>w.
     bindE (modifyE (\<lambda>s. s\<lparr>world := u (world s)\<rparr>)) (\<lambda>_. run_callback L (k w)))"
| "run_callback L (GetClientSession i k) =
     bindE (getClientSession i) (\<lambda>p.
     case p of
       None \<Rightarrow> run_callback L (k None)
     | Some a \<Rightarrow> bindE (session_at a) (\<lambda>x. run_callback L (k (Some x))))"
| "run_callback L (CloseClientSession i k) =
     attemptE (closeClientSession L i) (\<lambda>r. run_callback L (k r))"

text \<open>\<open>role(newRole)\<close>: the callback name is set while the service is told, and reset after.\<close>

definition set_role :: "('b, 'w, 'z) env_scheme \<Rightarrow> role \<Rightarrow> ('w sys, unit) exec" where
  "set_role E newRole =
     bindE (getsE m_role) (\<lambda>r.
     whenE (newRole \<noteq> r)
       (bindE (modifyE (\<lambda>s. s\<lparr>m_role := newRole,
                              m_activeLifecycleCallbackName := Some ''onRoleChange''\<rparr>)) (\<lambda>_.
        bindE (catchE (run_callback E (svc_onRoleChange E newRole)) (\<lambda>e.
                 bindE (modifyE (\<lambda>s. s\<lparr>m_activeLifecycleCallbackName := None\<rparr>)) (\<lambda>_. throwE e))) (\<lambda>_.
        modifyE (\<lambda>s. s\<lparr>m_activeLifecycleCallbackName := None\<rparr>)))))"

section \<open>Acknowledgements\<close>

definition ack :: "('b, 'w, 'z) codecs_scheme \<Rightarrow> i64 \<Rightarrow> ('w sys, bool) exec" where
  "ack L relevantId =
     bindE (getsE id) (\<lambda>s.
     bindE (with_proxy (\<lambda>p. proxy_ack L p (m_logPosition s) (m_clusterTime s) (m_ackId s) relevantId
        (m_serviceId s))) (\<lambda>sent.
     if sent then
       bindE (modifyE (\<lambda>s. s\<lparr>m_ackId := m_ackId s + 1\<rparr>)) (\<lambda>_.
       bindE (whenE (relevantId = NULL_VALUE L)
         (modifyE (\<lambda>s. s\<lparr>m_requestedAckPosition := NULL_POSITION L\<rparr>))) (\<lambda>_. retE True))
     else retE False))"

section \<open>Handlers of log events\<close>

definition at_position :: "i64 \<Rightarrow> i64 \<Rightarrow> ('w sys, unit) exec" where
  "at_position logPosition timestamp =
     modifyE (\<lambda>s. s\<lparr>m_logPosition := logPosition, m_clusterTime := timestamp\<rparr>)"

definition onSessionMessage :: "('b, 'w, 'z) env_scheme \<Rightarrow> i64 \<Rightarrow> i64 \<Rightarrow> i64 \<Rightarrow> 'b \<Rightarrow> int \<Rightarrow> int \<Rightarrow>
    frag_header \<Rightarrow> ('w sys, unit) exec" where
  "onSessionMessage E logPosition clusterSessionId timestamp buffer offset len header =
     bindE (at_position logPosition timestamp) (\<lambda>_.
     bindE (getsE (\<lambda>s. find_pointer (m_table s) clusterSessionId)) (\<lambda>found.
     case found of
       None \<Rightarrow> retE ()
     | Some a \<Rightarrow>
         bindE (session_at a) (\<lambda>x.
         run_callback E (svc_onSessionMessage E x timestamp buffer offset len header))))"

definition onTimerEvent :: "('b, 'w, 'z) env_scheme \<Rightarrow> i64 \<Rightarrow> i64 \<Rightarrow> i64 \<Rightarrow> ('w sys, unit) exec" where
  "onTimerEvent E logPosition correlationId timestamp =
     bindE (at_position logPosition timestamp) (\<lambda>_.
     run_callback E (svc_onTimerEvent E correlationId timestamp))"

definition add_agent_session :: "session \<Rightarrow> ('w sys, unit) exec" where
  "add_agent_session x = modifyE (\<lambda>s. s\<lparr>m_table := addSession x (m_table s)\<rparr>)"

definition onSessionOpen :: "('b, 'w, 'z) env_scheme \<Rightarrow> i64 \<Rightarrow> i64 \<Rightarrow> i64 \<Rightarrow> i64 \<Rightarrow> i32 \<Rightarrow> string \<Rightarrow>
    string \<Rightarrow> ('w sys, unit) exec" where
  "onSessionOpen E leadershipTermId logPosition clusterSessionId timestamp responseStreamId
      responseChannel encodedPrincipal =
     bindE (at_position logPosition timestamp) (\<lambda>_.
     bindE (getsE id) (\<lambda>s.
     if find_pointer (m_table s) clusterSessionId \<noteq> None
     then throwE (ClashingOpen clusterSessionId leadershipTermId logPosition)
     else
       (let new = new_session E clusterSessionId responseStreamId responseChannel encodedPrincipal
              (uninit_bool E (Session_isClosing clusterSessionId) (world s)) in
       bindE (if m_role s = LEADER \<and> ctx_isRespondingService (m_ctx s)
              then with_local new (connect E)
              else retE new) (\<lambda>x.
       bindE (getsE (\<lambda>s. next_addr (m_table s))) (\<lambda>sessionPtr.
       bindE (add_agent_session x) (\<lambda>_.
       bindE (session_at sessionPtr) (\<lambda>x.
       run_callback E (svc_onSessionOpen E x timestamp))))))))"

definition onSessionClose :: "('b, 'w, 'z) env_scheme \<Rightarrow> i64 \<Rightarrow> i64 \<Rightarrow> i64 \<Rightarrow> i64 \<Rightarrow> i32 \<Rightarrow>
    ('w sys, unit) exec" where
  "onSessionClose E leadershipTermId logPosition clusterSessionId timestamp closeReason =
     bindE (at_position logPosition timestamp) (\<lambda>_.
     bindE (getsE (\<lambda>s. removeSession clusterSessionId (m_table s))) (\<lambda>(session, table).
     bindE (modifyE (\<lambda>s. s\<lparr>m_table := table\<rparr>)) (\<lambda>_.
     case session of
       None \<Rightarrow> throwE (UnknownSessionClose clusterSessionId closeReason leadershipTermId logPosition)
     | Some x \<Rightarrow>
         bindE (with_local x (disconnect E)) (\<lambda>x'.
         run_callback E (svc_onSessionClose E x' timestamp closeReason)))))"

text \<open>The constructor of \<open>SnapshotState\<close>.\<close>

definition new_snapshot_state :: "('b, 'w, 'z) aeron_scheme \<Rightarrow> string \<Rightarrow> i32 \<Rightarrow> ('w sys, snapshot_state) exec" where
  "new_snapshot_state L snapshotChannel snapshotStreamId =
     bindE (world_call (aeron_addExclusivePublication L snapshotChannel snapshotStreamId)) (\<lambda>publicationId.
     retE \<lparr> ss_snapshotChannel = snapshotChannel, ss_snapshotStreamId = snapshotStreamId,
         ss_publicationId = publicationId, ss_publication = None,
         ss_recordingCounterId = NULL_COUNTER_ID L, ss_recordingId = NULL_VALUE L,
         ss_snapshotComplete = False \<rparr>)"

definition onTakeSnapshot :: "('b, 'w, 'z) aeron_scheme \<Rightarrow> i64 \<Rightarrow> i64 \<Rightarrow> ('w sys, unit) exec" where
  "onTakeSnapshot L logPosition leadershipTermId =
     bindE (getsE m_ctx) (\<lambda>ctx.
     bindE (new_snapshot_state L (ctx_snapshotChannel ctx) (ctx_snapshotStreamId ctx)) (\<lambda>x.
     modifyE (\<lambda>s. s\<lparr>m_currentSnapshot := Some x\<rparr>)))"

definition shouldSnapshot :: "i32 \<Rightarrow> i32 \<Rightarrow> bool" where
  "shouldSnapshot standbySnapshotFlags flags \<longleftrightarrow>
     CLUSTER_ACTION_FLAGS_DEFAULT = flags \<or> 0 \<noteq> and flags standbySnapshotFlags"

definition executeAction :: "('b, 'w, 'z) aeron_scheme \<Rightarrow> cluster_action \<Rightarrow> i64 \<Rightarrow> i64 \<Rightarrow> i32 \<Rightarrow>
    ('w sys, unit) exec" where
  "executeAction L action logPosition leadershipTermId flags =
     bindE (getsE m_standbySnapshotFlags) (\<lambda>standby.
     whenE (action = SNAPSHOT \<and> shouldSnapshot standby flags)
       (onTakeSnapshot L logPosition leadershipTermId))"

definition onServiceAction :: "('b, 'w, 'z) aeron_scheme \<Rightarrow> i64 \<Rightarrow> i64 \<Rightarrow> i64 \<Rightarrow> cluster_action \<Rightarrow>
    i32 \<Rightarrow> ('w sys, unit) exec" where
  "onServiceAction L leadershipTermId logPosition timestamp action flags =
     bindE (at_position logPosition timestamp) (\<lambda>_.
     executeAction L action logPosition leadershipTermId flags)"

definition onNewLeadershipTermEvent :: "('b, 'w, 'z) env_scheme \<Rightarrow> i64 \<Rightarrow> i64 \<Rightarrow> i64 \<Rightarrow> i64 \<Rightarrow> i32 \<Rightarrow>
    i32 \<Rightarrow> i32 \<Rightarrow> ('w sys, unit) exec" where
  "onNewLeadershipTermEvent E leadershipTermId logPosition timestamp termBaseLogPosition
      leaderMemberId logSessionId appVersion =
     bindE (modifyE (\<lambda>s. s\<lparr>m_leadershipTermId := leadershipTermId\<rparr>)) (\<lambda>_.
     bindE (at_position logPosition timestamp) (\<lambda>_.
     run_callback E (svc_onNewLeadershipTermEvent E leadershipTermId logPosition timestamp
       termBaseLogPosition leaderMemberId logSessionId appVersion)))"

text \<open>\<open>terminate\<close> has no body yet.\<close>

definition terminate :: "bool \<Rightarrow> ('w sys, unit) exec" where
  "terminate expected = retE ()"

definition onMembershipChange :: "i64 \<Rightarrow> i64 \<Rightarrow> change_type \<Rightarrow> i32 \<Rightarrow> ('w sys, unit) exec" where
  "onMembershipChange logPosition timestamp changeType memberId =
     bindE (at_position logPosition timestamp) (\<lambda>_.
     bindE (getsE m_memberId) (\<lambda>own.
     whenE (memberId = own \<and> changeType = QUIT) (terminate True)))"

section \<open>Handlers of control events\<close>

definition onRequestServiceAck :: "i64 \<Rightarrow> ('w sys, unit) exec" where
  "onRequestServiceAck logPosition = modifyE (\<lambda>s. s\<lparr>m_requestedAckPosition := logPosition\<rparr>)"

definition onServiceTerminationPosition :: "i64 \<Rightarrow> ('w sys, unit) exec" where
  "onServiceTerminationPosition logPosition = modifyE (\<lambda>s. s\<lparr>m_terminationPosition := logPosition\<rparr>)"

definition onJoinLog :: "('b, 'w, 'z) aeron_scheme \<Rightarrow> i64 \<Rightarrow> i64 \<Rightarrow> i32 \<Rightarrow> i32 \<Rightarrow> i32 \<Rightarrow> bool \<Rightarrow> role \<Rightarrow>
    string \<Rightarrow> ('w sys, unit) exec" where
  "onJoinLog L logPosition maxLogPosition memberId logSessionId logStreamId isStartup role logChannel =
     modifyE (\<lambda>s. s\<lparr> la_maxLogPosition := maxLogPosition, la_image := None,
       m_activeLogEvent := Some
         \<lparr> al_logPosition = logPosition, al_maxLogPosition = maxLogPosition,
           al_memberId = memberId, al_sessionId = logSessionId, al_streamId = logStreamId,
           al_isStartup = isStartup, al_role = role, al_channel = logChannel,
           al_logSubscriptionId = NULL_VALUE L, al_subscription = None, al_image = None \<rparr> \<rparr>)"

definition onUnavailableCounter :: "i64 \<Rightarrow> i32 \<Rightarrow> ('w sys, unit) exec" where
  "onUnavailableCounter registrationId counterId =
     modifyE (\<lambda>s. case m_commitPosition s of
         Some c \<Rightarrow> if counter_registrationId c = registrationId \<and> counter_id c = counterId
                   then s\<lparr>m_commitPosition := None\<rparr> else s
       | None \<Rightarrow> s)"

section \<open>Other operations on all sessions\<close>

definition disconnectEgress :: "('b, 'w, 'z) aeron_scheme \<Rightarrow> ('w sys, unit) exec" where
  "disconnectEgress L =
     bindE (getsE (\<lambda>s. m_sessionByIdMap (m_table s))) (\<lambda>entries.
     for_each (\<lambda>(i, a). with_session a (disconnect L)) entries)"

text \<open>\<open>snapshotState\<close>: the markers and one message per session, in the order of \<open>m_sessions\<close>.\<close>

definition snapshotState :: "('b, 'w, 'z) codecs_scheme \<Rightarrow> pub \<Rightarrow> i64 \<Rightarrow> i64 \<Rightarrow> ('w sys, unit) exec" where
  "snapshotState L publication logPosition leadershipTermId =
     bindE (getsE id) (\<lambda>s.
     let appVersion = ctx_appVersion (m_ctx s) in
     bindE (world_exec (markBegin L publication SNAPSHOT_TYPE_ID logPosition leadershipTermId 0 appVersion)) (\<lambda>_.
     bindE (for_each (\<lambda>x. world_exec (snapshotSession L publication x)) (table_elems (m_table s))) (\<lambda>_.
     world_exec (markEnd L publication SNAPSHOT_TYPE_ID logPosition leadershipTermId 0 appVersion))))"

end
