(* ===== verification/AgentLemmas.thy ===== *)
theory AgentLemmas
  imports Agent
begin

text \<open>
  Frames, invariants and effects of the agent's operations. The service's callbacks are
  arbitrary: what is proved of a handler holds whatever the service does in its callback,
  including calls back into the cluster.
\<close>

section \<open>Frames\<close>

lemma keeps_world_exec [keeps_rules]:
  "(\<And>w s. f (s\<lparr>world := w\<rparr>) = f s) \<Longrightarrow> keeps f (world_exec m)"
  unfolding world_exec_def by (intro keeps_rules)

lemma keeps_session_at [keeps_rules]: "keeps f (session_at a)"
  by (auto simp: keeps_def session_at_def derefE_def exec_run split: option.splits)

lemma keeps_with_session [keeps_rules]:
  fixes f :: "'w sys \<Rightarrow> 'v"
  assumes "\<And>w s. f (s\<lparr>world := w\<rparr>) = f s" "\<And>T s. f (s\<lparr>m_table := T\<rparr>) = f s"
  shows "keeps f (with_session a m)"
proof -
  have "f (s\<lparr>m_table := T, world := w\<rparr>) = f s" for s :: "'w sys" and T w
    using assms(1) [of w "s\<lparr>m_table := T\<rparr>"] assms(2) [of T s] by simp
  then show ?thesis
    by (auto simp: keeps_def with_session_def split: option.splits prod.splits)
qed

lemma keeps_with_local [keeps_rules]:
  "(\<And>w s. f (s\<lparr>world := w\<rparr>) = f s) \<Longrightarrow> keeps f (with_local x m)"
  by (auto simp: keeps_def with_local_def split: option.splits prod.splits)

lemma keeps_with_proxy [keeps_rules]:
  "(\<And>w s. f (s\<lparr>world := w\<rparr>) = f s) \<Longrightarrow> keeps f (with_proxy m)"
  unfolding with_proxy_def by (intro keeps_rules)

lemma keeps_checkForValidInvocation [keeps_rules]: "keeps f checkForValidInvocation"
  unfolding checkForValidInvocation_def by (intro keeps_rules)

lemma keeps_getClientSession [keeps_rules]: "keeps f (getClientSession i)"
  unfolding getClientSession_def by (intro keeps_rules)

lemma keeps_closeClientSession [keeps_rules]:
  assumes "\<And>w s. f (s\<lparr>world := w\<rparr>) = f s" "\<And>T s. f (s\<lparr>m_table := T\<rparr>) = f s"
  shows "keeps f (closeClientSession L i)"
  unfolding closeClientSession_def by (intro keeps_rules assms)

lemma keeps_run_callback [keeps_rules]:
  assumes "\<And>w s. f (s\<lparr>world := w\<rparr>) = f s" "\<And>T s. f (s\<lparr>m_table := T\<rparr>) = f s"
  shows "keeps f (run_callback L c)"
  by (induction c) (unfold run_callback.simps, (intro keeps_rules assms | simp)+)

section \<open>Invariants of the table\<close>

definition table_views :: "session_table \<Rightarrow> i64 \<Rightarrow> (i64 \<times> i32 \<times> string \<times> string) option" where
  "table_views T = map_option session_view \<circ> lookup_session T"

text \<open>A property of the table that changes of a session's connection and closing mark keep.\<close>

definition stable_table :: "(session_table \<Rightarrow> bool) \<Rightarrow> bool" where
  "stable_table P \<longleftrightarrow> (\<forall>T a x y. P T \<longrightarrow> deref T a = Some y \<longrightarrow> session_view x = session_view y \<longrightarrow>
     P (update_at a x T))"

lemma stable_safe: "stable_table table_safe"
  unfolding stable_table_def using table_safe_update session_view_id by blast

lemma stable_inv: "stable_table table_inv"
  unfolding stable_table_def using table_inv_update session_view_id by blast

lemma table_views_update:
  assumes "deref T a = Some y" "session_view x = session_view y"
  shows "table_views (update_at a x T) = table_views T"
proof
  fix i
  show "table_views (update_at a x T) i = table_views T i"
    using assms by (cases "find_pointer T i") (auto simp: table_views_def lookup_session_def deref_update)
qed

lemma stable_views: "stable_table (\<lambda>T. table_inv T \<and> table_views T = V)"
  using stable_inv unfolding stable_table_def by (auto simp: table_views_update)

text \<open>The order and the contents of the vector, seen by the service, are stable too.\<close>

definition vector_views :: "session_table \<Rightarrow> (i64 \<times> i32 \<times> string \<times> string) list" where
  "vector_views T = map session_view (table_elems T)"

lemma vector_views_update:
  assumes "table_safe T" "deref T a = Some y" "session_view x = session_view y"
  shows "vector_views (update_at a x T) = vector_views T"
proof -
  have "session_view (snd p) = session_view x" if "p \<in> set (m_sessions T)" "fst p = a" for p
    using assms that table_safeD(1) [OF assms(1)]
    by (cases p) (auto simp: deref_def dest: map_of_SomeD eq_key_imp_eq_value)
  then show ?thesis by (auto simp: vector_views_def table_elems_def m_sessions_update)
qed

lemma stable_vector: "stable_table (\<lambda>T. table_safe T \<and> vector_views T = V)"
  using stable_safe unfolding stable_table_def by (auto simp: vector_views_update)

lemma preserves_world_exec [preserves_rules]:
  "(\<And>w s. P (s\<lparr>world := w\<rparr>) = P s) \<Longrightarrow> preserves P (world_exec m)"
  unfolding world_exec_def by (intro preserves_zoomE)

lemma preserves_with_session:
  assumes "stable_table P" "keeps (\<lambda>(x, w). session_view x) m"
  shows "preserves (\<lambda>s. P (m_table s)) (with_session a m)"
proof (rule preservesI)
  fix s r s' assume P: "P (m_table s)" and run: "with_session a m s = Some (r, s')"
  show "P (m_table s')"
  proof (cases "deref (m_table s) a")
    case None
    with run P show ?thesis by (simp add: with_session_def)
  next
    case (Some y)
    with run obtain x' w' where m: "m (y, world s) = Some (r, x', w')"
      and s': "m_table s' = update_at a x' (m_table s)"
      by (auto simp: with_session_def split: option.splits prod.splits)
    from keepsD [OF assms(2) m] have "session_view x' = session_view y" by simp
    with assms(1) P Some show ?thesis unfolding stable_table_def s' by blast
  qed
qed

lemma preserves_closeClientSession:
  assumes "stable_table P"
  shows "preserves (\<lambda>s. P (m_table s)) (closeClientSession L i)"
proof -
  have k: "keeps (\<lambda>(x, w). session_view x) (modifyE (\<lambda>(x, w). (markClosing x, w)))"
    by (auto simp: keeps_def exec_run)
  show ?thesis
    unfolding closeClientSession_def checkForValidInvocation_def
    by (intro preserves_rules preserves_with_session [OF assms k] preserves_keeps [OF keeps_session_at]
      preserves_keeps [OF keeps_with_proxy]) auto
qed

lemma preserves_run_callback:
  assumes "stable_table P"
  shows "preserves (\<lambda>s. P (m_table s)) (run_callback L c)"
  by (induction c) (unfold run_callback.simps, (intro preserves_rules preserves_closeClientSession
    preserves_keeps [OF keeps_session_at] preserves_keeps [OF keeps_getClientSession] assms | simp)+)

section \<open>Termination\<close>

lemma total_world_exec [total_rules]: "total m \<Longrightarrow> total (world_exec m)"
  unfolding world_exec_def by (intro total_rules)

lemma total_session_at [total_rules]:
  "total (session_at a)"
  "total k \<Longrightarrow> total (with_session a k)"
  "total k' \<Longrightarrow> total (with_local x k')"
  unfolding total_def session_at_def derefE_def with_session_def with_local_def
  by (auto simp: exec_run simp del: not_None_eq split: option.splits prod.splits)

lemma total_with_proxy [total_rules]: "(\<And>p. total (q p)) \<Longrightarrow> total (with_proxy q)"
  unfolding with_proxy_def by (intro total_rules)

lemma total_closeClientSession [total_rules]: "total (closeClientSession L i)"
  unfolding closeClientSession_def checkForValidInvocation_def by (intro total_rules)

lemma total_run_callback [total_rules]: "total (run_callback L c)"
  by (induction c) (unfold run_callback.simps getClientSession_def, (intro total_rules | simp)+)

lemma total_set_role [total_rules]: "total (set_role E r)"
  unfolding set_role_def by (intro total_rules)

lemma total_ack [total_rules]: "total (ack L i)"
  unfolding ack_def by (intro total_rules)

lemma total_handlers [total_rules]:
  "total (onSessionMessage E p i t b n l h)" "total (onTimerEvent E p i t)"
  "total (onSessionOpen E m p i t stream channel q)" "total (onSessionClose E m p i t reason)"
  "total (onServiceAction E m p t action flags)" "total (onMembershipChange p t change i')"
  "total (onNewLeadershipTermEvent E m p t base leader session version)"
  unfolding onSessionMessage_def onTimerEvent_def onSessionOpen_def onSessionClose_def
    onServiceAction_def onMembershipChange_def onNewLeadershipTermEvent_def executeAction_def
    onTakeSnapshot_def new_snapshot_state_def terminate_def at_position_def add_agent_session_def Let_def
  by (intro total_rules)+

end
