(* ===== verification/Decoding.thy ===== *)
theory Decoding
  imports Environment
begin

text \<open>
  How the fragment handlers of the program decode a message: a message header, whose schema is
  checked, then the message of its template. Four handlers share this
  (\<open>BoundedLogAdapter::onMessage\<close>, \<open>ServiceAdapter::onFragment\<close>,
  \<open>ServiceSnapshotLoader::onFragment\<close>, \<open>EgressAdapter::onFragment\<close>), and \<open>EgressPoller::onFragment\<close>
  throws a pointer where they throw an exception.
\<close>

text \<open>The length left after the message header, in unsigned arithmetic.\<close>

definition rest_length :: "('b, 'w, 'z) codecs_scheme \<Rightarrow> int \<Rightarrow> int" where
  "rest_length E len = to_u64 (to_u64 len - MessageHeader_encodedLength E)"

text \<open>The decoders of the service container are placed at the address after the message header.\<close>

definition decode_at :: "('b, 'w, 'z) codecs_scheme \<Rightarrow> ('b, 'm) decoder \<Rightarrow> message_header \<Rightarrow> 'b \<Rightarrow> int \<Rightarrow> int \<Rightarrow>
    ('s, 'm) exec" where
  "decode_at E wrap msgHeader buffer offset len =
     liftE (wrap buffer (offset + MessageHeader_encodedLength E) 0 (rest_length E len)
       (mh_blockLength msgHeader) (mh_version msgHeader))"

text \<open>Decoding the message header, with the check of the schema.\<close>

definition message_header_of :: "('b, 'w, 'z) codecs_scheme \<Rightarrow> 'b \<Rightarrow> int \<Rightarrow> int \<Rightarrow>
    ('s, message_header) exec" where
  "message_header_of E buffer offset len =
     bindE (liftE (MessageHeader_wrap E buffer offset (to_u64 len) (MessageHeader_sbeSchemaVersion E))) (\<lambda>msgHeader.
     if mh_schemaId msgHeader \<noteq> MessageHeader_sbeSchemaId E
     then throwE (UnexpectedSchemaId (MessageHeader_sbeSchemaId E) (mh_schemaId msgHeader))
     else retE msgHeader)"

text \<open>\<open>EgressPoller::onFragment\<close> throws a pointer to its exception.\<close>

definition poller_header_of :: "('b, 'w, 'z) codecs_scheme \<Rightarrow> 'b \<Rightarrow> int \<Rightarrow> int \<Rightarrow>
    ('s, message_header) exec" where
  "poller_header_of E buffer offset len =
     bindE (liftE (MessageHeader_wrap E buffer offset (to_u64 len) (MessageHeader_sbeSchemaVersion E))) (\<lambda>msgHeader.
     if mh_schemaId msgHeader \<noteq> MessageHeader_sbeSchemaId E
     then throwE (ThrownPointer (UnexpectedSchemaId (MessageHeader_sbeSchemaId E) (mh_schemaId msgHeader)))
     else retE msgHeader)"

text \<open>The decoders of the client are given the buffer and the offset after the message header.\<close>

definition decode_from :: "('b, 'w, 'z) codecs_scheme \<Rightarrow> ('b, 'm) decoder \<Rightarrow> message_header \<Rightarrow> 'b \<Rightarrow> int \<Rightarrow> int \<Rightarrow>
    ('s, 'm) exec" where
  "decode_from E wrap msgHeader buffer offset len =
     liftE (wrap buffer 0 (offset + MessageHeader_encodedLength E) (rest_length E len)
       (mh_blockLength msgHeader) (mh_version msgHeader))"

lemma decoding_rules [keeps_rules]:
  "keeps f (decode_at E wrap h b i n)" "keeps f (decode_from E wrap h b i n)"
  "keeps f (message_header_of E b i n)" "keeps f (poller_header_of E b i n)"
  unfolding poller_header_of_def decode_at_def decode_from_def message_header_of_def by (intro keeps_rules)+

lemma decoding_preserves [preserves_rules]:
  "preserves P (decode_at E wrap h b i n)" "preserves P (decode_from E wrap h b i n)"
  "preserves P (message_header_of E b i n)" "preserves P (poller_header_of E b i n)"
  unfolding poller_header_of_def decode_at_def decode_from_def message_header_of_def by (intro preserves_rules)+

lemma decoding_total [total_rules]:
  "total (decode_at E wrap h b i n)" "total (decode_from E wrap h b i n)"
  "total (message_header_of E b i n)" "total (poller_header_of E b i n)"
  unfolding poller_header_of_def decode_at_def decode_from_def message_header_of_def by (intro total_rules)+

text \<open>A header of the program's schema.\<close>

definition header_is :: "('b, 'w, 'z) codecs_scheme \<Rightarrow> 'b \<Rightarrow> int \<Rightarrow> int \<Rightarrow> message_header \<Rightarrow> bool" where
  "header_is E buffer offset len h \<longleftrightarrow>
     MessageHeader_wrap E buffer offset (to_u64 len) (MessageHeader_sbeSchemaVersion E) = Inr h
   \<and> mh_schemaId h = MessageHeader_sbeSchemaId E"

lemma message_header_of_Inr:
  "message_header_of E b i n s = Some (Inr h, s') \<longleftrightarrow> header_is E b i n h \<and> s' = s"
  by (auto simp: message_header_of_def header_is_def bindE_eq_Some exec_run)

lemma message_header_of_is: "header_is E b i n h \<Longrightarrow> message_header_of E b i n = retE h"
  by (auto simp: message_header_of_def header_is_def bindE_def exec_run fun_eq_iff liftE_def)

lemma message_header_of_bad:
  "MessageHeader_wrap E b i (to_u64 n) (MessageHeader_sbeSchemaVersion E) = Inl e \<Longrightarrow>
   message_header_of E b i n = throwE e"
  "MessageHeader_wrap E b i (to_u64 n) (MessageHeader_sbeSchemaVersion E) = Inr h \<Longrightarrow>
   mh_schemaId h \<noteq> MessageHeader_sbeSchemaId E \<Longrightarrow>
   message_header_of E b i n = throwE (UnexpectedSchemaId (MessageHeader_sbeSchemaId E) (mh_schemaId h))"
  by (simp_all add: message_header_of_def bindE_def exec_run fun_eq_iff)

end
