(* ===== verification/LogAdapter.thy ===== *)
theory LogAdapter
  imports AgentLemmas Decoding
begin

text \<open>
  \<open>BoundedLogAdapter\<close>: polls the image of the log up to a limit, puts fragmented messages
  together, and hands each log message to the agent's handler for its template.
  The fragments are those that the library's \<open>ControlledFragmentAssembler\<close>, which the adapter wraps
  around its own handler, hands on; a poll of the image answers with them.
\<close>

section \<open>Dispatch\<close>

definition log_onMessage :: "('b, 'w, 'z) env_scheme \<Rightarrow> 'b \<Rightarrow> int \<Rightarrow> int \<Rightarrow> frag_header \<Rightarrow>
    ('w sys, poll_action) exec" where
  "log_onMessage E buffer offset len header =
     bindE (message_header_of E buffer offset len) (\<lambda>msgHeader.
     let templateId = mh_templateId msgHeader in
     if templateId = SessionMessageHeader_sbeTemplateId E then
       bindE (decode_at E (SessionMessageHeader_wrap E) msgHeader buffer offset len) (\<lambda>sessionHeader.
       bindE (onSessionMessage E (fh_position header) (smh_clusterSessionId sessionHeader)
                (smh_timestamp sessionHeader) buffer
                (offset + SessionMessageHeader_sbeBlockAndHeaderLength E)
                (len - SessionMessageHeader_sbeBlockAndHeaderLength E) header) (\<lambda>_.
       retE CONTINUE))
     else if templateId = TimerEvent_sbeTemplateId E then
       bindE (decode_at E (TimerEvent_wrap E) msgHeader buffer offset len) (\<lambda>timerEvent.
       bindE (onTimerEvent E (fh_position header) (te_correlationId timerEvent) (te_timestamp timerEvent)) (\<lambda>_.
       retE CONTINUE))
     else if templateId = SessionOpenEvent_sbeTemplateId E then
       bindE (decode_at E (SessionOpenEvent_wrap E) msgHeader buffer offset len) (\<lambda>openEvent.
       bindE (onSessionOpen E (so_leadershipTermId openEvent) (fh_position header)
                (so_clusterSessionId openEvent) (so_timestamp openEvent) (so_responseStreamId openEvent)
                (c_string (so_responseChannel openEvent))
                (replicate (so_encodedPrincipalLength openEvent) (CHR 0x00))) (\<lambda>_.
       retE CONTINUE))
     else if templateId = SessionCloseEvent_sbeTemplateId E then
       bindE (decode_at E (SessionCloseEvent_wrap E) msgHeader buffer offset len) (\<lambda>closeEvent.
       bindE (onSessionClose E (sc_leadershipTermId closeEvent) (fh_position header)
                (sc_clusterSessionId closeEvent) (sc_timestamp closeEvent) (sc_closeReason closeEvent)) (\<lambda>_.
       retE CONTINUE))
     else if templateId = ClusterActionRequest_sbeTemplateId E then
       bindE (decode_at E (ClusterActionRequest_wrap E) msgHeader buffer offset len) (\<lambda>actionRequest.
       bindE (onServiceAction E (ca_leadershipTermId actionRequest) (ca_logPosition actionRequest)
                (ca_timestamp actionRequest) (ca_action actionRequest) CLUSTER_ACTION_FLAGS_DEFAULT) (\<lambda>_.
       retE CONTINUE))
     else if templateId = NewLeadershipTermEvent_sbeTemplateId E then
       bindE (decode_at E (NewLeadershipTermEvent_wrap E) msgHeader buffer offset len) (\<lambda>e.
       bindE (onNewLeadershipTermEvent E (nl_leadershipTermId e) (nl_logPosition e) (nl_timestamp e)
                (nl_termBaseLogPosition e) (nl_leaderMemberId e) (nl_logSessionId e) (nl_appVersion e)) (\<lambda>_.
       retE CONTINUE))
     else if templateId = MembershipChangeEvent_sbeTemplateId E then
       bindE (decode_at E (MembershipChangeEvent_wrap E) msgHeader buffer offset len) (\<lambda>e.
       bindE (onMembershipChange (mc_logPosition e) (mc_timestamp e) (mc_changeType e) (mc_memberId e)) (\<lambda>_.
       retE CONTINUE))
     else retE CONTINUE)"

section \<open>Fragmented messages\<close>

text \<open>The offset at which the next fragment of a message is expected.\<close>

definition next_term_offset :: "('z) aeron_consts_scheme \<Rightarrow> int \<Rightarrow> int \<Rightarrow> int" where
  "next_term_offset L offset len =
     BitUtil_align L (offset + len + DataFrameHeader_LENGTH L) (FRAME_ALIGNMENT L)"

definition has_flags :: "frag_header \<Rightarrow> 8 word \<Rightarrow> bool" where
  "has_flags header f \<longleftrightarrow> and (fh_flags header) f = f"

definition log_onFragment :: "('b, 'w, 'z) env_scheme \<Rightarrow> 'b fragment \<Rightarrow> ('w sys, poll_action) exec" where
  "log_onFragment E f =
    (let header = frag_header f; offset = frag_offset f; len = frag_length f in
     if has_flags header (UNFRAGMENTED E) then log_onMessage E (frag_buffer f) offset len header
     else if has_flags header (BEGIN_FRAG E) then
       bindE (world_call (builder_reset E)) (\<lambda>_.
       bindE (world_call (builder_append E f)) (\<lambda>_.
       bindE (world_call (builder_setNextTermOffset E (next_term_offset E offset len))) (\<lambda>_.
       retE CONTINUE)))
     else
       bindE (world_call (builder_nextTermOffset E)) (\<lambda>expected.
       if offset = expected then
         bindE (world_call (builder_limit E)) (\<lambda>limit.
         bindE (world_call (builder_append E f)) (\<lambda>_.
         if has_flags header (END_FRAG E) then
           bindE (world_call (builder_buffer E)) (\<lambda>buffer.
           bindE (world_call (builder_limit E)) (\<lambda>messageLength.
           bindE (log_onMessage E buffer 0 messageLength header) (\<lambda>action.
           bindE (if action = ABORT then world_call (builder_setLimit E limit)
                  else world_call (builder_reset E)) (\<lambda>_.
           retE action))))
         else
           bindE (world_call (builder_setNextTermOffset E (next_term_offset E offset len))) (\<lambda>_.
           retE CONTINUE)))
       else bindE (world_call (builder_reset E)) (\<lambda>_. retE CONTINUE)))"

section \<open>Polling and closing\<close>

definition log_isDone :: "('b, 'w, 'z) aeron_scheme \<Rightarrow> ('w sys, bool) exec" where
  "log_isDone L =
     bindE (getsE la_image) (\<lambda>image.
     case image of
       None \<Rightarrow> retE True
     | Some i \<Rightarrow>
         bindE (world_call (image_position L i)) (\<lambda>position.
         bindE (getsE la_maxLogPosition) (\<lambda>maxLogPosition.
         if position \<ge> maxLogPosition then retE True
         else bindE (world_call (image_isEndOfStream L i)) (\<lambda>eos.
           if eos then retE True else world_call (image_isClosed L i)))))"

definition log_close :: "('b, 'w, 'z) aeron_scheme \<Rightarrow> ('w sys, unit) exec" where
  "log_close L =
     bindE (getsE la_image) (\<lambda>image.
     case image of
       None \<Rightarrow> retE ()
     | Some i \<Rightarrow>
         bindE (world_call (image_close L i)) (\<lambda>_.
         modifyE (\<lambda>s. s\<lparr>la_image := None\<rparr>)))"

definition log_poll :: "('b, 'w, 'z) env_scheme \<Rightarrow> i64 \<Rightarrow> ('w sys, int) exec" where
  "log_poll E limit =
     bindE (getsE id) (\<lambda>s.
     bindE (derefE ''m_image'' (la_image s)) (\<lambda>i.
     pollE (world_call (image_boundedControlledPoll E i limit (la_fragmentLimit s)))
       (\<lambda>k. world_call (poll_finish E k)) (\<lambda>k e. world_call (poll_on_throw E k e)) (log_onFragment E)))"

end
