(* ===== verification/ServiceAdapter.thy ===== *)
theory ServiceAdapter
  imports AgentLemmas Decoding
begin

text \<open>
  \<open>ServiceAdapter\<close>: receives the events the consensus module sends the service container and
  hands them to the agent it is bound to.
\<close>

definition service_onFragment :: "('b, 'w, 'z) env_scheme \<Rightarrow> 'b fragment \<Rightarrow> ('w sys, unit) exec" where
  "service_onFragment E f =
    (let buffer = frag_buffer f; offset = frag_offset f; len = frag_length f in
     bindE (message_header_of E buffer offset len) (\<lambda>msgHeader.
     let to_agent = (\<lambda>m. bindE (getsE m_serviceAdapter) (\<lambda>a.
           if case a of None \<Rightarrow> False | Some x \<Rightarrow> sa_agentBound x then m else throwE (NullDereference ''m_agent''))) in
     if JoinLog_sbeTemplateId E = mh_templateId msgHeader then
       bindE (decode_at E (JoinLog_wrap E) msgHeader buffer offset len) (\<lambda>joinLog.
       bindE (liftE (getRole (jl_role joinLog))) (\<lambda>role.
       to_agent (onJoinLog E (jl_logPosition joinLog) (jl_maxLogPosition joinLog) (jl_memberId joinLog)
         (jl_logSessionId joinLog) (jl_logStreamId joinLog) (jl_isStartup joinLog) role
         (c_string (jl_logChannel joinLog)))))
     else if ServiceTerminationPosition_sbeTemplateId E = mh_templateId msgHeader then
       bindE (decode_at E (ServiceTerminationPosition_wrap E) msgHeader buffer offset len) (\<lambda>e.
       to_agent (onServiceTerminationPosition (stp_logPosition e)))
     else if RequestServiceAck_sbeTemplateId E = mh_templateId msgHeader then
       bindE (decode_at E (RequestServiceAck_wrap E) msgHeader buffer offset len) (\<lambda>e.
       to_agent (onRequestServiceAck (rsa_logPosition e)))
     else retE ()))"

definition service_poll :: "('b, 'w, 'z) env_scheme \<Rightarrow> ('w sys, int) exec" where
  "service_poll E =
     bindE (getsE m_serviceAdapter) (\<lambda>a.
     bindE (derefE ''m_serviceAdapter'' a) (\<lambda>a.
     pollE (world_call (sub_poll E (sa_subscription a) (sa_fragmentLimit a)))
       (\<lambda>k. world_call (poll_finish E k)) (\<lambda>k e. world_call (poll_on_throw E k e))
       (continuing (service_onFragment E))))"

definition service_close :: "('b, 'w, 'z) aeron_scheme \<Rightarrow> service_adapter \<Rightarrow> ('w, unit) exec" where
  "service_close L a = callE (sub_closeAndRemoveImages L (sa_subscription a))"

definition new_service_adapter :: "sub \<Rightarrow> service_adapter" where
  "new_service_adapter subscription =
     \<lparr>sa_subscription = subscription, sa_fragmentLimit = 1, sa_agentBound = False\<rparr>"

end
