(* ===== verification/AgentWork.thy ===== *)
theory AgentWork
  imports LogAdapter ServiceAdapter
begin

text \<open>
  The work cycle of \<open>ClusteredServiceAgent\<close>: the clock tick, the snapshot in progress
  (\<open>SnapshotState\<close>), joining and closing the log, and \<open>doWork\<close>.
\<close>

section \<open>Clock tick\<close>

definition checkAeronOpen :: "('b, 'w, 'z) aeron_scheme \<Rightarrow> ('w sys, unit) exec" where
  "checkAeronOpen L =
     bindE (getsE m_isAbort) (\<lambda>aborted.
     bindE (if aborted then retE True else world_call (aeron_isClosed L)) (\<lambda>closed.
     whenE closed
       (bindE (modifyE (\<lambda>s. s\<lparr>m_isAbort := True\<rparr>)) (\<lambda>_. throwE UnexpectedAeronClose))))"

definition checkForClockTick :: "('b, 'w, 'z) aeron_scheme \<Rightarrow> i64 \<Rightarrow> ('w sys, bool) exec" where
  "checkForClockTick L nowNs =
     bindE (checkAeronOpen L) (\<lambda>_.
     bindE (getsE m_lastSlowTickNs) (\<lambda>lastTick.
     if nowNs - lastTick > 1000 * 1000 then
       bindE (modifyE (\<lambda>s. s\<lparr>m_lastSlowTickNs := nowNs\<rparr>)) (\<lambda>_.
       bindE (world_call (aeron_usesAgentInvoker L)) (\<lambda>invoker.
       bindE (whenE invoker (world_call (aeron_invoke L))) (\<lambda>_.
       bindE (checkAeronOpen L) (\<lambda>_.
       bindE (world_call (aeron_countersReader L)) (\<lambda>_.
       bindE (getsE m_commitPosition) (\<lambda>commitPosition.
       bindE (case commitPosition of
                None \<Rightarrow> retE False
              | Some c \<Rightarrow> world_call (commit_isClosed L c)) (\<lambda>closed.
       bindE (whenE closed (throwE CommitPositionClosed)) (\<lambda>_.
       bindE (world_call (currentTimeMillis L)) (\<lambda>nowMs.
       bindE (getsE m_markFileUpdateDeadlineMs) (\<lambda>deadline.
       bindE (whenE (nowMs \<ge> deadline)
         (modifyE (\<lambda>s. s\<lparr>m_markFileUpdateDeadlineMs := nowMs + 1\<rparr>))) (\<lambda>_.
       retE True)))))))))))
     else retE False))"

section \<open>The snapshot in progress\<close>

definition snapshot_get :: "(snapshot_state \<Rightarrow> 'a) \<Rightarrow> ('w sys, 'a) exec" where
  "snapshot_get f =
     bindE (getsE m_currentSnapshot) (\<lambda>x. bindE (derefE ''m_currentSnapshot'' x) (\<lambda>x. retE (f x)))"

definition snapshot_set :: "(snapshot_state \<Rightarrow> snapshot_state) \<Rightarrow> ('w sys, unit) exec" where
  "snapshot_set f = modifyE (\<lambda>s. s\<lparr>m_currentSnapshot := map_option f (m_currentSnapshot s)\<rparr>)"

definition with_archive :: "(nat \<Rightarrow> ('w, 'a) call) \<Rightarrow> ('w sys, 'a) exec" where
  "with_archive m =
     bindE (getsE m_archive) (\<lambda>a. bindE (derefE ''m_archive'' a) (\<lambda>a. world_call (m a)))"

text \<open>The three stages of \<open>SnapshotState::doWork\<close>; each says whether to go on.\<close>

definition snapshot_publication :: "('b, 'w, 'z) env_scheme \<Rightarrow> ('w sys, bool) exec" where
  "snapshot_publication E =
     bindE (snapshot_get ss_publication) (\<lambda>publication.
     if publication \<noteq> None then retE True
     else
       bindE (snapshot_get ss_publicationId) (\<lambda>publicationId.
       bindE (world_call (aeron_findExclusivePublication E publicationId)) (\<lambda>found.
       bindE (snapshot_set (\<lambda>x. x\<lparr>ss_publication := found\<rparr>)) (\<lambda>_.
       case found of
         None \<Rightarrow> retE False
       | Some p \<Rightarrow>
           bindE (snapshot_get (\<lambda>x. (ss_snapshotChannel x, ss_snapshotStreamId x))) (\<lambda>(channel, streamId).
           bindE (world_call (ChannelUri_addSessionId E channel (pub_sessionId E p))) (\<lambda>channel.
           bindE (with_archive (\<lambda>a. archive_startRecording E a channel streamId (LOCAL_SOURCE E) True)) (\<lambda>_.
           retE True)))))))"

definition snapshot_recording :: "('b, 'w, 'z) env_scheme \<Rightarrow> ('w sys, bool) exec" where
  "snapshot_recording E =
     bindE (snapshot_get ss_recordingCounterId) (\<lambda>counterId.
     if counterId \<noteq> NULL_COUNTER_ID E then retE True
     else
       bindE (snapshot_get ss_publication) (\<lambda>p.
       bindE (derefE ''m_publication'' p) (\<lambda>p.
       bindE (world_call (RecordingPos_findCounterIdBySessionId E (pub_sessionId E p))) (\<lambda>counterId.
       bindE (snapshot_set (\<lambda>x. x\<lparr>ss_recordingCounterId := counterId\<rparr>)) (\<lambda>_.
       if NULL_COUNTER_ID E = counterId then
         bindE (with_archive (archive_checkForErrorResponse E)) (\<lambda>_. retE False)
       else
         bindE (world_call (RecordingPos_getRecordingId E counterId)) (\<lambda>recordingId.
         bindE (snapshot_set (\<lambda>x. x\<lparr>ss_recordingId := recordingId\<rparr>)) (\<lambda>_.
         bindE (getsE id) (\<lambda>s.
         bindE (snapshotState E p (m_logPosition s) (m_leadershipTermId s)) (\<lambda>_.
         retE True)))))))))"

text \<open>The operands of the comparison, in the order in which the compiler evaluates them.\<close>

definition snapshot_positions :: "('b, 'w, 'z) aeron_scheme \<Rightarrow> pub \<Rightarrow> i32 \<Rightarrow> ('w sys, i64 \<times> i64) exec" where
  "snapshot_positions L p counterId =
     (if operands_right_to_left L then
        bindE (world_call (pub_position L p)) (\<lambda>position.
        bindE (world_call (aeron_getCounterValue L counterId)) (\<lambda>recorded. retE (recorded, position)))
      else
        bindE (world_call (aeron_getCounterValue L counterId)) (\<lambda>recorded.
        bindE (world_call (pub_position L p)) (\<lambda>position. retE (recorded, position))))"

definition snapshot_complete :: "('b, 'w, 'z) env_scheme \<Rightarrow> ('w sys, bool) exec" where
  "snapshot_complete E =
     bindE (snapshot_get ss_publication) (\<lambda>p.
     bindE (derefE ''m_publication'' p) (\<lambda>p.
     bindE (snapshot_get ss_snapshotComplete) (\<lambda>complete.
     bindE (if complete then retE True
            else bindE (run_callback E (svc_onTakeSnapshot E p)) (\<lambda>done.
                 bindE (snapshot_set (\<lambda>x. x\<lparr>ss_snapshotComplete := done\<rparr>)) (\<lambda>_. retE done))) (\<lambda>complete.
     if \<not> complete then retE False
     else
       bindE (snapshot_get ss_recordingCounterId) (\<lambda>counterId.
       bindE (snapshot_positions E p counterId) (\<lambda>(recorded, position).
       if recorded < position then retE False
       else bindE (snapshot_get ss_recordingId) (\<lambda>recordingId. ack E recordingId)))))))"

definition snapshot_doWork :: "('b, 'w, 'z) env_scheme \<Rightarrow> ('w sys, bool) exec" where
  "snapshot_doWork E =
     bindE (world_call (aeron_countersReader E)) (\<lambda>_.
     bindE (snapshot_publication E) (\<lambda>more.
     if \<not> more then retE False
     else bindE (snapshot_recording E) (\<lambda>more.
          if \<not> more then retE False else snapshot_complete E)))"

section \<open>Joining the log\<close>

definition event_get :: "(active_log_event \<Rightarrow> 'a) \<Rightarrow> ('w sys, 'a) exec" where
  "event_get f =
     bindE (getsE m_activeLogEvent) (\<lambda>x. bindE (derefE ''m_activeLogEvent'' x) (\<lambda>x. retE (f x)))"

definition event_set :: "(active_log_event \<Rightarrow> active_log_event) \<Rightarrow> ('w sys, unit) exec" where
  "event_set f = modifyE (\<lambda>s. s\<lparr>m_activeLogEvent := map_option f (m_activeLogEvent s)\<rparr>)"

definition join_subscription :: "('b, 'w, 'z) aeron_scheme \<Rightarrow> ('w sys, bool) exec" where
  "join_subscription L =
     bindE (event_get al_logSubscriptionId) (\<lambda>logSubscriptionId.
     bindE (whenE (logSubscriptionId = NULL_VALUE L)
       (bindE (event_get (\<lambda>x. (al_channel x, al_streamId x))) (\<lambda>(channel, streamId).
        bindE (getsE m_subscriptionAlias) (\<lambda>alias.
        bindE (world_call (ChannelUri_withAlias L channel alias)) (\<lambda>channel.
        bindE (world_call (aeron_addSubscription L channel streamId)) (\<lambda>i.
        event_set (\<lambda>x. x\<lparr>al_logSubscriptionId := i\<rparr>))))))) (\<lambda>_.
     bindE (event_get al_logSubscriptionId) (\<lambda>logSubscriptionId.
     if logSubscriptionId = NULL_VALUE L then retE False
     else
       bindE (event_get al_subscription) (\<lambda>subscription.
       if subscription \<noteq> None then retE True
       else
         bindE (world_call (aeron_findSubscription L logSubscriptionId)) (\<lambda>found.
         bindE (event_set (\<lambda>x. x\<lparr>al_subscription := found\<rparr>)) (\<lambda>_. retE (found \<noteq> None)))))))"

definition join_image :: "('b, 'w, 'z) aeron_scheme \<Rightarrow> ('w sys, bool) exec" where
  "join_image L =
     bindE (event_get al_image) (\<lambda>img.
     if img \<noteq> None then retE True
     else
       bindE (event_get al_subscription) (\<lambda>subscription.
       bindE (derefE ''m_subscription'' subscription) (\<lambda>subscription.
       bindE (event_get al_sessionId) (\<lambda>sessionId.
       bindE (world_call (sub_imageBySessionId L subscription sessionId)) (\<lambda>found.
       bindE (event_set (\<lambda>x. x\<lparr>al_image := found\<rparr>)) (\<lambda>_. retE (found \<noteq> None)))))))"

definition join_contiguous :: "('b, 'w, 'z) aeron_scheme \<Rightarrow> image \<Rightarrow> ('w sys, unit) exec" where
  "join_contiguous L img =
     bindE (getsE m_logPosition) (\<lambda>logPosition.
     bindE (event_get al_logPosition) (\<lambda>eventPosition.
     if image_joinPosition L img \<noteq> logPosition
     then throwE (JoinImageNotContiguous logPosition (image_joinPosition L img))
     else if eventPosition \<noteq> logPosition
     then throwE (JoinEventNotContiguous logPosition eventPosition)
     else retE ()))"

text \<open>What a new leader does with every session, in the order of the vector.\<close>

definition reconnect_sessions :: "('b, 'w, 'z) aeron_scheme \<Rightarrow> bool \<Rightarrow> ('w sys, unit) exec" where
  "reconnect_sessions L isStartup =
     bindE (getsE (\<lambda>s. map fst (m_sessions (m_table s)))) (\<lambda>sessions.
     bindE (getsE (\<lambda>s. ctx_isRespondingService (m_ctx s))) (\<lambda>responding.
     for_each (\<lambda>a.
       bindE (whenE (responding \<and> \<not> isStartup) (with_session a (connect L))) (\<lambda>_.
       with_session a (modifyE (\<lambda>(x, w). (resetClosing x, w))))) sessions))"

definition joinActiveLog :: "('b, 'w, 'z) env_scheme \<Rightarrow> ('w sys, bool) exec" where
  "joinActiveLog E =
     bindE (join_subscription E) (\<lambda>more.
     if \<not> more then retE False
     else bindE (join_image E) (\<lambda>more.
     if \<not> more then retE False
     else
       bindE (event_get al_image) (\<lambda>img.
       bindE (derefE ''m_image'' img) (\<lambda>img.
       bindE (join_contiguous E img) (\<lambda>_.
       bindE (event_get id) (\<lambda>activeLog.
       bindE (modifyE (\<lambda>s. s\<lparr>la_image := Some img, la_maxLogPosition := al_maxLogPosition activeLog\<rparr>)) (\<lambda>_.
       bindE (event_set (\<lambda>x. x\<lparr>al_subscription := None\<rparr>)) (\<lambda>_.
       bindE (ack E (NULL_VALUE E)) (\<lambda>_.
       bindE (modifyE (\<lambda>s. s\<lparr>m_memberId := al_memberId activeLog\<rparr>)) (\<lambda>_.
       bindE (whenE (al_role activeLog = LEADER) (reconnect_sessions E (al_isStartup activeLog))) (\<lambda>_.
       bindE (set_role E (al_role activeLog)) (\<lambda>_.
       retE True))))))))))))"

section \<open>The work cycle\<close>

definition pollServiceAdapter :: "('b, 'w, 'z) env_scheme \<Rightarrow> ('w sys, int) exec" where
  "pollServiceAdapter E =
     bindE (service_poll E) (\<lambda>workCount.
     bindE (getsE (\<lambda>s. m_activeLogEvent s \<noteq> None \<and> la_image s = None)) (\<lambda>pending.
     bindE (if pending then joinActiveLog E else retE False) (\<lambda>joined.
     if joined then
       bindE (modifyE (\<lambda>s. s\<lparr>m_activeLogEvent := None\<rparr>)) (\<lambda>_. retE workCount)
     else
       bindE (getsE id) (\<lambda>s.
       bindE (whenE (NULL_POSITION E \<noteq> m_terminationPosition s \<and> m_logPosition s \<ge> m_terminationPosition s)
         (terminate (m_logPosition s = m_terminationPosition s))) (\<lambda>_.
       bindE (getsE id) (\<lambda>s.
       bindE (whenE (NULL_POSITION E \<noteq> m_requestedAckPosition s \<and> m_logPosition s \<ge> m_requestedAckPosition s)
         (bindE (ack E (NULL_VALUE E)) (\<lambda>_. retE ()))) (\<lambda>_.
       retE workCount)))))))"

definition closeLog :: "('b, 'w, 'z) env_scheme \<Rightarrow> ('w sys, unit) exec" where
  "closeLog E =
     bindE (getsE la_image) (\<lambda>img.
     bindE (derefE ''m_image'' img) (\<lambda>img.
     bindE (world_call (image_position E img)) (\<lambda>position.
     bindE (modifyE (\<lambda>s. s\<lparr>m_logPosition := max position (m_logPosition s)\<rparr>)) (\<lambda>_.
     bindE (log_close E) (\<lambda>_.
     set_role E FOLLOWER)))))"

definition poll_log :: "('b, 'w, 'z) env_scheme \<Rightarrow> ('w sys, unit) exec" where
  "poll_log E =
     bindE (getsE m_commitPosition) (\<lambda>commitPosition.
     bindE (derefE ''m_commitPosition'' commitPosition) (\<lambda>c.
     bindE (world_call (commit_get E c)) (\<lambda>position.
     bindE (log_poll E position) (\<lambda>polled.
     whenE (polled = 0)
       (bindE (log_isDone E) (\<lambda>done. whenE done (closeLog E)))))))"

definition doWork :: "('b, 'w, 'z) env_scheme \<Rightarrow> ('w sys, unit) exec" where
  "doWork E =
     bindE (world_call (systemNanoClock E)) (\<lambda>nowNs.
     bindE (getsE m_currentSnapshot) (\<lambda>snapshot.
     bindE (if snapshot = None then retE True
            else bindE (snapshot_doWork E) (\<lambda>done.
                 bindE (whenE done (modifyE (\<lambda>s. s\<lparr>m_currentSnapshot := None\<rparr>))) (\<lambda>_. retE done))) (\<lambda>done.
     whenE done
       (bindE (checkForClockTick E nowNs) (\<lambda>tick.
        bindE (whenE tick (bindE (pollServiceAdapter E) (\<lambda>_. retE ()))) (\<lambda>_.
        bindE (getsE la_image) (\<lambda>img.
        whenE (img \<noteq> None) (poll_log E))))))))"

end
