(* ===== verification/WorkLemmas.thy ===== *)
theory WorkLemmas
  imports AgentWork
begin

text \<open>Frames of the operations of the work cycle, and what joining a log does.\<close>

section \<open>Frames\<close>

lemma keeps_ack [keeps_rules]:
  assumes "\<And>w s. f (s\<lparr>world := w\<rparr>) = f s" "\<And>n s. f (s\<lparr>m_ackId := n\<rparr>) = f s"
    "\<And>p s. f (s\<lparr>m_requestedAckPosition := p\<rparr>) = f s"
  shows "keeps f (ack L i)"
  unfolding ack_def by (intro keeps_rules assms)

lemma keeps_set_role [keeps_rules]:
  assumes "\<And>w s. f (s\<lparr>world := w\<rparr>) = f s" "\<And>T s. f (s\<lparr>m_table := T\<rparr>) = f s"
    "\<And>n s. f (s\<lparr>m_activeLifecycleCallbackName := n\<rparr>) = f s"
    "\<And>r n s. f (s\<lparr>m_role := r, m_activeLifecycleCallbackName := n\<rparr>) = f s"
  shows "keeps f (set_role E r)"
  unfolding set_role_def by (intro keeps_rules assms)

lemma keeps_event_get [keeps_rules]: "keeps f (event_get g)"
  unfolding event_get_def by (intro keeps_rules)

lemma keeps_event_set [keeps_rules]:
  "(\<And>s. f (s\<lparr>m_activeLogEvent := map_option g (m_activeLogEvent s)\<rparr>) = f s) \<Longrightarrow> keeps f (event_set g)"
  unfolding event_set_def by (intro keeps_rules)

lemma keeps_snapshot_get [keeps_rules]: "keeps f (snapshot_get g)"
  unfolding snapshot_get_def by (intro keeps_rules)

lemma keeps_snapshot_set [keeps_rules]:
  "(\<And>s. f (s\<lparr>m_currentSnapshot := map_option g (m_currentSnapshot s)\<rparr>) = f s) \<Longrightarrow> keeps f (snapshot_set g)"
  unfolding snapshot_set_def by (intro keeps_rules)

lemma keeps_with_archive [keeps_rules]:
  "(\<And>w s. f (s\<lparr>world := w\<rparr>) = f s) \<Longrightarrow> keeps f (with_archive m)"
  unfolding with_archive_def by (intro keeps_rules)

lemma keeps_reconnect [keeps_rules]:
  assumes "\<And>w s. f (s\<lparr>world := w\<rparr>) = f s" "\<And>T s. f (s\<lparr>m_table := T\<rparr>) = f s"
  shows "keeps f (reconnect_sessions L b)"
  unfolding reconnect_sessions_def by (intro keeps_rules assms)

lemma keeps_log_close [keeps_rules]:
  assumes "\<And>w s. f (s\<lparr>world := w\<rparr>) = f s" "\<And>i s. f (s\<lparr>la_image := i\<rparr>) = f s"
  shows "keeps f (log_close L)"
  unfolding log_close_def by (intro keeps_rules assms)

text \<open>What the steps that find the subscription and the image of a log do not touch.\<close>

definition join_frame :: "'w sys \<Rightarrow> i64 \<times> session_table \<times> (i64 \<times> i64 \<times> i32 \<times> bool \<times> role) option" where
  "join_frame s = (m_logPosition s, m_table s, map_option (\<lambda>e. (al_logPosition e, al_maxLogPosition e, al_memberId e,
     al_isStartup e, al_role e)) (m_activeLogEvent s))"

lemma keeps_join_frame [keeps_rules]:
  "keeps join_frame (join_subscription L)" "keeps join_frame (join_image L)"
  "keeps join_frame (join_contiguous L img)"
  unfolding join_subscription_def join_image_def join_contiguous_def
  by (intro keeps_rules; simp add: join_frame_def option.map_comp comp_def)+

lemma keeps_checkAeronOpen [keeps_rules]:
  "(\<And>w s. f (s\<lparr>world := w\<rparr>) = f s) \<Longrightarrow> (\<And>b s. f (s\<lparr>m_isAbort := b\<rparr>) = f s) \<Longrightarrow> keeps f (checkAeronOpen L)"
  unfolding checkAeronOpen_def by (intro keeps_rules)

section \<open>Running\<close>

lemma with_proxy_run: "m_proxy s = Some p \<Longrightarrow> with_proxy m s = world_exec (m p) s"
  by (simp add: with_proxy_def bindE_run(3) exec_simps(1) derefE_run bindE_run(1))

lemma world_exec_run: "world_exec m s = (case m (world s) of None \<Rightarrow> None | Some (r, w) \<Rightarrow> Some (r, s\<lparr>world := w\<rparr>))"
  by (simp add: world_exec_def zoomE_def)

section \<open>Joining\<close>

lemma with_session_run:
  assumes "deref (m_table s) a = Some x" "m (x, world s) = Some (r, x', w)"
  shows "with_session a m s = Some (r, s\<lparr>m_table := update_at a x' (m_table s), world := w\<rparr>)"
  using assms by (simp add: with_session_def)

text \<open>What the loop over the sessions has done once it has dealt with the sessions at \<open>A\<close>.\<close>

definition marks_reset :: "addr list \<Rightarrow> addr set \<Rightarrow> session_table \<Rightarrow> bool" where
  "marks_reset addrs A T \<longleftrightarrow> table_safe T \<and> map fst (m_sessions T) = addrs
     \<and> (\<forall>a \<in> A. \<exists>x. deref T a = Some x \<and> \<not> cs_isClosing x)"

lemma marks_reset_update:
  assumes "marks_reset addrs A T" "deref T a = Some y" "cs_id x = cs_id y" "cs_isClosing x \<longrightarrow> cs_isClosing y"
  shows "marks_reset addrs A (update_at a x T)"
    "\<not> cs_isClosing x \<Longrightarrow> marks_reset addrs (insert a A) (update_at a x T)"
proof -
  show *: "marks_reset addrs A (update_at a x T)"
    unfolding marks_reset_def
  proof (intro conjI ballI)
    show "table_safe (update_at a x T)" "map fst (m_sessions (update_at a x T)) = addrs"
      using assms table_safe_update by (auto simp: marks_reset_def map_fst_update)
    fix b assume "b \<in> A"
    with assms obtain z where "deref T b = Some z" "\<not> cs_isClosing z" by (auto simp: marks_reset_def)
    with assms(2,4) show "\<exists>x'. deref (update_at a x T) b = Some x' \<and> \<not> cs_isClosing x'"
      by (auto simp: deref_update)
  qed
  show "\<not> cs_isClosing x \<Longrightarrow> marks_reset addrs (insert a A) (update_at a x T)"
    using * assms(2) by (auto simp: marks_reset_def deref_update)
qed

lemma marks_reset_deref: "marks_reset addrs A T \<Longrightarrow> a \<in> set addrs \<Longrightarrow> \<exists>x. deref T a = Some x"
  by (auto simp: marks_reset_def deref_def weak_map_of_SomeI)

lemma connect_returns:
  assumes "connect L (x, w) = Some (r, x', w')"
  shows "r = Inr ()" "cs_id x' = cs_id x" "cs_isClosing x' = cs_isClosing x"
proof -
  show "r = Inr ()" using assms by (auto simp: connect_def catchE_eq_Some exec_run)
  have "keeps (\<lambda>(x, w). (cs_id x, cs_isClosing x)) (connect L)" by (intro keeps_connect) simp_all
  from keepsD [OF this assms] show "cs_id x' = cs_id x" "cs_isClosing x' = cs_isClosing x" by simp_all
qed

lemma reset_one:
  assumes inv: "marks_reset addrs A (m_table s)" and a: "a \<in> set addrs"
  shows "\<exists>s'. bindE (whenE c (with_session a (connect L))) (\<lambda>_.
         with_session a (modifyE (\<lambda>(x, w). (resetClosing x, w)))) s = Some (Inr (), s')
     \<and> marks_reset addrs (insert a A) (m_table s')"
proof -
  have reset: "\<exists>s'. with_session a (modifyE (\<lambda>(x, w). (resetClosing x, w))) s = Some (Inr (), s')
      \<and> marks_reset addrs (insert a A) (m_table s')" if m: "marks_reset addrs A (m_table s)" for s :: "'w sys"
  proof -
    obtain x where x: "deref (m_table s) a = Some x" using m a marks_reset_deref by blast
    have "with_session a (modifyE (\<lambda>(x, w). (resetClosing x, w))) s =
        Some (Inr (), s\<lparr>m_table := update_at a (resetClosing x) (m_table s), world := world s\<rparr>)"
      by (rule with_session_run [OF x]) (simp add: exec_run)
    moreover have "marks_reset addrs (insert a A) (update_at a (resetClosing x) (m_table s))"
      by (rule marks_reset_update(2) [OF m x]) (simp_all add: resetClosing_def)
    ultimately show ?thesis by simp
  qed
  show ?thesis
  proof (cases c)
    case False
    with reset [OF inv] show ?thesis by (simp add: whenE_def bindE_run(1))
  next
    case True
    obtain x where x: "deref (m_table s) a = Some x" using inv a marks_reset_deref by blast
    obtain q y w where y: "connect L (x, world s) = Some (q, y, w)"
      using totalD [OF total_connect] by (metis surj_pair)
    note c = connect_returns [OF y]
    let ?s = "s\<lparr>m_table := update_at a y (m_table s), world := w\<rparr>"
    have run: "with_session a (connect L) s = Some (Inr (), ?s)"
      using with_session_run [where m = "connect L", OF x y] c(1) by simp
    have "marks_reset addrs A (m_table ?s)"
      using marks_reset_update(1) [OF inv x, of y] c by simp
    from reset [OF this] True show ?thesis
      by (simp add: whenE_def bindE_Some(1) [where m = "with_session a (connect L)", OF run])
  qed
qed

lemma reset_all:
  assumes "marks_reset addrs A (m_table s)" "set as \<subseteq> set addrs"
  shows "\<exists>s'. for_each (\<lambda>a. bindE (whenE c (with_session a (connect L))) (\<lambda>_.
         with_session a (modifyE (\<lambda>(x, w). (resetClosing x, w))))) as s = Some (Inr (), s')
     \<and> marks_reset addrs (set as \<union> A) (m_table s')"
  using assms
proof (induction as arbitrary: s A)
  case Nil
  then show ?case by (auto simp: exec_run)
next
  case (Cons a as)
  let ?f = "\<lambda>a. bindE (whenE c (with_session a (connect L))) (\<lambda>_.
         with_session a (modifyE (\<lambda>(x, w). (resetClosing x, w))))"
  obtain s1 where s1: "?f a s = Some (Inr (), s1)" "marks_reset addrs (insert a A) (m_table s1)"
    using reset_one [OF Cons.prems(1)] Cons.prems(2) by force
  with Cons.IH [OF s1(2)] Cons.prems(2) show ?case
    by (simp add: bindE_Some(1) [where m = "?f a", OF s1(1)])
qed

lemma reconnect_sessions_result:
  assumes "table_safe (m_table s)"
  shows "\<exists>s'. reconnect_sessions L b s = Some (Inr (), s') \<and> table_safe (m_table s')
    \<and> (\<forall>x \<in> set (table_elems (m_table s')). \<not> cs_isClosing x)"
proof -
  let ?as = "map fst (m_sessions (m_table s))"
  have "marks_reset ?as {} (m_table s)" using assms by (simp add: marks_reset_def)
  from reset_all [OF this order_refl] obtain s'
    where run: "reconnect_sessions L b s = Some (Inr (), s')" and m: "marks_reset ?as (set ?as) (m_table s')"
    unfolding reconnect_sessions_def bindE_run(3) by fastforce
  have "\<not> cs_isClosing x" if x: "x \<in> set (table_elems (m_table s'))" for x
  proof -
    obtain a where a: "(a, x) \<in> set (m_sessions (m_table s'))" using x by (auto simp: table_elems_def)
    with m have "a \<in> set ?as" unfolding marks_reset_def by (metis fst_conv image_eqI list.set_map)
    moreover have "deref (m_table s') a = Some x"
      unfolding deref_def using a m by (intro map_of_is_SomeI table_safeD(1)) (simp_all add: marks_reset_def)
    ultimately show ?thesis using m unfolding marks_reset_def by fastforce
  qed
  with run m show ?thesis by (auto simp: marks_reset_def)
qed

text \<open>A callback made while the service may not call the cluster leaves the sessions alone.\<close>

lemma closeClientSession_guarded:
  "m_activeLifecycleCallbackName s = Some n \<Longrightarrow>
   closeClientSession L i s = Some (Inl (InvalidInvocationFrom n), s)"
  by (simp add: closeClientSession_def checkForValidInvocation_def bindE_def exec_run)

lemma preserves_pointers:
  "preserves P (getClientSession i)" "preserves P (session_at a)"
  by (auto simp: preserves_def getClientSession_def session_at_def derefE_def exec_run split: option.splits)

lemma guarded_callback_table:
  "preserves (\<lambda>s. m_activeLifecycleCallbackName s = Some n \<and> m_table s = T) (run_callback L c)"
proof (induction c)
  case (CloseClientSession i k)
  have "preserves (\<lambda>s. m_activeLifecycleCallbackName s = Some n \<and> m_table s = T) (closeClientSession L i)"
    by (auto simp: preserves_def closeClientSession_guarded)
  with CloseClientSession show ?case unfolding run_callback.simps by (intro preserves_rules) simp_all
next
  case (World u k)
  then show ?case unfolding run_callback.simps by (intro preserves_rules) simp_all
next
  case (GetClientSession i k)
  then show ?case
    unfolding run_callback.simps
    by (intro preserves_rules preserves_pointers) simp_all
qed (simp_all add: preserves_atoms)

lemma set_role_table: "set_role E r s = Some (q, s') \<Longrightarrow> m_table s' = m_table s"
proof (cases "r = m_role s")
  case True
  assume "set_role E r s = Some (q, s')"
  with True show ?thesis by (auto simp: set_role_def bindE_run(3) whenE_def exec_run)
next
  case False
  let ?s = "s\<lparr>m_role := r, m_activeLifecycleCallbackName := Some ''onRoleChange''\<rparr>"
  assume run: "set_role E r s = Some (q, s')"
  obtain p t where t: "run_callback E (svc_onRoleChange E r) ?s = Some (p, t)"
    using totalD [OF total_run_callback] by metis
  have "m_table t = m_table s" using preservesD [OF guarded_callback_table _ t] by simp
  with run t False show ?thesis
    by (cases p) (auto simp: set_role_def bindE_run(3,4) whenE_def catchE_def bindE_def exec_run)
qed

lemma set_role_result: "set_role E r s = Some (q, s') \<Longrightarrow> m_role s' = r"
proof (cases "r = m_role s")
  case True
  assume "set_role E r s = Some (q, s')"
  with True show ?thesis by (auto simp: set_role_def bindE_run(3) whenE_def exec_run)
next
  case False
  let ?s = "s\<lparr>m_role := r, m_activeLifecycleCallbackName := Some ''onRoleChange''\<rparr>"
  assume run: "set_role E r s = Some (q, s')"
  obtain p t where t: "run_callback E (svc_onRoleChange E r) ?s = Some (p, t)"
    using totalD [OF total_run_callback] by metis
  have "keeps m_role (run_callback E (svc_onRoleChange E r))" by (intro keeps_run_callback) simp_all
  from keepsD [OF this, OF t] have "m_role t = r" by simp
  with run t False show ?thesis
    by (cases p) (auto simp: set_role_def bindE_run(3,4) whenE_def catchE_def bindE_def exec_run)
qed

lemma event_get_Inr: "event_get f s = Some (Inr x, s') \<longleftrightarrow> (\<exists>e. m_activeLogEvent s = Some e \<and> x = f e \<and> s' = s)"
  by (auto simp: event_get_def bindE_run(3) bindE_eq_Some_Inr derefE_eq_Some_Inr exec_run)

lemma join_contiguous_Inr:
  "join_contiguous L img s = Some (Inr (), s') \<longleftrightarrow> s' = s \<and> image_joinPosition L img = m_logPosition s
     \<and> (\<exists>e. m_activeLogEvent s = Some e \<and> al_logPosition e = m_logPosition s)"
  by (auto simp: join_contiguous_def bindE_run(3) bindE_eq_Some_Inr event_get_Inr exec_run split: if_splits)

lemma joinActiveLog_True:
  assumes run: "joinActiveLog E s = Some (Inr True, s')" and ev: "m_activeLogEvent s = Some ev"
  shows "\<exists>img. image_joinPosition E img = m_logPosition s \<and> al_logPosition ev = m_logPosition s
    \<and> la_image s' = Some img \<and> la_maxLogPosition s' = al_maxLogPosition ev
    \<and> m_memberId s' = al_memberId ev \<and> m_role s' = al_role ev \<and> m_logPosition s' = m_logPosition s
    \<and> (al_role ev = LEADER \<longrightarrow> table_safe (m_table s) \<longrightarrow> (\<forall>x \<in> set (table_elems (m_table s')). \<not> cs_isClosing x))"
proof -
  obtain s1 s2 img e s3 where s1: "join_subscription E s = Some (Inr True, s1)"
    and s2: "join_image E s1 = Some (Inr True, s2)"
    and e: "m_activeLogEvent s2 = Some e" "al_image e = Some img"
    and c: "image_joinPosition E img = m_logPosition s2" "al_logPosition e = m_logPosition s2"
    and s3: "bindE (event_set (\<lambda>x. x\<lparr>al_subscription := None\<rparr>)) (\<lambda>_.
       bindE (ack E (NULL_VALUE E)) (\<lambda>_.
       bindE (modifyE (\<lambda>s. s\<lparr>m_memberId := al_memberId e\<rparr>)) (\<lambda>_.
       bindE (whenE (al_role e = LEADER) (reconnect_sessions E (al_isStartup e))) (\<lambda>_.
       bindE (set_role E (al_role e)) (\<lambda>_. retE True)))))
       (s2\<lparr>la_image := Some img, la_maxLogPosition := al_maxLogPosition e\<rparr>) = Some (Inr True, s')"
    using run unfolding joinActiveLog_def
    by (auto simp: bindE_eq_Some_Inr event_get_Inr derefE_eq_Some_Inr join_contiguous_Inr exec_run
      split: if_splits)
  have f: "join_frame s2 = join_frame s"
    using keepsD [OF keeps_join_frame(1) s1] keepsD [OF keeps_join_frame(2) s2] by simp
  then have fe: "m_logPosition s2 = m_logPosition s" "m_table s2 = m_table s" "al_logPosition e = al_logPosition ev"
    "al_maxLogPosition e = al_maxLogPosition ev" "al_memberId e = al_memberId ev" "al_role e = al_role ev"
    using ev e by (simp_all add: join_frame_def)
  from s3 obtain s4 s5 s6 where s4: "bindE (event_set (\<lambda>x. x\<lparr>al_subscription := None\<rparr>)) (\<lambda>_. ack E (NULL_VALUE E))
       (s2\<lparr>la_image := Some img, la_maxLogPosition := al_maxLogPosition e\<rparr>) = Some (Inr s5, s4)"
    and s6: "bindE (whenE (al_role e = LEADER) (reconnect_sessions E (al_isStartup e))) (\<lambda>_. set_role E (al_role e))
       (s4\<lparr>m_memberId := al_memberId e\<rparr>) = Some (Inr s6, s')"
    by (fastforce simp: bindE_eq_Some_Inr exec_run)
  have "keeps (\<lambda>s. (la_image s, la_maxLogPosition s, m_logPosition s, m_table s))
     (bindE (event_set (\<lambda>x. x\<lparr>al_subscription := None\<rparr>)) (\<lambda>_. ack E (NULL_VALUE E)))"
    by (intro keeps_rules) simp_all
  from keepsD [OF this, OF s4] have k4: "la_image s4 = Some img" "la_maxLogPosition s4 = al_maxLogPosition e"
    "m_logPosition s4 = m_logPosition s2" "m_table s4 = m_table s2" by simp_all
  have "keeps (\<lambda>s. (la_image s, la_maxLogPosition s, m_logPosition s, m_memberId s))
     (bindE (whenE (al_role e = LEADER) (reconnect_sessions E (al_isStartup e))) (\<lambda>_. set_role E (al_role e)))"
    by (intro keeps_rules) simp_all
  from keepsD [OF this, OF s6] have k6: "la_image s' = Some img" "la_maxLogPosition s' = al_maxLogPosition e"
    "m_logPosition s' = m_logPosition s2" "m_memberId s' = al_memberId e" using k4 by simp_all
  moreover have "m_role s' = al_role e"
    using s6 set_role_result by (auto simp: bindE_eq_Some_Inr)
  moreover have "\<forall>x \<in> set (table_elems (m_table s')). \<not> cs_isClosing x"
    if lead: "al_role e = LEADER" "table_safe (m_table s)"
  proof -
    let ?s = "s4\<lparr>m_memberId := al_memberId e\<rparr>"
    obtain t where t: "reconnect_sessions E (al_isStartup e) ?s = Some (Inr (), t)"
      "\<forall>x \<in> set (table_elems (m_table t)). \<not> cs_isClosing x"
      using reconnect_sessions_result [of ?s E "al_isStartup e"] lead k4 fe by auto
    with s6 lead have "set_role E (al_role e) t = Some (Inr s6, s')"
      by (simp add: whenE_def bindE_Some(1) [where m = "reconnect_sessions E (al_isStartup e)", OF t(1)])
    with t(2) show ?thesis by (simp add: set_role_table)
  qed
  ultimately show ?thesis using c fe by auto
qed

end
