(* ===== verification/SnapshotLoader.thy ===== *)
theory SnapshotLoader
  imports AgentLemmas Decoding
begin

text \<open>
  \<open>ServiceSnapshotLoader\<close>: replays a snapshot into the agent. It is a state machine over the
  markers of the snapshot; between them each session message adds a session to the agent.
\<close>

definition FRAGMENT_LIMIT :: int where "FRAGMENT_LIMIT = 10"

text \<open>\<open>m_appVersion\<close> has no initialiser, so a new loader has what the memory held.\<close>

record loader =
  ld_image :: image
  ld_inSnapshot :: bool
  ld_isDone :: bool
  ld_appVersion :: i32

definition new_loader :: "image \<Rightarrow> i32 \<Rightarrow> loader" where
  "new_loader img uninit =
     \<lparr>ld_image = img, ld_inSnapshot = False, ld_isDone = False, ld_appVersion = uninit\<rparr>"

text \<open>\<open>ClusteredServiceAgent::addSession\<close> with the data of a session: it does not look for the id.\<close>

definition addSession_data :: "('b, 'w, 'z) aeron_scheme \<Rightarrow> i64 \<Rightarrow> i32 \<Rightarrow> string \<Rightarrow> string \<Rightarrow>
    ('w sys, unit) exec" where
  "addSession_data L clusterSessionId responseStreamId responseChannel encodedPrincipal =
     bindE (getsE (\<lambda>s. uninit_bool L (Session_isClosing clusterSessionId) (world s))) (\<lambda>u.
     add_agent_session (new_session L clusterSessionId responseStreamId responseChannel encodedPrincipal u))"

text \<open>
  The two fields of variable length. Each is read by a constructor with two arguments that move
  or read the position of the same decoder, in the order the compiler picks.
\<close>

definition loader_responseChannel :: "('b, 'w, 'z) codecs_scheme \<Rightarrow> 'b flyweight \<Rightarrow>
    cluster_error + string \<times> 'b flyweight" where
  "loader_responseChannel L fw =
     (case ClientSession_responseChannel L fw of
        Inl e \<Rightarrow> Inl e
      | Inr (pointer, fw') \<Rightarrow>
          let len = ClientSession_responseChannelLength L (if arguments_right_to_left L then fw else fw')
          in Inr (buffer_bytes L (fw_buffer fw) pointer (pointer + len), fw'))"

definition principal_end :: "('b, 'w, 'z) codecs_scheme \<Rightarrow> 'b flyweight \<Rightarrow> cluster_error + int \<times> 'b flyweight" where
  "principal_end L fw =
     (case ClientSession_encodedPrincipal L fw of
        Inl e \<Rightarrow> Inl e
      | Inr (pointer, fw') \<Rightarrow>
          Inr (pointer + ClientSession_encodedPrincipalLength L
                 (if operands_right_to_left L then fw else fw'), fw'))"

definition loader_encodedPrincipal :: "('b, 'w, 'z) codecs_scheme \<Rightarrow> 'b flyweight \<Rightarrow>
    cluster_error + string \<times> 'b flyweight" where
  "loader_encodedPrincipal L fw =
    (let both =
       (if arguments_right_to_left L then
          (case principal_end L fw of
             Inl e \<Rightarrow> Inl e
           | Inr (to_ptr, fw1) \<Rightarrow>
               (case ClientSession_encodedPrincipal L fw1 of
                  Inl e \<Rightarrow> Inl e
                | Inr (from_ptr, fw2) \<Rightarrow> Inr (from_ptr, to_ptr, fw2)))
        else
          (case ClientSession_encodedPrincipal L fw of
             Inl e \<Rightarrow> Inl e
           | Inr (from_ptr, fw1) \<Rightarrow>
               (case principal_end L fw1 of
                  Inl e \<Rightarrow> Inl e
                | Inr (to_ptr, fw2) \<Rightarrow> Inr (from_ptr, to_ptr, fw2))))
     in case both of
          Inl e \<Rightarrow> Inl e
        | Inr (from_ptr, to_ptr, fw2) \<Rightarrow>
            if to_ptr < from_ptr then Inl StdLengthError
            else Inr (buffer_bytes L (fw_buffer fw) from_ptr to_ptr, fw2))"

definition loader_onMarker :: "snapshot_marker \<Rightarrow> (loader \<times> 'w sys, poll_action) exec" where
  "loader_onMarker snapshotMarker =
    (if sm_typeId snapshotMarker \<noteq> SNAPSHOT_TYPE_ID
     then throwE (UnexpectedSnapshotType (sm_typeId snapshotMarker))
     else
     bindE (getsE fst) (\<lambda>l.
     case sm_mark snapshotMarker of
       BEGIN \<Rightarrow>
         if ld_inSnapshot l then throwE AlreadyInSnapshot
         else bindE (modifyE (\<lambda>(l, s). (l\<lparr>ld_inSnapshot := True,
                       ld_appVersion := sm_appVersion snapshotMarker\<rparr>, s))) (\<lambda>_. retE CONTINUE)
     | END \<Rightarrow>
         if \<not> ld_inSnapshot l then throwE MissingBeginSnapshot
         else bindE (modifyE (\<lambda>(l, s). (l\<lparr>ld_isDone := True\<rparr>, s))) (\<lambda>_. retE BREAK)
     | SECTION \<Rightarrow> retE CONTINUE
     | MARK_NULL_VALUE \<Rightarrow> retE CONTINUE))"

definition loader_agent :: "('w sys, 'a) exec \<Rightarrow> (loader \<times> 'w sys, 'a) exec" where
  "loader_agent m = zoomE snd (\<lambda>s (l, _). (l, s)) m"

definition loader_onFragment :: "('b, 'w, 'z) codecs_scheme \<Rightarrow> 'b fragment \<Rightarrow>
    (loader \<times> 'w sys, poll_action) exec" where
  "loader_onFragment L f =
    (let buffer = frag_buffer f; offset = frag_offset f; len = frag_length f in
     bindE (message_header_of L buffer offset len) (\<lambda>msgHeader.
     let templateId = mh_templateId msgHeader in
     if SnapshotMarker_sbeTemplateId L = templateId then
       bindE (decode_at L (SnapshotMarker_wrap L) msgHeader buffer offset len) loader_onMarker
     else if ClientSession_sbeTemplateId L = templateId then
       bindE (decode_at L (ClientSession_wrap L) msgHeader buffer offset len) (\<lambda>(clusterSessionId, responseStreamId, fw).
       bindE (liftE (loader_responseChannel L fw)) (\<lambda>(responseChannel, fw1).
       bindE (liftE (loader_encodedPrincipal L fw1)) (\<lambda>(encodedPrincipal, fw2).
       bindE (loader_agent (addSession_data L clusterSessionId responseStreamId responseChannel
                encodedPrincipal)) (\<lambda>_.
       retE CONTINUE))))
     else retE CONTINUE))"

definition loader_poll :: "('b, 'w, 'z) codecs_scheme \<Rightarrow> (loader \<times> 'w sys, int) exec" where
  "loader_poll L =
     bindE (getsE fst) (\<lambda>l.
     pollE (loader_agent (world_call (image_controlledPoll L (ld_image l) FRAGMENT_LIMIT)))
       (\<lambda>k. loader_agent (world_call (poll_finish L k)))
       (\<lambda>k e. loader_agent (world_call (poll_on_throw L k e))) (loader_onFragment L))"

end
