(* ===== verification/Clean.thy ===== *)
theory Clean
  imports WorkLemmas SnapshotLoader
begin

text \<open>
  Runs without a null dereference. \<open>clean c P m\<close> says of a method \<open>m\<close> that it keeps the invariant
  \<open>P\<close> and, if \<open>c\<close> is set, never dereferences a null pointer; with \<open>c\<close> unset it is preservation
  alone. The rules below follow the structure of a method.
\<close>

definition is_null :: "cluster_error \<Rightarrow> bool" where
  "is_null e \<longleftrightarrow> (case e of NullDereference _ \<Rightarrow> True | _ \<Rightarrow> False)"

lemma is_null_simps [simp]: "is_null (NullDereference x)" "is_null e \<longleftrightarrow> (\<exists>x. e = NullDereference x)"
  by (auto simp: is_null_def split: cluster_error.splits)

declare is_null_simps(2) [simp del]

definition clean :: "bool \<Rightarrow> ('s \<Rightarrow> bool) \<Rightarrow> ('s, 'a) exec \<Rightarrow> bool" where
  "clean c P m \<longleftrightarrow> (\<forall>s r s'. P s \<longrightarrow> m s = Some (r, s') \<longrightarrow> P s' \<and> (\<forall>e. r = Inl e \<longrightarrow> c \<longrightarrow> \<not> is_null e))"

named_theorems clean_rules

lemma cleanI:
  "(\<And>s r s'. P s \<Longrightarrow> m s = Some (r, s') \<Longrightarrow> P s') \<Longrightarrow>
   (\<And>s e s'. c \<Longrightarrow> P s \<Longrightarrow> m s = Some (Inl e, s') \<Longrightarrow> \<not> is_null e) \<Longrightarrow> clean c P m"
  unfolding clean_def by blast

lemma cleanD:
  assumes "clean c P m" "P s" "m s = Some (r, s')"
  shows "P s'" "r = Inl e \<Longrightarrow> c \<Longrightarrow> \<not> is_null e"
  using assms unfolding clean_def by blast+

lemma clean_total: "preserves P m \<Longrightarrow> (\<And>s e s'. c \<Longrightarrow> P s \<Longrightarrow> m s = Some (Inl e, s') \<Longrightarrow> \<not> is_null e) \<Longrightarrow> clean c P m"
  by (intro cleanI) (auto simp: preserves_def)

lemma clean_atoms [clean_rules]:
  "clean c P (retE x)" "clean c P (getsE g)"
  "(c \<Longrightarrow> \<not> is_null e) \<Longrightarrow> clean c P (throwE e)"
  "(\<And>s. P s \<Longrightarrow> P (k s)) \<Longrightarrow> clean c P (modifyE k)"
  "(\<And>e. c \<Longrightarrow> r = Inl e \<Longrightarrow> \<not> is_null e) \<Longrightarrow> clean c P (liftE r)"
  by (auto simp: clean_def exec_run)

lemma clean_bindE [clean_rules]:
  assumes m: "clean c P m" and h: "\<And>x. clean c P (h x)"
  shows "clean c P (bindE m h)"
proof (rule cleanI)
  fix s r s' assume P: "P s" and "bindE m h s = Some (r, s')"
  then consider x t where "m s = Some (Inr x, t)" "h x t = Some (r, s')" | e where "m s = Some (Inl e, s')"
    by (auto simp: bindE_eq_Some)
  then show "P s'" by cases (meson P m h cleanD(1))+
next
  fix s e s' assume c: c and P: "P s" and "bindE m h s = Some (Inl e, s')"
  then consider x t where "m s = Some (Inr x, t)" "h x t = Some (Inl e, s')" | "m s = Some (Inl e, s')"
    by (auto simp: bindE_eq_Some)
  then show "\<not> is_null e" by cases (meson P c m h cleanD)+
qed

text \<open>What is read from the state is known to come from a state with the invariant.\<close>

lemma clean_gets_bind:
  assumes "\<And>s. P s \<Longrightarrow> clean c P (h (f s))"
  shows "clean c P (bindE (getsE f) h)"
  using assms unfolding clean_def bindE_run(3) by blast

text \<open>A step whose result says something about the state it leaves.\<close>

lemma clean_bind_post:
  assumes m: "clean c P m" and post: "\<And>s x s'. P s \<Longrightarrow> m s = Some (Inr x, s') \<Longrightarrow> R x s'"
    and h: "\<And>x. clean c (\<lambda>s. P s \<and> R x s) (h x)"
  shows "clean c P (bindE m h)"
proof (rule cleanI)
  fix s r s' assume P: "P s" and "bindE m h s = Some (r, s')"
  then consider x t where "m s = Some (Inr x, t)" "h x t = Some (r, s')" | e where "m s = Some (Inl e, s')"
    by (auto simp: bindE_eq_Some)
  then show "P s'"
  proof cases
    case 1
    with P m post have "P t \<and> R x t" by (meson cleanD(1))
    from cleanD(1) [OF h this 1(2)] show ?thesis by blast
  qed (meson P m cleanD(1))
next
  fix s e s' assume c: c and P: "P s" and "bindE m h s = Some (Inl e, s')"
  then consider x t where "m s = Some (Inr x, t)" "h x t = Some (Inl e, s')" | "m s = Some (Inl e, s')"
    by (auto simp: bindE_eq_Some)
  then show "\<not> is_null e"
  proof cases
    case 1
    with P m post have "P t \<and> R x t" by (meson cleanD(1))
    from cleanD(2) [OF h this 1(2) refl c] show ?thesis .
  qed (meson P c m cleanD(2))
qed

lemma clean_weaken: "clean c P m \<Longrightarrow> (\<And>s. Q s = P s) \<Longrightarrow> clean c Q m"
  unfolding clean_def by simp

text \<open>Starting where \<open>J\<close> holds, ending where \<open>R\<close> does: the invariant may be given up on the way.\<close>

definition leads :: "bool \<Rightarrow> ('s \<Rightarrow> bool) \<Rightarrow> ('s \<Rightarrow> bool) \<Rightarrow> ('s, 'a) exec \<Rightarrow> bool" where
  "leads c J R m \<longleftrightarrow> (\<forall>s r s'. J s \<longrightarrow> m s = Some (r, s') \<longrightarrow> R s' \<and> (\<forall>e. r = Inl e \<longrightarrow> c \<longrightarrow> \<not> is_null e))"

lemma leads_clean: "clean c J m \<Longrightarrow> (\<And>s. J s \<Longrightarrow> R s) \<Longrightarrow> leads c J R m"
  unfolding leads_def clean_def by blast

lemma leadsD:
  assumes "leads c J R m" "J s" "m s = Some (r, s')"
  shows "R s'" "r = Inl e \<Longrightarrow> c \<Longrightarrow> \<not> is_null e"
  using assms unfolding leads_def by blast+

lemma leads_bind:
  assumes m: "clean c J m" and post: "\<And>s x s'. J s \<Longrightarrow> m s = Some (Inr x, s') \<Longrightarrow> Q x s'"
    and h: "\<And>x. leads c (Q x) R (h x)" and R: "\<And>s. J s \<Longrightarrow> R s"
  shows "leads c J R (bindE m h)"
  unfolding leads_def
proof (intro allI impI)
  fix s r s' assume J: "J s" and "bindE m h s = Some (r, s')"
  then consider (go) x t where "m s = Some (Inr x, t)" "h x t = Some (r, s')"
    | (stop) e where "m s = Some (Inl e, s')" "r = Inl e"
    by (auto simp: bindE_eq_Some)
  then show "R s' \<and> (\<forall>e. r = Inl e \<longrightarrow> c \<longrightarrow> \<not> is_null e)"
  proof cases
    case go
    from leadsD [OF h post [OF J go(1)] go(2)] show ?thesis by blast
  next
    case stop
    from cleanD [OF m J stop(1)] stop(2) R show ?thesis by blast
  qed
qed

lemma leads_next:
  "clean c J m \<Longrightarrow> (\<And>x. leads c J R (h x)) \<Longrightarrow> (\<And>s. J s \<Longrightarrow> R s) \<Longrightarrow> leads c J R (bindE m h)"
  by (rule leads_bind [where Q = "\<lambda>_. J"]) (auto dest: cleanD(1))

lemma leads_trans:
  assumes m: "leads c J K m" and h: "\<And>x. leads c K R (h x)" and R: "\<And>s. K s \<Longrightarrow> R s"
  shows "leads c J R (bindE m h)"
  unfolding leads_def
proof (intro allI impI)
  fix s r s' assume J: "J s" and "bindE m h s = Some (r, s')"
  then consider (go) x t where "m s = Some (Inr x, t)" "h x t = Some (r, s')"
    | (stop) e where "m s = Some (Inl e, s')" "r = Inl e"
    by (auto simp: bindE_eq_Some)
  then show "R s' \<and> (\<forall>e. r = Inl e \<longrightarrow> c \<longrightarrow> \<not> is_null e)"
  proof cases
    case go
    from leadsD [OF h leadsD(1) [OF m J go(1)] go(2)] show ?thesis by blast
  next
    case stop
    from leadsD [OF m J stop(1)] stop(2) R show ?thesis by blast
  qed
qed

lemma leads_then: "leads c J R m \<Longrightarrow> (\<And>x. clean c R (h x)) \<Longrightarrow> leads c J R (bindE m h)"
  by (rule leads_trans [where K = R]) (simp_all add: leads_clean)

lemma leads_when: "leads c J R m \<Longrightarrow> (\<And>s. J s \<Longrightarrow> R s) \<Longrightarrow> leads c J R (whenE b m)"
  by (auto simp: leads_def whenE_def exec_run)

lemma leads_gets: "(\<And>s. J s \<Longrightarrow> leads c J R (h (f s))) \<Longrightarrow> leads c J R (bindE (getsE f) h)"
  unfolding leads_def bindE_run(3) by blast

text \<open>Going on from the very state that was read.\<close>

lemma clean_read:
  assumes "\<And>s. P s \<Longrightarrow> leads c (\<lambda>t. t = s) P (h (f s))"
  shows "clean c P (bindE (getsE f) h)"
  using assms unfolding clean_def leads_def bindE_run(3) by blast

lemma leads_from: "leads c Q R m \<Longrightarrow> Q s \<Longrightarrow> leads c (\<lambda>t. t = s) R m"
  unfolding leads_def by blast

lemma clean_read_when:
  assumes "\<And>s. P s \<Longrightarrow> b (f s) \<Longrightarrow> Q s" "\<And>x. clean c Q (h x)" "\<And>s. Q s \<Longrightarrow> P s"
  shows "clean c P (bindE (getsE f) (\<lambda>x. whenE (b x) (h x)))"
proof (rule clean_read)
  fix s assume P: "P s"
  show "leads c (\<lambda>t. t = s) P (whenE (b (f s)) (h (f s)))"
  proof (cases "b (f s)")
    case True
    from leads_from [OF leads_clean [OF assms(2,3)] assms(1) [OF P True]] True
    show ?thesis by (simp add: whenE_def)
  next
    case False
    with P show ?thesis by (simp add: whenE_def leads_def exec_run)
  qed
qed

text \<open>A fact about the state that the method does not touch can be added to the invariant.\<close>

lemma clean_frame:
  assumes "clean c P m" "keeps f m"
  shows "clean c (\<lambda>s. P s \<and> F (f s)) m"
  using assms unfolding clean_def keeps_def by fastforce

lemma clean_attemptE [clean_rules]:
  assumes m: "clean c P m" and k: "\<And>x. clean c P (k (Inr x))" "\<And>e. (c \<Longrightarrow> \<not> is_null e) \<Longrightarrow> clean c P (k (Inl e))"
  shows "clean c P (attemptE m k)"
proof -
  have step: "P t \<and> clean c P (k q)" if s: "P s" "m s = Some (q, t)" for s q t
  proof (cases q)
    case (Inl e)
    with cleanD [OF m s] k(2) [of e] show ?thesis by simp
  next
    case (Inr x)
    with cleanD(1) [OF m s] k(1) show ?thesis by simp
  qed
  show ?thesis
  proof (rule cleanI)
    fix s r s' assume P: "P s" and "attemptE m k s = Some (r, s')"
    then obtain q t where q: "m s = Some (q, t)" "k q t = Some (r, s')" by (auto simp: attemptE_eq_Some)
    with step [OF P q(1)] show "P s'" by (metis cleanD(1))
  next
    fix s e s' assume c: c and P: "P s" and "attemptE m k s = Some (Inl e, s')"
    then obtain q t where q: "m s = Some (q, t)" "k q t = Some (Inl e, s')" by (auto simp: attemptE_eq_Some)
    from step [OF P q(1)] have "P t" "clean c P (k q)" by auto
    from cleanD(2) [OF this(2,1) q(2) refl c] show "\<not> is_null e" .
  qed
qed

lemma clean_catchE [clean_rules]:
  assumes "clean c P m" "\<And>e. (c \<Longrightarrow> \<not> is_null e) \<Longrightarrow> clean c P (h e)"
  shows "clean c P (catchE m h)"
proof -
  have "catchE m h = attemptE m (\<lambda>r. case r of Inl e \<Rightarrow> h e | Inr x \<Rightarrow> retE x)"
    by (auto simp: catchE_def attemptE_def exec_run fun_eq_iff split: option.split sum.split)
  with assms show ?thesis by (auto intro!: clean_attemptE clean_atoms)
qed

lemma clean_cases [clean_rules]:
  "(b \<Longrightarrow> clean c P m) \<Longrightarrow> (\<not> b \<Longrightarrow> clean c P n) \<Longrightarrow> clean c P (if b then m else n)"
  "(p = None \<Longrightarrow> clean c P n') \<Longrightarrow> (\<And>x. p = Some x \<Longrightarrow> clean c P (k x)) \<Longrightarrow>
     clean c P (case p of None \<Rightarrow> n' | Some x \<Rightarrow> k x)"
  "(\<And>a b. q = (a, b) \<Longrightarrow> clean c P (g a b)) \<Longrightarrow> clean c P (case q of (a, b) \<Rightarrow> g a b)"
  "(\<And>e. r = Inl e \<Longrightarrow> clean c P (u e)) \<Longrightarrow> (\<And>x. r = Inr x \<Longrightarrow> clean c P (v x)) \<Longrightarrow>
     clean c P (case r of Inl e \<Rightarrow> u e | Inr x \<Rightarrow> v x)"
  by (auto split: option.splits prod.splits sum.splits)

lemma clean_whenE [clean_rules]: "(b \<Longrightarrow> clean c P m) \<Longrightarrow> clean c P (whenE b m)"
  by (auto simp: whenE_def intro: clean_atoms)

lemma clean_derefE [clean_rules]: "(c \<Longrightarrow> p \<noteq> None) \<Longrightarrow> clean c P (derefE what p)"
  by (cases p) (auto simp: clean_def derefE_def exec_run)

lemma clean_for_each [clean_rules]: "(\<And>x. clean c P (h x)) \<Longrightarrow> clean c P (for_each h xs)"
  by (induction xs) (auto intro!: clean_rules)

lemma clean_zoom_inv:
  assumes "\<And>s. P s \<Longrightarrow> Q (get s)" "\<And>t s. P s \<Longrightarrow> Q t \<Longrightarrow> P (put t s)" "clean c Q m"
  shows "clean c P (zoomE get put m)"
proof -
  have step: "Q t \<and> (\<forall>e. r = Inl e \<longrightarrow> c \<longrightarrow> \<not> is_null e)" if "P s" "m (get s) = Some (r, t)" for s r t
    using cleanD [OF assms(3) assms(1) that(2)] that(1) by blast
  show ?thesis
    unfolding clean_def zoomE_eq_Some using step assms(2) by blast
qed

lemma clean_zoomE:
  "(\<And>t s. P s \<Longrightarrow> P (put t s)) \<Longrightarrow> clean c (\<lambda>_. True) m \<Longrightarrow> clean c P (zoomE get put m)"
  by (rule clean_zoom_inv [where Q = "\<lambda>_. True"]) simp_all

lemma clean_deliver [clean_rules]:
  assumes "\<And>x. clean c P (h x)" "\<And>k. clean c P (finish k)" "\<And>k e. (c \<Longrightarrow> \<not> is_null e) \<Longrightarrow> clean c P (on_throw k e)"
  shows "clean c P (deliver h finish on_throw k fs)"
  by (induction fs arbitrary: k) (unfold deliver.simps sum.case, (intro clean_attemptE clean_cases assms | simp add: assms)+)

lemma clean_pollE [clean_rules]:
  assumes "clean c P poll" "\<And>x. clean c P (h x)" "\<And>k. clean c P (finish k)"
    "\<And>k e. (c \<Longrightarrow> \<not> is_null e) \<Longrightarrow> clean c P (on_throw k e)"
  shows "clean c P (pollE poll finish on_throw h)"
  unfolding pollE_def by (intro clean_bindE clean_deliver assms)

section \<open>Well-behaved surroundings\<close>

text \<open>A call of a library, a decoder and a callback that do not dereference null pointers themselves.\<close>

definition tame :: "('w, 'a) call \<Rightarrow> bool" where
  "tame f \<longleftrightarrow> (\<forall>w e w'. f w = (Inl e, w') \<longrightarrow> \<not> is_null e)"

definition tame_decoder :: "('b, 'm) decoder \<Rightarrow> bool" where
  "tame_decoder d \<longleftrightarrow> (\<forall>b i j n l v e. d b i j n l v = Inl e \<longrightarrow> \<not> is_null e)"

primrec tame_callback :: "('r, 'w) callback \<Rightarrow> bool" where
  "tame_callback (Return r) \<longleftrightarrow> True"
| "tame_callback (Raise e) \<longleftrightarrow> \<not> is_null e"
| "tame_callback (World u k) \<longleftrightarrow> (\<forall>w. tame_callback (k w))"
| "tame_callback (GetClientSession i k) \<longleftrightarrow> (\<forall>x. tame_callback (k x))"
| "tame_callback (CloseClientSession i k) \<longleftrightarrow> (\<forall>r. (\<forall>e. r = Inl e \<longrightarrow> \<not> is_null e) \<longrightarrow> tame_callback (k r))"

definition tame_env :: "('b, 'w, 'z) env_scheme \<Rightarrow> bool" where
  "tame_env E \<longleftrightarrow>
     (\<forall>x i. tame (aeron_addExclusivePublication E x i)) \<and> (\<forall>x i. tame (aeron_addPublication E x i))
   \<and> (\<forall>x i. tame (aeron_addSubscription E x i)) \<and> (\<forall>i. tame (aeron_findExclusivePublication E i))
   \<and> (\<forall>i. tame (aeron_findSubscription E i)) \<and> tame (aeron_countersReader E)
   \<and> (\<forall>i. tame (aeron_getCounterValue E i)) \<and> tame (aeron_isClosed E) \<and> tame (aeron_usesAgentInvoker E)
   \<and> tame (aeron_invoke E) \<and> tame (aeron_clientId E) \<and> (\<forall>p. tame (pub_isConnected E p))
   \<and> (\<forall>p n. tame (pub_tryClaim E p n)) \<and> (\<forall>p b. tame (pub_offer E p b)) \<and> (\<forall>p. tame (pub_position E p))
   \<and> (\<forall>p. tame (pub_close E p)) \<and> (\<forall>x q. tame (claim_write E x q)) \<and> (\<forall>x. tame (claim_commit E x))
   \<and> (\<forall>q n. tame (sub_poll E q n)) \<and> (\<forall>q i. tame (sub_imageBySessionId E q i)) \<and> (\<forall>i. tame (image_position E i))
   \<and> (\<forall>i. tame (image_isEndOfStream E i)) \<and> (\<forall>i. tame (image_isClosed E i)) \<and> (\<forall>i. tame (image_close E i))
   \<and> (\<forall>i n. tame (image_controlledPoll E i n)) \<and> (\<forall>i l n. tame (image_boundedControlledPoll E i l n))
   \<and> (\<forall>k. tame (poll_finish E k)) \<and> (\<forall>k e. \<not> is_null e \<longrightarrow> tame (poll_on_throw E k e))
   \<and> (\<forall>x. tame (commit_get E x)) \<and> (\<forall>x. tame (commit_isClosed E x)) \<and> tame (archive_connect_poll E)
   \<and> (\<forall>a i j k x n. tame (archive_startReplay E a i j k x n)) \<and> (\<forall>a x n l b. tame (archive_startRecording E a x n l b))
   \<and> (\<forall>a. tame (archive_checkForErrorResponse E a)) \<and> (\<forall>i. tame (RecordingPos_findCounterIdBySessionId E i))
   \<and> (\<forall>i. tame (RecordingPos_getRecordingId E i)) \<and> (\<forall>x i. tame (ChannelUri_addSessionId E x i))
   \<and> (\<forall>x y. tame (ChannelUri_withAlias E x y)) \<and> tame (idle_idle E) \<and> tame (systemNanoClock E)
   \<and> tame (currentTimeMillis E) \<and> tame (builder_reset E) \<and> (\<forall>f. tame (builder_append E f))
   \<and> tame (builder_nextTermOffset E) \<and> (\<forall>i. tame (builder_setNextTermOffset E i)) \<and> tame (builder_limit E)
   \<and> (\<forall>i. tame (builder_setLimit E i)) \<and> tame (builder_buffer E)
   \<and> (\<forall>b i n v e. MessageHeader_wrap E b i n v = Inl e \<longrightarrow> \<not> is_null e)
   \<and> tame_decoder (SessionMessageHeader_wrap E) \<and> tame_decoder (TimerEvent_wrap E)
   \<and> tame_decoder (SessionOpenEvent_wrap E) \<and> tame_decoder (SessionCloseEvent_wrap E)
   \<and> tame_decoder (ClusterActionRequest_wrap E) \<and> tame_decoder (NewLeadershipTermEvent_wrap E)
   \<and> tame_decoder (MembershipChangeEvent_wrap E) \<and> tame_decoder (JoinLog_wrap E)
   \<and> tame_decoder (ServiceTerminationPosition_wrap E) \<and> tame_decoder (RequestServiceAck_wrap E)
   \<and> tame_decoder (SnapshotMarker_wrap E) \<and> tame_decoder (ClientSession_wrap E)
   \<and> (\<forall>n x e. SnapshotMarker_encode E n x = Inl e \<longrightarrow> \<not> is_null e)
   \<and> (\<forall>n x e. ClientSession_encode E n x = Inl e \<longrightarrow> \<not> is_null e)
   \<and> (\<forall>fw e. ClientSession_responseChannel E fw = Inl e \<longrightarrow> \<not> is_null e)
   \<and> (\<forall>fw e. ClientSession_encodedPrincipal E fw = Inl e \<longrightarrow> \<not> is_null e)
   \<and> (\<forall>i. tame_callback (svc_onStart E i)) \<and> (\<forall>x t. tame_callback (svc_onSessionOpen E x t))
   \<and> (\<forall>x t r. tame_callback (svc_onSessionClose E x t r))
   \<and> (\<forall>x t b i n h. tame_callback (svc_onSessionMessage E x t b i n h))
   \<and> (\<forall>i t. tame_callback (svc_onTimerEvent E i t)) \<and> (\<forall>p. tame_callback (svc_onTakeSnapshot E p))
   \<and> (\<forall>r. tame_callback (svc_onRoleChange E r))
   \<and> (\<forall>a b t d e f g. tame_callback (svc_onNewLeadershipTermEvent E a b t d e f g))"

lemma tame_envD:
  assumes "tame_env E"
  shows "tame (aeron_addExclusivePublication E x i)" "tame (aeron_addPublication E x i)"
    "tame (aeron_addSubscription E x i)" "tame (aeron_findExclusivePublication E j)"
    "tame (aeron_findSubscription E j)" "tame (aeron_countersReader E)" "tame (aeron_getCounterValue E i)"
    "tame (aeron_isClosed E)" "tame (aeron_usesAgentInvoker E)" "tame (aeron_invoke E)" "tame (aeron_clientId E)"
    "tame (pub_isConnected E p)" "tame (pub_tryClaim E p n)" "tame (pub_offer E p b)" "tame (pub_position E p)"
    "tame (pub_close E p)" "tame (claim_write E k q)" "tame (claim_commit E k)" "tame (sub_poll E k n)"
    "tame (sub_imageBySessionId E k i)" "tame (image_position E k)" "tame (image_isEndOfStream E k)"
    "tame (image_isClosed E k)" "tame (image_close E k)" "tame (image_controlledPoll E k n)"
    "tame (image_boundedControlledPoll E k j n)" "tame (poll_finish E k)"
    "\<not> is_null e \<Longrightarrow> tame (poll_on_throw E k e)" "tame (commit_get E ct)" "tame (commit_isClosed E ct)"
    "tame (archive_connect_poll E)" "tame (archive_startReplay E k j l m x i)"
    "tame (archive_startRecording E k x i l bo)" "tame (archive_checkForErrorResponse E k)"
    "tame (RecordingPos_findCounterIdBySessionId E i)" "tame (RecordingPos_getRecordingId E i)"
    "tame (ChannelUri_addSessionId E x j)" "tame (ChannelUri_withAlias E x y)" "tame (idle_idle E)"
    "tame (systemNanoClock E)" "tame (currentTimeMillis E)" "tame (builder_reset E)" "tame (builder_append E f)"
    "tame (builder_nextTermOffset E)" "tame (builder_setNextTermOffset E l)" "tame (builder_limit E)"
    "tame (builder_setLimit E l)" "tame (builder_buffer E)"
  using assms by (simp_all add: tame_env_def)

lemma tame_decodersD:
  assumes "tame_env E"
  shows "tame_decoder (SessionMessageHeader_wrap E)" "tame_decoder (TimerEvent_wrap E)"
    "tame_decoder (SessionOpenEvent_wrap E)" "tame_decoder (SessionCloseEvent_wrap E)"
    "tame_decoder (ClusterActionRequest_wrap E)" "tame_decoder (NewLeadershipTermEvent_wrap E)"
    "tame_decoder (MembershipChangeEvent_wrap E)" "tame_decoder (JoinLog_wrap E)"
    "tame_decoder (ServiceTerminationPosition_wrap E)" "tame_decoder (RequestServiceAck_wrap E)"
    "tame_decoder (SnapshotMarker_wrap E)" "tame_decoder (ClientSession_wrap E)"
  using assms by (simp_all add: tame_env_def)

lemma tame_codecsD:
  assumes "tame_env E"
  shows "MessageHeader_wrap E b i n v = Inl e \<Longrightarrow> \<not> is_null e" "SnapshotMarker_encode E n x = Inl e \<Longrightarrow> \<not> is_null e"
    "ClientSession_encode E n y = Inl e \<Longrightarrow> \<not> is_null e" "ClientSession_responseChannel E fw = Inl e \<Longrightarrow> \<not> is_null e"
    "ClientSession_encodedPrincipal E fw = Inl e \<Longrightarrow> \<not> is_null e"
  using assms by (simp_all add: tame_env_def)

lemma tame_callbacksD:
  assumes "tame_env E"
  shows "tame_callback (svc_onStart E k)" "tame_callback (svc_onSessionOpen E x t)"
    "tame_callback (svc_onSessionClose E x t r)" "tame_callback (svc_onSessionMessage E x t b i n h)"
    "tame_callback (svc_onTimerEvent E i t)" "tame_callback (svc_onTakeSnapshot E p)"
    "tame_callback (svc_onRoleChange E q)" "tame_callback (svc_onNewLeadershipTermEvent E a j t d u v w)"
  using assms by (simp_all add: tame_env_def)

lemma clean_callE: "(c \<Longrightarrow> tame f) \<Longrightarrow> clean c (\<lambda>_. True) (callE f)"
  by (auto simp: clean_def tame_def exec_run)

end
