(* ===== verification/LogEvents.thy ===== *)
theory LogEvents
  imports LogAdapter
begin

text \<open>
  The log as a sequence of events. A message of the log decodes to an event and is handled by
  the agent; the abstract state of a replica (\<open>cluster_view\<close>: the sessions as a map, the log
  position, the cluster time and the leadership term) is changed by the event alone, whatever
  the service does in its callbacks and whether the handler returns or throws.
\<close>

section \<open>Events\<close>

datatype 'b log_event =
    SessionMessage i64 i64 i64 'b int int frag_header
  | TimerExpired i64 i64 i64
  | SessionOpened i64 i64 i64 i64 i32 string string
  | SessionClosed i64 i64 i64 i64 i32
  | ServiceAction i64 i64 i64 cluster_action i32
  | NewLeadershipTerm i64 i64 i64 i64 i32 i32 i32
  | MembershipChange i64 i64 change_type i32
  | Unhandled

fun handle_event :: "('b, 'w, 'z) env_scheme \<Rightarrow> 'b log_event \<Rightarrow> ('w sys, unit) exec" where
  "handle_event E (SessionMessage p i t b n l h) = onSessionMessage E p i t b n l h"
| "handle_event E (TimerExpired p i t) = onTimerEvent E p i t"
| "handle_event E (SessionOpened termId p i t stream channel encPrincipal) =
     onSessionOpen E termId p i t stream channel encPrincipal"
| "handle_event E (SessionClosed termId p i t reason) = onSessionClose E termId p i t reason"
| "handle_event E (ServiceAction termId p t action flags) = onServiceAction E termId p t action flags"
| "handle_event E (NewLeadershipTerm termId p t base leader session version) =
     onNewLeadershipTermEvent E termId p t base leader session version"
| "handle_event E (MembershipChange p t change member) = onMembershipChange p t change member"
| "handle_event E Unhandled = retE ()"

text \<open>What a message of the log decodes to.\<close>

definition decode_message :: "('b, 'w, 'z) codecs_scheme \<Rightarrow> ('b, 'm) decoder \<Rightarrow> message_header \<Rightarrow> 'b \<Rightarrow>
    int \<Rightarrow> int \<Rightarrow> ('m \<Rightarrow> 'b log_event) \<Rightarrow> cluster_error + 'b log_event" where
  "decode_message E wrap msgHeader buffer offset len f =
     map_sum id f (wrap buffer (offset + MessageHeader_encodedLength E) 0 (rest_length E len)
       (mh_blockLength msgHeader) (mh_version msgHeader))"

definition decode_event :: "('b, 'w, 'z) codecs_scheme \<Rightarrow> 'b \<Rightarrow> int \<Rightarrow> int \<Rightarrow> frag_header \<Rightarrow>
    cluster_error + 'b log_event" where
  "decode_event E buffer offset len header =
    (case MessageHeader_wrap E buffer offset (to_u64 len) (MessageHeader_sbeSchemaVersion E) of
       Inl e \<Rightarrow> Inl e
     | Inr msgHeader \<Rightarrow>
       let templateId = mh_templateId msgHeader; p = fh_position header in
       if mh_schemaId msgHeader \<noteq> MessageHeader_sbeSchemaId E
       then Inl (UnexpectedSchemaId (MessageHeader_sbeSchemaId E) (mh_schemaId msgHeader))
       else if templateId = SessionMessageHeader_sbeTemplateId E then
         decode_message E (SessionMessageHeader_wrap E) msgHeader buffer offset len
           (\<lambda>m. SessionMessage p (smh_clusterSessionId m) (smh_timestamp m) buffer
              (offset + SessionMessageHeader_sbeBlockAndHeaderLength E)
              (len - SessionMessageHeader_sbeBlockAndHeaderLength E) header)
       else if templateId = TimerEvent_sbeTemplateId E then
         decode_message E (TimerEvent_wrap E) msgHeader buffer offset len
           (\<lambda>m. TimerExpired p (te_correlationId m) (te_timestamp m))
       else if templateId = SessionOpenEvent_sbeTemplateId E then
         decode_message E (SessionOpenEvent_wrap E) msgHeader buffer offset len
           (\<lambda>m. SessionOpened (so_leadershipTermId m) p (so_clusterSessionId m) (so_timestamp m)
              (so_responseStreamId m) (c_string (so_responseChannel m))
              (replicate (so_encodedPrincipalLength m) (CHR 0x00)))
       else if templateId = SessionCloseEvent_sbeTemplateId E then
         decode_message E (SessionCloseEvent_wrap E) msgHeader buffer offset len
           (\<lambda>m. SessionClosed (sc_leadershipTermId m) p (sc_clusterSessionId m) (sc_timestamp m)
              (sc_closeReason m))
       else if templateId = ClusterActionRequest_sbeTemplateId E then
         decode_message E (ClusterActionRequest_wrap E) msgHeader buffer offset len
           (\<lambda>m. ServiceAction (ca_leadershipTermId m) (ca_logPosition m) (ca_timestamp m) (ca_action m)
              CLUSTER_ACTION_FLAGS_DEFAULT)
       else if templateId = NewLeadershipTermEvent_sbeTemplateId E then
         decode_message E (NewLeadershipTermEvent_wrap E) msgHeader buffer offset len
           (\<lambda>m. NewLeadershipTerm (nl_leadershipTermId m) (nl_logPosition m) (nl_timestamp m)
              (nl_termBaseLogPosition m) (nl_leaderMemberId m) (nl_logSessionId m) (nl_appVersion m))
       else if templateId = MembershipChangeEvent_sbeTemplateId E then
         decode_message E (MembershipChangeEvent_wrap E) msgHeader buffer offset len
           (\<lambda>m. MembershipChange (mc_logPosition m) (mc_timestamp m) (mc_changeType m) (mc_memberId m))
       else Inr Unhandled)"

text \<open>The dispatch of the log adapter is decoding followed by handling.\<close>

lemma decode_handle:
  "bindE (decode_at E wrap msgHeader buffer offset len) (\<lambda>m. bindE (handle_event E (f m)) (\<lambda>_. retE CONTINUE))
   = bindE (liftE (decode_message E wrap msgHeader buffer offset len f)) (\<lambda>ev.
       bindE (handle_event E ev) (\<lambda>_. retE CONTINUE))"
  by (rule ext) (auto simp: decode_at_def decode_message_def bindE_def exec_run split: sum.splits)

lemma bindE_liftE [exec_simps]:
  "bindE (liftE (Inr x)) f = f x" "bindE (liftE (Inl e)) f = throwE e"
  by (auto simp: bindE_def exec_run fun_eq_iff)

lemma log_onMessage_eq:
  "log_onMessage E buffer offset len header =
     bindE (liftE (decode_event E buffer offset len header)) (\<lambda>ev.
       bindE (handle_event E ev) (\<lambda>_. retE CONTINUE))"
proof (cases "MessageHeader_wrap E buffer offset (to_u64 len) (MessageHeader_sbeSchemaVersion E)")
  case (Inl e)
  then show ?thesis
    by (simp add: log_onMessage_def message_header_of_bad decode_event_def exec_simps)
next
  case (Inr h)
  show ?thesis
  proof (cases "mh_schemaId h = MessageHeader_sbeSchemaId E")
    case False
    with Inr show ?thesis
      by (simp add: log_onMessage_def message_header_of_bad(2) [OF Inr] decode_event_def exec_simps Let_def)
  next
    case True
    have header: "message_header_of E buffer offset len = retE h"
      by (rule message_header_of_is) (simp add: header_is_def Inr True)
    have lift_if: "bindE (liftE (if b then x else y)) k = (if b then bindE (liftE x) k else bindE (liftE y) k)"
      for b and x y :: "cluster_error + 'b log_event" and k :: "'b log_event \<Rightarrow> ('w sys, poll_action) exec"
      by simp
    show ?thesis
      unfolding log_onMessage_def decode_event_def Inr header bindE_run(1) Let_def sum.case
      unfolding handle_event.simps(1-7) [of E, symmetric] decode_handle
      unfolding lift_if bindE_liftE handle_event.simps(8) bindE_run(1)
      using True by simp
  qed
qed

section \<open>Abstract state\<close>

record cluster_view =
  cv_sessions :: "i64 \<rightharpoonup> i64 \<times> i32 \<times> string \<times> string"
  cv_logPosition :: i64
  cv_clusterTime :: i64
  cv_leadershipTermId :: i64

definition view_of :: "'w sys \<Rightarrow> cluster_view" where
  "view_of s = \<lparr> cv_sessions = table_views (m_table s), cv_logPosition = m_logPosition s,
     cv_clusterTime = m_clusterTime s, cv_leadershipTermId = m_leadershipTermId s \<rparr>"

definition advance :: "i64 \<Rightarrow> i64 \<Rightarrow> cluster_view \<Rightarrow> cluster_view" where
  "advance p t v = v\<lparr>cv_logPosition := p, cv_clusterTime := t\<rparr>"

text \<open>The specification: an open adds a session unless its id is taken, a close deletes it.\<close>

fun apply_event :: "'b log_event \<Rightarrow> cluster_view \<Rightarrow> cluster_view" where
  "apply_event (SessionMessage p i t b n l h) v = advance p t v"
| "apply_event (TimerExpired p i t) v = advance p t v"
| "apply_event (SessionOpened termId p i t stream channel encPrincipal) v =
     (if cv_sessions v i = None
      then advance p t (v\<lparr>cv_sessions := (cv_sessions v)(i \<mapsto> (i, stream, channel, encPrincipal))\<rparr>)
      else advance p t v)"
| "apply_event (SessionClosed termId p i t reason) v =
     advance p t (v\<lparr>cv_sessions := (cv_sessions v)(i := None)\<rparr>)"
| "apply_event (ServiceAction termId p t action flags) v = advance p t v"
| "apply_event (NewLeadershipTerm termId p t base leader session version) v =
     advance p t (v\<lparr>cv_leadershipTermId := termId\<rparr>)"
| "apply_event (MembershipChange p t change member) v = advance p t v"
| "apply_event Unhandled v = v"

section \<open>Refinement\<close>

abbreviation at_view :: "cluster_view \<Rightarrow> 'w sys \<Rightarrow> bool" where
  "at_view V s \<equiv> table_inv (m_table s) \<and> view_of s = V"

lemma keeps_at_view: "keeps (\<lambda>s. (m_table s, m_logPosition s, m_clusterTime s, m_leadershipTermId s)) m \<Longrightarrow>
   preserves (at_view V) m"
  by (fastforce simp: keeps_def preserves_def view_of_def)

lemma callback_at_view [preserves_rules]: "preserves (at_view V) (run_callback E c)"
proof (rule preservesI)
  fix s r s' assume at: "at_view V s" and run: "run_callback E c s = Some (r, s')"
  have "table_inv (m_table s') \<and> table_views (m_table s') = table_views (m_table s)"
    using preservesD [OF preserves_run_callback [OF stable_views] _ run] at by blast
  moreover have "keeps (\<lambda>s. (m_logPosition s, m_clusterTime s, m_leadershipTermId s)) (run_callback E c)"
    by (intro keeps_run_callback) simp_all
  note keepsD [OF this run]
  ultimately show "at_view V s'" using at by (simp add: view_of_def)
qed

lemma session_at_view [preserves_rules]: "preserves (at_view V) (session_at a)"
  by (intro keeps_at_view keeps_session_at)

lemma at_position_run:
  "bindE (at_position p t) m s = m () (s\<lparr>m_logPosition := p, m_clusterTime := t\<rparr>)"
  by (simp add: at_position_def exec_simps)

lemma view_of_position [simp]:
  "view_of (s\<lparr>m_logPosition := p, m_clusterTime := t\<rparr>) = advance p t (view_of s)"
  "view_of (s\<lparr>m_leadershipTermId := termId, m_logPosition := p, m_clusterTime := t\<rparr>) =
     advance p t ((view_of s)\<lparr>cv_leadershipTermId := termId\<rparr>)"
  "view_of (s\<lparr>m_logPosition := p, m_clusterTime := t, m_table := T\<rparr>) =
     advance p t ((view_of s)\<lparr>cv_sessions := table_views T\<rparr>)"
  by (simp_all add: view_of_def advance_def)

lemma after_position:
  assumes "bindE (at_position p t) m s = Some (r, s')" "table_inv (m_table s)"
    "preserves (at_view (advance p t (view_of s))) (m ())"
  shows "at_view (advance p t (view_of s)) s'"
  using preservesD [OF assms(3), of "s\<lparr>m_logPosition := p, m_clusterTime := t\<rparr>" r s'] assms(1,2)
  by (simp add: at_position_run)

text \<open>Adding and removing a session.\<close>

lemma table_views_None:
  "table_inv T \<Longrightarrow> table_views T i = None \<longleftrightarrow> find_pointer T i = None"
  by (simp add: table_views_def lookup_session_None)

lemma table_views_add:
  assumes "table_inv T" "find_pointer T (cs_id x) = None"
  shows "table_inv (addSession x T)"
    "table_views (addSession x T) = (table_views T)(cs_id x \<mapsto> session_view x)"
proof -
  have none: "lookup_session T (cs_id x) = None"
    using assms by (simp add: lookup_session_None)
  show "table_inv (addSession x T)" by (rule registry.invar_add [OF assms(1) none])
  show "table_views (addSession x T) = (table_views T)(cs_id x \<mapsto> session_view x)"
    by (auto simp: table_views_def registry.lookup_add [OF assms(1) none])
qed

lemma table_views_remove:
  assumes "table_inv T"
  shows "table_views (snd (removeSession i T)) = (table_views T)(i := None)"
  by (auto simp: table_views_def registry.lookup_remove [OF assms])

text \<open>Connecting returns, whatever the library does: what it throws is caught.\<close>

lemma connect_total: obtains x w where "connect L s = Some (Inr (), (x, w))"
proof -
  obtain q t where c: "connect L s = Some (q, t)" using total_connect [of L] unfolding total_def by (metis not_Some_eq surj_pair)
  moreover from c have "q = Inr ()" by (auto simp: connect_def catchE_eq_Some exec_run)
  ultimately show ?thesis using that by (cases t) simp
qed

text \<open>A session that is connected before it is added still shows what it was made from.\<close>

lemma with_local_connect:
  assumes "with_local x (connect L) s = Some (r, s')"
  shows "\<exists>w. s' = s\<lparr>world := w\<rparr>" "r = Inr x' \<Longrightarrow> session_view x' = session_view x" "r \<noteq> Inl e"
proof -
  obtain q x2 w2 where c: "connect L (x, world s) = Some (q, x2, w2)" "s' = s\<lparr>world := w2\<rparr>"
    "r = map_sum id (\<lambda>_. x2) q"
    using assms by (auto simp: with_local_def split: option.splits prod.splits)
  then show "\<exists>w. s' = s\<lparr>world := w\<rparr>" by blast
  have "keeps (\<lambda>(x, w). session_view x) (connect L)" by (intro keeps_connect) simp_all
  from keepsD [OF this c(1)] c(3) show "r = Inr x' \<Longrightarrow> session_view x' = session_view x"
    by (cases q) auto
  have "q = Inr ()" using c(1) by (auto simp: connect_def catchE_eq_Some exec_run)
  with c(3) show "r \<noteq> Inl e" by simp
qed

lemma view_of_world [simp]: "view_of (s\<lparr>world := w\<rparr>) = view_of s"
  by (simp add: view_of_def)

lemma onSessionOpen_run:
  fixes s :: "'w sys"
  defines "at p t \<equiv> s\<lparr>m_logPosition := p, m_clusterTime := t\<rparr>"
  shows "find_pointer (m_table s) i \<noteq> None \<Longrightarrow>
      onSessionOpen E termId p i t stream channel encPrincipal s = Some (Inl (ClashingOpen i termId p), at p t)"
    "find_pointer (m_table s) i = None \<Longrightarrow>
      onSessionOpen E termId p i t stream channel encPrincipal s =
        bindE (if m_role s = LEADER \<and> ctx_isRespondingService (m_ctx s)
               then with_local (new_session E i stream channel encPrincipal (uninit_bool E (Session_isClosing i) (world s))) (connect E)
               else retE (new_session E i stream channel encPrincipal (uninit_bool E (Session_isClosing i) (world s))))
          (\<lambda>x s2. bindE (session_at (next_addr (m_table s2))) (\<lambda>x. run_callback E (svc_onSessionOpen E x t))
             (s2\<lparr>m_table := addSession x (m_table s2)\<rparr>)) (at p t)"
proof -
  show "find_pointer (m_table s) i \<noteq> None \<Longrightarrow>
      onSessionOpen E termId p i t stream channel encPrincipal s = Some (Inl (ClashingOpen i termId p), at p t)"
    by (auto simp: onSessionOpen_def at_position_run bindE_run(3) exec_run at_def)
  assume none: "find_pointer (m_table s) i = None"
  have add: "(\<lambda>x :: session. bindE (getsE (\<lambda>s. next_addr (m_table s))) (\<lambda>sessionPtr.
       bindE (add_agent_session x) (\<lambda>_.
       bindE (session_at sessionPtr) (\<lambda>x. run_callback E (svc_onSessionOpen E x t)))))
    = (\<lambda>x s2. bindE (session_at (next_addr (m_table s2))) (\<lambda>x. run_callback E (svc_onSessionOpen E x t))
         (s2\<lparr>m_table := addSession x (m_table s2)\<rparr>))"
    by (intro ext) (simp only: bindE_run(3,4) add_agent_session_def)
  show "onSessionOpen E termId p i t stream channel encPrincipal s =
        bindE (if m_role s = LEADER \<and> ctx_isRespondingService (m_ctx s)
               then with_local (new_session E i stream channel encPrincipal (uninit_bool E (Session_isClosing i) (world s))) (connect E)
               else retE (new_session E i stream channel encPrincipal (uninit_bool E (Session_isClosing i) (world s))))
          (\<lambda>x s2. bindE (session_at (next_addr (m_table s2))) (\<lambda>x. run_callback E (svc_onSessionOpen E x t))
             (s2\<lparr>m_table := addSession x (m_table s2)\<rparr>)) (at p t)"
    unfolding onSessionOpen_def at_position_run bindE_run(3) Let_def add using none by (simp add: at_def)
qed

lemma open_view:
  assumes run: "onSessionOpen E termId p i t stream channel encPrincipal s = Some (r, s')"
    and inv: "table_inv (m_table s)"
  shows "at_view (apply_event (SessionOpened termId p i t stream channel encPrincipal) (view_of s)) s'"
proof (cases "find_pointer (m_table s) i = None")
  case False
  then have "\<not> cv_sessions (view_of s) i = None"
    using table_views_None [OF inv] by (simp add: view_of_def)
  then have "apply_event (SessionOpened termId p i t stream channel encPrincipal) (view_of s) = advance p t (view_of s)"
    by auto
  moreover have "s' = s\<lparr>m_logPosition := p, m_clusterTime := t\<rparr>"
    using run by (simp add: onSessionOpen_run(1) [OF False])
  ultimately show ?thesis using inv by (simp only:) simp
next
  case True
  let ?s1 = "s\<lparr>m_logPosition := p, m_clusterTime := t\<rparr>"
  let ?new = "new_session E i stream channel encPrincipal (uninit_bool E (Session_isClosing i) (world s))"
  let ?make = "if m_role s = LEADER \<and> ctx_isRespondingService (m_ctx s)
    then with_local ?new (connect E) else retE ?new"
  have new: "session_view ?new = (i, stream, channel, encPrincipal)"
    by (simp add: new_session_def session_view_def)
  have view: "cv_sessions (view_of s) i = None" using table_views_None [OF inv] True by (simp add: view_of_def)
  have made: "\<exists>w. s2 = ?s1\<lparr>world := w\<rparr>" "q = Inr x \<Longrightarrow> session_view x = session_view ?new" "q \<noteq> Inl e"
    if "?make ?s1 = Some (q, s2)" for q s2 x e
  proof -
    show "\<exists>w. s2 = ?s1\<lparr>world := w\<rparr>"
    proof (cases "m_role s = LEADER \<and> ctx_isRespondingService (m_ctx s)")
      case True
      with that have "with_local ?new (connect E) ?s1 = Some (q, s2)" by simp
      then show ?thesis by (rule with_local_connect(1))
    next
      case False
      with that have s2: "s2 = ?s1" by (simp add: exec_run)
      have "s2 = ?s1\<lparr>world := world s\<rparr>" unfolding s2 by simp
      then show ?thesis by (rule exI)
    qed
    show "q = Inr x \<Longrightarrow> session_view x = session_view ?new" "q \<noteq> Inl e"
      using that with_local_connect(2,3) [of ?new E ?s1 q s2] by (auto simp: exec_run split: if_splits)
  qed
  show ?thesis
    using bindE_eq_Some [THEN iffD1, OF run [unfolded onSessionOpen_run(2) [OF True]]]
  proof (elim disjE exE conjE)
    fix y s2
    assume y: "?make ?s1 = Some (Inr y, s2)"
      and rest: "bindE (session_at (next_addr (m_table s2))) (\<lambda>x. run_callback E (svc_onSessionOpen E x t))
           (s2\<lparr>m_table := addSession y (m_table s2)\<rparr>) = Some (r, s')"
    obtain w where s2: "s2 = ?s1\<lparr>world := w\<rparr>" using made(1) [OF y] by blast
    have vy: "session_view y = (i, stream, channel, encPrincipal)" "cs_id y = i"
      using made(2) [OF y refl] new by (auto simp: session_view_def)
    have at: "at_view (apply_event (SessionOpened termId p i t stream channel encPrincipal) (view_of s))
        (s2\<lparr>m_table := addSession y (m_table s2)\<rparr>)"
      using table_views_add [OF inv, of y] True vy view s2 by (simp add: view_of_def advance_def)
    have "preserves (at_view V) (bindE (session_at (next_addr (m_table s2)))
          (\<lambda>x. run_callback E (svc_onSessionOpen E x t)))" for V
      by (intro preserves_rules)
    from preservesD [OF this at rest] show ?thesis .
  next
    fix e assume "?make ?s1 = Some (Inl e, s')"
    with made(3) show ?thesis by blast
  qed
qed

lemma onSessionClose_run:
  "onSessionClose E termId p i t reason s =
    (let T = snd (removeSession i (m_table s));
         s1 = s\<lparr>m_logPosition := p, m_clusterTime := t, m_table := T\<rparr> in
     case fst (removeSession i (m_table s)) of
       None \<Rightarrow> Some (Inl (UnknownSessionClose i reason termId p), s1)
     | Some x \<Rightarrow> bindE (with_local x (disconnect E)) (\<lambda>x'.
         run_callback E (svc_onSessionClose E x' t reason)) s1)"
  by (cases "removeSession i (m_table s)")
    (simp add: onSessionClose_def at_position_run bindE_run(3,4) exec_run Let_def split: option.split)

lemma keeps_with_local_frame: "preserves (at_view V) (with_local x m)"
  by (intro keeps_at_view keeps_with_local) simp

lemma close_view:
  assumes run: "onSessionClose E termId p i t reason s = Some (r, s')"
    and inv: "table_inv (m_table s)"
  shows "at_view (apply_event (SessionClosed termId p i t reason) (view_of s)) s'"
proof -
  let ?T = "snd (removeSession i (m_table s))"
  let ?s1 = "s\<lparr>m_logPosition := p, m_clusterTime := t, m_table := ?T\<rparr>"
  have at: "at_view (apply_event (SessionClosed termId p i t reason) (view_of s)) ?s1"
    using registry.invar_remove [OF inv] table_views_remove [OF inv, of i]
    by (simp add: view_of_def advance_def)
  show ?thesis
  proof (cases "fst (removeSession i (m_table s))")
    case None
    with run at show ?thesis by (auto simp: onSessionClose_run Let_def)
  next
    case (Some x)
    have "preserves (at_view V) (bindE (with_local x (disconnect E)) (\<lambda>x'.
        run_callback E (svc_onSessionClose E x' t reason)))" for V
      by (intro preserves_rules keeps_with_local_frame)
    from preservesD [OF this at, of r s'] run Some show ?thesis
      by (simp add: onSessionClose_run Let_def)
  qed
qed

lemma action_view [preserves_rules]: "preserves (at_view V) (executeAction E action p termId flags)"
  unfolding executeAction_def onTakeSnapshot_def new_snapshot_state_def
  by (intro keeps_at_view keeps_rules) simp_all

text \<open>The refinement: handling an event changes the abstract state as the specification says.\<close>

lemma handle_event_refines:
  assumes run: "handle_event E ev s = Some (r, s')" and inv: "table_inv (m_table s)"
  shows "at_view (apply_event ev (view_of s)) s'"
proof (cases ev)
  case (SessionMessage p i t b n l h)
  with run inv show ?thesis
    by (simp add: onSessionMessage_def) (erule after_position, assumption, intro preserves_rules)
next
  case (TimerExpired p i t)
  with run inv show ?thesis
    by (simp add: onTimerEvent_def) (erule after_position, assumption, intro preserves_rules)
next
  case (SessionOpened termId p i t stream channel encPrincipal)
  with run inv open_view show ?thesis unfolding SessionOpened handle_event.simps by blast
next
  case (SessionClosed termId p i t reason)
  with run inv close_view show ?thesis unfolding SessionClosed handle_event.simps by blast
next
  case (ServiceAction termId p t action flags)
  with run inv show ?thesis
    by (simp add: onServiceAction_def) (erule after_position, assumption, intro preserves_rules)
next
  case (NewLeadershipTerm termId p t base leader session version)
  let ?s1 = "s\<lparr>m_leadershipTermId := termId\<rparr>"
  from NewLeadershipTerm run have "bindE (at_position p t) (\<lambda>_. run_callback E
      (svc_onNewLeadershipTermEvent E termId p t base leader session version)) ?s1 = Some (r, s')"
    by (simp add: onNewLeadershipTermEvent_def bindE_run(4))
  from after_position [OF this] inv
  have "at_view (advance p t (view_of ?s1)) s'" by (simp add: callback_at_view)
  with NewLeadershipTerm show ?thesis by (simp add: view_of_def)
next
  case (MembershipChange p t change member)
  with run inv show ?thesis
    by (simp add: onMembershipChange_def terminate_def)
      (erule after_position, assumption, intro preserves_rules)
next
  case Unhandled
  with run inv show ?thesis by (simp add: exec_run)
qed

section \<open>Replicas\<close>

lemma total_handle_event [total_rules]: "total (handle_event E ev)"
  by (cases ev) (simp_all add: total_handlers total_atoms)

lemma total_log_onMessage [total_rules]: "total (log_onMessage E b i n h)"
  unfolding log_onMessage_eq by (intro total_rules)

text \<open>Handling a log: an exception of a handler does not stop the next event.\<close>

definition replay :: "('b, 'w, 'z) env_scheme \<Rightarrow> 'b log_event list \<Rightarrow> ('w sys, unit) exec" where
  "replay E evs = for_each (\<lambda>ev. attemptE (handle_event E ev) (\<lambda>_. retE ())) evs"

lemma total_replay [total_rules]: "total (replay E evs)"
  unfolding replay_def by (intro total_rules)

lemma replay_returns: "\<exists>s'. replay E evs s = Some (Inr (), s')"
proof (induction evs arbitrary: s)
  case Nil
  show ?case by (simp add: replay_def exec_run)
next
  case (Cons ev evs)
  obtain r s1 where "handle_event E ev s = Some (r, s1)"
    using totalD [OF total_handle_event] by blast
  then have "replay E (ev # evs) s = replay E evs s1"
    by (simp add: replay_def bindE_def attemptE_def exec_run)
  with Cons show ?case by simp
qed

lemma replay_refines:
  assumes "replay E evs s = Some (r, s')" "table_inv (m_table s)"
  shows "at_view (fold apply_event evs (view_of s)) s'"
  using assms
proof (induction evs arbitrary: s)
  case Nil
  then show ?case by (simp add: replay_def exec_run)
next
  case (Cons ev evs)
  obtain q s1 where q: "handle_event E ev s = Some (q, s1)"
    using totalD [OF total_handle_event] by blast
  then have "replay E (ev # evs) s = replay E evs s1"
    by (simp add: replay_def bindE_def attemptE_def exec_run)
  with Cons.IH [of s1] Cons.prems(1) handle_event_refines [OF q Cons.prems(2)] show ?case by simp
qed

lemma set_vector_views:
  "table_inv T \<Longrightarrow> v \<in> set (vector_views T) \<longleftrightarrow> table_views T (fst v) = Some v"
proof -
  assume inv: "table_inv T"
  have id: "fst (session_view x) = cs_id x" for x by (simp add: session_view_def)
  show ?thesis
  proof
    assume "v \<in> set (vector_views T)"
    then obtain x where "x \<in> set (table_elems T)" "v = session_view x"
      by (auto simp: vector_views_def)
    with registry.lookup_elems [OF inv] show "table_views T (fst v) = Some v"
      by (auto simp: table_views_def id)
  next
    assume "table_views T (fst v) = Some v"
    then obtain x where "lookup_session T (fst v) = Some x" "v = session_view x"
      by (auto simp: table_views_def)
    with registry.lookup_elems [OF inv] show "v \<in> set (vector_views T)"
      by (auto simp: vector_views_def)
  qed
qed

lemma vector_views_determined:
  assumes "table_inv T" "table_inv U" "table_views T = table_views U"
  shows "vector_views T = vector_views U"
proof -
  have id: "map fst (vector_views V) = map cs_id (table_elems V)" for V
    by (simp add: vector_views_def session_view_def)
  have sets: "set (vector_views T) = set (vector_views U)"
    using set_vector_views [OF assms(1)] set_vector_views [OF assms(2)] assms(3) by auto
  have "map fst (vector_views T) = map fst (vector_views U)"
    using registry.elems_order [OF assms(1)] registry.elems_order [OF assms(2)] sets
    by (intro strict_sorted_equal) (simp_all only: id [symmetric] set_map)
  moreover have "inj_on fst (set (vector_views T) \<union> set (vector_views U))"
    using set_vector_views [OF assms(1)] sets by (intro inj_onI) (metis Un_absorb option.inject)
  ultimately show ?thesis by (metis map_inj_on)
qed

lemma replays_agree:
  assumes "table_inv (m_table s1)" "table_inv (m_table s2)" "view_of s1 = view_of s2"
  shows "\<exists>t1 t2. replay E1 evs s1 = Some (Inr (), t1) \<and> replay E2 evs s2 = Some (Inr (), t2)
    \<and> view_of t1 = view_of t2 \<and> vector_views (m_table t1) = vector_views (m_table t2)"
proof -
  obtain t1 where t1: "replay E1 evs s1 = Some (Inr (), t1)" using replay_returns by blast
  obtain t2 where t2: "replay E2 evs s2 = Some (Inr (), t2)" using replay_returns by blast
  note r1 = replay_refines [OF t1 assms(1)] and r2 = replay_refines [OF t2 assms(2)]
  then have v: "view_of t1 = view_of t2" using assms(3) by simp
  then have "table_views (m_table t1) = table_views (m_table t2)" by (simp add: view_of_def)
  with r1 r2 have "vector_views (m_table t1) = vector_views (m_table t2)"
    by (intro vector_views_determined) simp_all
  with t1 t2 v show ?thesis by blast
qed

end
