(* ===== verification/SnapshotLemmas.thy ===== *)
theory SnapshotLemmas
  imports WorkLemmas SnapshotLoader LogEvents
begin

text \<open>
  Snapshots: what is written to the publication of a snapshot, what a loader does with the messages
  that were written, and the batches of log events that may come between.
\<close>

section \<open>Writing\<close>

definition encodes_session :: "('b, 'w, 'z) codecs_scheme \<Rightarrow> session \<Rightarrow> 'b \<Rightarrow> bool" where
  "encodes_session L x b \<longleftrightarrow> ClientSession_encode L (session_message_length L x) (session_message x) = Inr b"

definition encodes_marker :: "('b, 'w, 'z) codecs_scheme \<Rightarrow> i64 \<Rightarrow> i64 \<Rightarrow> snapshot_mark \<Rightarrow> i32 \<Rightarrow> 'b \<Rightarrow> bool" where
  "encodes_marker L position termId mark version b \<longleftrightarrow>
     SnapshotMarker_encode L (SnapshotMarker_sbeBlockAndHeaderLength L)
       (SnapshotMarker SNAPSHOT_TYPE_ID position termId 0 mark NANOS version) = Inr b"

lemma markSnapshot_accepted:
  "markSnapshot L p SNAPSHOT_TYPE_ID position termId 0 mark version w = Some (Inr (), w') \<longleftrightarrow>
     (\<exists>b. encodes_marker L position termId mark version b \<and> accepted L p [b] w w')"
  by (auto simp: markSnapshot_def encodes_marker_def bindE_eq_Some_Inr exec_run offer_accepted [symmetric])

lemma snapshotSession_accepted:
  "snapshotSession L p x w = Some (Inr (), w') \<longleftrightarrow> (\<exists>b. encodes_session L x b \<and> accepted L p [b] w w')"
  by (auto simp: snapshotSession_def encodes_session_def bindE_eq_Some_Inr exec_run offer_accepted [symmetric])

lemma world_exec_bind: "bindE (world_exec m) (\<lambda>x. world_exec (k x)) = world_exec (bindE m k)"
  by (rule ext) (auto simp: bindE_def world_exec_run split: option.splits sum.splits)

lemma world_exec_for_each: "for_each (\<lambda>x. world_exec (f x)) xs = world_exec (for_each f xs)"
proof (induction xs)
  case Nil
  show ?case by (rule ext) (simp add: world_exec_run exec_run)
next
  case (Cons x xs)
  then show ?case by (simp add: world_exec_bind)
qed

lemma world_exec_Inr:
  "world_exec m s = Some (Inr x, s') \<longleftrightarrow> (\<exists>w. m (world s) = Some (Inr x, w) \<and> s' = s\<lparr>world := w\<rparr>)"
  by (auto simp: world_exec_run split: option.splits prod.splits)

lemma snapshot_sessions_accepted:
  "for_each (snapshotSession L p) xs w = Some (Inr (), w') \<longleftrightarrow>
     (\<exists>bs. list_all2 (encodes_session L) xs bs \<and> accepted L p bs w w')"
proof (induction xs arbitrary: w)
  case Nil
  then show ?case by (auto simp: exec_run accepted_simps)
next
  case (Cons x xs)
  have "for_each (snapshotSession L p) (x # xs) w = Some (Inr (), w') \<longleftrightarrow>
     (\<exists>w1 b bs. encodes_session L x b \<and> accepted L p [b] w w1
       \<and> list_all2 (encodes_session L) xs bs \<and> accepted L p bs w1 w')"
    by (simp add: bindE_eq_Some_Inr Cons.IH snapshotSession_accepted) blast
  also have "\<dots> \<longleftrightarrow> (\<exists>b bs. encodes_session L x b \<and> list_all2 (encodes_session L) xs bs
       \<and> accepted L p ([b] @ bs) w w')"
    unfolding accepted_append by blast
  also have "\<dots> \<longleftrightarrow> (\<exists>bs. list_all2 (encodes_session L) (x # xs) bs \<and> accepted L p bs w w')"
    by (simp add: list_all2_Cons1) blast
  finally show ?case .
qed

text \<open>What the publication accepts when a snapshot is written.\<close>

definition snapshot_messages :: "('b, 'w, 'z) codecs_scheme \<Rightarrow> i64 \<Rightarrow> i64 \<Rightarrow> i32 \<Rightarrow> session list \<Rightarrow> 'b list \<Rightarrow> bool" where
  "snapshot_messages L position termId version xs ms \<longleftrightarrow>
     (\<exists>b bs e. ms = b # bs @ [e] \<and> encodes_marker L position termId BEGIN version b
        \<and> list_all2 (encodes_session L) xs bs \<and> encodes_marker L position termId END version e)"

lemma snapshotState_accepted:
  "snapshotState L p position termId s = Some (Inr (), s') \<longleftrightarrow>
     (\<exists>ms w. snapshot_messages L position termId (ctx_appVersion (m_ctx s)) (table_elems (m_table s)) ms
        \<and> accepted L p ms (world s) w \<and> s' = s\<lparr>world := w\<rparr>)"
proof -
  let ?xs = "table_elems (m_table s)" and ?v = "ctx_appVersion (m_ctx s)"
  let ?chain = "bindE (markBegin L p SNAPSHOT_TYPE_ID position termId 0 ?v) (\<lambda>_.
    bindE (for_each (snapshotSession L p) ?xs) (\<lambda>_. markEnd L p SNAPSHOT_TYPE_ID position termId 0 ?v))"
  have chain: "?chain w = Some (Inr (), w') \<longleftrightarrow>
     (\<exists>ms. snapshot_messages L position termId ?v ?xs ms \<and> accepted L p ms w w')" for w w'
  proof -
    have "?chain w = Some (Inr (), w') \<longleftrightarrow> (\<exists>w1 b w2 bs e. encodes_marker L position termId BEGIN ?v b
        \<and> accepted L p [b] w w1 \<and> list_all2 (encodes_session L) ?xs bs \<and> accepted L p bs w1 w2
        \<and> encodes_marker L position termId END ?v e \<and> accepted L p [e] w2 w')"
      by (simp add: bindE_eq_Some_Inr markBegin_def markEnd_def markSnapshot_accepted
        snapshot_sessions_accepted) blast
    also have "\<dots> \<longleftrightarrow> (\<exists>b bs e. encodes_marker L position termId BEGIN ?v b
        \<and> list_all2 (encodes_session L) ?xs bs \<and> encodes_marker L position termId END ?v e
        \<and> accepted L p ([b] @ bs @ [e]) w w')"
      unfolding accepted_append by blast
    finally show ?thesis by (simp add: snapshot_messages_def) blast
  qed
  have "snapshotState L p position termId s = world_exec ?chain s"
    by (simp add: snapshotState_def Let_def bindE_run(3) world_exec_for_each world_exec_bind)
  then show ?thesis by (simp only: world_exec_Inr chain) blast
qed

section \<open>Replaying\<close>

text \<open>A fragment that the loader reads as a marker, and one it reads as the fixed part of the message of a session.\<close>

definition reads_marker :: "('b, 'w, 'z) codecs_scheme \<Rightarrow> 'b fragment \<Rightarrow> snapshot_marker \<Rightarrow> bool" where
  "reads_marker L f m \<longleftrightarrow> (\<exists>h. header_is L (frag_buffer f) (frag_offset f) (frag_length f) h
     \<and> mh_templateId h = SnapshotMarker_sbeTemplateId L
     \<and> SnapshotMarker_wrap L (frag_buffer f) (frag_offset f + MessageHeader_encodedLength L) 0
         (rest_length L (frag_length f)) (mh_blockLength h) (mh_version h) = Inr m)"

definition reads_client_session :: "('b, 'w, 'z) codecs_scheme \<Rightarrow> 'b fragment \<Rightarrow> i64 \<Rightarrow> i32 \<Rightarrow> 'b flyweight \<Rightarrow> bool" where
  "reads_client_session L f i stream fw \<longleftrightarrow> (\<exists>h. header_is L (frag_buffer f) (frag_offset f) (frag_length f) h
     \<and> mh_templateId h = ClientSession_sbeTemplateId L
     \<and> ClientSession_wrap L (frag_buffer f) (frag_offset f + MessageHeader_encodedLength L) 0
         (rest_length L (frag_length f)) (mh_blockLength h) (mh_version h) = Inr (i, stream, fw))"

lemma loader_marker_run:
  "reads_marker L f m \<Longrightarrow> loader_onFragment L f = loader_onMarker m"
  by (auto simp: reads_marker_def loader_onFragment_def Let_def message_header_of_is bindE_run(1)
    decode_at_def bindE_liftE)

lemma loader_session_fields:
  assumes "SnapshotMarker_sbeTemplateId L \<noteq> ClientSession_sbeTemplateId L" "reads_client_session L f i stream fw"
  shows "loader_onFragment L f =
      bindE (liftE (loader_responseChannel L fw)) (\<lambda>(responseChannel, fw1).
      bindE (liftE (loader_encodedPrincipal L fw1)) (\<lambda>(encodedPrincipal, fw2).
      bindE (loader_agent (addSession_data L i stream responseChannel encodedPrincipal)) (\<lambda>_.
      retE CONTINUE)))"
  using assms
  by (auto simp: reads_client_session_def loader_onFragment_def Let_def message_header_of_is bindE_run(1)
    decode_at_def bindE_liftE)

text \<open>
  The generated accessor of the last field of a message: it needs the length prefix and the bytes
  to be inside the message, and moves the position past them.
\<close>

definition consuming_principal :: "('b, 'w, 'z) codecs_scheme \<Rightarrow> ('b \<Rightarrow> int \<Rightarrow> int) \<Rightarrow> cluster_error \<Rightarrow> bool" where
  "consuming_principal L prefix err \<longleftrightarrow> (\<forall>b i. 0 \<le> prefix b i)
     \<and> (\<forall>fw. ClientSession_encodedPrincipal L fw =
          (let pos = fw_position fw; end_ptr = pos + 4 + prefix (fw_buffer fw) pos in
           if end_ptr > fw_bufferLength fw then Inl err else Inr (pos + 4, fw\<lparr>fw_position := end_ptr\<rparr>)))"

text \<open>The loader asks for the principal twice; after the first time there is nothing left to read.\<close>

lemma loader_principal_fails:
  assumes "consuming_principal L prefix err"
    "SnapshotMarker_sbeTemplateId L \<noteq> ClientSession_sbeTemplateId L"
    "reads_client_session L f i stream fw" "loader_responseChannel L fw = Inr (channel, fw1)"
    "fw_position fw1 + 4 + prefix (fw_buffer fw1) (fw_position fw1) = fw_bufferLength fw1"
  shows "loader_onFragment L f (l, s) = Some (Inl err, (l, s))"
proof -
  let ?past = "fw1\<lparr>fw_position := fw_bufferLength fw1\<rparr>"
  have prefix: "0 \<le> prefix b i" for b i using assms(1) by (simp add: consuming_principal_def)
  have law: "ClientSession_encodedPrincipal L fw =
      (let pos = fw_position fw; end_ptr = pos + 4 + prefix (fw_buffer fw) pos in
       if end_ptr > fw_bufferLength fw then Inl err else Inr (pos + 4, fw\<lparr>fw_position := end_ptr\<rparr>))" for fw
    using assms(1) by (simp add: consuming_principal_def)
  have first: "ClientSession_encodedPrincipal L fw1 = Inr (fw_position fw1 + 4, ?past)"
    using assms(5) by (simp add: law Let_def)
  have second: "ClientSession_encodedPrincipal L ?past = Inl err"
    using prefix [of "fw_buffer fw1" "fw_bufferLength fw1"] by (simp add: law Let_def)
  have "loader_encodedPrincipal L fw1 = Inl err"
    by (simp add: loader_encodedPrincipal_def principal_end_def first second)
  then show ?thesis
    by (simp add: loader_session_fields [OF assms(2,3)] assms(4) bindE_liftE exec_run)
qed

text \<open>
  The contract of the generated codec for the messages of a snapshot. \<open>carries f b\<close> is: the fragment \<open>f\<close> delivers the
  message in the buffer \<open>b\<close>. A marker that was encoded is read back; a session that was encoded is read back
  up to its two fields of variable length, of which the principal is the last and fills the message to its end; and the
  accessor of the principal consumes it.
\<close>

definition reads_to_principal :: "('b, 'w, 'z) codecs_scheme \<Rightarrow> ('b \<Rightarrow> int \<Rightarrow> int) \<Rightarrow> 'b fragment \<Rightarrow> i64 \<Rightarrow> i32 \<Rightarrow> bool" where
  "reads_to_principal L prefix f i stream \<longleftrightarrow> (\<exists>fw pointer fw1. reads_client_session L f i stream fw
     \<and> ClientSession_responseChannel L fw = Inr (pointer, fw1)
     \<and> fw_position fw1 + 4 + prefix (fw_buffer fw1) (fw_position fw1) = fw_bufferLength fw1)"

definition snapshot_codec :: "('b, 'w, 'z) codecs_scheme \<Rightarrow> ('b fragment \<Rightarrow> 'b \<Rightarrow> bool) \<Rightarrow> ('b \<Rightarrow> int \<Rightarrow> int) \<Rightarrow>
    cluster_error \<Rightarrow> bool" where
  "snapshot_codec L carries prefix err \<longleftrightarrow> consuming_principal L prefix err
     \<and> SnapshotMarker_sbeTemplateId L \<noteq> ClientSession_sbeTemplateId L
     \<and> (\<forall>f b n m. carries f b \<longrightarrow> SnapshotMarker_encode L n m = Inr b \<longrightarrow> reads_marker L f m)
     \<and> (\<forall>f b n m. carries f b \<longrightarrow> ClientSession_encode L n m = Inr b \<longrightarrow>
          reads_to_principal L prefix f (cm_clusterSessionId m) (cm_responseStreamId m))"

lemma loader_session_throws:
  assumes "consuming_principal L prefix err" "SnapshotMarker_sbeTemplateId L \<noteq> ClientSession_sbeTemplateId L"
    "reads_to_principal L prefix f i stream"
  shows "loader_onFragment L f (l, s) = Some (Inl err, (l, s))"
proof -
  obtain fw pointer fw1 where r: "reads_client_session L f i stream fw" "ClientSession_responseChannel L fw = Inr (pointer, fw1)"
    "fw_position fw1 + 4 + prefix (fw_buffer fw1) (fw_position fw1) = fw_bufferLength fw1"
    using assms(3) by (auto simp: reads_to_principal_def)
  from r(2) obtain channel where "loader_responseChannel L fw = Inr (channel, fw1)"
    by (simp add: loader_responseChannel_def Let_def)
  from loader_principal_fails [OF assms(1,2) r(1) this r(3)] show ?thesis .
qed

text \<open>What the loader does with the messages that a snapshot was written with.\<close>

lemma loader_written:
  assumes "snapshot_codec L carries prefix err" "carries f b"
  shows "encodes_marker L position termId mark version b \<Longrightarrow>
      reads_marker L f (SnapshotMarker SNAPSHOT_TYPE_ID position termId 0 mark NANOS version)"
    "encodes_session L x b \<Longrightarrow> loader_onFragment L f (l, s) = Some (Inl err, (l, s))"
proof -
  show "encodes_marker L position termId mark version b \<Longrightarrow>
      reads_marker L f (SnapshotMarker SNAPSHOT_TYPE_ID position termId 0 mark NANOS version)"
    using assms unfolding encodes_marker_def snapshot_codec_def by blast
  show "encodes_session L x b \<Longrightarrow> loader_onFragment L f (l, s) = Some (Inl err, (l, s))"
    using assms unfolding encodes_session_def snapshot_codec_def
    by (intro loader_session_throws [of L prefix err f "cm_clusterSessionId (session_message x)" "cm_responseStreamId (session_message x)"]) blast+
qed

text \<open>Any sessions with the data of those of a table, added in their order, make up its sessions again.\<close>

lemma rebuilt_views:
  assumes "table_inv T" "map session_view zs = map session_view (table_elems T)"
  shows "table_inv (fold addSession zs empty_table)"
    "vector_views (fold addSession zs empty_table) = vector_views T"
    "table_views (fold addSession zs empty_table) = table_views T"
proof -
  let ?T = "fold addSession zs empty_table"
  have ids: "map cs_id xs = map fst (map session_view xs)" for xs by (simp add: session_view_def)
  have srt: "sorted_wrt (<) (map cs_id zs)"
    using registry.elems_order [OF assms(1)] by (simp only: ids assms(2))
  note r = registry.rebuild [OF srt]
  then show inv: "table_inv ?T" by blast
  show vv: "vector_views ?T = vector_views T"
    unfolding vector_views_def r(2) by (rule assms(2))
  have "table_views ?T i = Some v \<longleftrightarrow> table_views T i = Some v" for i v
  proof -
    have "table_views U i = Some v \<longleftrightarrow> v \<in> set (vector_views U) \<and> fst v = i" if "table_inv U" for U
    proof -
      have id: "fst (session_view x) = cs_id x" for x by (simp add: session_view_def)
      show ?thesis
        using registry.lookup_elems [OF that] by (auto simp: table_views_def vector_views_def id)
    qed
    with inv assms vv show ?thesis by simp
  qed
  then show "table_views ?T = table_views T" by (metis (no_types, opaque_lifting) ext not_Some_eq)
qed

section \<open>The snapshot in progress\<close>

lemma keeps_snapshotState [keeps_rules]:
  "(\<And>w s. f (s\<lparr>world := w\<rparr>) = f s) \<Longrightarrow> keeps f (snapshotState E p position termId)"
  unfolding snapshotState_def Let_def by (intro keeps_rules)

lemma keeps_snapshot_stages [keeps_rules]:
  assumes "\<And>w s. f (s\<lparr>world := w\<rparr>) = f s" "\<And>x s. f (s\<lparr>m_currentSnapshot := x\<rparr>) = f s"
  shows "keeps f (snapshot_publication E)" "keeps f (snapshot_recording E)"
  unfolding snapshot_publication_def snapshot_recording_def by (intro keeps_rules assms)+

lemma keeps_snapshot_doWork [keeps_rules]:
  assumes "\<And>w s. f (s\<lparr>world := w\<rparr>) = f s" "\<And>x s. f (s\<lparr>m_currentSnapshot := x\<rparr>) = f s"
    "\<And>T s. f (s\<lparr>m_table := T\<rparr>) = f s" "\<And>n s. f (s\<lparr>m_ackId := n\<rparr>) = f s"
    "\<And>p s. f (s\<lparr>m_requestedAckPosition := p\<rparr>) = f s"
  shows "keeps f (snapshot_doWork E)"
  unfolding snapshot_doWork_def snapshot_complete_def snapshot_positions_def by (intro keeps_rules assms)

lemma view_of_snapshot [simp]: "view_of (s\<lparr>m_currentSnapshot := x\<rparr>) = view_of s"
  by (simp add: view_of_def)

lemma snapshot_work_view: "preserves (at_view V) (snapshot_doWork E)"
  unfolding snapshot_doWork_def snapshot_complete_def snapshot_positions_def snapshot_get_def snapshot_set_def
  by (intro preserves_rules keeps_at_view [OF keeps_snapshot_stages(1)] keeps_at_view [OF keeps_snapshot_stages(2)]
    keeps_at_view [OF keeps_ack]) simp_all

text \<open>An event that is not an action leaves the snapshot in progress alone.\<close>

lemma keeps_handlers:
  "keeps m_currentSnapshot (onSessionMessage E p i t b n l h)" "keeps m_currentSnapshot (onTimerEvent E p i t)"
  "keeps m_currentSnapshot (onSessionOpen E termId p i t stream channel encPrincipal)"
  "keeps m_currentSnapshot (onSessionClose E termId p i t reason)"
  "keeps m_currentSnapshot (onMembershipChange p t change i')"
  "keeps m_currentSnapshot (onNewLeadershipTermEvent E termId p t base leader session version)"
  unfolding onSessionMessage_def onTimerEvent_def onSessionOpen_def onSessionClose_def onMembershipChange_def
    onNewLeadershipTermEvent_def at_position_def terminate_def add_agent_session_def Let_def
  by (intro keeps_rules; simp)+

lemma keeps_handle_event:
  assumes "\<And>termId p t flags. ev \<noteq> ServiceAction termId p t SNAPSHOT flags"
  shows "keeps m_currentSnapshot (handle_event E ev)"
  using assms
  by (cases ev) (auto simp: keeps_handlers keeps_atoms onServiceAction_def at_position_def executeAction_def
    intro!: keeps_rules)

section \<open>A batch of the log\<close>

text \<open>A fragment that is a whole message of the log.\<close>

definition is_event :: "('b, 'w, 'z) codecs_scheme \<Rightarrow> 'b fragment \<Rightarrow> 'b log_event \<Rightarrow> bool" where
  "is_event E f ev \<longleftrightarrow> has_flags (frag_header f) (UNFRAGMENTED E)
     \<and> decode_event E (frag_buffer f) (frag_offset f) (frag_length f) (frag_header f) = Inr ev"

lemma event_run:
  assumes "is_event E f ev"
  shows "log_onFragment E f = bindE (handle_event E ev) (\<lambda>_. retE CONTINUE)"
  using assms by (simp add: is_event_def log_onFragment_def Let_def log_onMessage_eq bindE_liftE)

text \<open>What a poll does with a batch of messages: it hands on all of them, or stops at the first one whose handler throws.\<close>

lemma deliver_events:
  assumes "list_all2 (is_event E) fs evs" "table_inv (m_table s)"
    "\<forall>ev \<in> set evs. \<forall>termId p t flags. ev \<noteq> ServiceAction termId p t SNAPSHOT flags"
  shows "\<exists>n s1. n \<le> length evs \<and> at_view (fold apply_event (take n evs) (view_of s)) s1
    \<and> m_currentSnapshot s1 = m_currentSnapshot s
    \<and> (n = length evs \<and> deliver (log_onFragment E) finish on_throw k fs s = finish (k + length fs) s1
      \<or> (\<exists>m e. n = Suc m \<and> deliver (log_onFragment E) finish on_throw k fs s = on_throw (k + m) e s1))"
  using assms
proof (induction arbitrary: k s rule: list_all2_induct)
  case Nil
  then show ?case by (intro exI [of _ 0] exI [of _ s]) simp
next
  case (Cons f fs ev evs)
  obtain r s1 where r: "handle_event E ev s = Some (r, s1)" using totalD [OF total_handle_event] by blast
  have at: "at_view (apply_event ev (view_of s)) s1" by (rule handle_event_refines [OF r Cons.prems(1)])
  have "keeps m_currentSnapshot (handle_event E ev)" by (rule keeps_handle_event) (use Cons.prems(2) in simp)
  from keepsD [OF this r] have same: "m_currentSnapshot s1 = m_currentSnapshot s" .
  show ?case
  proof (cases r)
    case (Inl e)
    with r at same show ?thesis
      by (intro exI [of _ 1] exI [of _ s1]) (auto simp: event_run [OF Cons.hyps(1)] attemptE_def bindE_def)
  next
    case (Inr x)
    obtain n s2 where n: "n \<le> length evs" "at_view (fold apply_event (take n evs) (view_of s1)) s2" "m_currentSnapshot s2 = m_currentSnapshot s1"
      "n = length evs \<and> deliver (log_onFragment E) finish on_throw (Suc k) fs s1 = finish (Suc k + length fs) s2
        \<or> (\<exists>m e. n = Suc m \<and> deliver (log_onFragment E) finish on_throw (Suc k) fs s1 = on_throw (Suc k + m) e s2)"
      using Cons.IH [of s1 "Suc k"] at Cons.prems(2) by auto
    have "deliver (log_onFragment E) finish on_throw k (f # fs) s = deliver (log_onFragment E) finish on_throw (Suc k) fs s1"
      using r Inr by (simp add: event_run [OF Cons.hyps(1)] attemptE_def bindE_def exec_run)
    with n at same show ?thesis by (intro exI [of _ "Suc n"] exI [of _ s2]) auto
  qed
qed

end
