(* ===== verification/AgentSafety.thy ===== *)
theory AgentSafety
  imports Clean SnapshotLemmas
begin

text \<open>
  The agent never uses a dangling pointer to a session, and once it has its parts it never uses a
  null pointer: the invariant \<open>agent_ok\<close> is kept by every operation of the work cycle, whatever
  the service does in its callbacks.
\<close>

definition agent_ok :: "bool \<Rightarrow> 'w sys \<Rightarrow> bool" where
  "agent_ok c s \<longleftrightarrow> table_safe (m_table s) \<and> m_proxy s \<noteq> None \<and> m_archive s \<noteq> None
     \<and> (\<exists>a. m_serviceAdapter s = Some a \<and> sa_agentBound a) \<and> (c \<longrightarrow> m_commitPosition s \<noteq> None)"

section \<open>Calls into the world\<close>

lemma clean_world_exec:
  "(\<And>w s. P s \<Longrightarrow> P (s\<lparr>world := w\<rparr>)) \<Longrightarrow> clean c (\<lambda>_. True) m \<Longrightarrow> clean c P (world_exec m)"
  unfolding world_exec_def by (rule clean_zoomE)

lemma clean_ok_exec [clean_rules]: "clean c (\<lambda>_. True) m \<Longrightarrow> clean c (agent_ok c) (world_exec m)"
  by (rule clean_world_exec) (simp_all add: agent_ok_def)

lemma clean_callE' [clean_rules]: "(c \<Longrightarrow> tame f) \<Longrightarrow> clean c (\<lambda>_. True) (callE f)"
  by (rule clean_callE)

lemma clean_checkResult [clean_rules]:
  "clean c P (proxy_checkResult L r)" "clean c P (taker_checkResult L r)"
  by (auto simp: checkResult_cases is_null_def intro: clean_atoms)

lemma clean_tryClaim_loop [clean_rules]:
  assumes "c \<Longrightarrow> tame_env E"
  shows "clean c (\<lambda>_. True) (tryClaim_loop E p n k)"
  by (induction k) (unfold tryClaim_loop.simps, (intro clean_rules tame_envD assms | assumption)+)

lemma clean_claim [clean_rules]:
  assumes "c \<Longrightarrow> tame_env E"
  shows "clean c (\<lambda>_. True) (claim E p q)"
  unfolding claim_def tryClaim_def by (intro clean_rules tame_envD assms | assumption)+

lemma clean_offer [clean_rules]:
  assumes "c \<Longrightarrow> tame_env E"
  shows "clean c (\<lambda>_. True) (offer E p b)"
proof (rule cleanI)
  fix w e w' assume c: c and run: "offer E p b w = Some (Inl e, w')"
  from offer_result [OF run] obtain w1 where ends: "offer_ends E p b w1 (Inl e) w'" by blast
  have q: "\<not> is_null (UnexpectedPublicationState q)" for q by (simp add: is_null_def)
  from tame_envD(14,39) [OF assms [OF c]] have "\<And>w w' e. pub_offer E p b w = (Inl e, w') \<Longrightarrow> \<not> is_null e"
    "\<And>w w' e. idle_idle E w = (Inl e, w') \<Longrightarrow> \<not> is_null e" unfolding tame_def by blast+
  with ends q show "\<not> is_null e" unfolding offer_ends_def by auto
qed simp

lemma clean_find_publication [clean_rules]:
  assumes "c \<Longrightarrow> tame_env E"
  shows "clean c (\<lambda>_. True) (find_publication E n)"
  by (induction n) (unfold find_publication.simps, (intro clean_rules clean_zoomE tame_envD assms | assumption | simp)+)

lemma clean_connect [clean_rules]:
  assumes "c \<Longrightarrow> tame_env E"
  shows "clean c (\<lambda>_. True) (connect E)" "clean c (\<lambda>_. True) (disconnect E)"
  unfolding connect_def disconnect_def
  by (intro clean_rules clean_zoomE tame_envD assms | assumption | simp)+

lemma clean_with_local [clean_rules]:
  assumes "clean c (\<lambda>_. True) m"
  shows "clean c (agent_ok c) (with_local x m)"
proof (rule cleanI)
  fix s r s' assume "agent_ok c s" "with_local x m s = Some (r, s')"
  then show "agent_ok c s'"
    by (auto simp: with_local_def agent_ok_def split: option.splits prod.splits)
next
  fix s e s' assume c: c and "with_local x m s = Some (Inl e, s')"
  then obtain t where "m (x, world s) = Some (Inl e, t)"
    by (auto simp: with_local_def split: option.splits prod.splits) (case_tac x1, auto)
  from cleanD(2) [OF assms TrueI this refl c] show "\<not> is_null e" .
qed

lemma clean_with_proxy [clean_rules]:
  "(\<And>p. clean c (\<lambda>_. True) (m p)) \<Longrightarrow> clean c (agent_ok c) (with_proxy m)"
  unfolding with_proxy_def
  by (rule clean_gets_bind) (auto intro!: clean_rules simp: agent_ok_def)

lemma clean_with_archive [clean_rules]:
  "(\<And>a. c \<Longrightarrow> tame (m a)) \<Longrightarrow> clean c (agent_ok c) (with_archive m)"
  unfolding with_archive_def
  by (rule clean_gets_bind) (auto intro!: clean_rules simp: agent_ok_def)

section \<open>Callbacks\<close>

lemma clean_pointer:
  assumes "\<And>s a. P s \<Longrightarrow> f s = Some a \<Longrightarrow> deref (m_table s) a \<noteq> None"
    "clean c P n" "\<And>a x. clean c (\<lambda>s. P s \<and> deref (m_table s) a \<noteq> None) (h a x)"
  shows "clean c P (bindE (getsE f) (\<lambda>p. case p of None \<Rightarrow> n | Some a \<Rightarrow> bindE (session_at a) (h a)))"
proof -
  have run: "bindE (getsE f) (\<lambda>p. case p of None \<Rightarrow> n | Some a \<Rightarrow> bindE (session_at a) (h a)) s =
      (case f s of None \<Rightarrow> n s | Some a \<Rightarrow> h a (the (deref (m_table s) a)) s)" if "P s" for s
    using assms(1) [OF that]
    by (cases "f s") (auto simp: bindE_run(3) bindE_def session_at_def derefE_def exec_run)
  show ?thesis
  proof (rule cleanI)
    fix s r s' assume P: "P s" and m: "bindE (getsE f) (\<lambda>p. case p of None \<Rightarrow> n | Some a \<Rightarrow> bindE (session_at a) (h a)) s
        = Some (r, s')"
    show "P s'"
    proof (cases "f s")
      case None
      with m show ?thesis using cleanD(1) [OF assms(2) P] by (simp add: run [OF P])
    next
      case (Some a)
      with m have m': "h a (the (deref (m_table s) a)) s = Some (r, s')" by (simp add: run [OF P])
      have "P s \<and> deref (m_table s) a \<noteq> None" using assms(1) [OF P Some] P by blast
      from cleanD(1) [OF assms(3) this m'] show ?thesis by blast
    qed
  next
    fix s e s' assume c: c and P: "P s"
      and m: "bindE (getsE f) (\<lambda>p. case p of None \<Rightarrow> n | Some a \<Rightarrow> bindE (session_at a) (h a)) s = Some (Inl e, s')"
    show "\<not> is_null e"
    proof (cases "f s")
      case None
      with m have "n s = Some (Inl e, s')" by (simp add: run [OF P])
      from cleanD(2) [OF assms(2) P this refl c] show ?thesis .
    next
      case (Some a)
      with m have m': "h a (the (deref (m_table s) a)) s = Some (Inl e, s')" by (simp add: run [OF P])
      have "P s \<and> deref (m_table s) a \<noteq> None" using assms(1) [OF P Some] P by blast
      from cleanD(2) [OF assms(3) this m' refl c] show ?thesis .
    qed
  qed
qed

lemma ok_pointer: "agent_ok c s \<Longrightarrow> find_pointer (m_table s) i = Some a \<Longrightarrow> deref (m_table s) a \<noteq> None"
  using table_safeD(4) [of "m_table s" i a] by (auto simp: agent_ok_def)

lemma clean_marking:
  "clean c (\<lambda>s. agent_ok c s \<and> deref (m_table s) a \<noteq> None) (with_session a (modifyE (\<lambda>(x, w). (markClosing x, w))))"
proof (rule cleanI; elim conjE)
  fix s r s' assume ok: "agent_ok c s" "deref (m_table s) a \<noteq> None"
    and run: "with_session a (modifyE (\<lambda>(x, w). (markClosing x, w))) s = Some (r, s')"
  then obtain x where x: "deref (m_table s) a = Some x" by blast
  have "with_session a (modifyE (\<lambda>(x, w). (markClosing x, w))) s =
      Some (Inr (), s\<lparr>m_table := update_at a (markClosing x) (m_table s), world := world s\<rparr>)"
    by (rule with_session_run [OF x]) (simp add: exec_run)
  from this [unfolded run] have "s' = s\<lparr>m_table := update_at a (markClosing x) (m_table s), world := world s\<rparr>"
    by (simp only: option.inject prod.inject)
  with ok x show "agent_ok c s' \<and> deref (m_table s') a \<noteq> None"
    by (auto simp: agent_ok_def deref_update markClosing_def intro: table_safe_update)
qed (auto simp: with_session_def exec_run)

lemma clean_closeClientSession [clean_rules]:
  assumes "c \<Longrightarrow> tame_env E"
  shows "clean c (agent_ok c) (closeClientSession E i)"
  unfolding closeClientSession_def
proof (rule clean_bindE)
  show "clean c (agent_ok c) checkForValidInvocation"
    unfolding checkForValidInvocation_def by (auto simp: is_null_def intro!: clean_rules)
  fix u
  show "clean c (agent_ok c) (bindE (getsE (\<lambda>s. find_pointer (m_table s) i)) (\<lambda>clientSession.
     case clientSession of
       None \<Rightarrow> throwE (UnknownClusterSession i)
     | Some a \<Rightarrow>
         bindE (session_at a) (\<lambda>x.
         if cs_isClosing x then retE True
         else
           bindE (with_proxy (\<lambda>p. closeSession E p i)) (\<lambda>sent.
           if sent then bindE (with_session a (modifyE (\<lambda>(x, w). (markClosing x, w)))) (\<lambda>_. retE True)
           else retE False))))"
  proof (rule clean_pointer)
    fix a x
    have "clean c (\<lambda>s. agent_ok c s \<and> deref (m_table s) a \<noteq> None) (with_proxy (\<lambda>p. closeSession E p i))"
      unfolding closeSession_def
      by (rule clean_frame [where f = m_table]) (intro clean_rules keeps_rules assms | simp)+
    then show "clean c (\<lambda>s. agent_ok c s \<and> deref (m_table s) a \<noteq> None)
        (if cs_isClosing x then retE True
         else
           bindE (with_proxy (\<lambda>p. closeSession E p i)) (\<lambda>sent.
           if sent then bindE (with_session a (modifyE (\<lambda>(x, w). (markClosing x, w)))) (\<lambda>_. retE True)
           else retE False))"
      by (intro clean_rules clean_marking)
  qed (auto simp: is_null_def intro: clean_atoms dest: ok_pointer)
qed

text \<open>A pointer that has been looked up is used at once.\<close>

lemma clean_lookup:
  assumes "clean c (agent_ok c) n" "\<And>x. clean c (agent_ok c) (h x)"
  shows "clean c (agent_ok c) (bindE (getsE (\<lambda>s. find_pointer (m_table s) i)) (\<lambda>p.
    case p of None \<Rightarrow> n | Some a \<Rightarrow> bindE (session_at a) h))"
proof -
  have run: "bindE (getsE (\<lambda>s. find_pointer (m_table s) i)) (\<lambda>p. case p of None \<Rightarrow> n | Some a \<Rightarrow> bindE (session_at a) h) s =
      (case lookup_session (m_table s) i of None \<Rightarrow> n s | Some x \<Rightarrow> h x s)" if "agent_ok c s" for s
  proof (cases "find_pointer (m_table s) i")
    case (Some a)
    from ok_pointer [OF that Some] obtain x where "deref (m_table s) a = Some x" by blast
    with Some show ?thesis
      by (simp add: bindE_run(3) bindE_def session_at_def derefE_def exec_run lookup_session_def)
  qed (simp add: bindE_run(3) lookup_session_def)
  show ?thesis
  proof (rule cleanI)
    fix s r s'
    assume P: "agent_ok c s" and m: "bindE (getsE (\<lambda>s. find_pointer (m_table s) i))
      (\<lambda>p. case p of None \<Rightarrow> n | Some a \<Rightarrow> bindE (session_at a) h) s = Some (r, s')"
    show "agent_ok c s'"
      using m cleanD(1) [OF assms(1) P] cleanD(1) [OF assms(2) P]
      unfolding run [OF P] by (cases "lookup_session (m_table s) i") (simp_all only: option.case)
  next
    fix s e s'
    assume c: c and P: "agent_ok c s" and m: "bindE (getsE (\<lambda>s. find_pointer (m_table s) i))
      (\<lambda>p. case p of None \<Rightarrow> n | Some a \<Rightarrow> bindE (session_at a) h) s = Some (Inl e, s')"
    show "\<not> is_null e"
    proof (cases "lookup_session (m_table s) i")
      case None
      with m have "n s = Some (Inl e, s')" unfolding run [OF P] by (simp only: option.case)
      from cleanD(2) [OF assms(1) P this refl c] show ?thesis .
    next
      case (Some x)
      with m have "h x s = Some (Inl e, s')" unfolding run [OF P] by (simp only: option.case)
      from cleanD(2) [OF assms(2) P this refl c] show ?thesis .
    qed
  qed
qed

lemma clean_run_callback [clean_rules]:
  assumes "c \<Longrightarrow> tame_env E" "c \<Longrightarrow> tame_callback k"
  shows "clean c (agent_ok c) (run_callback E k)"
  using assms(2)
proof (induction k)
  case (World u k)
  then show ?case unfolding run_callback.simps by (intro clean_rules) (auto simp: agent_ok_def)
next
  case (GetClientSession i k)
  then show ?case unfolding run_callback.simps getClientSession_def by (intro clean_lookup) auto
next
  case (CloseClientSession i k)
  then show ?case unfolding run_callback.simps by (intro clean_rules assms(1)) auto
qed (auto intro: clean_atoms)

end
