(* ===== verification/WorkSafety.thy ===== *)
theory WorkSafety
  imports AgentSafety
begin

text \<open>
  The handlers, the adapters and the work cycle keep the invariant \<open>agent_ok\<close> and use no null
  pointer.
\<close>

lemma agent_ok_update:
  assumes "agent_ok c s" "table_safe T"
  shows "agent_ok c (s\<lparr>m_table := T\<rparr>)"
  using assms by (simp add: agent_ok_def)

lemma clean_session_method [clean_rules]:
  assumes "keeps (\<lambda>(x, w). cs_id x) m" "\<And>s. clean c (\<lambda>_. True) m"
  shows "clean c (\<lambda>s. agent_ok c s \<and> deref (m_table s) a \<noteq> None) (with_session a m)"
proof (rule cleanI; elim conjE)
  fix s r s' assume ok: "agent_ok c s" "deref (m_table s) a \<noteq> None" and run: "with_session a m s = Some (r, s')"
  then obtain y where y: "deref (m_table s) a = Some y" by blast
  with run obtain x' w' where m: "m (y, world s) = Some (r, x', w')"
    and s': "s' = s\<lparr>m_table := update_at a x' (m_table s), world := w'\<rparr>"
    by (auto simp: with_session_def split: option.splits prod.splits)
  have "cs_id x' = cs_id y" using keepsD [OF assms(1) m] by simp
  with ok y show "agent_ok c s' \<and> deref (m_table s') a \<noteq> None"
    by (auto simp: s' agent_ok_def deref_update intro: table_safe_update)
next
  fix s e s' assume c: c and ok: "deref (m_table s) a \<noteq> None" and run: "with_session a m s = Some (Inl e, s')"
  then obtain y t where "deref (m_table s) a = Some y" "m (y, world s) = Some (Inl e, t)"
    by (auto simp: with_session_def split: option.splits prod.splits)
  from cleanD(2) [OF assms(2) TrueI this(2) refl c] show "\<not> is_null e" .
qed

section \<open>Handlers\<close>

lemma clean_at_position [clean_rules]: "clean c (agent_ok c) (at_position p t)"
  unfolding at_position_def by (intro clean_rules) (simp add: agent_ok_def)

lemma clean_ack [clean_rules]:
  assumes "c \<Longrightarrow> tame_env E"
  shows "clean c (agent_ok c) (ack E i)"
  unfolding ack_def proxy_ack_def
  by (intro clean_rules assms | assumption | simp add: agent_ok_def)+

lemma clean_set_role [clean_rules]:
  assumes "c \<Longrightarrow> tame_env E"
  shows "clean c (agent_ok c) (set_role E r)"
  unfolding set_role_def
  by (intro clean_rules tame_callbacksD assms | assumption | simp add: agent_ok_def)+

lemma clean_reconnect [clean_rules]: "clean c (agent_ok c) (reconnect_sessions E b)"
proof (rule cleanI)
  have keeps: "keeps (\<lambda>s. (m_proxy s, m_archive s, m_serviceAdapter s, m_commitPosition s)) (reconnect_sessions E b)"
    by (intro keeps_reconnect) simp_all
  fix s r s' assume ok: "agent_ok c s" and run: "reconnect_sessions E b s = Some (r, s')"
  from ok have "table_safe (m_table s)" by (simp add: agent_ok_def)
  from reconnect_sessions_result [OF this, of E b] run have "table_safe (m_table s')" by auto
  with ok keepsD [OF keeps run] show "agent_ok c s'" by (simp add: agent_ok_def)
next
  fix s e s' assume ok: "agent_ok c s" and run: "reconnect_sessions E b s = Some (Inl e, s')"
  from ok have "table_safe (m_table s)" by (simp add: agent_ok_def)
  from reconnect_sessions_result [OF this, of E b] run show "\<not> is_null e" by auto
qed

lemma clean_onSessionOpen [clean_rules]:
  assumes "c \<Longrightarrow> tame_env E"
  shows "clean c (agent_ok c) (onSessionOpen E termId p i t stream channel encPrincipal)"
proof -
  let ?f = "\<lambda>x s2. bindE (session_at (next_addr (m_table s2))) (\<lambda>x. run_callback E (svc_onSessionOpen E x t))
      (s2\<lparr>m_table := addSession x (m_table s2)\<rparr>)"
  have f: "?f x s2 = run_callback E (svc_onSessionOpen E x t) (s2\<lparr>m_table := addSession x (m_table s2)\<rparr>)"
    "agent_ok c (s2\<lparr>m_table := addSession x (m_table s2)\<rparr>)" if ok: "agent_ok c s2" for x s2
  proof -
    from ok have safe: "table_safe (m_table s2)" by (simp add: agent_ok_def)
    show "?f x s2 = run_callback E (svc_onSessionOpen E x t) (s2\<lparr>m_table := addSession x (m_table s2)\<rparr>)"
      by (simp add: bindE_def session_at_def deref_add [OF safe] exec_simps)
    show "agent_ok c (s2\<lparr>m_table := addSession x (m_table s2)\<rparr>)"
      using ok table_safe_add [OF safe] by (rule agent_ok_update)
  qed
  have clean_f: "clean c (agent_ok c) (?f x)" for x
  proof -
    have cb: "clean c (agent_ok c) (run_callback E (svc_onSessionOpen E x t))"
      by (intro clean_rules tame_callbacksD assms)
    show ?thesis
    proof (rule cleanI)
      fix s r s' assume ok: "agent_ok c s" and run: "?f x s = Some (r, s')"
      from cleanD(1) [OF cb f(2) [OF ok] run [unfolded f(1) [OF ok]]] show "agent_ok c s'" .
    next
      fix s e s' assume c: c and ok: "agent_ok c s" and run: "?f x s = Some (Inl e, s')"
      from cleanD(2) [OF cb f(2) [OF ok] run [unfolded f(1) [OF ok]] refl c] show "\<not> is_null e" .
    qed
  qed
  have body: "clean c (agent_ok c) (bindE (if b then with_local x (connect E) else retE x) ?f)" for b x
    by (intro clean_bindE clean_cases clean_with_local clean_connect clean_atoms clean_f assms)
  have at: "agent_ok c (s\<lparr>m_logPosition := p, m_clusterTime := t\<rparr>)" if "agent_ok c s" for s :: "'b sys"
    using that by (simp add: agent_ok_def)
  show ?thesis
  proof (rule cleanI)
    fix s r s' assume ok: "agent_ok c s" and run: "onSessionOpen E termId p i t stream channel encPrincipal s = Some (r, s')"
    show "agent_ok c s'"
    proof (cases "find_pointer (m_table s) i = None")
      case True
      from cleanD(1) [OF body at [OF ok] run [unfolded onSessionOpen_run(2) [OF True]]] show ?thesis .
    next
      case False
      with run at [OF ok] show ?thesis by (auto simp: onSessionOpen_run(1))
    qed
  next
    fix s e s' assume c: c and ok: "agent_ok c s"
      and run: "onSessionOpen E termId p i t stream channel encPrincipal s = Some (Inl e, s')"
    show "\<not> is_null e"
    proof (cases "find_pointer (m_table s) i = None")
      case True
      from cleanD(2) [OF body at [OF ok] run [unfolded onSessionOpen_run(2) [OF True]] refl c] show ?thesis .
    next
      case False
      with run show ?thesis by (auto simp: onSessionOpen_run(1) is_null_def)
    qed
  qed
qed

lemma clean_onSessionClose [clean_rules]:
  assumes "c \<Longrightarrow> tame_env E"
  shows "clean c (agent_ok c) (onSessionClose E termId p i t reason)"
proof -
  have body: "clean c (agent_ok c) (bindE (with_local x (disconnect E)) (\<lambda>x'.
      run_callback E (svc_onSessionClose E x' t reason)))" for x
    by (intro clean_rules tame_callbacksD assms)
  have ok1: "agent_ok c (s\<lparr>m_logPosition := p, m_clusterTime := t, m_table := snd (removeSession i (m_table s))\<rparr>)"
    if "agent_ok c s" for s :: "'b sys"
    using that table_safe_remove [of "m_table s" i] by (simp add: agent_ok_def)
  show ?thesis
  proof (rule cleanI)
    fix s r s' assume ok: "agent_ok c s" and run: "onSessionClose E termId p i t reason s = Some (r, s')"
    show "agent_ok c s'"
    proof (cases "fst (removeSession i (m_table s))")
      case None
      with run ok1 [OF ok] show ?thesis by (auto simp: onSessionClose_run Let_def)
    next
      case (Some x)
      with run have "bindE (with_local x (disconnect E)) (\<lambda>x'. run_callback E (svc_onSessionClose E x' t reason))
          (s\<lparr>m_logPosition := p, m_clusterTime := t, m_table := snd (removeSession i (m_table s))\<rparr>) = Some (r, s')"
        by (simp add: onSessionClose_run Let_def)
      from cleanD(1) [OF body ok1 [OF ok] this] show ?thesis .
    qed
  next
    fix s e s' assume c: c and ok: "agent_ok c s" and run: "onSessionClose E termId p i t reason s = Some (Inl e, s')"
    show "\<not> is_null e"
    proof (cases "fst (removeSession i (m_table s))")
      case None
      with run show ?thesis by (auto simp: onSessionClose_run Let_def is_null_def)
    next
      case (Some x)
      with run have "bindE (with_local x (disconnect E)) (\<lambda>x'. run_callback E (svc_onSessionClose E x' t reason))
          (s\<lparr>m_logPosition := p, m_clusterTime := t, m_table := snd (removeSession i (m_table s))\<rparr>) = Some (Inl e, s')"
        by (simp add: onSessionClose_run Let_def)
      from cleanD(2) [OF body ok1 [OF ok] this refl c] show ?thesis .
    qed
  qed
qed

lemma clean_handle_event [clean_rules]:
  assumes "c \<Longrightarrow> tame_env E"
  shows "clean c (agent_ok c) (handle_event E ev)"
proof (cases ev)
  case (SessionMessage p i t b n l h)
  then show ?thesis
    by (simp add: onSessionMessage_def) (intro clean_rules clean_lookup tame_callbacksD assms)
next
  case (MembershipChange p t change member)
  then show ?thesis by (simp add: onMembershipChange_def terminate_def) (intro clean_rules)
qed (simp_all add: onTimerEvent_def onServiceAction_def executeAction_def onTakeSnapshot_def new_snapshot_state_def onNewLeadershipTermEvent_def,
  (intro clean_rules tame_envD tame_callbacksD assms | assumption | simp add: agent_ok_def)+)

section \<open>Adapters\<close>

lemma clean_decode [clean_rules]:
  assumes "c \<Longrightarrow> tame_decoder wrap"
  shows "clean c P (decode_at E wrap h b i n)"
  unfolding decode_at_def using assms by (intro clean_rules) (auto simp: tame_decoder_def)

lemma clean_header [clean_rules]:
  assumes "c \<Longrightarrow> tame_env E"
  shows "clean c P (message_header_of E b i n)"
  unfolding message_header_of_def
  by (intro clean_rules) (auto simp: is_null_def dest: tame_codecsD(1) [OF assms])

lemma tame_decode_message:
  "tame_decoder wrap \<Longrightarrow> decode_message E wrap h b i n f = Inl e \<Longrightarrow> \<not> is_null e"
  by (auto simp: decode_message_def tame_decoder_def map_sum_def split: sum.splits)

lemma tame_decode_event:
  assumes "decode_event E b i n h = Inl e" "tame_env E"
  shows "\<not> is_null e"
proof -
  have "\<not> is_null (UnexpectedSchemaId x y)" for x y by (simp add: is_null_def)
  then show ?thesis
    using assms(1) tame_codecsD(1) [OF assms(2)]
    unfolding decode_event_def Let_def
    by (auto split: sum.splits if_splits dest: tame_decodersD [OF assms(2), THEN tame_decode_message])
qed

lemma clean_log_onMessage [clean_rules]:
  assumes "c \<Longrightarrow> tame_env E"
  shows "clean c (agent_ok c) (log_onMessage E b i n h)"
  unfolding log_onMessage_eq
  by (intro clean_rules assms | rule tame_decode_event | assumption)+

lemma clean_log_onFragment [clean_rules]:
  assumes "c \<Longrightarrow> tame_env E"
  shows "clean c (agent_ok c) (log_onFragment E f)"
  unfolding log_onFragment_def Let_def
  by (intro clean_rules tame_envD assms | assumption)+

lemma clean_service_onFragment [clean_rules]:
  assumes "c \<Longrightarrow> tame_env E"
  shows "clean c (agent_ok c) (continuing (service_onFragment E) f)"
proof -
  have bound: "clean c (agent_ok c) (bindE (getsE m_serviceAdapter) (\<lambda>a.
      if case a of None \<Rightarrow> False | Some x \<Rightarrow> sa_agentBound x then m else throwE (NullDereference ''m_agent'')))"
    if "clean c (agent_ok c) m" for m :: "('b sys, unit) exec"
    by (rule clean_gets_bind) (auto simp: agent_ok_def that)
  have role: "\<not> is_null e" if "getRole x = Inl e" for x e
    using that by (auto simp: getRole_def is_null_def split: if_splits)
  show ?thesis
    unfolding continuing_def service_onFragment_def Let_def onJoinLog_def onServiceTerminationPosition_def
      onRequestServiceAck_def
    by (intro clean_rules bound tame_decodersD assms | assumption | simp add: agent_ok_def role)+
qed

lemma clean_service_poll [clean_rules]:
  assumes "c \<Longrightarrow> tame_env E"
  shows "clean c (agent_ok c) (service_poll E)"
  unfolding service_poll_def
proof (rule clean_gets_bind)
  fix s assume "agent_ok c s"
  then show "clean c (agent_ok c) (bindE (derefE ''m_serviceAdapter'' (m_serviceAdapter s)) (\<lambda>a.
     pollE (world_call (sub_poll E (sa_subscription a) (sa_fragmentLimit a)))
       (\<lambda>k. world_call (poll_finish E k)) (\<lambda>k e. world_call (poll_on_throw E k e))
       (continuing (service_onFragment E))))"
    by (intro clean_rules tame_envD assms | assumption | auto simp: agent_ok_def)+
qed

text \<open>What the log does not touch.\<close>

lemma keeps_log_message [keeps_rules]:
  assumes "\<And>w s. f (s\<lparr>world := w\<rparr>) = f s" "\<And>T s. f (s\<lparr>m_table := T\<rparr>) = f s"
    "\<And>p t s. f (s\<lparr>m_logPosition := p, m_clusterTime := t\<rparr>) = f s"
    "\<And>t s. f (s\<lparr>m_leadershipTermId := t\<rparr>) = f s" "\<And>x s. f (s\<lparr>m_currentSnapshot := x\<rparr>) = f s"
  shows "keeps f (handle_event E ev)" "keeps f (log_onMessage E b i n h)" "keeps f (log_onFragment E fragment)"
proof -
  show handle: "keeps f (handle_event E ev)" for ev
    by (cases ev; simp only: handle_event.simps onSessionMessage_def onTimerEvent_def onSessionOpen_def
        onSessionClose_def onMembershipChange_def onNewLeadershipTermEvent_def onServiceAction_def executeAction_def
        onTakeSnapshot_def new_snapshot_state_def at_position_def terminate_def add_agent_session_def Let_def)
      (intro keeps_rules assms)+
  show message: "keeps f (log_onMessage E b i n h)" for b i n h
    unfolding log_onMessage_eq by (intro keeps_rules handle)
  show "keeps f (log_onFragment E fragment)"
    unfolding log_onFragment_def Let_def by (intro keeps_rules assms message)
qed

lemma clean_log_poll:
  assumes "c \<Longrightarrow> tame_env E"
  shows "clean c (\<lambda>s. agent_ok c s \<and> la_image s \<noteq> None) (log_poll E limit)"
proof -
  have "clean c (\<lambda>s. agent_ok c s \<and> la_image s \<noteq> None) (bindE (derefE ''m_image'' (la_image s)) (\<lambda>i.
     pollE (world_call (image_boundedControlledPoll E i limit (la_fragmentLimit s)))
       (\<lambda>k. world_call (poll_finish E k)) (\<lambda>k e. world_call (poll_on_throw E k e)) (log_onFragment E)))"
    if "la_image s \<noteq> None" for s :: "'b sys"
  proof (rule clean_frame)
    show "clean c (agent_ok c) (bindE (derefE ''m_image'' (la_image s)) (\<lambda>i.
     pollE (world_call (image_boundedControlledPoll E i limit (la_fragmentLimit s)))
       (\<lambda>k. world_call (poll_finish E k)) (\<lambda>k e. world_call (poll_on_throw E k e)) (log_onFragment E)))"
      by (intro clean_rules tame_envD assms | assumption | simp add: that)+
  qed (intro keeps_rules, simp_all)
  then show ?thesis
    unfolding log_poll_def by (intro clean_gets_bind) simp
qed

section \<open>The work cycle\<close>

lemma clean_log_isDone [clean_rules]:
  assumes "c \<Longrightarrow> tame_env E"
  shows "clean c (agent_ok c) (log_isDone E)"
  unfolding log_isDone_def by (intro clean_rules tame_envD assms | assumption)+

lemma clean_closeLog:
  assumes "c \<Longrightarrow> tame_env E" "la_image s \<noteq> None"
  shows "clean c (agent_ok c) (bindE (derefE ''m_image'' (la_image s)) (\<lambda>img.
     bindE (world_call (image_position E img)) (\<lambda>position.
     bindE (modifyE (\<lambda>s. s\<lparr>m_logPosition := max position (m_logPosition s)\<rparr>)) (\<lambda>_.
     bindE (log_close E) (\<lambda>_.
     set_role E FOLLOWER)))))"
  unfolding log_close_def
  by (intro clean_rules tame_envD assms(1) | assumption | simp add: assms(2) agent_ok_def)+

lemma clean_checkAeronOpen [clean_rules]:
  assumes "c \<Longrightarrow> tame_env E"
  shows "clean c (agent_ok c) (checkAeronOpen E)"
  unfolding checkAeronOpen_def
  by (intro clean_rules tame_envD assms | assumption | simp add: is_null_def agent_ok_def)+

lemma clean_checkForClockTick [clean_rules]:
  assumes "c \<Longrightarrow> tame_env E"
  shows "clean c (agent_ok c) (checkForClockTick E nowNs)"
  unfolding checkForClockTick_def
  by (intro clean_rules tame_envD assms | assumption | simp add: is_null_def agent_ok_def)+

text \<open>Joining needs the event; what its steps find they do not lose.\<close>

definition event_ok :: "bool \<Rightarrow> (active_log_event \<Rightarrow> bool) \<Rightarrow> 'w sys \<Rightarrow> bool" where
  "event_ok c F s \<longleftrightarrow> agent_ok c s \<and> (\<exists>e. m_activeLogEvent s = Some e \<and> F e)"

lemma event_ok_agent: "event_ok c F s \<Longrightarrow> agent_ok c s"
  by (simp add: event_ok_def)

lemma clean_event:
  assumes "clean c (agent_ok c) m" "keeps m_activeLogEvent m"
  shows "clean c (event_ok c F) m"
  using clean_frame [OF assms, of "\<lambda>p. \<exists>e. p = Some e \<and> F e"]
  by (rule clean_weaken) (simp add: event_ok_def)

lemma clean_event_call:
  assumes "c \<Longrightarrow> tame f"
  shows "clean c (event_ok c F) (world_call f)"
  by (rule clean_event) (intro clean_rules keeps_rules assms | simp)+

lemma clean_event_get:
  assumes "\<And>e. F e \<Longrightarrow> clean c (event_ok c F) (h (g e))"
  shows "clean c (event_ok c F) (bindE (event_get g) h)"
proof -
  have "bindE (event_get g) h s = h (g e) s" if "m_activeLogEvent s = Some e" for s e
    using that by (simp add: event_get_def exec_simps)
  then show ?thesis
    using assms unfolding clean_def event_ok_def by (metis (no_types, lifting))
qed

lemma clean_event_set:
  "(\<And>e. F e \<Longrightarrow> F (g e)) \<Longrightarrow> clean c (event_ok c F) (event_set g)"
  unfolding event_set_def by (intro clean_atoms) (auto simp: event_ok_def agent_ok_def)

lemma clean_join_subscription:
  assumes "c \<Longrightarrow> tame_env E"
  shows "clean c (event_ok c (\<lambda>_. True)) (join_subscription E)"
  unfolding join_subscription_def
  by (intro clean_event_get clean_event_set clean_event_call clean_rules tame_envD assms TrueI | assumption)+

lemma join_subscription_found:
  fixes E :: "('b, 'w, 'z) env_scheme"
  assumes ok: "event_ok c (\<lambda>_. True) s" and run: "join_subscription E s = Some (Inr True, s')"
  shows "event_ok c (\<lambda>e. al_subscription e \<noteq> None) s'"
proof -
  have "event_ok False (\<lambda>_. True) s" using ok by (simp add: event_ok_def agent_ok_def)
  from cleanD(1) [OF clean_join_subscription [of False E, OF FalseE] this run] obtain e where "m_activeLogEvent s' = Some e"
    by (auto simp: event_ok_def)
  moreover from this run have "al_subscription e \<noteq> None"
    unfolding join_subscription_def
    by (auto simp: bindE_eq_Some_Inr event_get_Inr event_set_def exec_run split: if_splits)
  moreover have "keeps m_commitPosition (join_subscription E)"
    unfolding join_subscription_def by (intro keeps_rules; simp)
  then have "m_commitPosition s' = m_commitPosition s" using run by (rule keepsD)
  moreover have "agent_ok False s'"
    using cleanD(1) [OF clean_join_subscription [of False E, OF FalseE] \<open>event_ok False (\<lambda>_. True) s\<close> run] by (simp add: event_ok_def)
  ultimately show ?thesis using ok by (auto simp: event_ok_def agent_ok_def)
qed

lemma clean_join_image:
  assumes "c \<Longrightarrow> tame_env E"
  shows "clean c (event_ok c (\<lambda>e. al_subscription e \<noteq> None)) (join_image E)"
  unfolding join_image_def
  by (intro clean_event_get clean_event_set clean_event_call clean_rules tame_envD assms | assumption | simp)+

lemma join_image_found:
  fixes E :: "('b, 'w, 'z) env_scheme"
  assumes ok: "event_ok c (\<lambda>e. al_subscription e \<noteq> None) s" and run: "join_image E s = Some (Inr True, s')"
  shows "event_ok c (\<lambda>e. al_image e \<noteq> None) s'"
proof -
  have ok': "event_ok False (\<lambda>e. al_subscription e \<noteq> None) s" using ok by (simp add: event_ok_def agent_ok_def)
  from cleanD(1) [OF clean_join_image [of False E, OF FalseE] this run] obtain e where "m_activeLogEvent s' = Some e"
    by (auto simp: event_ok_def)
  moreover from this run have "al_image e \<noteq> None"
    unfolding join_image_def
    by (auto simp: bindE_eq_Some_Inr event_get_Inr event_set_def exec_run split: if_splits)
  moreover have "keeps m_commitPosition (join_image E)"
    unfolding join_image_def by (intro keeps_rules; simp)
  then have "m_commitPosition s' = m_commitPosition s" using run by (rule keepsD)
  moreover have "agent_ok False s'"
    using cleanD(1) [OF clean_join_image [of False E, OF FalseE] ok' run] by (simp add: event_ok_def)
  ultimately show ?thesis using ok by (auto simp: event_ok_def agent_ok_def)
qed

text \<open>The part of \<open>joinActiveLog\<close> after the image has been found.\<close>

definition join_found :: "('b, 'w, 'z) env_scheme \<Rightarrow> ('w sys, bool) exec" where
  "join_found E =
       bindE (event_get al_image) (\<lambda>img.
       bindE (derefE ''m_image'' img) (\<lambda>img.
       bindE (join_contiguous E img) (\<lambda>_.
       bindE (event_get id) (\<lambda>activeLog.
       bindE (modifyE (\<lambda>s. s\<lparr>la_image := Some img, la_maxLogPosition := al_maxLogPosition activeLog\<rparr>)) (\<lambda>_.
       bindE (event_set (\<lambda>x. x\<lparr>al_subscription := None\<rparr>)) (\<lambda>_.
       bindE (ack E (NULL_VALUE E)) (\<lambda>_.
       bindE (modifyE (\<lambda>s. s\<lparr>m_memberId := al_memberId activeLog\<rparr>)) (\<lambda>_.
       bindE (whenE (al_role activeLog = LEADER) (reconnect_sessions E (al_isStartup activeLog))) (\<lambda>_.
       bindE (set_role E (al_role activeLog)) (\<lambda>_.
       retE True))))))))))"

lemma joinActiveLog_stages:
  "joinActiveLog E = bindE (join_subscription E) (\<lambda>more. if \<not> more then retE False
     else bindE (join_image E) (\<lambda>more. if \<not> more then retE False else join_found E))"
  by (simp only: joinActiveLog_def join_found_def)

lemma clean_join_found:
  assumes "c \<Longrightarrow> tame_env E"
  shows "clean c (event_ok c (\<lambda>e. al_image e \<noteq> None)) (join_found E)"
proof -
  let ?F = "\<lambda>e. al_image e \<noteq> None"
  have contiguous: "clean c (event_ok c ?F) (join_contiguous E img)" for img
    unfolding join_contiguous_def
    by (intro clean_gets_bind clean_event_get clean_rules) (simp_all add: is_null_def)
  have later: "clean c (event_ok c ?F) (ack E i)" "clean c (event_ok c ?F) (set_role E r)"
    "clean c (event_ok c ?F) (reconnect_sessions E b)" for i r b
    by (intro clean_event clean_rules keeps_rules assms | assumption | simp)+
  have fields: "clean c (event_ok c ?F) (modifyE (\<lambda>s. s\<lparr>la_image := p, la_maxLogPosition := m\<rparr>))"
    "clean c (event_ok c ?F) (modifyE (\<lambda>s. s\<lparr>m_memberId := j\<rparr>))" for p m j
    by (intro clean_atoms; simp add: event_ok_def agent_ok_def)+
  show ?thesis
    unfolding join_found_def
    by (intro clean_event_get clean_event_set contiguous later fields clean_bindE clean_whenE clean_derefE clean_atoms)
      simp_all
qed

text \<open>A stage that says whether to go on.\<close>

lemma leads_stage:
  assumes m: "clean c P m" and yes: "\<And>s s'. P s \<Longrightarrow> m s = Some (Inr True, s') \<Longrightarrow> Q s'"
    and h: "leads c Q R h" and R: "\<And>s. P s \<Longrightarrow> R s"
  shows "leads c P R (bindE m (\<lambda>go. if \<not> go then retE False else h))"
proof (rule leads_bind [where Q = "\<lambda>go s. if go then Q s else P s", OF m])
  show "if go then Q s' else P s'" if "P s" "m s = Some (Inr go, s')" for s go s'
    using yes [of s s'] cleanD(1) [OF m that] that by (cases go) simp_all
  show "leads c (\<lambda>s. if go then Q s else P s) R (if \<not> go then retE False else h)" for go
    using h R by (cases go) (auto simp: leads_def exec_run)
qed (rule R)

lemma leads_joinActiveLog:
  assumes E: "c \<Longrightarrow> tame_env E"
  shows "leads c (event_ok c (\<lambda>_. True)) (agent_ok c) (joinActiveLog E)"
proof -
  let ?any = "event_ok c (\<lambda>_. True)" and ?sub = "event_ok c (\<lambda>e. al_subscription e \<noteq> None)"
    and ?img = "event_ok c (\<lambda>e. al_image e \<noteq> None)"
  have found: "leads c ?img (agent_ok c) (join_found E)"
    by (rule leads_clean [OF clean_join_found event_ok_agent]) (rule E)
  have image: "leads c ?sub (agent_ok c) (bindE (join_image E) (\<lambda>go. if \<not> go then retE False else join_found E))"
    by (rule leads_stage [OF clean_join_image join_image_found found event_ok_agent]) (rule E)
  show ?thesis
    unfolding joinActiveLog_stages
    by (rule leads_stage [OF clean_join_subscription join_subscription_found image event_ok_agent]) (rule E)
qed

text \<open>The branch of \<open>pollServiceAdapter\<close> that joins the log.\<close>

definition join_pending :: "('b, 'w, 'z) env_scheme \<Rightarrow> ('w sys, bool) exec" where
  "join_pending E = (\<lambda>s. if m_activeLogEvent s \<noteq> None \<and> la_image s = None then joinActiveLog E s else retE False s)"

lemma join_pending_eq:
  "bindE (getsE (\<lambda>s. m_activeLogEvent s \<noteq> None \<and> la_image s = None)) (\<lambda>pending.
     bindE (if pending then joinActiveLog E else retE False) h) = bindE (join_pending E) h"
  by (rule ext) (simp add: bindE_run(3) bindE_def join_pending_def exec_run)

lemma clean_join_pending:
  assumes E: "c \<Longrightarrow> tame_env E"
  shows "clean c (agent_ok c) (join_pending E)"
proof -
  have step: "agent_ok c t \<and> (\<forall>e. q = Inl e \<longrightarrow> c \<longrightarrow> \<not> is_null e)"
    if ok: "agent_ok c s" and run: "join_pending E s = Some (q, t)" for s q t
  proof (cases "m_activeLogEvent s \<noteq> None \<and> la_image s = None")
    case True
    with run have "joinActiveLog E s = Some (q, t)" by (simp add: join_pending_def)
    moreover have "event_ok c (\<lambda>_. True) s" using ok True by (simp add: event_ok_def)
    ultimately show ?thesis using leadsD [OF leads_joinActiveLog [of c E, OF E]] by blast
  next
    case False
    with run have "q = Inr False" "t = s" by (auto simp: join_pending_def exec_run)
    with ok show ?thesis by simp
  qed
  then show ?thesis unfolding clean_def by blast
qed

lemma clean_pollServiceAdapter [clean_rules]:
  assumes E: "c \<Longrightarrow> tame_env E"
  shows "clean c (agent_ok c) (pollServiceAdapter E)"
  unfolding pollServiceAdapter_def join_pending_eq terminate_def
  by (intro clean_bindE clean_service_poll clean_join_pending clean_ack clean_cases clean_whenE clean_atoms E)
    (simp_all add: agent_ok_def)

text \<open>Polling the log, when there is one.\<close>

lemma leads_poll_log:
  assumes E: "c \<Longrightarrow> tame_env E"
  shows "leads c (\<lambda>s. agent_ok c s \<and> la_image s \<noteq> None) (agent_ok c) (poll_log E)"
proof -
  let ?J = "\<lambda>s. agent_ok c s \<and> la_image s \<noteq> None"
  have close: "leads c ?J (agent_ok c) (closeLog E)"
    unfolding closeLog_def leads_def
  proof (intro allI impI)
    fix s r s' assume J: "?J s" and run: "bindE (getsE la_image) (\<lambda>img.
      bindE (derefE ''m_image'' img) (\<lambda>img.
      bindE (world_call (image_position E img)) (\<lambda>position.
      bindE (modifyE (\<lambda>s. s\<lparr>m_logPosition := max position (m_logPosition s)\<rparr>)) (\<lambda>_.
      bindE (log_close E) (\<lambda>_. set_role E FOLLOWER))))) s = Some (r, s')"
    from J have "la_image s \<noteq> None" "agent_ok c s" by simp_all
    from cleanD [OF clean_closeLog [of c E s, OF E this(1)] this(2) run [unfolded bindE_run(3)]]
    show "agent_ok c s' \<and> (\<forall>e. r = Inl e \<longrightarrow> c \<longrightarrow> \<not> is_null e)" by blast
  qed
  have finished: "clean c ?J (log_isDone E)"
    by (rule clean_frame [where f = la_image], rule clean_log_isDone, rule E)
      (auto simp: log_isDone_def intro!: keeps_rules)
  have commit: "clean c ?J (world_call (commit_get E x))" for x
    by (rule clean_frame [where f = la_image]) (intro clean_rules keeps_rules tame_envD E | simp)+
  show ?thesis
    unfolding poll_log_def
    by (intro leads_gets leads_next leads_when commit finished close clean_log_poll E clean_derefE)
      (auto simp: agent_ok_def)
qed

end
