(* ===== verification/CycleSafety.thy ===== *)
theory CycleSafety
  imports WorkSafety
begin

text \<open>
  The snapshot in progress and the work cycle as a whole: a run of \<open>doWork\<close> keeps the invariant
  \<open>agent_ok\<close> and uses no null pointer.
\<close>

section \<open>The snapshot in progress\<close>

text \<open>The object of the snapshot and, past the first stage, its publication are there.\<close>

definition snapshot_ok :: "bool \<Rightarrow> (snapshot_state \<Rightarrow> bool) \<Rightarrow> 'w sys \<Rightarrow> bool" where
  "snapshot_ok c F s \<longleftrightarrow> agent_ok c s \<and> (\<exists>x. m_currentSnapshot s = Some x \<and> F x)"

lemma clean_snapshot:
  assumes "clean c (agent_ok c) m" "keeps m_currentSnapshot m"
  shows "clean c (snapshot_ok c F) m"
  using clean_frame [OF assms, of "\<lambda>p. \<exists>e. p = Some e \<and> F e"]
  by (rule clean_weaken) (simp add: snapshot_ok_def)

lemma clean_snapshot_call:
  assumes "c \<Longrightarrow> tame f"
  shows "clean c (snapshot_ok c F) (world_call f)"
  by (rule clean_snapshot) (intro clean_rules keeps_rules assms | simp)+

lemma clean_snapshot_archive:
  assumes "\<And>a. c \<Longrightarrow> tame (f a)"
  shows "clean c (snapshot_ok c F) (with_archive f)"
  by (rule clean_snapshot) (intro clean_rules keeps_rules assms | assumption | simp)+

lemma clean_snapshot_get:
  assumes "\<And>x. F x \<Longrightarrow> clean c (snapshot_ok c F) (h (g x))"
  shows "clean c (snapshot_ok c F) (bindE (snapshot_get g) h)"
proof -
  have "bindE (snapshot_get g) h s = h (g x) s" if "m_currentSnapshot s = Some x" for s x
    using that by (simp add: snapshot_get_def exec_simps)
  then show ?thesis
    using assms unfolding clean_def snapshot_ok_def by (metis (no_types, lifting))
qed

lemma clean_snapshot_set:
  "(\<And>x. F x \<Longrightarrow> F (g x)) \<Longrightarrow> clean c (snapshot_ok c F) (snapshot_set g)"
  unfolding snapshot_set_def by (intro clean_atoms) (auto simp: snapshot_ok_def agent_ok_def)

lemma snapshot_get_Inr: "snapshot_get f s = Some (Inr x, s') \<longleftrightarrow> (\<exists>e. m_currentSnapshot s = Some e \<and> x = f e \<and> s' = s)"
  by (auto simp: snapshot_get_def bindE_run(3) bindE_eq_Some_Inr derefE_eq_Some_Inr exec_run)

lemma clean_snapshot_publication:
  assumes "c \<Longrightarrow> tame_env E"
  shows "clean c (snapshot_ok c (\<lambda>_. True)) (snapshot_publication E)"
  unfolding snapshot_publication_def
  by (intro clean_snapshot_get clean_snapshot_set clean_snapshot_call clean_snapshot_archive clean_rules tame_envD assms
    TrueI | assumption)+

lemma snapshot_publication_found:
  fixes E :: "('b, 'w, 'z) env_scheme"
  assumes ok: "snapshot_ok c (\<lambda>_. True) s" and run: "snapshot_publication E s = Some (Inr True, s')"
  shows "snapshot_ok c (\<lambda>x. ss_publication x \<noteq> None) s'"
proof -
  have ok': "snapshot_ok False (\<lambda>_. True) s" using ok by (simp add: snapshot_ok_def agent_ok_def)
  from cleanD(1) [OF clean_snapshot_publication [of False E, OF FalseE] this run]
  have s': "snapshot_ok False (\<lambda>_. True) s'" .
  then obtain x where x: "m_currentSnapshot s' = Some x" by (auto simp: snapshot_ok_def)
  define K :: "pub option \<Rightarrow> ('w sys, bool) exec" where "K found =
     (case found of
         None \<Rightarrow> retE False
       | Some p \<Rightarrow>
           bindE (snapshot_get (\<lambda>x. (ss_snapshotChannel x, ss_snapshotStreamId x))) (\<lambda>(channel, streamId).
           bindE (world_call (ChannelUri_addSessionId E channel (pub_sessionId E p))) (\<lambda>channel.
           bindE (with_archive (\<lambda>a. archive_startRecording E a channel streamId (LOCAL_SOURCE E) True)) (\<lambda>_.
           retE True))))" for found
  have keeps_K: "keeps m_currentSnapshot (K found)" for found
    unfolding K_def by (intro keeps_rules; simp)
  have "ss_publication x \<noteq> None"
  proof -
    from run [unfolded snapshot_publication_def, folded K_def] x consider "ss_publication x \<noteq> None" | found t where
      "K found (t\<lparr>m_currentSnapshot := map_option (\<lambda>x. x\<lparr>ss_publication := found\<rparr>) (m_currentSnapshot t)\<rparr>)
         = Some (Inr True, s')"
      by (auto simp: bindE_eq_Some_Inr snapshot_get_Inr snapshot_set_def exec_run simp del: not_None_eq split: if_splits)
    then show ?thesis
    proof cases
      case (2 found t)
      moreover have "K None s \<noteq> Some (Inr True, s')" for s by (simp add: K_def exec_run)
      ultimately have "found \<noteq> None" by (cases found) simp_all
      with keepsD [OF keeps_K 2] x show ?thesis by (cases "m_currentSnapshot t") auto
    qed
  qed
  moreover have "keeps m_commitPosition (snapshot_publication E)"
    unfolding snapshot_publication_def by (intro keeps_rules; simp)
  then have "m_commitPosition s' = m_commitPosition s" using run by (rule keepsD)
  ultimately show ?thesis using ok s' x by (auto simp: snapshot_ok_def agent_ok_def)
qed

lemma clean_snapshotState:
  assumes "c \<Longrightarrow> tame_env E"
  shows "clean c (agent_ok c) (snapshotState E p position termId)"
  unfolding snapshotState_def markBegin_def markEnd_def markSnapshot_def snapshotSession_def Let_def
  by (intro clean_rules assms tame_codecsD(2,3) [rotated] | assumption)+

abbreviation has_publication :: "bool \<Rightarrow> 'w sys \<Rightarrow> bool" where
  "has_publication c \<equiv> snapshot_ok c (\<lambda>x. ss_publication x \<noteq> None)"

lemma clean_snapshot_recording:
  assumes "c \<Longrightarrow> tame_env E"
  shows "clean c (has_publication c) (snapshot_recording E)"
proof -
  have state: "clean c (has_publication c) (snapshotState E p position termId)" for p position termId
    by (intro clean_snapshot clean_snapshotState keeps_snapshotState assms | assumption | simp)+
  show ?thesis
    unfolding snapshot_recording_def
    by (intro clean_snapshot_get clean_snapshot_set clean_snapshot_call clean_snapshot_archive state clean_rules
      tame_envD assms | assumption | simp)+
qed

lemma clean_snapshot_complete:
  assumes "c \<Longrightarrow> tame_env E"
  shows "clean c (has_publication c) (snapshot_complete E)"
proof -
  have callback: "clean c (has_publication c) (run_callback E (svc_onTakeSnapshot E p))"
    "clean c (has_publication c) (ack E i)" for p i
    by (intro clean_snapshot clean_rules keeps_rules tame_callbacksD assms | assumption | simp)+
  show ?thesis
    unfolding snapshot_complete_def snapshot_positions_def
    by (intro clean_snapshot_get clean_snapshot_set clean_snapshot_call callback clean_rules tame_envD assms
      | assumption | simp)+
qed

lemma snapshot_ok_agent: "snapshot_ok c F s \<Longrightarrow> agent_ok c s"
  by (simp add: snapshot_ok_def)

lemma leads_snapshot_doWork:
  assumes E: "c \<Longrightarrow> tame_env E"
  shows "leads c (snapshot_ok c (\<lambda>_. True)) (agent_ok c) (snapshot_doWork E)"
proof -
  have complete: "leads c (has_publication c) (agent_ok c) (snapshot_complete E)"
    by (rule leads_clean [OF clean_snapshot_complete snapshot_ok_agent]) (rule E)
  have recording: "leads c (has_publication c) (agent_ok c)
      (bindE (snapshot_recording E) (\<lambda>go. if \<not> go then retE False else snapshot_complete E))"
    by (rule leads_stage [OF clean_snapshot_recording _ complete snapshot_ok_agent])
      (rule E, assumption, rule cleanD(1) [OF clean_snapshot_recording [of c E, OF E]])
  have reader: "clean c (snapshot_ok c (\<lambda>_. True)) (world_call (aeron_countersReader E))"
    by (intro clean_snapshot_call tame_envD E)
  show ?thesis
    unfolding snapshot_doWork_def
    by (rule leads_next [OF reader _ snapshot_ok_agent],
      rule leads_stage [OF clean_snapshot_publication snapshot_publication_found recording snapshot_ok_agent]) (rule E)
qed

section \<open>The work cycle\<close>

text \<open>The two parts of \<open>doWork\<close> that depend on what is in progress.\<close>

definition snapshot_pending :: "('b, 'w, 'z) env_scheme \<Rightarrow> ('w sys, bool) exec" where
  "snapshot_pending E = (\<lambda>s. if m_currentSnapshot s = None then retE True s
     else bindE (snapshot_doWork E) (\<lambda>done.
          bindE (whenE done (modifyE (\<lambda>s. s\<lparr>m_currentSnapshot := None\<rparr>))) (\<lambda>_. retE done)) s)"

definition log_pending :: "('b, 'w, 'z) env_scheme \<Rightarrow> ('w sys, unit) exec" where
  "log_pending E = (\<lambda>s. if la_image s = None then retE () s else poll_log E s)"

lemma doWork_parts:
  "doWork E = bindE (world_call (systemNanoClock E)) (\<lambda>nowNs.
     bindE (snapshot_pending E) (\<lambda>done.
     whenE done
       (bindE (checkForClockTick E nowNs) (\<lambda>tick.
        bindE (whenE tick (bindE (pollServiceAdapter E) (\<lambda>_. retE ()))) (\<lambda>_.
        log_pending E)))))"
proof -
  have snapshot: "bindE (getsE m_currentSnapshot) (\<lambda>snapshot.
     bindE (if snapshot = None then retE True
            else bindE (snapshot_doWork E) (\<lambda>done.
                 bindE (whenE done (modifyE (\<lambda>s. s\<lparr>m_currentSnapshot := None\<rparr>))) (\<lambda>_. retE done))) h)
    = bindE (snapshot_pending E) h" for h
    by (rule ext) (simp add: bindE_run(3) bindE_def snapshot_pending_def exec_run)
  have log: "bindE (getsE la_image) (\<lambda>img. whenE (img \<noteq> None) (poll_log E)) = log_pending E"
    by (rule ext) (simp add: bindE_run(3) whenE_def log_pending_def)
  show ?thesis unfolding doWork_def snapshot log by (rule refl)
qed

lemma clean_snapshot_pending:
  assumes E: "c \<Longrightarrow> tame_env E"
  shows "clean c (agent_ok c) (snapshot_pending E)"
proof -
  let ?m = "bindE (snapshot_doWork E) (\<lambda>done.
          bindE (whenE done (modifyE (\<lambda>s. s\<lparr>m_currentSnapshot := None\<rparr>))) (\<lambda>_. retE done))"
  have rest: "clean c (agent_ok c) (bindE (whenE b (modifyE (\<lambda>s. s\<lparr>m_currentSnapshot := None\<rparr>))) (\<lambda>_. retE b))" for b
    by (intro clean_rules) (simp add: agent_ok_def)
  have m: "leads c (snapshot_ok c (\<lambda>_. True)) (agent_ok c) ?m"
    by (rule leads_then [OF leads_snapshot_doWork rest]) (rule E)
  have step: "agent_ok c s' \<and> (\<forall>e. r = Inl e \<longrightarrow> c \<longrightarrow> \<not> is_null e)"
    if "agent_ok c s" "m_currentSnapshot s \<noteq> None" "?m s = Some (r, s')" for s r s'
  proof -
    have "snapshot_ok c (\<lambda>_. True) s" using that by (auto simp: snapshot_ok_def)
    from leadsD [OF m this that(3)] show ?thesis by blast
  qed
  show ?thesis
    unfolding clean_def snapshot_pending_def using step by (auto simp: exec_run)
qed

lemma clean_log_pending:
  assumes E: "c \<Longrightarrow> tame_env E"
  shows "clean c (agent_ok c) (log_pending E)"
proof -
  have step: "agent_ok c s' \<and> (\<forall>e. r = Inl e \<longrightarrow> c \<longrightarrow> \<not> is_null e)"
    if "agent_ok c s" "la_image s \<noteq> None" "poll_log E s = Some (r, s')" for s r s'
    using leadsD [OF leads_poll_log [of c E, OF E] _ that(3)] that by auto
  show ?thesis
    unfolding clean_def log_pending_def using step by (auto simp: exec_run)
qed

lemma clean_doWork:
  assumes E: "c \<Longrightarrow> tame_env E"
  shows "clean c (agent_ok c) (doWork E)"
  unfolding doWork_parts
  by (intro clean_rules clean_snapshot_pending clean_log_pending tame_envD E | assumption)+

end
