(* ===== verification/Counters.thy ===== *)
theory Counters
  imports Environment
begin

text \<open>
  The counters of the cluster: \<open>ClusterCounters\<close>, \<open>RecoveryState\<close> and the waiting loops of
  \<open>ClusteredServiceAgent.cpp\<close>. A scan reads one view of the counters; a loop takes a new view in
  every round.
\<close>

section \<open>ClusterCounters\<close>

definition getCounterClusterId :: "('z) aeron_consts_scheme \<Rightarrow> counters \<Rightarrow> i32 \<Rightarrow> i32" where
  "getCounterClusterId L C counterId = metaInt32 C (metadataOffset L counterId + KEY_OFFSET L)"

definition counter_label :: "string \<Rightarrow> i32 \<Rightarrow> string" where
  "counter_label name clusterId = name @ '' - clusterId='' @ to_string clusterId"

definition allocate :: "('b, 'w, 'z) aeron_scheme \<Rightarrow> string \<Rightarrow> i32 \<Rightarrow> i32 \<Rightarrow> ('w, i64) exec" where
  "allocate L name typeId clusterId =
     callE (aeron_addCounter L typeId clusterId (counter_label name clusterId))"

function find_from :: "('z) aeron_consts_scheme \<Rightarrow> counters \<Rightarrow> i32 \<Rightarrow> i32 \<Rightarrow> i32 \<Rightarrow> counter option" where
  "find_from L C typeId clusterId i =
     (if i < maxCounterId C then
        let counterState = getCounterState C i in
        if counterState = RECORD_ALLOCATED L then
          if typeId = getCounterTypeId C i \<and> clusterId = getCounterClusterId L C i
          then Some \<lparr>counter_registrationId = getCounterRegistrationId C i, counter_id = i\<rparr>
          else find_from L C typeId clusterId (i + 1)
        else if counterState = RECORD_UNUSED L then None
        else find_from L C typeId clusterId (i + 1)
      else None)"
  by pat_completeness auto
termination
  by (relation "measure (\<lambda>(L, C, typeId, clusterId, i). nat (maxCounterId C - i))") auto

declare find_from.simps [simp del]

definition find_counter :: "('z) aeron_consts_scheme \<Rightarrow> counters \<Rightarrow> i32 \<Rightarrow> i32 \<Rightarrow> counter option" where
  "find_counter L C typeId clusterId = find_from L C typeId clusterId 0"

section \<open>RecoveryState\<close>

definition LEADERSHIP_TERM_ID_OFFSET :: int where "LEADERSHIP_TERM_ID_OFFSET = 0"
definition LOG_POSITION_OFFSET :: int where "LOG_POSITION_OFFSET = LEADERSHIP_TERM_ID_OFFSET + 8"
definition TIMESTAMP_OFFSET :: int where "TIMESTAMP_OFFSET = LOG_POSITION_OFFSET + 8"
definition CLUSTER_ID_OFFSET :: int where "CLUSTER_ID_OFFSET = TIMESTAMP_OFFSET + 8"
definition SERVICE_COUNT_OFFSET :: int where "SERVICE_COUNT_OFFSET = CLUSTER_ID_OFFSET + 4"
definition SNAPSHOT_RECORDING_IDS_OFFSET :: int where
  "SNAPSHOT_RECORDING_IDS_OFFSET = SERVICE_COUNT_OFFSET + 4"

lemmas recovery_offsets = LEADERSHIP_TERM_ID_OFFSET_def LOG_POSITION_OFFSET_def TIMESTAMP_OFFSET_def
  CLUSTER_ID_OFFSET_def SERVICE_COUNT_OFFSET_def SNAPSHOT_RECORDING_IDS_OFFSET_def

function findCounter_from :: "('z) aeron_consts_scheme \<Rightarrow> counters \<Rightarrow> i32 \<Rightarrow> i32 \<Rightarrow> i32" where
  "findCounter_from L C clusterId i =
     (if i < maxCounterId C then
        let counterState = getCounterState C i in
        if counterState = RECORD_ALLOCATED L \<and> getCounterTypeId C i = CLUSTER_RECOVERY_STATE_TYPE_ID L then
          if metaInt32 C (metadataOffset L i + KEY_OFFSET L + CLUSTER_ID_OFFSET) = clusterId then i
          else findCounter_from L C clusterId (i + 1)
        else if RECORD_UNUSED L = counterState then NULL_COUNTER_ID L
        else findCounter_from L C clusterId (i + 1)
      else NULL_COUNTER_ID L)"
  by pat_completeness auto
termination
  by (relation "measure (\<lambda>(L, C, clusterId, i). nat (maxCounterId C - i))") auto

declare findCounter_from.simps [simp del]

definition findCounter :: "('z) aeron_consts_scheme \<Rightarrow> counters \<Rightarrow> i32 \<Rightarrow> i32" where
  "findCounter L C clusterId = findCounter_from L C clusterId 0"

text \<open>An active recovery counter.\<close>

definition recovery_counter :: "('z) aeron_consts_scheme \<Rightarrow> counters \<Rightarrow> i32 \<Rightarrow> bool" where
  "recovery_counter L C counterId \<longleftrightarrow> getCounterState C counterId = RECORD_ALLOCATED L
     \<and> getCounterTypeId C counterId = CLUSTER_RECOVERY_STATE_TYPE_ID L"

definition getLogPosition :: "('z) aeron_consts_scheme \<Rightarrow> counters \<Rightarrow> i32 \<Rightarrow> i64" where
  "getLogPosition L C counterId =
     (if recovery_counter L C counterId
      then metaInt64 C (metadataOffset L counterId + KEY_OFFSET L + LOG_POSITION_OFFSET)
      else NULL_VALUE L)"

definition getTimestamp :: "('z) aeron_consts_scheme \<Rightarrow> counters \<Rightarrow> i32 \<Rightarrow> i64" where
  "getTimestamp L C counterId =
     (if recovery_counter L C counterId
      then metaInt64 C (metadataOffset L counterId + KEY_OFFSET L + TIMESTAMP_OFFSET)
      else NULL_VALUE L)"

definition getLeadershipTermId :: "('z) aeron_consts_scheme \<Rightarrow> counters \<Rightarrow> i32 \<Rightarrow> i64" where
  "getLeadershipTermId L C counterId =
     (if recovery_counter L C counterId
      then metaInt64 C (metadataOffset L counterId + KEY_OFFSET L + LEADERSHIP_TERM_ID_OFFSET)
      else NULL_VALUE L)"

definition getSnapshotRecordingId :: "('z) aeron_consts_scheme \<Rightarrow> counters \<Rightarrow> i32 \<Rightarrow> i32 \<Rightarrow>
    cluster_error + i64" where
  "getSnapshotRecordingId L C counterId serviceId =
     (if recovery_counter L C counterId then
        let recordOffset = metadataOffset L counterId;
            serviceCount = metaInt32 C (recordOffset + KEY_OFFSET L + SERVICE_COUNT_OFFSET) in
        if serviceId < 0 \<or> serviceId \<ge> serviceCount then Inl (InvalidServiceId serviceId serviceCount)
        else Inr (metaInt64 C (recordOffset + KEY_OFFSET L + SNAPSHOT_RECORDING_IDS_OFFSET + serviceId * 8))
      else Inl (ActiveCounterNotFound counterId))"

section \<open>Waiting\<close>

partial_function (option) awaitCounter :: "('b, 'w, 'z) aeron_scheme \<Rightarrow> i32 \<Rightarrow> i32 \<Rightarrow> 'w \<Rightarrow>
    ((cluster_error + counter) \<times> 'w) option" where
  "awaitCounter L typeId clusterId w =
     bindE (callE (aeron_countersReader L)) (\<lambda>C.
     case find_counter L C typeId clusterId of
       None \<Rightarrow> bindE (callE (idle_idle L)) (\<lambda>_. awaitCounter L typeId clusterId)
     | Some c \<Rightarrow> retE c) w"

partial_function (option) awaitRecordingCounter :: "('b, 'w, 'z) aeron_scheme \<Rightarrow> nat \<Rightarrow> i32 \<Rightarrow> 'w \<Rightarrow>
    ((cluster_error + i32) \<times> 'w) option" where
  "awaitRecordingCounter L archive sessionId w =
     bindE (callE (RecordingPos_findCounterIdBySessionId L sessionId)) (\<lambda>counterId.
     if NULL_COUNTER_ID L = counterId then
       bindE (callE (idle_idle L)) (\<lambda>_.
       bindE (callE (archive_checkForErrorResponse L archive)) (\<lambda>_.
       awaitRecordingCounter L archive sessionId))
     else retE counterId) w"

partial_function (option) awaitRecordingComplete :: "('b, 'w, 'z) aeron_scheme \<Rightarrow> nat \<Rightarrow> i64 \<Rightarrow> i64 \<Rightarrow>
    i32 \<Rightarrow> 'w \<Rightarrow> ((cluster_error + unit) \<times> 'w) option" where
  "awaitRecordingComplete L archive recordingId position counterId w =
     bindE (callE (aeron_getCounterValue L counterId)) (\<lambda>v.
     if v < position then
       bindE (callE (idle_idle L)) (\<lambda>_.
       bindE (callE (archive_checkForErrorResponse L archive)) (\<lambda>_.
       bindE (callE (RecordingPos_isActive L counterId recordingId)) (\<lambda>active.
       if \<not> active then throwE (RecordingStopped recordingId)
       else awaitRecordingComplete L archive recordingId position counterId)))
     else retE ()) w"

end
