(* ===== verification/ServiceConnect.thy ===== *)
theory ServiceConnect
  imports AgentWork SnapshotLoader Counters
begin

text \<open>
  \<open>ClusteredServiceAgent::AsyncConnect\<close>: a state machine, polled until it hands out the agent,
  that collects the agent's parts, recovers its position, replays its snapshot, starts the
  service and acknowledges the start.
\<close>

record 'w service_connect =
  ac_ctx :: service_context
  ac_publicationId :: i64
  ac_publication :: "pub option"
  ac_subscriptionId :: i64
  ac_subscription :: "sub option"
  ac_recoveryCounterId :: i32
  ac_snapshotRecordingId :: i64
  ac_snapshotSubscriptionId :: i64
  ac_snapshotSessionId :: i64
  ac_snapshotSubscription :: "sub option"
  ac_snapshotImage :: "image option"
  ac_snapshotLoader :: "loader option"
  ac_agent :: "'w sys"
  ac_step :: int

definition agentE :: "('w sys, 'a) exec \<Rightarrow> ('w service_connect, 'a) exec" where
  "agentE m = zoomE ac_agent (\<lambda>a c. c\<lparr>ac_agent := a\<rparr>) m"

abbreviation connect_call :: "('w, 'a) call \<Rightarrow> ('w service_connect, 'a) exec" where
  "connect_call f \<equiv> agentE (world_call f)"

section \<open>Starting\<close>

text \<open>The constructor: \<open>m_snapshotSubscriptionId\<close> and \<open>m_snapshotSessionId\<close> have no initialiser.\<close>

definition new_service_connect :: "('b, 'w, 'z) env_scheme \<Rightarrow> service_context \<Rightarrow>
    ('w, 'w service_connect) exec" where
  "new_service_connect E ctx =
     bindE (callE (archive_asyncConnect E)) (\<lambda>_.
     bindE (getsE id) (\<lambda>w.
     bindE (liftE (new_agent E ctx w)) (\<lambda>agent.
     bindE (callE (aeron_addExclusivePublication E (ctx_controlChannel ctx) (ctx_consensusModuleStreamId ctx))) (\<lambda>publicationId.
     bindE (callE (aeron_addSubscription E (ctx_controlChannel ctx) (ctx_serviceStreamId ctx))) (\<lambda>subscriptionId.
     bindE (getsE id) (\<lambda>w.
     retE \<lparr> ac_ctx = ctx, ac_publicationId = publicationId, ac_publication = None,
            ac_subscriptionId = subscriptionId, ac_subscription = None,
            ac_recoveryCounterId = NULL_COUNTER_ID E, ac_snapshotRecordingId = NULL_VALUE E,
            ac_snapshotSubscriptionId = uninit_int E Connect_snapshotSubscriptionId w,
            ac_snapshotSessionId = uninit_int E Connect_snapshotSessionId w,
            ac_snapshotSubscription = None, ac_snapshotImage = None, ac_snapshotLoader = None,
            ac_agent = agent\<lparr>world := w\<rparr>, ac_step = 0 \<rparr>))))))"

definition service_asyncConnect :: "('b, 'w, 'z) env_scheme \<Rightarrow>
    (service_context \<times> 'w, 'w service_connect) exec" where
  "service_asyncConnect E =
     bindE (context_conclude E) (\<lambda>_.
     bindE (getsE fst) (\<lambda>ctx.
     zoomE snd (\<lambda>w (c, _). (c, w)) (new_service_connect E ctx)))"

section \<open>Steps\<close>

text \<open>What every poll tries first: each part that is still missing is looked for once.\<close>

definition connect_publication :: "('b, 'w, 'z) env_scheme \<Rightarrow> ('w service_connect, unit) exec" where
  "connect_publication E =
     bindE (getsE id) (\<lambda>c.
     whenE (ac_publication c = None)
       (bindE (connect_call (aeron_findExclusivePublication E (ac_publicationId c))) (\<lambda>p.
        modifyE (\<lambda>c. c\<lparr>ac_publication := p\<rparr>))))"

definition connect_subscription :: "('b, 'w, 'z) env_scheme \<Rightarrow> ('w service_connect, unit) exec" where
  "connect_subscription E =
     bindE (getsE id) (\<lambda>c.
     whenE (ac_subscription c = None)
       (bindE (connect_call (aeron_findSubscription E (ac_subscriptionId c))) (\<lambda>p.
        modifyE (\<lambda>c. c\<lparr>ac_subscription := p\<rparr>))))"

definition connect_proxy :: "('w service_connect, unit) exec" where
  "connect_proxy =
     bindE (getsE id) (\<lambda>c.
     case ac_publication c of
       None \<Rightarrow> retE ()
     | Some p \<Rightarrow> whenE (m_proxy (ac_agent c) = None) (agentE (modifyE (\<lambda>s. s\<lparr>m_proxy := Some p\<rparr>))))"

definition connect_adapter :: "('w service_connect, unit) exec" where
  "connect_adapter =
     bindE (getsE id) (\<lambda>c.
     case ac_subscription c of
       None \<Rightarrow> retE ()
     | Some p \<Rightarrow> whenE (m_serviceAdapter (ac_agent c) = None)
         (agentE (modifyE (\<lambda>s. s\<lparr>m_serviceAdapter := Some (new_service_adapter p)\<rparr>))))"

definition connect_archive :: "('b, 'w, 'z) env_scheme \<Rightarrow> ('w service_connect, unit) exec" where
  "connect_archive E =
     bindE (getsE (\<lambda>c. m_archive (ac_agent c))) (\<lambda>a.
     whenE (a = None)
       (bindE (connect_call (archive_connect_poll E)) (\<lambda>a.
        agentE (modifyE (\<lambda>s. s\<lparr>m_archive := a\<rparr>)))))"

definition connect_counters :: "('b, 'w, 'z) env_scheme \<Rightarrow> ('w service_connect, unit) exec" where
  "connect_counters E =
     bindE (getsE (\<lambda>c. m_commitPosition (ac_agent c))) (\<lambda>commitPosition.
     bindE (whenE (commitPosition = None)
       (bindE (connect_call (aeron_countersReader E)) (\<lambda>C.
        bindE (getsE (\<lambda>c. ctx_clusterId (ac_ctx c))) (\<lambda>clusterId.
        agentE (modifyE (\<lambda>s. s\<lparr>m_commitPosition :=
          find_counter E C (CLUSTER_COMMIT_POSITION_TYPE_ID E) clusterId\<rparr>)))))) (\<lambda>_.
     bindE (getsE ac_recoveryCounterId) (\<lambda>recoveryCounterId.
     whenE (recoveryCounterId = NULL_COUNTER_ID E)
       (bindE (connect_call (aeron_countersReader E)) (\<lambda>C.
        bindE (getsE (\<lambda>c. ctx_clusterId (ac_ctx c))) (\<lambda>clusterId.
        modifyE (\<lambda>c. c\<lparr>ac_recoveryCounterId := findCounter E C clusterId\<rparr>)))))))"

definition connect_parts :: "('b, 'w, 'z) env_scheme \<Rightarrow> ('w service_connect, unit) exec" where
  "connect_parts E =
     bindE (connect_call (aeron_countersReader E)) (\<lambda>_.
     bindE (connect_publication E) (\<lambda>_.
     bindE (connect_subscription E) (\<lambda>_.
     bindE connect_proxy (\<lambda>_.
     bindE connect_adapter (\<lambda>_.
     bindE (connect_archive E) (\<lambda>_.
     connect_counters E))))))"

definition parts_resolved :: "('z) aeron_consts_scheme \<Rightarrow> 'w service_connect \<Rightarrow> bool" where
  "parts_resolved L c \<longleftrightarrow>
     m_proxy (ac_agent c) \<noteq> None \<and> m_serviceAdapter (ac_agent c) \<noteq> None
   \<and> m_commitPosition (ac_agent c) \<noteq> None \<and> ac_recoveryCounterId c \<noteq> NULL_COUNTER_ID L
   \<and> m_archive (ac_agent c) \<noteq> None"

text \<open>Step 0 ends when all parts are there and the publication is connected; says whether to go on.\<close>

definition connect_step_0 :: "('b, 'w, 'z) env_scheme \<Rightarrow> ('w service_connect, bool) exec" where
  "connect_step_0 E =
     bindE (getsE id) (\<lambda>c.
     if 0 = ac_step c \<and> parts_resolved E c then
       bindE (derefE ''m_proxy'' (m_proxy (ac_agent c))) (\<lambda>p.
       bindE (connect_call (pub_isConnected E p)) (\<lambda>connected.
       if \<not> connected then retE False
       else
         bindE (agentE (modifyE (\<lambda>s. s\<lparr>m_serviceAdapter :=
           map_option (\<lambda>a. a\<lparr>sa_agentBound := True\<rparr>) (m_serviceAdapter s)\<rparr>))) (\<lambda>_.
         bindE (modifyE (\<lambda>c. c\<lparr>ac_step := 1\<rparr>)) (\<lambda>_. retE True))))
     else retE True)"

definition connect_step_1 :: "('b, 'w, 'z) env_scheme \<Rightarrow> ('w service_connect, unit) exec" where
  "connect_step_1 E =
     bindE (getsE id) (\<lambda>c.
     let counterId = ac_recoveryCounterId c; ctx = ac_ctx c in
     bindE (connect_call (aeron_countersReader E)) (\<lambda>C.
     bindE (agentE (modifyE (\<lambda>s. s\<lparr>m_logPosition := getLogPosition E C counterId\<rparr>))) (\<lambda>_.
     bindE (connect_call (aeron_countersReader E)) (\<lambda>C.
     bindE (agentE (modifyE (\<lambda>s. s\<lparr>m_clusterTime := getTimestamp E C counterId\<rparr>))) (\<lambda>_.
     bindE (connect_call (aeron_countersReader E)) (\<lambda>C.
     bindE (agentE (modifyE (\<lambda>s. s\<lparr>m_leadershipTermId := getLeadershipTermId E C counterId\<rparr>))) (\<lambda>_.
     bindE (getsE (\<lambda>c. m_leadershipTermId (ac_agent c))) (\<lambda>leadershipTermId.
     if leadershipTermId \<noteq> NULL_VALUE E then
       bindE (connect_call (aeron_countersReader E)) (\<lambda>C.
       bindE (liftE (getSnapshotRecordingId E C counterId (ctx_serviceId ctx))) (\<lambda>recordingId.
       bindE (modifyE (\<lambda>c. c\<lparr>ac_snapshotRecordingId := recordingId\<rparr>)) (\<lambda>_.
       bindE (agentE (with_archive (\<lambda>a. archive_startReplay E a recordingId 0 (NULL_VALUE E)
          (ctx_replayChannel ctx) (ctx_replayStreamId ctx)))) (\<lambda>replaySessionId.
       bindE (modifyE (\<lambda>c. c\<lparr>ac_snapshotSessionId := to_i32 replaySessionId\<rparr>)) (\<lambda>_.
       bindE (connect_call (ChannelUri_addSessionId E (ctx_replayChannel ctx) (to_i32 replaySessionId))) (\<lambda>channel.
       bindE (connect_call (aeron_addSubscription E channel (ctx_replayStreamId ctx))) (\<lambda>subscriptionId.
       modifyE (\<lambda>c. c\<lparr>ac_snapshotSubscriptionId := subscriptionId, ac_step := 2\<rparr>))))))))
     else modifyE (\<lambda>c. c\<lparr>ac_step := 3\<rparr>)))))))))"

text \<open>Running a method of the loader, which acts on the agent.\<close>

definition loaderE :: "(loader \<times> 'w sys, 'a) exec \<Rightarrow> ('w service_connect, 'a) exec" where
  "loaderE m =
     bindE (getsE ac_snapshotLoader) (\<lambda>l.
     bindE (derefE ''m_snapshotLoader'' l) (\<lambda>l.
     zoomE (\<lambda>c. (l, ac_agent c)) (\<lambda>(l, a) c. c\<lparr>ac_snapshotLoader := Some l, ac_agent := a\<rparr>) m))"

definition connect_replay :: "('b, 'w, 'z) env_scheme \<Rightarrow> image \<Rightarrow> ('w service_connect, unit) exec" where
  "connect_replay E img =
     bindE (getsE ac_snapshotLoader) (\<lambda>l.
     bindE (whenE (l = None)
       (modifyE (\<lambda>c. c\<lparr>ac_snapshotLoader :=
          Some (new_loader img (uninit_int E Loader_appVersion (world (ac_agent c))))\<rparr>))) (\<lambda>_.
     bindE (loaderE (getsE (\<lambda>(l, _). ld_isDone l))) (\<lambda>done.
     if \<not> done then
       bindE (loaderE (loader_poll E)) (\<lambda>fragments.
       whenE (fragments = 0)
         (bindE (agentE (with_archive (archive_checkForErrorResponse E))) (\<lambda>_.
          bindE (connect_call (image_isClosed E img)) (\<lambda>closed.
          whenE closed (throwE SnapshotEndedUnexpectedly)))))
     else modifyE (\<lambda>c. c\<lparr>ac_step := 3\<rparr>))))"

definition connect_step_2 :: "('b, 'w, 'z) env_scheme \<Rightarrow> ('w service_connect, unit) exec" where
  "connect_step_2 E =
     bindE (getsE id) (\<lambda>c.
     bindE (whenE (ac_snapshotSubscription c = None)
       (bindE (connect_call (aeron_findSubscription E (ac_snapshotSubscriptionId c))) (\<lambda>found.
        modifyE (\<lambda>c. c\<lparr>ac_snapshotSubscription := found\<rparr>)))) (\<lambda>_.
     bindE (getsE ac_snapshotSubscription) (\<lambda>subscription.
     case subscription of
       None \<Rightarrow> retE ()
     | Some subscription \<Rightarrow>
         bindE (whenE (ac_snapshotImage c = None)
           (bindE (connect_call (sub_imageBySessionId E subscription (ac_snapshotSessionId c))) (\<lambda>found.
            modifyE (\<lambda>c. c\<lparr>ac_snapshotImage := found\<rparr>)))) (\<lambda>_.
         bindE (getsE ac_snapshotImage) (\<lambda>img.
         case img of
           None \<Rightarrow> retE ()
         | Some img \<Rightarrow> connect_replay E img)))))"

definition connect_step_3 :: "('b, 'w, 'z) env_scheme \<Rightarrow> ('w service_connect, unit) exec" where
  "connect_step_3 E =
     bindE (getsE ac_snapshotImage) (\<lambda>img.
     bindE (agentE (run_callback E (svc_onStart E img))) (\<lambda>started.
     whenE started (modifyE (\<lambda>c. c\<lparr>ac_step := 4\<rparr>))))"

definition connect_step_4 :: "('b, 'w, 'z) env_scheme \<Rightarrow> ('w service_connect, bool) exec" where
  "connect_step_4 E =
     bindE (connect_call (aeron_clientId E)) (\<lambda>clientId.
     bindE (agentE (ack E clientId)) (\<lambda>sent.
     if sent then
       bindE (agentE (modifyE (\<lambda>s. s\<lparr>m_isServiceActive := True\<rparr>))) (\<lambda>_. retE True)
     else retE False))"

text \<open>\<open>poll\<close>: true when it hands out the agent.\<close>

definition service_connect_poll :: "('b, 'w, 'z) env_scheme \<Rightarrow> ('w service_connect, bool) exec" where
  "service_connect_poll E =
     bindE (connect_parts E) (\<lambda>_.
     bindE (connect_step_0 E) (\<lambda>more.
     if \<not> more then retE False
     else
       bindE (getsE ac_step) (\<lambda>step.
       if step = 1 then bindE (connect_step_1 E) (\<lambda>_. retE False)
       else if step = 2 then bindE (connect_step_2 E) (\<lambda>_. retE False)
       else if step = 3 then bindE (connect_step_3 E) (\<lambda>_. retE False)
       else if step = 4 then connect_step_4 E
       else retE False)))"

end
