(* ===== verification/ConnectSafety.thy ===== *)
theory ConnectSafety
  imports CycleSafety ServiceConnect
begin

text \<open>
  Connecting uses no null pointer either, and hands out an agent that has its parts: the
  invariant of the connect object, then the states that can be reached by connecting and by
  working.
\<close>

section \<open>The invariant of the connect object\<close>

definition connect_ok :: "bool \<Rightarrow> 'w service_connect \<Rightarrow> bool" where
  "connect_ok c x \<longleftrightarrow> table_safe (m_table (ac_agent x)) \<and> 0 \<le> ac_step x \<and> ac_step x \<le> 4
     \<and> (ac_step x \<noteq> 0 \<longrightarrow> agent_ok c (ac_agent x))"

text \<open>Before and after the parts have been collected.\<close>

definition collecting :: "'w service_connect \<Rightarrow> bool" where
  "collecting x \<longleftrightarrow> table_safe (m_table (ac_agent x)) \<and> ac_step x = 0"

definition started :: "bool \<Rightarrow> 'w service_connect \<Rightarrow> bool" where
  "started c x \<longleftrightarrow> agent_ok c (ac_agent x) \<and> 0 < ac_step x \<and> ac_step x \<le> 4"

lemma connect_ok_cases: "connect_ok c x \<longleftrightarrow> collecting x \<or> started c x"
  by (auto simp: connect_ok_def collecting_def started_def agent_ok_def)

lemma clean_agentE:
  assumes "\<And>x. P x \<Longrightarrow> Q (ac_agent x)" "\<And>a x. P x \<Longrightarrow> Q a \<Longrightarrow> P (x\<lparr>ac_agent := a\<rparr>)" "clean c Q m"
  shows "clean c P (agentE m)"
  unfolding agentE_def using assms by (rule clean_zoom_inv [where Q = Q])

lemma clean_connect_call:
  assumes "c \<Longrightarrow> tame f" "\<And>w x. P x \<Longrightarrow> P (x\<lparr>ac_agent := (ac_agent x)\<lparr>world := w\<rparr>\<rparr>)"
  shows "clean c P (connect_call f)"
proof -
  have run: "connect_call f x = Some (fst (f (world (ac_agent x))),
      x\<lparr>ac_agent := (ac_agent x)\<lparr>world := snd (f (world (ac_agent x)))\<rparr>\<rparr>)" for x
    by (auto simp: agentE_def zoomE_def world_exec_def exec_run split: prod.split)
  show ?thesis
  proof (rule cleanI)
    fix x r x' assume "P x" "connect_call f x = Some (r, x')"
    with assms(2) show "P x'" by (auto simp: run)
  next
    fix x e x' assume c: c and "connect_call f x = Some (Inl e, x')"
    then have "f (world (ac_agent x)) = (Inl e, snd (f (world (ac_agent x))))" by (simp add: run prod_eq_iff)
    with assms(1) [OF c] show "\<not> is_null e" unfolding tame_def by metis
  qed
qed

lemma collecting_call [clean_rules]:
  "(c \<Longrightarrow> tame f) \<Longrightarrow> clean c collecting (connect_call f)"
  by (rule clean_connect_call) (simp_all add: collecting_def)

lemma started_agentE [clean_rules]: "clean c (agent_ok c) m \<Longrightarrow> clean c (started c) (agentE m)"
  by (rule clean_agentE [where Q = "agent_ok c"]) (simp_all add: started_def)

lemma collecting_agent [clean_rules]:
  "(\<And>s. m_table (k s) = m_table s) \<Longrightarrow> clean c collecting (agentE (modifyE k))"
  by (rule clean_agentE [where Q = "\<lambda>s. table_safe (m_table s)"]) (auto simp: collecting_def intro: clean_atoms)

section \<open>Collecting the parts\<close>

lemma connect_ok_call:
  "(c \<Longrightarrow> tame f) \<Longrightarrow> clean c (connect_ok c) (connect_call f)"
  by (rule clean_connect_call) (simp_all add: connect_ok_def agent_ok_def)

lemma connect_ok_collecting: "collecting x \<Longrightarrow> connect_ok c x"
  by (simp add: connect_ok_cases)

lemma clean_connect_parts:
  assumes "c \<Longrightarrow> tame_env E"
  shows "clean c (connect_ok c) (connect_parts E)"
proof -
  have publication: "clean c (connect_ok c) (connect_publication E)"
    unfolding connect_publication_def
    by (intro clean_rules connect_ok_call tame_envD assms | assumption | simp add: connect_ok_def)+
  have subscription: "clean c (connect_ok c) (connect_subscription E)"
    unfolding connect_subscription_def
    by (intro clean_rules connect_ok_call tame_envD assms | assumption | simp add: connect_ok_def)+
  have set: "clean c (connect_ok c) (agentE (modifyE (\<lambda>s. s\<lparr>m_proxy := Some p\<rparr>)))" for p
    by (rule cleanI) (auto simp: agentE_def zoomE_def exec_run connect_ok_def agent_ok_def)
  have proxy: "clean c (connect_ok c) connect_proxy"
    unfolding connect_proxy_def by (intro clean_rules set)
  have adapter: "clean c (connect_ok c) connect_adapter"
    unfolding connect_adapter_def
    by (rule clean_read) (auto simp: leads_def whenE_def agentE_def zoomE_def exec_run connect_ok_def agent_ok_def
      split: option.split if_splits)
  have archive: "clean c (connect_ok c) (connect_archive E)"
    unfolding connect_archive_def
    by (rule clean_read_when [where Q = collecting])
      (auto simp: connect_ok_def agent_ok_def collecting_def intro!: clean_rules tame_envD assms)
  have commit: "clean c (connect_ok c) (bindE (getsE (\<lambda>c. m_commitPosition (ac_agent c))) (\<lambda>commitPosition.
     whenE (commitPosition = None)
       (bindE (connect_call (aeron_countersReader E)) (\<lambda>C.
        bindE (getsE (\<lambda>c. ctx_clusterId (ac_ctx c))) (\<lambda>clusterId.
        agentE (modifyE (\<lambda>s. s\<lparr>m_commitPosition :=
          find_counter E C (CLUSTER_COMMIT_POSITION_TYPE_ID E) clusterId\<rparr>)))))))"
  proof (cases c)
    case True
    then show ?thesis
      by (intro clean_read_when [where Q = collecting])
        (auto simp: connect_ok_def agent_ok_def collecting_def intro!: clean_rules tame_envD assms)
  next
    case False
    have set: "clean c (connect_ok c) (agentE (modifyE (\<lambda>s. s\<lparr>m_commitPosition := q\<rparr>)))" for q
      by (rule cleanI) (auto simp: agentE_def zoomE_def exec_run connect_ok_def agent_ok_def False)
    show ?thesis
      by (intro clean_rules connect_ok_call set) (simp add: False)
  qed
  have recovery: "clean c (connect_ok c) (bindE (getsE ac_recoveryCounterId) (\<lambda>recoveryCounterId.
     whenE (recoveryCounterId = NULL_COUNTER_ID E)
       (bindE (connect_call (aeron_countersReader E)) (\<lambda>C.
        bindE (getsE (\<lambda>c. ctx_clusterId (ac_ctx c))) (\<lambda>clusterId.
        modifyE (\<lambda>c. c\<lparr>ac_recoveryCounterId := findCounter E C clusterId\<rparr>))))))"
    by (intro clean_rules connect_ok_call tame_envD assms | assumption | simp add: connect_ok_def)+
  have counters: "clean c (connect_ok c) (connect_counters E)"
    unfolding connect_counters_def by (rule clean_bindE [OF commit recovery, unfolded bindE_run(5)])
  show ?thesis
    unfolding connect_parts_def
    by (intro clean_bindE publication subscription proxy adapter archive counters connect_ok_call tame_envD assms)
qed

section \<open>The steps\<close>

text \<open>All parts are there, but the step has not been taken.\<close>

definition ready :: "'w service_connect \<Rightarrow> bool" where
  "ready x \<longleftrightarrow> collecting x \<and> m_proxy (ac_agent x) \<noteq> None \<and> m_serviceAdapter (ac_agent x) \<noteq> None
     \<and> m_commitPosition (ac_agent x) \<noteq> None \<and> m_archive (ac_agent x) \<noteq> None"

lemma ready_ok: "ready x \<Longrightarrow> connect_ok c x"
  by (simp add: ready_def connect_ok_cases)

lemma clean_connect_step_0:
  fixes E :: "('b, 'w, 'z) env_scheme"
  assumes E: "c \<Longrightarrow> tame_env E"
  shows "clean c (connect_ok c) (connect_step_0 E)"
  unfolding connect_step_0_def
proof (rule clean_read, unfold id_apply)
  fix x :: "'w service_connect" assume ok: "connect_ok c x"
  let ?R = ready and ?S = "\<lambda>x. agent_ok c (ac_agent x) \<and> ac_step x = 0"
  have call: "clean c ?R (connect_call f)" if "c \<Longrightarrow> tame f" for f :: "('w, 'v) call"
    using that by (rule clean_connect_call) (simp_all add: ready_def collecting_def)
  have bound: "leads c ?R ?S (agentE (modifyE (\<lambda>s. s\<lparr>m_serviceAdapter :=
           map_option (\<lambda>a. a\<lparr>sa_agentBound := True\<rparr>) (m_serviceAdapter s)\<rparr>)))"
    by (auto simp: leads_def agentE_def zoomE_def exec_run agent_ok_def ready_def collecting_def)
  have step: "leads c ?S (connect_ok c) (bindE (modifyE (\<lambda>c. c\<lparr>ac_step := 1\<rparr>)) (\<lambda>_. retE True))"
    by (auto simp: leads_def bindE_run(4) exec_run connect_ok_def agent_ok_def)
  have bind: "leads c ?R (connect_ok c) (bindE (agentE (modifyE (\<lambda>s. s\<lparr>m_serviceAdapter :=
           map_option (\<lambda>a. a\<lparr>sa_agentBound := True\<rparr>) (m_serviceAdapter s)\<rparr>))) (\<lambda>_.
         bindE (modifyE (\<lambda>c. c\<lparr>ac_step := 1\<rparr>)) (\<lambda>_. retE True)))"
    by (rule leads_trans [OF bound step]) (simp add: connect_ok_def agent_ok_def)
  show "leads c (\<lambda>t. t = x) (connect_ok c) (if 0 = ac_step x \<and> parts_resolved E x then
       bindE (derefE ''m_proxy'' (m_proxy (ac_agent x))) (\<lambda>p.
       bindE (connect_call (pub_isConnected E p)) (\<lambda>connected.
       if \<not> connected then retE False
       else
         bindE (agentE (modifyE (\<lambda>s. s\<lparr>m_serviceAdapter :=
           map_option (\<lambda>a. a\<lparr>sa_agentBound := True\<rparr>) (m_serviceAdapter s)\<rparr>))) (\<lambda>_.
         bindE (modifyE (\<lambda>c. c\<lparr>ac_step := 1\<rparr>)) (\<lambda>_. retE True))))
     else retE True)"
  proof (cases "0 = ac_step x \<and> parts_resolved E x")
    case False
    with ok show ?thesis by (auto simp: leads_def exec_run)
  next
    case True
    with ok have R: "?R x" by (auto simp: ready_def parts_resolved_def connect_ok_def collecting_def)
    then obtain p where p: "m_proxy (ac_agent x) = Some p" by (auto simp: ready_def)
    have off: "leads c ?R (connect_ok c) (retE False)"
      by (auto simp: leads_def exec_run ready_ok)
    have "leads c ?R (connect_ok c) (bindE (connect_call (pub_isConnected E p)) (\<lambda>connected.
       if \<not> connected then retE False
       else
         bindE (agentE (modifyE (\<lambda>s. s\<lparr>m_serviceAdapter :=
           map_option (\<lambda>a. a\<lparr>sa_agentBound := True\<rparr>) (m_serviceAdapter s)\<rparr>))) (\<lambda>_.
         bindE (modifyE (\<lambda>c. c\<lparr>ac_step := 1\<rparr>)) (\<lambda>_. retE True))))"
      by (rule leads_next) (auto intro!: call tame_envD E off bind ready_ok)
    from leads_from [OF this R] True p show ?thesis by (simp add: exec_simps)
  qed
qed

lemma started_modify [clean_rules]:
  "(\<And>x. started c x \<Longrightarrow> started c (k x)) \<Longrightarrow> clean c (started c) (modifyE k)"
  by (rule clean_atoms)

lemma started_ok: "started c x \<Longrightarrow> connect_ok c x"
  by (simp add: connect_ok_cases)

lemma getSnapshotRecordingId_error: "getSnapshotRecordingId L C i k = Inl e \<Longrightarrow> \<not> is_null e"
  by (auto simp: getSnapshotRecordingId_def is_null_def Let_def split: if_splits option.splits)

lemma clean_connect_step_1:
  assumes "c \<Longrightarrow> tame_env E"
  shows "clean c (started c) (connect_step_1 E)"
  unfolding connect_step_1_def Let_def
  by (intro clean_rules tame_envD assms | assumption | erule getSnapshotRecordingId_error
    | simp add: agent_ok_def started_def)+

section \<open>Replaying the snapshot\<close>

definition loading_ok :: "bool \<Rightarrow> loader \<times> 'w sys \<Rightarrow> bool" where
  "loading_ok c = (\<lambda>(l, s). agent_ok c s)"

lemma clean_loader_agent [clean_rules]:
  "clean c (agent_ok c) m \<Longrightarrow> clean c (loading_ok c) (loader_agent m)"
  unfolding loader_agent_def
  by (rule clean_zoom_inv [where Q = "agent_ok c"]) (auto simp: loading_ok_def)

lemma clean_addSession_data [clean_rules]: "clean c (agent_ok c) (addSession_data L i stream channel q)"
  unfolding addSession_data_def add_agent_session_def
  by (intro clean_rules) (auto simp: agent_ok_def intro: table_safe_add)

lemma clean_loader_onMarker [clean_rules]: "clean c (loading_ok c) (loader_onMarker m)"
  unfolding loader_onMarker_def
  by (cases "sm_mark m"; simp only: snapshot_mark.case; intro clean_rules) (auto simp: is_null_def loading_ok_def)

lemma loader_fields_error:
  assumes "tame_env E"
  shows "loader_responseChannel E fw = Inl e \<Longrightarrow> \<not> is_null e" "loader_encodedPrincipal E fw = Inl e \<Longrightarrow> \<not> is_null e"
proof -
  note ok = tame_codecsD(4,5) [OF assms]
  show "loader_responseChannel E fw = Inl e \<Longrightarrow> \<not> is_null e"
    using ok by (auto simp: loader_responseChannel_def Let_def split: sum.splits)
  have "\<not> is_null StdLengthError" by (simp add: is_null_def)
  moreover have "principal_end E fw = Inl e \<Longrightarrow> \<not> is_null e" for fw e
    using ok by (auto simp: principal_end_def split: sum.splits)
  ultimately show "loader_encodedPrincipal E fw = Inl e \<Longrightarrow> \<not> is_null e"
    using ok unfolding loader_encodedPrincipal_def Let_def
    by (fastforce split: sum.splits if_splits prod.splits)
qed

lemma clean_loader_onFragment [clean_rules]:
  assumes "c \<Longrightarrow> tame_env E"
  shows "clean c (loading_ok c) (loader_onFragment E f)"
  unfolding loader_onFragment_def Let_def
  by (intro clean_rules tame_decodersD assms | assumption
    | erule loader_fields_error(1) [OF assms, rotated] loader_fields_error(2) [OF assms, rotated])+

lemma clean_loader_poll [clean_rules]:
  assumes "c \<Longrightarrow> tame_env E"
  shows "clean c (loading_ok c) (loader_poll E)"
  unfolding loader_poll_def
  by (intro clean_rules tame_envD assms | assumption | simp)+

definition replaying :: "bool \<Rightarrow> 'w service_connect \<Rightarrow> bool" where
  "replaying c x \<longleftrightarrow> started c x \<and> ac_snapshotLoader x \<noteq> None"

lemma clean_loaderE [clean_rules]:
  assumes "clean c (loading_ok c) m"
  shows "clean c (replaying c) (loaderE m)"
  unfolding loaderE_def
proof (intro clean_gets_bind clean_bindE clean_derefE)
  fix l
  show "clean c (replaying c) (zoomE (\<lambda>c. (l, ac_agent c)) (\<lambda>(l, a) c. c\<lparr>ac_snapshotLoader := Some l, ac_agent := a\<rparr>) m)"
    using assms by (intro clean_zoom_inv [where Q = "loading_ok c"]) (auto simp: replaying_def started_def loading_ok_def)
qed (simp add: replaying_def)

lemma replaying_agentE [clean_rules]: "clean c (agent_ok c) m \<Longrightarrow> clean c (replaying c) (agentE m)"
  by (rule clean_agentE [where Q = "agent_ok c"]) (simp_all add: replaying_def started_def)

lemma clean_connect_replay [clean_rules]:
  assumes "c \<Longrightarrow> tame_env E"
  shows "clean c (started c) (connect_replay E img)"
proof -
  have make: "leads c (started c) (replaying c) (bindE (getsE ac_snapshotLoader) (\<lambda>l.
      whenE (l = None) (modifyE (\<lambda>c. c\<lparr>ac_snapshotLoader :=
          Some (new_loader img (uninit_int E Loader_appVersion (world (ac_agent c))))\<rparr>))))"
    by (auto simp: leads_def bindE_run(3) whenE_def exec_run replaying_def started_def)
  have three: "clean c (replaying c) (modifyE (\<lambda>c. c\<lparr>ac_step := 3\<rparr>))"
    by (rule clean_atoms) (simp add: replaying_def started_def)
  have rest: "clean c (replaying c) (bindE (loaderE (getsE (\<lambda>(l, _). ld_isDone l))) (\<lambda>done.
     if \<not> done then
       bindE (loaderE (loader_poll E)) (\<lambda>fragments.
       whenE (fragments = 0)
         (bindE (agentE (with_archive (archive_checkForErrorResponse E))) (\<lambda>_.
          bindE (connect_call (image_isClosed E img)) (\<lambda>closed.
          whenE closed (throwE SnapshotEndedUnexpectedly)))))
     else modifyE (\<lambda>c. c\<lparr>ac_step := 3\<rparr>)))"
    by (intro clean_rules three tame_envD assms | assumption | simp add: is_null_def)+
  have "leads c (started c) (started c) (connect_replay E img)"
    unfolding connect_replay_def
    by (rule leads_trans [OF make leads_clean [OF rest], unfolded bindE_run(5)]) (simp_all add: replaying_def)
  then show ?thesis unfolding leads_def clean_def .
qed

lemma clean_connect_step_2:
  assumes "c \<Longrightarrow> tame_env E"
  shows "clean c (started c) (connect_step_2 E)"
  unfolding connect_step_2_def
  by (intro clean_rules tame_envD assms | assumption | simp add: started_def)+

lemma clean_connect_step_3:
  assumes "c \<Longrightarrow> tame_env E"
  shows "clean c (started c) (connect_step_3 E)"
  unfolding connect_step_3_def
  by (intro clean_rules tame_callbacksD assms | assumption | simp add: started_def)+

lemma clean_connect_step_4:
  assumes "c \<Longrightarrow> tame_env E"
  shows "clean c (started c) (connect_step_4 E)"
  unfolding connect_step_4_def
  by (intro clean_rules tame_envD assms | assumption | simp add: agent_ok_def)+

lemma clean_service_connect_poll:
  assumes E: "c \<Longrightarrow> tame_env E"
  shows "clean c (connect_ok c) (service_connect_poll E)"
proof -
  have step: "leads c (\<lambda>t. t = x) (connect_ok c) m"
    if "connect_ok c x" "ac_step x = i" "i \<noteq> 0" "clean c (started c) m" for x i and m :: "('b service_connect, bool) exec"
    using that by (intro leads_from [OF leads_clean [OF that(4) started_ok]]) (auto simp: started_def connect_ok_def)
  have sub: "clean c (started c) (bindE (connect_step_1 E) (\<lambda>_. retE False))"
    "clean c (started c) (bindE (connect_step_2 E) (\<lambda>_. retE False))"
    "clean c (started c) (bindE (connect_step_3 E) (\<lambda>_. retE False))" "clean c (started c) (connect_step_4 E)"
    by (intro clean_bindE clean_connect_step_1 clean_connect_step_2 clean_connect_step_3 clean_connect_step_4
      clean_atoms E | assumption)+
  have steps: "clean c (connect_ok c) (bindE (getsE ac_step) (\<lambda>step.
       if step = 1 then bindE (connect_step_1 E) (\<lambda>_. retE False)
       else if step = 2 then bindE (connect_step_2 E) (\<lambda>_. retE False)
       else if step = 3 then bindE (connect_step_3 E) (\<lambda>_. retE False)
       else if step = 4 then connect_step_4 E
       else retE False))"
  proof (rule clean_read)
    fix x :: "'b service_connect" assume ok: "connect_ok c x"
    have no: "leads c (\<lambda>t. t = x) (connect_ok c) (retE False)" using ok by (auto simp: leads_def exec_run)
    show "leads c (\<lambda>t. t = x) (connect_ok c) (if ac_step x = 1 then bindE (connect_step_1 E) (\<lambda>_. retE False)
       else if ac_step x = 2 then bindE (connect_step_2 E) (\<lambda>_. retE False)
       else if ac_step x = 3 then bindE (connect_step_3 E) (\<lambda>_. retE False)
       else if ac_step x = 4 then connect_step_4 E
       else retE False)"
      using step [OF ok _ _ sub(1), of 1] step [OF ok _ _ sub(2), of 2] step [OF ok _ _ sub(3), of 3]
        step [OF ok _ _ sub(4), of 4] no by simp
  qed
  show ?thesis
    unfolding service_connect_poll_def
    by (intro clean_bindE clean_cases clean_connect_parts clean_connect_step_0 steps clean_atoms E)
qed

end
