(* ===== verification/Egress.thy ===== *)
theory Egress
  imports Decoding
begin

text \<open>
  The client's side of the egress stream: \<open>EgressPoller\<close>, which waits for one response of the
  cluster while connecting, and \<open>EgressAdapter\<close>, which hands the messages of a session to the
  user's consumers. The consumers and the credentials supplier are the user's code.
\<close>

section \<open>EgressPoller\<close>

record egress_poller =
  ep_subscription :: sub
  ep_fragmentLimit :: i32
  ep_egressImage :: "image option"
  ep_templateId :: i32
  ep_clusterSessionId :: i64
  ep_correlationId :: i64
  ep_leadershipTermId :: i64
  ep_leaderMemberId :: i32
  ep_eventCode :: event_code
  ep_version :: i32
  ep_detail :: string
  ep_encodedChallenge :: "string option \<times> int"
  ep_isPollComplete :: bool
  ep_isChallenged :: bool

text \<open>The constructor leaves the members without an initialiser as the memory \<open>junk\<close> has them.\<close>

definition new_egress_poller :: "sub \<Rightarrow> i32 \<Rightarrow> egress_poller \<Rightarrow> egress_poller" where
  "new_egress_poller subscription fragmentLimit junk =
     junk\<lparr>ep_subscription := subscription, ep_fragmentLimit := fragmentLimit,
       ep_egressImage := None, ep_detail := [], ep_encodedChallenge := (None, 0)\<rparr>"

text \<open>The accessor \<open>leadershipTermId()\<close> as it is written.\<close>

definition poller_leadershipTermId :: "egress_poller \<Rightarrow> i64" where
  "poller_leadershipTermId p = ep_leaderMemberId p"

record ('b, 'w) client_env = "('b, 'w) codecs" +
  uninit_poller :: "'w \<Rightarrow> egress_poller"
  credentials_encoded :: "('w, string) call"
  credentials_onChallenge :: "string option \<times> int \<Rightarrow> ('w, string) call"

definition poller_set :: "(egress_poller \<Rightarrow> egress_poller) \<Rightarrow> (egress_poller \<times> 'w, unit) exec" where
  "poller_set f = modifyE (\<lambda>(p, w). (f p, w))"

definition poller_onFragment :: "('b, 'w, 'z) codecs_scheme \<Rightarrow> 'b fragment \<Rightarrow>
    (egress_poller \<times> 'w, poll_action) exec" where
  "poller_onFragment L f =
    (let buffer = frag_buffer f; offset = frag_offset f; len = frag_length f in
     bindE (getsE (\<lambda>(p, w). ep_isPollComplete p)) (\<lambda>complete.
     if complete then retE ABORT
     else
     bindE (poller_header_of L buffer offset len) (\<lambda>msgHeader.
     bindE (poller_set (\<lambda>p. p\<lparr>ep_templateId := mh_templateId msgHeader\<rparr>)) (\<lambda>_.
     let templateId = mh_templateId msgHeader in
     if templateId = SessionMessageHeader_sbeTemplateId L then
       bindE (decode_from L (SessionMessageHeader_wrap L) msgHeader buffer offset len) (\<lambda>m.
       bindE (poller_set (\<lambda>p. p\<lparr>ep_leadershipTermId := smh_leadershipTermId m,
          ep_clusterSessionId := smh_clusterSessionId m, ep_isPollComplete := True\<rparr>)) (\<lambda>_.
       retE BREAK))
     else if templateId = SessionEvent_sbeTemplateId L then
       bindE (decode_from L (SessionEvent_wrap L) msgHeader buffer offset len) (\<lambda>m.
       bindE (poller_set (\<lambda>p. p\<lparr>ep_clusterSessionId := se_clusterSessionId m,
          ep_correlationId := se_correlationId m, ep_leadershipTermId := se_leadershipTermId m,
          ep_leaderMemberId := se_leaderMemberId m, ep_eventCode := se_code m,
          ep_version := se_version m, ep_detail := c_string (se_detail m),
          ep_isPollComplete := True, ep_egressImage := Some (fh_context (frag_header f))\<rparr>)) (\<lambda>_.
       retE BREAK))
     else if templateId = NewLeaderEvent_sbeTemplateId L then
       bindE (decode_from L (NewLeaderEvent_wrap L) msgHeader buffer offset len) (\<lambda>m.
       bindE (poller_set (\<lambda>p. p\<lparr>ep_clusterSessionId := ne_clusterSessionId m,
          ep_leadershipTermId := ne_leadershipTermId m, ep_leaderMemberId := ne_leaderMemberId m,
          ep_detail := c_string (ne_ingressEndpoints m), ep_isPollComplete := True\<rparr>)) (\<lambda>_.
       retE BREAK))
     else if templateId = Challenge_sbeTemplateId L then
       bindE (decode_from L (Challenge_wrap L) msgHeader buffer offset len) (\<lambda>m.
       bindE (poller_set (\<lambda>p. p\<lparr>ep_encodedChallenge := (Some (ch_encodedChallenge m), ch_lengthAfter m),
          ep_clusterSessionId := ch_clusterSessionId m, ep_correlationId := ch_correlationId m,
          ep_isPollComplete := True\<rparr>)) (\<lambda>_.
       retE BREAK))
     else retE CONTINUE))))"

definition poller_reset :: "egress_poller \<Rightarrow> egress_poller" where
  "poller_reset p = p\<lparr>ep_isPollComplete := False, ep_clusterSessionId := -1, ep_correlationId := -1,
     ep_leadershipTermId := -1, ep_leaderMemberId := -1, ep_templateId := -1, ep_version := 0,
     ep_eventCode := EC_NULL_VALUE, ep_encodedChallenge := (None, 0)\<rparr>"

definition poller_poll :: "('b, 'w, 'z) codecs_scheme \<Rightarrow> (egress_poller \<times> 'w, int) exec" where
  "poller_poll L =
     bindE (getsE (\<lambda>(p, w). ep_isPollComplete p)) (\<lambda>complete.
     bindE (whenE complete (poller_set poller_reset)) (\<lambda>_.
     bindE (getsE fst) (\<lambda>p.
     let world_call = (\<lambda>c. zoomE snd (\<lambda>w (p, _). (p, w)) (callE c)) in
     pollE (zoomE snd (\<lambda>w (p, _). (p, w)) (callE (sub_controlledPoll L (ep_subscription p) (ep_fragmentLimit p))))
       (\<lambda>k. world_call (poll_finish L k)) (\<lambda>k e. world_call (poll_on_throw L k e)) (poller_onFragment L))))"

section \<open>EgressAdapter\<close>

text \<open>The consumers are \<open>std::function\<close>s: they may be empty, and calling an empty one throws.\<close>

type_synonym ('b, 'w) on_session_message_t = "i64 \<Rightarrow> i64 \<Rightarrow> 'b \<Rightarrow> int \<Rightarrow> int \<Rightarrow> frag_header \<Rightarrow> ('w, unit) call"
type_synonym 'w on_session_event_t = "i64 \<Rightarrow> i64 \<Rightarrow> i64 \<Rightarrow> i32 \<Rightarrow> event_code \<Rightarrow> string \<Rightarrow> ('w, unit) call"
type_synonym 'w on_new_leader_event_t = "i64 \<Rightarrow> i64 \<Rightarrow> i32 \<Rightarrow> string \<Rightarrow> ('w, unit) call"
type_synonym ('b, 'w) on_admin_response_t =
  "i64 \<Rightarrow> i64 \<Rightarrow> int \<Rightarrow> int \<Rightarrow> string \<Rightarrow> 'b \<Rightarrow> int \<Rightarrow> int \<Rightarrow> ('w, unit) call"

definition function_of :: "'f option \<Rightarrow> ('s, 'f) exec" where
  "function_of f = (case f of None \<Rightarrow> throwE StdBadFunctionCall | Some f \<Rightarrow> retE f)"

record ('b, 'w) egress_adapter =
  ea_clusterSessionId :: i64
  ea_subscription :: sub
  ea_onSessionMessage :: "('b, 'w) on_session_message_t option"
  ea_onSessionEvent :: "'w on_session_event_t option"
  ea_onNewLeaderEvent :: "'w on_new_leader_event_t option"
  ea_onAdminResponse :: "('b, 'w) on_admin_response_t option"
  ea_fragmentLimit :: i32

definition EGRESS_FRAGMENT_LIMIT_DEFAULT :: i32 where "EGRESS_FRAGMENT_LIMIT_DEFAULT = 10"

definition new_egress_adapter :: "('b, 'w) on_session_message_t option \<Rightarrow> 'w on_session_event_t option \<Rightarrow>
    'w on_new_leader_event_t option \<Rightarrow> ('b, 'w) on_admin_response_t option \<Rightarrow> i64 \<Rightarrow> sub \<Rightarrow> i32 \<Rightarrow>
    ('b, 'w) egress_adapter" where
  "new_egress_adapter onSessionMessage onSessionEvent onNewLeaderEvent onAdminResponse clusterSessionId
       subscription fragmentLimit =
     \<lparr> ea_clusterSessionId = clusterSessionId, ea_subscription = subscription,
       ea_onSessionMessage = onSessionMessage, ea_onSessionEvent = onSessionEvent,
       ea_onNewLeaderEvent = onNewLeaderEvent, ea_onAdminResponse = onAdminResponse,
       ea_fragmentLimit = fragmentLimit \<rparr>"

text \<open>The session ids are compared as unsigned numbers.\<close>

definition own_session :: "('b, 'w) egress_adapter \<Rightarrow> i64 \<Rightarrow> bool" where
  "own_session a sessionId \<longleftrightarrow> to_u64 sessionId = to_u64 (ea_clusterSessionId a)"

definition egress_onFragment :: "('b, 'w, 'z) codecs_scheme \<Rightarrow> ('b, 'w) egress_adapter \<Rightarrow> 'b fragment \<Rightarrow>
    ('w, unit) exec" where
  "egress_onFragment L a f =
    (let buffer = frag_buffer f; offset = frag_offset f; len = frag_length f in
     bindE (message_header_of L buffer offset len) (\<lambda>msgHeader.
     let templateId = mh_templateId msgHeader in
     if SessionMessageHeader_sbeTemplateId L = templateId then
       bindE (decode_from L (SessionMessageHeader_wrap L) msgHeader buffer offset len) (\<lambda>m.
       whenE (own_session a (smh_clusterSessionId m))
         (bindE (function_of (ea_onSessionMessage a)) (\<lambda>onSessionMessage.
          callE (onSessionMessage (smh_clusterSessionId m) (smh_timestamp m) buffer
            (offset + SessionMessageHeader_sbeBlockLength L)
            (len - SessionMessageHeader_sbeBlockLength L) (frag_header f)))))
     else if SessionEvent_sbeTemplateId L = templateId then
       bindE (decode_from L (SessionEvent_wrap L) msgHeader buffer offset len) (\<lambda>m.
       whenE (own_session a (se_clusterSessionId m))
         (bindE (function_of (ea_onSessionEvent a)) (\<lambda>onSessionEvent.
          callE (onSessionEvent (se_correlationId m) (se_clusterSessionId m) (se_leadershipTermId m)
            (se_leaderMemberId m) (se_code m) (c_string (se_detail m))))))
     else if NewLeaderEvent_sbeTemplateId L = templateId then
       bindE (decode_from L (NewLeaderEvent_wrap L) msgHeader buffer offset len) (\<lambda>m.
       whenE (own_session a (ne_clusterSessionId m))
         (bindE (function_of (ea_onNewLeaderEvent a)) (\<lambda>onNewLeaderEvent.
          callE (onNewLeaderEvent (ne_clusterSessionId m) (ne_leadershipTermId m)
            (ne_leaderMemberId m) (c_string (ne_ingressEndpoints m))))))
     else if AdminResponse_sbeTemplateId L = templateId then
       bindE (decode_from L (AdminResponse_wrap L) msgHeader buffer offset len) (\<lambda>m.
       whenE (own_session a (ar_clusterSessionId m))
         (bindE (function_of (ea_onAdminResponse a)) (\<lambda>onAdminResponse.
          callE (onAdminResponse (ar_clusterSessionId m) (ar_correlationId m) (ar_requestType m)
            (ar_responseCode m) (c_string (ar_message m)) buffer
            (ar_offset m + AdminResponse_sbeBlockLength L + AdminResponse_messageHeaderLength L
              + AdminResponse_payloadHeaderLength L)
            (ar_firstLength m)))))
     else retE ()))"

definition egress_poll :: "('b, 'w, 'z) codecs_scheme \<Rightarrow> ('b, 'w) egress_adapter \<Rightarrow> ('w, int) exec" where
  "egress_poll L a =
     pollE (callE (sub_poll L (ea_subscription a) (ea_fragmentLimit a)))
       (\<lambda>k. callE (poll_finish L k)) (\<lambda>k e. callE (poll_on_throw L k e)) (continuing (egress_onFragment L a))"

section \<open>IngressSessionDecorator\<close>

record decorator =
  dc_message :: session_message_header

text \<open>The header is written into a buffer whose length is given as 0.\<close>

definition new_decorator :: "('b, 'w, 'z) codecs_scheme \<Rightarrow> i64 \<Rightarrow> i64 \<Rightarrow> cluster_error + decorator" where
  "new_decorator L clusterSessionId leadershipTermId =
    (let message = SessionMessageHeader leadershipTermId clusterSessionId (NULL_VALUE L) in
     case SessionMessageHeader_encode L 0 message of
       Inl e \<Rightarrow> Inl e
     | Inr _ \<Rightarrow> Inr \<lparr>dc_message = message\<rparr>)"

definition default_decorator :: "('b, 'w, 'z) codecs_scheme \<Rightarrow> cluster_error + decorator" where
  "default_decorator L = new_decorator L (NULL_VALUE L) (NULL_VALUE L)"

definition decorator_clusterSessionId :: "i64 \<Rightarrow> decorator \<Rightarrow> decorator" where
  "decorator_clusterSessionId i d =
     d\<lparr>dc_message := SessionMessageHeader (smh_leadershipTermId (dc_message d)) i (smh_timestamp (dc_message d))\<rparr>"

definition decorator_leadershipTermId :: "i64 \<Rightarrow> decorator \<Rightarrow> decorator" where
  "decorator_leadershipTermId i d =
     d\<lparr>dc_message := SessionMessageHeader i (smh_clusterSessionId (dc_message d)) (smh_timestamp (dc_message d))\<rparr>"

end
