(* ===== verification/Demo.thy ===== *)
theory Demo
  imports Agent Egress
begin

text \<open>
  A concrete environment, the starting point of the witnesses: calls succeed with the simplest
  answer and leave the world alone, decoders fail, the service returns at once. A witness
  replaces the fields it needs.
\<close>

definition demo_counters :: counters where
  "demo_counters = \<lparr> maxCounterId = 0, getCounterState = \<lambda>_. 0, getCounterTypeId = \<lambda>_. 0,
     getCounterRegistrationId = \<lambda>_. 0, metaInt32 = \<lambda>_. 0, metaInt64 = \<lambda>_. 0 \<rparr>"

definition demo_ret :: "'a \<Rightarrow> ('w, 'a) call" where
  "demo_ret x w = (Inr x, w)"

definition demo_fail :: "('w, 'a) call" where
  "demo_fail w = (Inl (LibraryError 1), w)"

definition demo_poller :: egress_poller where
  "demo_poller = \<lparr>ep_subscription = 0, ep_fragmentLimit = 0, ep_egressImage = None, ep_templateId = 0,
     ep_clusterSessionId = 0, ep_correlationId = 0, ep_leadershipTermId = 0, ep_leaderMemberId = 0,
     ep_eventCode = EC_OK, ep_version = 0, ep_detail = [], ep_encodedChallenge = (None, 0),
     ep_isPollComplete = False, ep_isChallenged = False\<rparr>"

definition demo_env :: "('b, 'w) env" where
  "demo_env = \<lparr>
    NULL_VALUE = - 1,
    NULL_POSITION = - 1,
    NOT_CONNECTED = - 1,
    PUBLICATION_CLOSED = - 4,
    MAX_POSITION_EXCEEDED = - 5,
    NULL_COUNTER_ID = - 1,
    RECORD_ALLOCATED = 1,
    RECORD_UNUSED = 0,
    KEY_OFFSET = 16,
    metadataOffset = \<lambda>i. i * 512,
    CLUSTER_RECOVERY_STATE_TYPE_ID = 204,
    CLUSTER_COMMIT_POSITION_TYPE_ID = 203,
    IPC_CHANNEL = ''aeron:ipc'',
    UDP_MEDIA = ''udp'',
    LOCAL_SOURCE = 0,
    UNFRAGMENTED = 0xC0,
    BEGIN_FRAG = 0x80,
    END_FRAG = 0x40,
    DataFrameHeader_LENGTH = 32,
    FRAME_ALIGNMENT = 32,
    BitUtil_align = \<lambda>x a. (x + a - 1) div a * a,
    arguments_right_to_left = True,
    operands_right_to_left = False,
    aeron_connect = \<lambda>_ _. demo_ret 0,
    defaultErrorHandler = 0,
    defaultAeronPath = ''aeron'',
    aeron_addExclusivePublication = \<lambda>_ _. demo_ret 0,
    aeron_addPublication = \<lambda>_ _. demo_ret 0,
    aeron_addSubscription = \<lambda>_ _. demo_ret 0,
    aeron_addCounter = \<lambda>_ _ _. demo_ret 0,
    aeron_findExclusivePublication = \<lambda>_. demo_ret (Some 0),
    aeron_findSubscription = \<lambda>_. demo_ret (Some 0),
    aeron_countersReader = demo_ret demo_counters,
    aeron_getCounterValue = \<lambda>_. demo_ret 0,
    aeron_isClosed = demo_ret False,
    aeron_usesAgentInvoker = demo_ret False,
    aeron_invoke = demo_ret (),
    aeron_clientId = demo_ret 0,
    aeron_nextCorrelationId = demo_ret 0,
    pub_isConnected = \<lambda>_. demo_ret False,
    pub_tryClaim = \<lambda>_ _. demo_ret (1, 0),
    pub_offer = \<lambda>_ _. demo_ret 0,
    pub_position = \<lambda>_. demo_ret 0,
    pub_close = \<lambda>_. demo_ret (),
    pub_sessionId = \<lambda>_. 0,
    claim_write = \<lambda>_ _. demo_ret (),
    claim_commit = \<lambda>_. demo_ret (),
    sub_poll = \<lambda>_ _. demo_ret [],
    sub_controlledPoll = \<lambda>_ _. demo_ret [],
    sub_imageBySessionId = \<lambda>_ _. demo_ret (Some 0),
    sub_isConnected = \<lambda>_. demo_ret False,
    sub_tryResolveChannelEndpointPort = \<lambda>_. demo_ret [],
    sub_closeAndRemoveImages = \<lambda>_. demo_ret (),
    image_position = \<lambda>_. demo_ret 0,
    image_isEndOfStream = \<lambda>_. demo_ret False,
    image_isClosed = \<lambda>_. demo_ret False,
    image_close = \<lambda>_. demo_ret (),
    image_joinPosition = \<lambda>_. 0,
    image_controlledPoll = \<lambda>_ _. demo_ret [],
    image_boundedControlledPoll = \<lambda>_ _ _. demo_ret [],
    poll_finish = \<lambda>k. demo_ret (int k),
    poll_on_throw = \<lambda>_ _. demo_ret 0,
    commit_get = \<lambda>_. demo_ret 0,
    commit_isClosed = \<lambda>_. demo_ret False,
    archive_asyncConnect = demo_ret (),
    archive_connect_poll = demo_ret (Some 0),
    archive_startReplay = \<lambda>_ _ _ _ _ _. demo_ret 0,
    archive_startRecording = \<lambda>_ _ _ _ _. demo_ret 0,
    archive_checkForErrorResponse = \<lambda>_. demo_ret (),
    RecordingPos_findCounterIdBySessionId = \<lambda>_. demo_ret 0,
    RecordingPos_getRecordingId = \<lambda>_. demo_ret 0,
    RecordingPos_isActive = \<lambda>_ _. demo_ret False,
    ChannelUri_addSessionId = \<lambda>c _. demo_ret c,
    ChannelUri_withAlias = \<lambda>c _. demo_ret c,
    ChannelUri_media = \<lambda>_. Inr [],
    ChannelUri_toString = \<lambda>c _. c,
    idle_idle = demo_ret (),
    systemNanoClock = demo_ret 0,
    currentTimeMillis = demo_ret 0,
    builder_reset = demo_ret (),
    builder_append = \<lambda>_. demo_ret (),
    builder_nextTermOffset = demo_ret 0,
    builder_setNextTermOffset = \<lambda>_. demo_ret (),
    builder_limit = demo_ret 0,
    builder_setLimit = \<lambda>_. demo_ret (),
    builder_buffer = demo_fail,
    uninit_bool = \<lambda>_ _. False,
    uninit_int = \<lambda>_ _. 0,
    MessageHeader_wrap = \<lambda>_ _ _ _. Inl (LibraryError 1),
    MessageHeader_sbeSchemaId = 111,
    MessageHeader_sbeSchemaVersion = 8,
    MessageHeader_encodedLength = 8,
    SessionMessageHeader_sbeTemplateId = 1,
    SessionMessageHeader_sbeBlockLength = 24,
    SessionMessageHeader_sbeBlockAndHeaderLength = 32,
    SessionMessageHeader_wrap = \<lambda>_ _ _ _ _ _. Inl (LibraryError 1),
    TimerEvent_sbeTemplateId = 20,
    TimerEvent_wrap = \<lambda>_ _ _ _ _ _. Inl (LibraryError 1),
    SessionOpenEvent_sbeTemplateId = 21,
    SessionOpenEvent_wrap = \<lambda>_ _ _ _ _ _. Inl (LibraryError 1),
    SessionCloseEvent_sbeTemplateId = 22,
    SessionCloseEvent_wrap = \<lambda>_ _ _ _ _ _. Inl (LibraryError 1),
    ClusterActionRequest_sbeTemplateId = 23,
    ClusterActionRequest_wrap = \<lambda>_ _ _ _ _ _. Inl (LibraryError 1),
    NewLeadershipTermEvent_sbeTemplateId = 24,
    NewLeadershipTermEvent_wrap = \<lambda>_ _ _ _ _ _. Inl (LibraryError 1),
    MembershipChangeEvent_sbeTemplateId = 25,
    MembershipChangeEvent_wrap = \<lambda>_ _ _ _ _ _. Inl (LibraryError 1),
    JoinLog_sbeTemplateId = 40,
    JoinLog_wrap = \<lambda>_ _ _ _ _ _. Inl (LibraryError 1),
    ServiceTerminationPosition_sbeTemplateId = 42,
    ServiceTerminationPosition_wrap = \<lambda>_ _ _ _ _ _. Inl (LibraryError 1),
    RequestServiceAck_sbeTemplateId = 108,
    RequestServiceAck_wrap = \<lambda>_ _ _ _ _ _. Inl (LibraryError 1),
    SnapshotMarker_sbeTemplateId = 100,
    SnapshotMarker_sbeBlockAndHeaderLength = 48,
    SnapshotMarker_wrap = \<lambda>_ _ _ _ _ _. Inl (LibraryError 1),
    SnapshotMarker_encode = \<lambda>_ _. Inl (LibraryError 1),
    ClientSession_sbeTemplateId = 102,
    ClientSession_sbeBlockAndHeaderLength = 20,
    ClientSession_responseChannelHeaderLength = 4,
    ClientSession_encodedPrincipalHeaderLength = 4,
    ClientSession_wrap = \<lambda>_ _ _ _ _ _. Inl (LibraryError 1),
    ClientSession_responseChannel = \<lambda>_. Inl (LibraryError 1),
    ClientSession_responseChannelLength = \<lambda>_. 0,
    ClientSession_encodedPrincipal = \<lambda>_. Inl (LibraryError 1),
    ClientSession_encodedPrincipalLength = \<lambda>_. 0,
    buffer_bytes = \<lambda>_ _ _. [],
    buffer_view = \<lambda>b _. b,
    ClientSession_encode = \<lambda>_ _. Inl (LibraryError 1),
    SessionEvent_sbeTemplateId = 2,
    SessionEvent_wrap = \<lambda>_ _ _ _ _ _. Inl (LibraryError 1),
    NewLeaderEvent_sbeTemplateId = 6,
    NewLeaderEvent_wrap = \<lambda>_ _ _ _ _ _. Inl (LibraryError 1),
    Challenge_sbeTemplateId = 7,
    Challenge_wrap = \<lambda>_ _ _ _ _ _. Inl (LibraryError 1),
    AdminResponse_sbeTemplateId = 27,
    AdminResponse_sbeBlockLength = 24,
    AdminResponse_messageHeaderLength = 4,
    AdminResponse_payloadHeaderLength = 4,
    AdminResponse_wrap = \<lambda>_ _ _ _ _ _. Inl (LibraryError 1),
    cm_blockAndHeaderLength = \<lambda>_. 0,
    client_encode = \<lambda>_. Inl (LibraryError 1),
    client_encodedLength = \<lambda>_. 100,
    SessionMessageHeader_encode = \<lambda>_ _. Inl (LibraryError 1),
    svc_onStart = \<lambda>_. Return True,
    svc_onSessionOpen = \<lambda>_ _. Return (),
    svc_onSessionClose = \<lambda>_ _ _. Return (),
    svc_onSessionMessage = \<lambda>_ _ _ _ _ _. Return (),
    svc_onTimerEvent = \<lambda>_ _. Return (),
    svc_onTakeSnapshot = \<lambda>_. Return True,
    svc_onRoleChange = \<lambda>_. Return (),
    svc_onNewLeadershipTermEvent = \<lambda>_ _ _ _ _ _ _. Return () \<rparr>"

definition demo_client :: "('b, 'w) client_env" where
  "demo_client = \<lparr>
    NULL_VALUE = - 1,
    NULL_POSITION = - 1,
    NOT_CONNECTED = - 1,
    PUBLICATION_CLOSED = - 4,
    MAX_POSITION_EXCEEDED = - 5,
    NULL_COUNTER_ID = - 1,
    RECORD_ALLOCATED = 1,
    RECORD_UNUSED = 0,
    KEY_OFFSET = 16,
    metadataOffset = \<lambda>i. i * 512,
    CLUSTER_RECOVERY_STATE_TYPE_ID = 204,
    CLUSTER_COMMIT_POSITION_TYPE_ID = 203,
    IPC_CHANNEL = ''aeron:ipc'',
    UDP_MEDIA = ''udp'',
    LOCAL_SOURCE = 0,
    UNFRAGMENTED = 0xC0,
    BEGIN_FRAG = 0x80,
    END_FRAG = 0x40,
    DataFrameHeader_LENGTH = 32,
    FRAME_ALIGNMENT = 32,
    BitUtil_align = \<lambda>x a. (x + a - 1) div a * a,
    arguments_right_to_left = True,
    operands_right_to_left = False,
    aeron_connect = \<lambda>_ _. demo_ret 0,
    defaultErrorHandler = 0,
    defaultAeronPath = ''aeron'',
    aeron_addExclusivePublication = \<lambda>_ _. demo_ret 0,
    aeron_addPublication = \<lambda>_ _. demo_ret 0,
    aeron_addSubscription = \<lambda>_ _. demo_ret 0,
    aeron_addCounter = \<lambda>_ _ _. demo_ret 0,
    aeron_findExclusivePublication = \<lambda>_. demo_ret (Some 0),
    aeron_findSubscription = \<lambda>_. demo_ret (Some 0),
    aeron_countersReader = demo_ret demo_counters,
    aeron_getCounterValue = \<lambda>_. demo_ret 0,
    aeron_isClosed = demo_ret False,
    aeron_usesAgentInvoker = demo_ret False,
    aeron_invoke = demo_ret (),
    aeron_clientId = demo_ret 0,
    aeron_nextCorrelationId = demo_ret 0,
    pub_isConnected = \<lambda>_. demo_ret False,
    pub_tryClaim = \<lambda>_ _. demo_ret (1, 0),
    pub_offer = \<lambda>_ _. demo_ret 0,
    pub_position = \<lambda>_. demo_ret 0,
    pub_close = \<lambda>_. demo_ret (),
    pub_sessionId = \<lambda>_. 0,
    claim_write = \<lambda>_ _. demo_ret (),
    claim_commit = \<lambda>_. demo_ret (),
    sub_poll = \<lambda>_ _. demo_ret [],
    sub_controlledPoll = \<lambda>_ _. demo_ret [],
    sub_imageBySessionId = \<lambda>_ _. demo_ret (Some 0),
    sub_isConnected = \<lambda>_. demo_ret False,
    sub_tryResolveChannelEndpointPort = \<lambda>_. demo_ret [],
    sub_closeAndRemoveImages = \<lambda>_. demo_ret (),
    image_position = \<lambda>_. demo_ret 0,
    image_isEndOfStream = \<lambda>_. demo_ret False,
    image_isClosed = \<lambda>_. demo_ret False,
    image_close = \<lambda>_. demo_ret (),
    image_joinPosition = \<lambda>_. 0,
    image_controlledPoll = \<lambda>_ _. demo_ret [],
    image_boundedControlledPoll = \<lambda>_ _ _. demo_ret [],
    poll_finish = \<lambda>k. demo_ret (int k),
    poll_on_throw = \<lambda>_ _. demo_ret 0,
    commit_get = \<lambda>_. demo_ret 0,
    commit_isClosed = \<lambda>_. demo_ret False,
    archive_asyncConnect = demo_ret (),
    archive_connect_poll = demo_ret (Some 0),
    archive_startReplay = \<lambda>_ _ _ _ _ _. demo_ret 0,
    archive_startRecording = \<lambda>_ _ _ _ _. demo_ret 0,
    archive_checkForErrorResponse = \<lambda>_. demo_ret (),
    RecordingPos_findCounterIdBySessionId = \<lambda>_. demo_ret 0,
    RecordingPos_getRecordingId = \<lambda>_. demo_ret 0,
    RecordingPos_isActive = \<lambda>_ _. demo_ret False,
    ChannelUri_addSessionId = \<lambda>c _. demo_ret c,
    ChannelUri_withAlias = \<lambda>c _. demo_ret c,
    ChannelUri_media = \<lambda>_. Inr [],
    ChannelUri_toString = \<lambda>c _. c,
    idle_idle = demo_ret (),
    systemNanoClock = demo_ret 0,
    currentTimeMillis = demo_ret 0,
    builder_reset = demo_ret (),
    builder_append = \<lambda>_. demo_ret (),
    builder_nextTermOffset = demo_ret 0,
    builder_setNextTermOffset = \<lambda>_. demo_ret (),
    builder_limit = demo_ret 0,
    builder_setLimit = \<lambda>_. demo_ret (),
    builder_buffer = demo_fail,
    uninit_bool = \<lambda>_ _. False,
    uninit_int = \<lambda>_ _. 0,
    MessageHeader_wrap = \<lambda>_ _ _ _. Inl (LibraryError 1),
    MessageHeader_sbeSchemaId = 111,
    MessageHeader_sbeSchemaVersion = 8,
    MessageHeader_encodedLength = 8,
    SessionMessageHeader_sbeTemplateId = 1,
    SessionMessageHeader_sbeBlockLength = 24,
    SessionMessageHeader_sbeBlockAndHeaderLength = 32,
    SessionMessageHeader_wrap = \<lambda>_ _ _ _ _ _. Inl (LibraryError 1),
    TimerEvent_sbeTemplateId = 20,
    TimerEvent_wrap = \<lambda>_ _ _ _ _ _. Inl (LibraryError 1),
    SessionOpenEvent_sbeTemplateId = 21,
    SessionOpenEvent_wrap = \<lambda>_ _ _ _ _ _. Inl (LibraryError 1),
    SessionCloseEvent_sbeTemplateId = 22,
    SessionCloseEvent_wrap = \<lambda>_ _ _ _ _ _. Inl (LibraryError 1),
    ClusterActionRequest_sbeTemplateId = 23,
    ClusterActionRequest_wrap = \<lambda>_ _ _ _ _ _. Inl (LibraryError 1),
    NewLeadershipTermEvent_sbeTemplateId = 24,
    NewLeadershipTermEvent_wrap = \<lambda>_ _ _ _ _ _. Inl (LibraryError 1),
    MembershipChangeEvent_sbeTemplateId = 25,
    MembershipChangeEvent_wrap = \<lambda>_ _ _ _ _ _. Inl (LibraryError 1),
    JoinLog_sbeTemplateId = 40,
    JoinLog_wrap = \<lambda>_ _ _ _ _ _. Inl (LibraryError 1),
    ServiceTerminationPosition_sbeTemplateId = 42,
    ServiceTerminationPosition_wrap = \<lambda>_ _ _ _ _ _. Inl (LibraryError 1),
    RequestServiceAck_sbeTemplateId = 108,
    RequestServiceAck_wrap = \<lambda>_ _ _ _ _ _. Inl (LibraryError 1),
    SnapshotMarker_sbeTemplateId = 100,
    SnapshotMarker_sbeBlockAndHeaderLength = 48,
    SnapshotMarker_wrap = \<lambda>_ _ _ _ _ _. Inl (LibraryError 1),
    SnapshotMarker_encode = \<lambda>_ _. Inl (LibraryError 1),
    ClientSession_sbeTemplateId = 102,
    ClientSession_sbeBlockAndHeaderLength = 20,
    ClientSession_responseChannelHeaderLength = 4,
    ClientSession_encodedPrincipalHeaderLength = 4,
    ClientSession_wrap = \<lambda>_ _ _ _ _ _. Inl (LibraryError 1),
    ClientSession_responseChannel = \<lambda>_. Inl (LibraryError 1),
    ClientSession_responseChannelLength = \<lambda>_. 0,
    ClientSession_encodedPrincipal = \<lambda>_. Inl (LibraryError 1),
    ClientSession_encodedPrincipalLength = \<lambda>_. 0,
    buffer_bytes = \<lambda>_ _ _. [],
    buffer_view = \<lambda>b _. b,
    ClientSession_encode = \<lambda>_ _. Inl (LibraryError 1),
    SessionEvent_sbeTemplateId = 2,
    SessionEvent_wrap = \<lambda>_ _ _ _ _ _. Inl (LibraryError 1),
    NewLeaderEvent_sbeTemplateId = 6,
    NewLeaderEvent_wrap = \<lambda>_ _ _ _ _ _. Inl (LibraryError 1),
    Challenge_sbeTemplateId = 7,
    Challenge_wrap = \<lambda>_ _ _ _ _ _. Inl (LibraryError 1),
    AdminResponse_sbeTemplateId = 27,
    AdminResponse_sbeBlockLength = 24,
    AdminResponse_messageHeaderLength = 4,
    AdminResponse_payloadHeaderLength = 4,
    AdminResponse_wrap = \<lambda>_ _ _ _ _ _. Inl (LibraryError 1),
    cm_blockAndHeaderLength = \<lambda>_. 0,
    client_encode = \<lambda>_. Inl (LibraryError 1),
    client_encodedLength = \<lambda>_. 100,
    SessionMessageHeader_encode = \<lambda>_ _. Inl (LibraryError 1),
    uninit_poller = \<lambda>_. demo_poller,
    credentials_encoded = demo_ret [],
    credentials_onChallenge = \<lambda>_. demo_ret [] \<rparr>"

lemma demo_client_fields [simp]:
  "NULL_VALUE demo_client = (- 1)"
  "NULL_POSITION demo_client = (- 1)"
  "NOT_CONNECTED demo_client = (- 1)"
  "PUBLICATION_CLOSED demo_client = (- 4)"
  "MAX_POSITION_EXCEEDED demo_client = (- 5)"
  "NULL_COUNTER_ID demo_client = (- 1)"
  "RECORD_ALLOCATED demo_client = (1)"
  "RECORD_UNUSED demo_client = (0)"
  "KEY_OFFSET demo_client = (16)"
  "metadataOffset demo_client = (\<lambda>i. i * 512)"
  "CLUSTER_RECOVERY_STATE_TYPE_ID demo_client = (204)"
  "CLUSTER_COMMIT_POSITION_TYPE_ID demo_client = (203)"
  "IPC_CHANNEL demo_client = (''aeron:ipc'')"
  "UDP_MEDIA demo_client = (''udp'')"
  "LOCAL_SOURCE demo_client = (0)"
  "UNFRAGMENTED demo_client = (0xC0)"
  "BEGIN_FRAG demo_client = (0x80)"
  "END_FRAG demo_client = (0x40)"
  "DataFrameHeader_LENGTH demo_client = (32)"
  "FRAME_ALIGNMENT demo_client = (32)"
  "BitUtil_align demo_client = (\<lambda>x a. (x + a - 1) div a * a)"
  "arguments_right_to_left demo_client = (True)"
  "operands_right_to_left demo_client = (False)"
  "aeron_connect demo_client = (\<lambda>_ _. demo_ret 0)"
  "defaultErrorHandler demo_client = (0)"
  "defaultAeronPath demo_client = (''aeron'')"
  "aeron_addExclusivePublication demo_client = (\<lambda>_ _. demo_ret 0)"
  "aeron_addPublication demo_client = (\<lambda>_ _. demo_ret 0)"
  "aeron_addSubscription demo_client = (\<lambda>_ _. demo_ret 0)"
  "aeron_addCounter demo_client = (\<lambda>_ _ _. demo_ret 0)"
  "aeron_findExclusivePublication demo_client = (\<lambda>_. demo_ret (Some 0))"
  "aeron_findSubscription demo_client = (\<lambda>_. demo_ret (Some 0))"
  "aeron_countersReader demo_client = (demo_ret demo_counters)"
  "aeron_getCounterValue demo_client = (\<lambda>_. demo_ret 0)"
  "aeron_isClosed demo_client = (demo_ret False)"
  "aeron_usesAgentInvoker demo_client = (demo_ret False)"
  "aeron_invoke demo_client = (demo_ret ())"
  "aeron_clientId demo_client = (demo_ret 0)"
  "aeron_nextCorrelationId demo_client = (demo_ret 0)"
  "pub_isConnected demo_client = (\<lambda>_. demo_ret False)"
  "pub_tryClaim demo_client = (\<lambda>_ _. demo_ret (1, 0))"
  "pub_offer demo_client = (\<lambda>_ _. demo_ret 0)"
  "pub_position demo_client = (\<lambda>_. demo_ret 0)"
  "pub_close demo_client = (\<lambda>_. demo_ret ())"
  "pub_sessionId demo_client = (\<lambda>_. 0)"
  "claim_write demo_client = (\<lambda>_ _. demo_ret ())"
  "claim_commit demo_client = (\<lambda>_. demo_ret ())"
  "sub_poll demo_client = (\<lambda>_ _. demo_ret [])"
  "sub_controlledPoll demo_client = (\<lambda>_ _. demo_ret [])"
  "sub_imageBySessionId demo_client = (\<lambda>_ _. demo_ret (Some 0))"
  "sub_isConnected demo_client = (\<lambda>_. demo_ret False)"
  "sub_tryResolveChannelEndpointPort demo_client = (\<lambda>_. demo_ret [])"
  "sub_closeAndRemoveImages demo_client = (\<lambda>_. demo_ret ())"
  "image_position demo_client = (\<lambda>_. demo_ret 0)"
  "image_isEndOfStream demo_client = (\<lambda>_. demo_ret False)"
  "image_isClosed demo_client = (\<lambda>_. demo_ret False)"
  "image_close demo_client = (\<lambda>_. demo_ret ())"
  "image_joinPosition demo_client = (\<lambda>_. 0)"
  "image_controlledPoll demo_client = (\<lambda>_ _. demo_ret [])"
  "image_boundedControlledPoll demo_client = (\<lambda>_ _ _. demo_ret [])"
  "poll_finish demo_client = (\<lambda>k. demo_ret (int k))"
  "poll_on_throw demo_client = (\<lambda>_ _. demo_ret 0)"
  "commit_get demo_client = (\<lambda>_. demo_ret 0)"
  "commit_isClosed demo_client = (\<lambda>_. demo_ret False)"
  "archive_asyncConnect demo_client = (demo_ret ())"
  "archive_connect_poll demo_client = (demo_ret (Some 0))"
  "archive_startReplay demo_client = (\<lambda>_ _ _ _ _ _. demo_ret 0)"
  "archive_startRecording demo_client = (\<lambda>_ _ _ _ _. demo_ret 0)"
  "archive_checkForErrorResponse demo_client = (\<lambda>_. demo_ret ())"
  "RecordingPos_findCounterIdBySessionId demo_client = (\<lambda>_. demo_ret 0)"
  "RecordingPos_getRecordingId demo_client = (\<lambda>_. demo_ret 0)"
  "RecordingPos_isActive demo_client = (\<lambda>_ _. demo_ret False)"
  "ChannelUri_addSessionId demo_client = (\<lambda>c _. demo_ret c)"
  "ChannelUri_withAlias demo_client = (\<lambda>c _. demo_ret c)"
  "ChannelUri_media demo_client = (\<lambda>_. Inr [])"
  "ChannelUri_toString demo_client = (\<lambda>c _. c)"
  "idle_idle demo_client = (demo_ret ())"
  "systemNanoClock demo_client = (demo_ret 0)"
  "currentTimeMillis demo_client = (demo_ret 0)"
  "builder_reset demo_client = (demo_ret ())"
  "builder_append demo_client = (\<lambda>_. demo_ret ())"
  "builder_nextTermOffset demo_client = (demo_ret 0)"
  "builder_setNextTermOffset demo_client = (\<lambda>_. demo_ret ())"
  "builder_limit demo_client = (demo_ret 0)"
  "builder_setLimit demo_client = (\<lambda>_. demo_ret ())"
  "builder_buffer demo_client = (demo_fail)"
  "uninit_bool demo_client = (\<lambda>_ _. False)"
  "uninit_int demo_client = (\<lambda>_ _. 0)"
  "MessageHeader_wrap demo_client = (\<lambda>_ _ _ _. Inl (LibraryError 1))"
  "MessageHeader_sbeSchemaId demo_client = (111)"
  "MessageHeader_sbeSchemaVersion demo_client = (8)"
  "MessageHeader_encodedLength demo_client = (8)"
  "SessionMessageHeader_sbeTemplateId demo_client = (1)"
  "SessionMessageHeader_sbeBlockLength demo_client = (24)"
  "SessionMessageHeader_sbeBlockAndHeaderLength demo_client = (32)"
  "SessionMessageHeader_wrap demo_client = (\<lambda>_ _ _ _ _ _. Inl (LibraryError 1))"
  "TimerEvent_sbeTemplateId demo_client = (20)"
  "TimerEvent_wrap demo_client = (\<lambda>_ _ _ _ _ _. Inl (LibraryError 1))"
  "SessionOpenEvent_sbeTemplateId demo_client = (21)"
  "SessionOpenEvent_wrap demo_client = (\<lambda>_ _ _ _ _ _. Inl (LibraryError 1))"
  "SessionCloseEvent_sbeTemplateId demo_client = (22)"
  "SessionCloseEvent_wrap demo_client = (\<lambda>_ _ _ _ _ _. Inl (LibraryError 1))"
  "ClusterActionRequest_sbeTemplateId demo_client = (23)"
  "ClusterActionRequest_wrap demo_client = (\<lambda>_ _ _ _ _ _. Inl (LibraryError 1))"
  "NewLeadershipTermEvent_sbeTemplateId demo_client = (24)"
  "NewLeadershipTermEvent_wrap demo_client = (\<lambda>_ _ _ _ _ _. Inl (LibraryError 1))"
  "MembershipChangeEvent_sbeTemplateId demo_client = (25)"
  "MembershipChangeEvent_wrap demo_client = (\<lambda>_ _ _ _ _ _. Inl (LibraryError 1))"
  "JoinLog_sbeTemplateId demo_client = (40)"
  "JoinLog_wrap demo_client = (\<lambda>_ _ _ _ _ _. Inl (LibraryError 1))"
  "ServiceTerminationPosition_sbeTemplateId demo_client = (42)"
  "ServiceTerminationPosition_wrap demo_client = (\<lambda>_ _ _ _ _ _. Inl (LibraryError 1))"
  "RequestServiceAck_sbeTemplateId demo_client = (108)"
  "RequestServiceAck_wrap demo_client = (\<lambda>_ _ _ _ _ _. Inl (LibraryError 1))"
  "SnapshotMarker_sbeTemplateId demo_client = (100)"
  "SnapshotMarker_sbeBlockAndHeaderLength demo_client = (48)"
  "SnapshotMarker_wrap demo_client = (\<lambda>_ _ _ _ _ _. Inl (LibraryError 1))"
  "SnapshotMarker_encode demo_client = (\<lambda>_ _. Inl (LibraryError 1))"
  "ClientSession_sbeTemplateId demo_client = (102)"
  "ClientSession_sbeBlockAndHeaderLength demo_client = (20)"
  "ClientSession_responseChannelHeaderLength demo_client = (4)"
  "ClientSession_encodedPrincipalHeaderLength demo_client = (4)"
  "ClientSession_wrap demo_client = (\<lambda>_ _ _ _ _ _. Inl (LibraryError 1))"
  "ClientSession_responseChannel demo_client = (\<lambda>_. Inl (LibraryError 1))"
  "ClientSession_responseChannelLength demo_client = (\<lambda>_. 0)"
  "ClientSession_encodedPrincipal demo_client = (\<lambda>_. Inl (LibraryError 1))"
  "ClientSession_encodedPrincipalLength demo_client = (\<lambda>_. 0)"
  "buffer_bytes demo_client = (\<lambda>_ _ _. [])"
  "buffer_view demo_client = (\<lambda>b _. b)"
  "ClientSession_encode demo_client = (\<lambda>_ _. Inl (LibraryError 1))"
  "SessionEvent_sbeTemplateId demo_client = (2)"
  "SessionEvent_wrap demo_client = (\<lambda>_ _ _ _ _ _. Inl (LibraryError 1))"
  "NewLeaderEvent_sbeTemplateId demo_client = (6)"
  "NewLeaderEvent_wrap demo_client = (\<lambda>_ _ _ _ _ _. Inl (LibraryError 1))"
  "Challenge_sbeTemplateId demo_client = (7)"
  "Challenge_wrap demo_client = (\<lambda>_ _ _ _ _ _. Inl (LibraryError 1))"
  "AdminResponse_sbeTemplateId demo_client = (27)"
  "AdminResponse_sbeBlockLength demo_client = (24)"
  "AdminResponse_messageHeaderLength demo_client = (4)"
  "AdminResponse_payloadHeaderLength demo_client = (4)"
  "AdminResponse_wrap demo_client = (\<lambda>_ _ _ _ _ _. Inl (LibraryError 1))"
  "cm_blockAndHeaderLength demo_client = (\<lambda>_. 0)"
  "client_encode demo_client = (\<lambda>_. Inl (LibraryError 1))"
  "client_encodedLength demo_client = (\<lambda>_. 100)"
  "SessionMessageHeader_encode demo_client = (\<lambda>_ _. Inl (LibraryError 1))"
  "uninit_poller demo_client = (\<lambda>_. demo_poller)"
  "credentials_encoded demo_client = (demo_ret [])"
  "credentials_onChallenge demo_client = (\<lambda>_. demo_ret [])"
  by (simp_all add: demo_client_def)

lemma demo_fields [simp]:
  "NULL_VALUE demo_env = (- 1)"
  "NULL_POSITION demo_env = (- 1)"
  "NOT_CONNECTED demo_env = (- 1)"
  "PUBLICATION_CLOSED demo_env = (- 4)"
  "MAX_POSITION_EXCEEDED demo_env = (- 5)"
  "NULL_COUNTER_ID demo_env = (- 1)"
  "RECORD_ALLOCATED demo_env = (1)"
  "RECORD_UNUSED demo_env = (0)"
  "KEY_OFFSET demo_env = (16)"
  "metadataOffset demo_env = (\<lambda>i. i * 512)"
  "CLUSTER_RECOVERY_STATE_TYPE_ID demo_env = (204)"
  "CLUSTER_COMMIT_POSITION_TYPE_ID demo_env = (203)"
  "IPC_CHANNEL demo_env = (''aeron:ipc'')"
  "UDP_MEDIA demo_env = (''udp'')"
  "LOCAL_SOURCE demo_env = (0)"
  "UNFRAGMENTED demo_env = (0xC0)"
  "BEGIN_FRAG demo_env = (0x80)"
  "END_FRAG demo_env = (0x40)"
  "DataFrameHeader_LENGTH demo_env = (32)"
  "FRAME_ALIGNMENT demo_env = (32)"
  "BitUtil_align demo_env = (\<lambda>x a. (x + a - 1) div a * a)"
  "arguments_right_to_left demo_env = (True)"
  "operands_right_to_left demo_env = (False)"
  "aeron_connect demo_env = (\<lambda>_ _. demo_ret 0)"
  "defaultErrorHandler demo_env = (0)"
  "defaultAeronPath demo_env = (''aeron'')"
  "aeron_addExclusivePublication demo_env = (\<lambda>_ _. demo_ret 0)"
  "aeron_addPublication demo_env = (\<lambda>_ _. demo_ret 0)"
  "aeron_addSubscription demo_env = (\<lambda>_ _. demo_ret 0)"
  "aeron_addCounter demo_env = (\<lambda>_ _ _. demo_ret 0)"
  "aeron_findExclusivePublication demo_env = (\<lambda>_. demo_ret (Some 0))"
  "aeron_findSubscription demo_env = (\<lambda>_. demo_ret (Some 0))"
  "aeron_countersReader demo_env = (demo_ret demo_counters)"
  "aeron_getCounterValue demo_env = (\<lambda>_. demo_ret 0)"
  "aeron_isClosed demo_env = (demo_ret False)"
  "aeron_usesAgentInvoker demo_env = (demo_ret False)"
  "aeron_invoke demo_env = (demo_ret ())"
  "aeron_clientId demo_env = (demo_ret 0)"
  "aeron_nextCorrelationId demo_env = (demo_ret 0)"
  "pub_isConnected demo_env = (\<lambda>_. demo_ret False)"
  "pub_tryClaim demo_env = (\<lambda>_ _. demo_ret (1, 0))"
  "pub_offer demo_env = (\<lambda>_ _. demo_ret 0)"
  "pub_position demo_env = (\<lambda>_. demo_ret 0)"
  "pub_close demo_env = (\<lambda>_. demo_ret ())"
  "pub_sessionId demo_env = (\<lambda>_. 0)"
  "claim_write demo_env = (\<lambda>_ _. demo_ret ())"
  "claim_commit demo_env = (\<lambda>_. demo_ret ())"
  "sub_poll demo_env = (\<lambda>_ _. demo_ret [])"
  "sub_controlledPoll demo_env = (\<lambda>_ _. demo_ret [])"
  "sub_imageBySessionId demo_env = (\<lambda>_ _. demo_ret (Some 0))"
  "sub_isConnected demo_env = (\<lambda>_. demo_ret False)"
  "sub_tryResolveChannelEndpointPort demo_env = (\<lambda>_. demo_ret [])"
  "sub_closeAndRemoveImages demo_env = (\<lambda>_. demo_ret ())"
  "image_position demo_env = (\<lambda>_. demo_ret 0)"
  "image_isEndOfStream demo_env = (\<lambda>_. demo_ret False)"
  "image_isClosed demo_env = (\<lambda>_. demo_ret False)"
  "image_close demo_env = (\<lambda>_. demo_ret ())"
  "image_joinPosition demo_env = (\<lambda>_. 0)"
  "image_controlledPoll demo_env = (\<lambda>_ _. demo_ret [])"
  "image_boundedControlledPoll demo_env = (\<lambda>_ _ _. demo_ret [])"
  "poll_finish demo_env = (\<lambda>k. demo_ret (int k))"
  "poll_on_throw demo_env = (\<lambda>_ _. demo_ret 0)"
  "commit_get demo_env = (\<lambda>_. demo_ret 0)"
  "commit_isClosed demo_env = (\<lambda>_. demo_ret False)"
  "archive_asyncConnect demo_env = (demo_ret ())"
  "archive_connect_poll demo_env = (demo_ret (Some 0))"
  "archive_startReplay demo_env = (\<lambda>_ _ _ _ _ _. demo_ret 0)"
  "archive_startRecording demo_env = (\<lambda>_ _ _ _ _. demo_ret 0)"
  "archive_checkForErrorResponse demo_env = (\<lambda>_. demo_ret ())"
  "RecordingPos_findCounterIdBySessionId demo_env = (\<lambda>_. demo_ret 0)"
  "RecordingPos_getRecordingId demo_env = (\<lambda>_. demo_ret 0)"
  "RecordingPos_isActive demo_env = (\<lambda>_ _. demo_ret False)"
  "ChannelUri_addSessionId demo_env = (\<lambda>c _. demo_ret c)"
  "ChannelUri_withAlias demo_env = (\<lambda>c _. demo_ret c)"
  "ChannelUri_media demo_env = (\<lambda>_. Inr [])"
  "ChannelUri_toString demo_env = (\<lambda>c _. c)"
  "idle_idle demo_env = (demo_ret ())"
  "systemNanoClock demo_env = (demo_ret 0)"
  "currentTimeMillis demo_env = (demo_ret 0)"
  "builder_reset demo_env = (demo_ret ())"
  "builder_append demo_env = (\<lambda>_. demo_ret ())"
  "builder_nextTermOffset demo_env = (demo_ret 0)"
  "builder_setNextTermOffset demo_env = (\<lambda>_. demo_ret ())"
  "builder_limit demo_env = (demo_ret 0)"
  "builder_setLimit demo_env = (\<lambda>_. demo_ret ())"
  "builder_buffer demo_env = (demo_fail)"
  "uninit_bool demo_env = (\<lambda>_ _. False)"
  "uninit_int demo_env = (\<lambda>_ _. 0)"
  "MessageHeader_wrap demo_env = (\<lambda>_ _ _ _. Inl (LibraryError 1))"
  "MessageHeader_sbeSchemaId demo_env = (111)"
  "MessageHeader_sbeSchemaVersion demo_env = (8)"
  "MessageHeader_encodedLength demo_env = (8)"
  "SessionMessageHeader_sbeTemplateId demo_env = (1)"
  "SessionMessageHeader_sbeBlockLength demo_env = (24)"
  "SessionMessageHeader_sbeBlockAndHeaderLength demo_env = (32)"
  "SessionMessageHeader_wrap demo_env = (\<lambda>_ _ _ _ _ _. Inl (LibraryError 1))"
  "TimerEvent_sbeTemplateId demo_env = (20)"
  "TimerEvent_wrap demo_env = (\<lambda>_ _ _ _ _ _. Inl (LibraryError 1))"
  "SessionOpenEvent_sbeTemplateId demo_env = (21)"
  "SessionOpenEvent_wrap demo_env = (\<lambda>_ _ _ _ _ _. Inl (LibraryError 1))"
  "SessionCloseEvent_sbeTemplateId demo_env = (22)"
  "SessionCloseEvent_wrap demo_env = (\<lambda>_ _ _ _ _ _. Inl (LibraryError 1))"
  "ClusterActionRequest_sbeTemplateId demo_env = (23)"
  "ClusterActionRequest_wrap demo_env = (\<lambda>_ _ _ _ _ _. Inl (LibraryError 1))"
  "NewLeadershipTermEvent_sbeTemplateId demo_env = (24)"
  "NewLeadershipTermEvent_wrap demo_env = (\<lambda>_ _ _ _ _ _. Inl (LibraryError 1))"
  "MembershipChangeEvent_sbeTemplateId demo_env = (25)"
  "MembershipChangeEvent_wrap demo_env = (\<lambda>_ _ _ _ _ _. Inl (LibraryError 1))"
  "JoinLog_sbeTemplateId demo_env = (40)"
  "JoinLog_wrap demo_env = (\<lambda>_ _ _ _ _ _. Inl (LibraryError 1))"
  "ServiceTerminationPosition_sbeTemplateId demo_env = (42)"
  "ServiceTerminationPosition_wrap demo_env = (\<lambda>_ _ _ _ _ _. Inl (LibraryError 1))"
  "RequestServiceAck_sbeTemplateId demo_env = (108)"
  "RequestServiceAck_wrap demo_env = (\<lambda>_ _ _ _ _ _. Inl (LibraryError 1))"
  "SnapshotMarker_sbeTemplateId demo_env = (100)"
  "SnapshotMarker_sbeBlockAndHeaderLength demo_env = (48)"
  "SnapshotMarker_wrap demo_env = (\<lambda>_ _ _ _ _ _. Inl (LibraryError 1))"
  "SnapshotMarker_encode demo_env = (\<lambda>_ _. Inl (LibraryError 1))"
  "ClientSession_sbeTemplateId demo_env = (102)"
  "ClientSession_sbeBlockAndHeaderLength demo_env = (20)"
  "ClientSession_responseChannelHeaderLength demo_env = (4)"
  "ClientSession_encodedPrincipalHeaderLength demo_env = (4)"
  "ClientSession_wrap demo_env = (\<lambda>_ _ _ _ _ _. Inl (LibraryError 1))"
  "ClientSession_responseChannel demo_env = (\<lambda>_. Inl (LibraryError 1))"
  "ClientSession_responseChannelLength demo_env = (\<lambda>_. 0)"
  "ClientSession_encodedPrincipal demo_env = (\<lambda>_. Inl (LibraryError 1))"
  "ClientSession_encodedPrincipalLength demo_env = (\<lambda>_. 0)"
  "buffer_bytes demo_env = (\<lambda>_ _ _. [])"
  "buffer_view demo_env = (\<lambda>b _. b)"
  "ClientSession_encode demo_env = (\<lambda>_ _. Inl (LibraryError 1))"
  "SessionEvent_sbeTemplateId demo_env = (2)"
  "SessionEvent_wrap demo_env = (\<lambda>_ _ _ _ _ _. Inl (LibraryError 1))"
  "NewLeaderEvent_sbeTemplateId demo_env = (6)"
  "NewLeaderEvent_wrap demo_env = (\<lambda>_ _ _ _ _ _. Inl (LibraryError 1))"
  "Challenge_sbeTemplateId demo_env = (7)"
  "Challenge_wrap demo_env = (\<lambda>_ _ _ _ _ _. Inl (LibraryError 1))"
  "AdminResponse_sbeTemplateId demo_env = (27)"
  "AdminResponse_sbeBlockLength demo_env = (24)"
  "AdminResponse_messageHeaderLength demo_env = (4)"
  "AdminResponse_payloadHeaderLength demo_env = (4)"
  "AdminResponse_wrap demo_env = (\<lambda>_ _ _ _ _ _. Inl (LibraryError 1))"
  "cm_blockAndHeaderLength demo_env = (\<lambda>_. 0)"
  "client_encode demo_env = (\<lambda>_. Inl (LibraryError 1))"
  "client_encodedLength demo_env = (\<lambda>_. 100)"
  "SessionMessageHeader_encode demo_env = (\<lambda>_ _. Inl (LibraryError 1))"
  "svc_onStart demo_env = (\<lambda>_. Return True)"
  "svc_onSessionOpen demo_env = (\<lambda>_ _. Return ())"
  "svc_onSessionClose demo_env = (\<lambda>_ _ _. Return ())"
  "svc_onSessionMessage demo_env = (\<lambda>_ _ _ _ _ _. Return ())"
  "svc_onTimerEvent demo_env = (\<lambda>_ _. Return ())"
  "svc_onTakeSnapshot demo_env = (\<lambda>_. Return True)"
  "svc_onRoleChange demo_env = (\<lambda>_. Return ())"
  "svc_onNewLeadershipTermEvent demo_env = (\<lambda>_ _ _ _ _ _ _. Return ())"
  by (simp_all add: demo_env_def)

lemma demo_calls [simp]:
  "demo_ret x w = (Inr x, w)" "demo_fail w = (Inl (LibraryError 1), w)"
  by (simp_all add: demo_ret_def demo_fail_def)

definition demo_archive :: archive_context where
  "demo_archive = \<lparr>arc_controlRequestChannel = ''aeron:ipc'', arc_controlResponseChannel = ''aeron:ipc'',
     arc_aeron = None, arc_ownsAeronClient = True, arc_errorHandler = None\<rparr>"

definition demo_context :: service_context where
  "demo_context = (default_context (demo_env :: (nat, nat) env) 1 demo_archive)\<lparr>ctx_clusteredService := True\<rparr>"

definition demo_agent :: "'w \<Rightarrow> 'w sys" where
  "demo_agent w = projr (new_agent (demo_env :: (nat, 'w) env) demo_context w)"

text \<open>Three sessions, added out of order.\<close>

definition demo_session :: "i64 \<Rightarrow> session" where
  "demo_session i = new_session (demo_env :: (nat, nat) env) i 5 ''aeron:udp'' ''me'' False"

definition demo_table :: session_table where
  "demo_table = fold addSession (map demo_session [3, 1, 2]) empty_table"

end
