(* ===== verification/ConnectProperties.thy ===== *)
theory ConnectProperties
  imports ServiceConnect WorkLemmas Demo
begin

text \<open>
  What connecting promises: with a driver and an archive that answer, and no snapshot to replay,
  the third poll hands out the agent, with the recovered position and its start acknowledged.
\<close>

section \<open>Surroundings that answer\<close>

definition always :: "('w, 'a) call \<Rightarrow> 'a \<Rightarrow> bool" where
  "always f x \<longleftrightarrow> (\<forall>w. fst (f w) = Inr x)"

lemma connect_call_always:
  "always f x \<Longrightarrow> bindE (connect_call f) h c = h x (c\<lparr>ac_agent := (ac_agent c)\<lparr>world := snd (f (world (ac_agent c)))\<rparr>\<rparr>)"
  by (cases "f (world (ac_agent c))")
    (auto simp: always_def bindE_def agentE_def zoomE_def world_exec_def exec_run dest: spec [of _ "world (ac_agent c)"])

lemma agentE_modify: "agentE (modifyE k) c = Some (Inr (), c\<lparr>ac_agent := k (ac_agent c)\<rparr>)"
  "bindE (agentE (modifyE k)) h c = h () (c\<lparr>ac_agent := k (ac_agent c)\<rparr>)"
  by (simp_all add: bindE_def agentE_def zoomE_def exec_run)

lemma bindE_when_modify: "bindE (whenE b (modifyE k)) h s = h () (if b then k s else s)"
  by (simp add: whenE_def bindE_def exec_run)

text \<open>The counters hold what a service needs: a commit position and a recovery state.\<close>

record surroundings =
  sur_publication :: pub
  sur_subscription :: sub
  sur_archive :: nat
  sur_counters :: counters
  sur_clientId :: i64

definition answering :: "('b, 'w, 'z) env_scheme \<Rightarrow> surroundings \<Rightarrow> bool" where
  "answering E x \<longleftrightarrow>
     (\<forall>i. always (aeron_findExclusivePublication E i) (Some (sur_publication x)))
   \<and> (\<forall>i. always (aeron_findSubscription E i) (Some (sur_subscription x)))
   \<and> always (archive_connect_poll E) (Some (sur_archive x))
   \<and> always (aeron_countersReader E) (sur_counters x)
   \<and> always (aeron_clientId E) (sur_clientId x)
   \<and> always (pub_isConnected E (sur_publication x)) True
   \<and> (\<forall>w n. \<exists>r k w'. pub_tryClaim E (sur_publication x) n w = (Inr (r, k), w') \<and> r > 0)
   \<and> (\<forall>k q. always (claim_write E k q) ()) \<and> (\<forall>k. always (claim_commit E k) ())"

definition has_counters :: "('b, 'w, 'z) env_scheme \<Rightarrow> counters \<Rightarrow> i32 \<Rightarrow> bool" where
  "has_counters E C clusterId \<longleftrightarrow>
     find_counter E C (CLUSTER_COMMIT_POSITION_TYPE_ID E) clusterId \<noteq> None
   \<and> findCounter E C clusterId \<noteq> NULL_COUNTER_ID E"

definition fresh_connect :: "('b, 'w, 'z) env_scheme \<Rightarrow> 'w service_connect \<Rightarrow> bool" where
  "fresh_connect E c \<longleftrightarrow> ac_publication c = None \<and> ac_subscription c = None
     \<and> ac_recoveryCounterId c = NULL_COUNTER_ID E \<and> ac_step c = 0 \<and> ac_snapshotImage c = None
     \<and> m_proxy (ac_agent c) = None \<and> m_serviceAdapter (ac_agent c) = None
     \<and> m_archive (ac_agent c) = None \<and> m_commitPosition (ac_agent c) = None"

lemma new_service_connect_fresh:
  assumes "new_service_connect E ctx w = Some (Inr c, w')"
  shows "fresh_connect E c" "ac_ctx c = ctx" "m_table (ac_agent c) = empty_table" "m_ackId (ac_agent c) = 0"
    "world (ac_agent c) = w'"
  using assms
  by (auto simp: new_service_connect_def bindE_eq_Some_Inr exec_run new_agent_def fresh_connect_def split: if_splits)

lemma claim_answered:
  assumes "answering E x"
  shows "\<exists>w'. claim E (sur_publication x) q w = Some (Inr True, w')"
proof -
  obtain r k w1 where c: "pub_tryClaim E (sur_publication x) (cm_blockAndHeaderLength E q) w = (Inr (r, k), w1)" "r > 0"
    using assms unfolding answering_def by blast
  have "fst (claim_write E k q w1) = Inr ()" "\<And>w. fst (claim_commit E k w) = Inr ()"
    using assms unfolding answering_def always_def by blast+
  then obtain w2 w3 where "claim_write E k q w1 = (Inr (), w2)" "claim_commit E k w2 = (Inr (), w3)"
    by (metis prod.collapse)
  with c have "request_sent E (sur_publication x) q w w3"
    unfolding request_sent_def ATTEMPTS_def
    by (intro exI [of _ 0] exI [of _ w] exI [of _ r] exI [of _ k] exI [of _ w1] exI [of _ w2]) (auto intro: backs_off.none)
  then show ?thesis by (auto simp: claim_True)
qed

section \<open>Three polls\<close>

text \<open>The connect object once its parts are there.\<close>

definition resolved :: "('b, 'w, 'z) env_scheme \<Rightarrow> surroundings \<Rightarrow> 'w service_connect \<Rightarrow> bool" where
  "resolved E x c \<longleftrightarrow> ac_publication c \<noteq> None \<and> ac_subscription c \<noteq> None
     \<and> m_proxy (ac_agent c) = Some (sur_publication x)
     \<and> m_serviceAdapter (ac_agent c) \<noteq> None \<and> m_archive (ac_agent c) \<noteq> None
     \<and> m_commitPosition (ac_agent c) = find_counter E (sur_counters x) (CLUSTER_COMMIT_POSITION_TYPE_ID E) (ctx_clusterId (ac_ctx c))
     \<and> ac_recoveryCounterId c = findCounter E (sur_counters x) (ctx_clusterId (ac_ctx c))
     \<and> has_counters E (sur_counters x) (ctx_clusterId (ac_ctx c))"

text \<open>A poll asks for the counters first, whether it needs them or not.\<close>

definition counters_asked :: "('b, 'w, 'z) env_scheme \<Rightarrow> 'w service_connect \<Rightarrow> 'w service_connect" where
  "counters_asked E c =
     c\<lparr>ac_agent := (ac_agent c)\<lparr>world := snd (aeron_countersReader E (world (ac_agent c)))\<rparr>\<rparr>"

lemma counters_asked_simps [simp]:
  "ac_ctx (counters_asked E c) = ac_ctx c" "ac_step (counters_asked E c) = ac_step c"
  "ac_snapshotImage (counters_asked E c) = ac_snapshotImage c" "ac_snapshotSubscription (counters_asked E c) = ac_snapshotSubscription c"
  "ac_snapshotSessionId (counters_asked E c) = ac_snapshotSessionId c" "ac_snapshotLoader (counters_asked E c) = ac_snapshotLoader c"
  "ac_publication (counters_asked E c) = ac_publication c" "ac_subscription (counters_asked E c) = ac_subscription c"
  "ac_recoveryCounterId (counters_asked E c) = ac_recoveryCounterId c"
  "ac_agent (counters_asked E c) = (ac_agent c)\<lparr>world := snd (aeron_countersReader E (world (ac_agent c)))\<rparr>"
  by (simp_all add: counters_asked_def)

lemma resolved_asked [simp]: "resolved E x (counters_asked E c) = resolved E x c"
  by (simp add: resolved_def)

lemma parts_when_resolved:
  assumes "answering E x" "resolved E x c"
  shows "connect_parts E c = Some (Inr (), counters_asked E c)"
proof -
  have ctr: "always (aeron_countersReader E) (sur_counters x)" using assms(1) by (simp add: answering_def)
  show ?thesis
    using assms(2)
    by (auto simp: connect_parts_def connect_publication_def connect_subscription_def connect_proxy_def connect_adapter_def
      connect_archive_def connect_counters_def resolved_def has_counters_def connect_call_always [OF ctr]
      counters_asked_def bindE_run exec_run whenE_def)
qed

definition recovered :: "('b, 'w, 'z) env_scheme \<Rightarrow> surroundings \<Rightarrow> 'w service_connect \<Rightarrow> bool" where
  "recovered E x c \<longleftrightarrow>
    (let k = findCounter E (sur_counters x) (ctx_clusterId (ac_ctx c)) in
     m_logPosition (ac_agent c) = getLogPosition E (sur_counters x) k
   \<and> m_clusterTime (ac_agent c) = getTimestamp E (sur_counters x) k
   \<and> m_leadershipTermId (ac_agent c) = getLeadershipTermId E (sur_counters x) k)"

lemma first_parts:
  assumes sur: "answering E x" and fresh: "fresh_connect E c"
    and ctr: "has_counters E (sur_counters x) (ctx_clusterId (ac_ctx c))"
  shows "\<exists>w a. connect_parts E c = Some (Inr (), c\<lparr>ac_publication := Some (sur_publication x),
       ac_subscription := Some (sur_subscription x),
       ac_agent := (ac_agent c)\<lparr>m_proxy := Some (sur_publication x), m_serviceAdapter := Some a,
         m_archive := Some (sur_archive x), m_commitPosition := find_counter E (sur_counters x)
           (CLUSTER_COMMIT_POSITION_TYPE_ID E) (ctx_clusterId (ac_ctx c)), world := w\<rparr>,
       ac_recoveryCounterId := findCounter E (sur_counters x) (ctx_clusterId (ac_ctx c))\<rparr>)"
proof -
  have calls: "always (aeron_findExclusivePublication E i) (Some (sur_publication x))"
    "always (aeron_findSubscription E i) (Some (sur_subscription x))" "always (archive_connect_poll E) (Some (sur_archive x))"
    "always (aeron_countersReader E) (sur_counters x)" for i
    using sur by (simp_all add: answering_def)
  show ?thesis
    using fresh ctr
    by (auto simp: connect_parts_def connect_publication_def connect_subscription_def
      connect_proxy_def connect_adapter_def connect_archive_def connect_counters_def
      fresh_connect_def has_counters_def bindE_run exec_run whenE_def calls [THEN connect_call_always] agentE_modify)
qed

text \<open>What the steps before the snapshot do not touch.\<close>

definition snapshot_parts where
  "snapshot_parts c = (ac_snapshotSubscription c, ac_snapshotImage c, ac_snapshotLoader c, ac_ctx c,
     m_ackId (ac_agent c), m_table (ac_agent c))"

lemma snapshot_parts_asked [simp]: "snapshot_parts (counters_asked E c) = snapshot_parts c"
  by (simp add: snapshot_parts_def counters_asked_def)

lemma first_step:
  assumes sur: "answering E x" and res: "resolved E x c" and step: "ac_step c = 0"
  shows "\<exists>c'. connect_step_0 E c = Some (Inr True, c') \<and> resolved E x c' \<and> ac_step c' = 1
    \<and> snapshot_parts c' = snapshot_parts c"
proof -
  have conn: "always (pub_isConnected E (sur_publication x)) True" using sur by (simp add: answering_def)
  have "parts_resolved E c" using res by (auto simp: resolved_def parts_resolved_def has_counters_def)
  then show ?thesis
    using res step
    by (auto simp: resolved_def snapshot_parts_def connect_step_0_def bindE_run(3) derefE_run bindE_run(1) connect_call_always [OF conn]
      agentE_modify bindE_run(4) exec_run)
qed

lemma recovery_step:
  assumes sur: "answering E x"
    and none: "getLeadershipTermId E (sur_counters x) (ac_recoveryCounterId c) = NULL_VALUE E"
    and res: "resolved E x c"
  shows "\<exists>c'. connect_step_1 E c = Some (Inr (), c') \<and> resolved E x c' \<and> recovered E x c' \<and> ac_step c' = 3
    \<and> snapshot_parts c' = snapshot_parts c"
proof -
  have ctr: "always (aeron_countersReader E) (sur_counters x)" using sur by (simp add: answering_def)
  show ?thesis
    using none res
    by (auto simp: connect_step_1_def bindE_run exec_run connect_call_always [OF ctr] agentE_modify Let_def
      resolved_def recovered_def snapshot_parts_def)
qed

lemma to_recovery:
  assumes sur: "answering E x" and fresh: "fresh_connect E c"
    and ctr: "has_counters E (sur_counters x) (ctx_clusterId (ac_ctx c))"
  shows "\<exists>cb. service_connect_poll E c = bindE (connect_step_1 E) (\<lambda>_. retE False) cb \<and> resolved E x cb
    \<and> snapshot_parts cb = snapshot_parts c \<and> ac_recoveryCounterId cb = findCounter E (sur_counters x) (ctx_clusterId (ac_ctx c))"
proof -
  obtain ca where a: "connect_parts E c = Some (Inr (), ca)" "resolved E x ca" "ac_step ca = 0"
    "snapshot_parts ca = snapshot_parts c"
    using first_parts [OF sur fresh ctr] ctr fresh by (auto simp: resolved_def fresh_connect_def snapshot_parts_def)
  obtain cb where b: "connect_step_0 E ca = Some (Inr True, cb)" "resolved E x cb" "ac_step cb = 1"
    "snapshot_parts cb = snapshot_parts c"
    using first_step [OF sur a(2,3)] a by auto
  have "service_connect_poll E c = bindE (connect_step_1 E) (\<lambda>_. retE False) cb"
    using b(3) by (simp add: service_connect_poll_def bindE_Some(1) [where m = "connect_parts E", OF a(1)]
      bindE_Some(1) [where m = "connect_step_0 E", OF b(1)] bindE_run(3))
  with b show ?thesis by (auto simp: resolved_def snapshot_parts_def)
qed

lemma first_poll:
  assumes sur: "answering E x" and fresh: "fresh_connect E c"
    and ctr: "has_counters E (sur_counters x) (ctx_clusterId (ac_ctx c))"
    and none: "getLeadershipTermId E (sur_counters x) (findCounter E (sur_counters x) (ctx_clusterId (ac_ctx c)))
      = NULL_VALUE E"
  shows "\<exists>c1. service_connect_poll E c = Some (Inr False, c1) \<and> resolved E x c1 \<and> recovered E x c1 \<and> ac_step c1 = 3
     \<and> snapshot_parts c1 = snapshot_parts c"
proof -
  obtain cb where b: "service_connect_poll E c = bindE (connect_step_1 E) (\<lambda>_. retE False) cb" "resolved E x cb"
    "snapshot_parts cb = snapshot_parts c" "ac_recoveryCounterId cb = findCounter E (sur_counters x) (ctx_clusterId (ac_ctx c))"
    using to_recovery [OF sur fresh ctr] by blast
  obtain cc where c: "connect_step_1 E cb = Some (Inr (), cc)" "resolved E x cc" "recovered E x cc" "ac_step cc = 3"
    "snapshot_parts cc = snapshot_parts c"
    using recovery_step [OF sur _ b(2)] none b(3,4) by auto
  then show ?thesis
    by (simp add: b(1) bindE_Some(1) [where m = "connect_step_1 E", OF c(1)] exec_run)
qed

lemma later_poll:
  assumes "answering E x" "resolved E x c" "ac_step c \<noteq> 0"
  shows "service_connect_poll E c = bindE (getsE ac_step) (\<lambda>step.
       if step = 1 then bindE (connect_step_1 E) (\<lambda>_. retE False)
       else if step = 2 then bindE (connect_step_2 E) (\<lambda>_. retE False)
       else if step = 3 then bindE (connect_step_3 E) (\<lambda>_. retE False)
       else if step = 4 then connect_step_4 E
       else retE False) (counters_asked E c)"
proof -
  have "connect_step_0 E (counters_asked E c) = Some (Inr True, counters_asked E c)"
    using assms(3) by (simp add: connect_step_0_def bindE_run(3) exec_run)
  then show ?thesis
    by (simp add: service_connect_poll_def bindE_Some(1) [where m = "connect_parts E", OF parts_when_resolved [OF assms(1,2)]]
      bindE_Some(1) [where m = "connect_step_0 E"])
qed

definition starts :: "('b, 'w, 'z) env_scheme \<Rightarrow> image option \<Rightarrow> bool" where
  "starts E img \<longleftrightarrow> (\<forall>s. \<exists>s'. run_callback E (svc_onStart E img) s = Some (Inr True, s'))"

text \<open>What starting the service does not touch.\<close>

definition start_frame where
  "start_frame s = (m_logPosition s, m_clusterTime s, m_leadershipTermId s, m_ackId s, m_proxy s, m_serviceAdapter s,
     m_archive s, m_commitPosition s)"

lemma second_poll:
  assumes sur: "answering E x" and res: "resolved E x c" and step: "ac_step c = 3" and img: "ac_snapshotImage c = img" and svc: "starts E img"
  shows "\<exists>c1. service_connect_poll E c = Some (Inr False, c1) \<and> resolved E x c1 \<and> ac_step c1 = 4
     \<and> start_frame (ac_agent c1) = start_frame (ac_agent c) \<and> ac_ctx c1 = ac_ctx c"
proof -
  let ?d = "counters_asked E c"
  obtain s' where s': "run_callback E (svc_onStart E img) (ac_agent ?d) = Some (Inr True, s')"
    using svc unfolding starts_def by blast
  have "keeps start_frame (run_callback E (svc_onStart E img))"
    by (intro keeps_run_callback) (simp_all add: start_frame_def)
  from keepsD [OF this s'] have frame: "start_frame s' = start_frame (ac_agent c)" by (simp add: start_frame_def)
  have run: "agentE (run_callback E (svc_onStart E img)) ?d = Some (Inr True, ?d\<lparr>ac_agent := s'\<rparr>)"
    unfolding agentE_def zoomE_def s' by simp
  let ?c = "?d\<lparr>ac_agent := s', ac_step := 4\<rparr>"
  have "service_connect_poll E c = Some (Inr False, ?c)"
    using later_poll [OF sur res] step img
    by (simp add: connect_step_3_def bindE_run exec_run whenE_def
      bindE_Some(1) [where m = "agentE (run_callback E (svc_onStart E img))", OF run])
  moreover have "resolved E x ?c" using res frame by (simp add: resolved_def start_frame_def)
  ultimately show ?thesis using frame by auto
qed

lemma third_poll:
  assumes sur: "answering E x" and res: "resolved E x c" and step: "ac_step c = 4"
  shows "\<exists>c1. service_connect_poll E c = Some (Inr True, c1) \<and> ac_step c1 = 4
     \<and> m_logPosition (ac_agent c1) = m_logPosition (ac_agent c)
     \<and> m_clusterTime (ac_agent c1) = m_clusterTime (ac_agent c)
     \<and> m_leadershipTermId (ac_agent c1) = m_leadershipTermId (ac_agent c)
     \<and> m_ackId (ac_agent c1) = m_ackId (ac_agent c) + 1 \<and> m_isServiceActive (ac_agent c1)
     \<and> m_commitPosition (ac_agent c1) = m_commitPosition (ac_agent c)"
proof -
  have client: "always (aeron_clientId E) (sur_clientId x)" using sur by (simp add: answering_def)
  have proxy: "m_proxy (ac_agent c) = Some (sur_publication x)" using res by (simp add: resolved_def)
  let ?d = "counters_asked E c"
  let ?s = "(ac_agent c)\<lparr>world := snd (aeron_clientId E (snd (aeron_countersReader E (world (ac_agent c)))))\<rparr>"
  obtain w' where w': "claim E (sur_publication x) (ServiceAck (m_logPosition ?s) (m_clusterTime ?s) (m_ackId ?s)
      (sur_clientId x) (m_serviceId ?s)) (world ?s) = Some (Inr True, w')"
    using claim_answered [OF sur] by blast
  have proxied: "bindE (with_proxy (\<lambda>p. proxy_ack E p (m_logPosition ?s) (m_clusterTime ?s) (m_ackId ?s)
      (sur_clientId x) (m_serviceId ?s))) h ?s = h True (?s\<lparr>world := w'\<rparr>)" for h
    using w' proxy
    by (intro bindE_Some(1)) (simp add: with_proxy_run [where p = "sur_publication x"] world_exec_run proxy_ack_def)
  obtain s1 where ack: "ack E (sur_clientId x) ?s = Some (Inr True, s1)"
    and s1: "m_ackId s1 = m_ackId (ac_agent c) + 1" "start_frame s1 = start_frame ((ac_agent c)\<lparr>m_ackId := m_ackId (ac_agent c) + 1\<rparr>)"
    by (auto simp: ack_def bindE_run exec_run bindE_when_modify start_frame_def proxied [simplified])
  have step4: "agentE (ack E (sur_clientId x)) (?d\<lparr>ac_agent := ?s\<rparr>) = Some (Inr True, ?d\<lparr>ac_agent := s1\<rparr>)"
    using ack by (simp add: agentE_def zoomE_def)
  have "service_connect_poll E c = Some (Inr True, ?d\<lparr>ac_agent := s1\<lparr>m_isServiceActive := True\<rparr>\<rparr>)"
    using later_poll [OF sur res] step
    by (simp add: bindE_run(3) connect_step_4_def connect_call_always [OF client] agentE_modify exec_run
      bindE_Some(1) [where m = "agentE (ack E (sur_clientId x))", OF step4])
  then show ?thesis using s1 step by (simp add: start_frame_def)
qed

lemma three_polls:
  assumes sur: "answering E x" and svc: "starts E None" and fresh: "fresh_connect E c"
    and ctr: "has_counters E (sur_counters x) (ctx_clusterId (ac_ctx c))"
    and none: "getLeadershipTermId E (sur_counters x) (findCounter E (sur_counters x) (ctx_clusterId (ac_ctx c)))
      = NULL_VALUE E"
  shows "\<exists>c1 c2 c3. service_connect_poll E c = Some (Inr False, c1) \<and> service_connect_poll E c1 = Some (Inr False, c2)
     \<and> service_connect_poll E c2 = Some (Inr True, c3)
     \<and> m_logPosition (ac_agent c3) = getLogPosition E (sur_counters x) (findCounter E (sur_counters x) (ctx_clusterId (ac_ctx c)))
     \<and> m_clusterTime (ac_agent c3) = getTimestamp E (sur_counters x) (findCounter E (sur_counters x) (ctx_clusterId (ac_ctx c)))
     \<and> m_ackId (ac_agent c3) = m_ackId (ac_agent c) + 1 \<and> m_isServiceActive (ac_agent c3)
     \<and> m_commitPosition (ac_agent c3) = find_counter E (sur_counters x) (CLUSTER_COMMIT_POSITION_TYPE_ID E) (ctx_clusterId (ac_ctx c))"
proof -
  obtain c1 where 1: "service_connect_poll E c = Some (Inr False, c1)" "resolved E x c1" "recovered E x c1" "ac_step c1 = 3"
     "m_ackId (ac_agent c1) = m_ackId (ac_agent c)" "ac_snapshotImage c1 = None" "ac_ctx c1 = ac_ctx c"
    using first_poll [OF sur fresh ctr none] fresh by (auto simp: snapshot_parts_def fresh_connect_def)
  obtain c2 where 2: "service_connect_poll E c1 = Some (Inr False, c2)" "resolved E x c2" "ac_step c2 = 4"
     "start_frame (ac_agent c2) = start_frame (ac_agent c1)" "ac_ctx c2 = ac_ctx c"
    using second_poll [OF sur 1(2,4,6) svc] 1(7) by auto
  from third_poll [OF sur 2(2,3)] 1 2 show ?thesis
    by (fastforce simp: recovered_def start_frame_def resolved_def Let_def)
qed

section \<open>The theorem\<close>

text \<open>C23. A service gets its agent: when the driver, the archive and the consensus module answer, the
  counters hold a commit position and a recovery state without a snapshot, and the service starts, then
  polling a new connect object hands out the agent at the third poll, at the recovered log position
  and cluster time, with the counter of the commit position, active, and with exactly one
  acknowledgement sent.\<close>

theorem connects_in_three:
  assumes "answering E x" "starts E None" "new_service_connect E ctx w = Some (Inr c, w')"
    "has_counters E (sur_counters x) (ctx_clusterId ctx)"
    "getLeadershipTermId E (sur_counters x) (findCounter E (sur_counters x) (ctx_clusterId ctx)) = NULL_VALUE E"
  shows "\<exists>c1 c2 c3. service_connect_poll E c = Some (Inr False, c1) \<and> service_connect_poll E c1 = Some (Inr False, c2)
     \<and> service_connect_poll E c2 = Some (Inr True, c3)
     \<and> m_logPosition (ac_agent c3) = getLogPosition E (sur_counters x) (findCounter E (sur_counters x) (ctx_clusterId ctx))
     \<and> m_clusterTime (ac_agent c3) = getTimestamp E (sur_counters x) (findCounter E (sur_counters x) (ctx_clusterId ctx))
     \<and> m_ackId (ac_agent c3) = 1 \<and> m_isServiceActive (ac_agent c3)
     \<and> m_commitPosition (ac_agent c3) = find_counter E (sur_counters x) (CLUSTER_COMMIT_POSITION_TYPE_ID E) (ctx_clusterId ctx)"
  using three_polls [OF assms(1,2) new_service_connect_fresh(1) [OF assms(3)]] assms(4,5)
    new_service_connect_fresh(2,4) [OF assms(3)] by simp

text \<open>A concrete driver: one recovery counter and one commit position counter, no snapshot.\<close>

definition ready_counters :: counters where
  "ready_counters = \<lparr> maxCounterId = 2, getCounterState = \<lambda>_. 1, getCounterTypeId = \<lambda>i. if i = 0 then 204 else 203,
     getCounterRegistrationId = \<lambda>i. 40 + i, metaInt32 = \<lambda>_. 0,
     metaInt64 = \<lambda>a. if a = 16 then - 1 else if a = 24 then 64 else 7 \<rparr>"

definition ready_env :: "(nat, nat) env" where
  "ready_env = demo_env\<lparr>pub_isConnected := \<lambda>_. demo_ret True, aeron_countersReader := demo_ret ready_counters\<rparr>"

definition ready_surroundings :: surroundings where
  "ready_surroundings = \<lparr>sur_publication = 0, sur_subscription = 0, sur_archive = 0, sur_counters = ready_counters,
     sur_clientId = 0\<rparr>"

lemma ready_answers: "answering ready_env ready_surroundings" "starts ready_env None"
  by (auto simp: answering_def always_def ready_env_def ready_surroundings_def starts_def exec_run)

lemma ready_found:
  "findCounter ready_env ready_counters 0 = 0"
  "find_counter ready_env ready_counters 203 0 = Some \<lparr>counter_registrationId = 41, counter_id = 1\<rparr>"
  "getLeadershipTermId ready_env ready_counters 0 = - 1" "getLogPosition ready_env ready_counters 0 = 64"
  "getTimestamp ready_env ready_counters 0 = 7"
  by (simp_all add: findCounter_def findCounter_from.simps find_counter_def find_from.simps getCounterClusterId_def
    ready_env_def ready_counters_def getLeadershipTermId_def getLogPosition_def getTimestamp_def recovery_counter_def
    recovery_offsets)

lemma ready_consts: "NULL_VALUE ready_env = - 1" "NULL_COUNTER_ID ready_env = - 1"
  "CLUSTER_COMMIT_POSITION_TYPE_ID ready_env = 203" "sur_counters ready_surroundings = ready_counters"
  by (simp_all add: ready_env_def ready_surroundings_def)

lemma ready_context: "ctx_clusterId demo_context = 0" "ctx_clusteredService demo_context"
  by (simp_all add: demo_context_def default_context_def CLUSTER_ID_DEFAULT_def)

definition ready_connect :: "nat service_connect" where
  "ready_connect = projr (fst (the (new_service_connect ready_env demo_context 0)))"

lemma ready_connect_new: "new_service_connect ready_env demo_context 0 = Some (Inr ready_connect, 0)"
  by (simp add: ready_connect_def new_service_connect_def ready_env_def bindE_def exec_run new_agent_def ready_context)

theorem connects_in_three_witness:
  "\<exists>c1 c2 c3. service_connect_poll ready_env ready_connect = Some (Inr False, c1)
     \<and> service_connect_poll ready_env c1 = Some (Inr False, c2) \<and> service_connect_poll ready_env c2 = Some (Inr True, c3)
     \<and> m_logPosition (ac_agent c3) = 64 \<and> m_ackId (ac_agent c3) = 1 \<and> m_commitPosition (ac_agent c3) \<noteq> None"
  using connects_in_three [OF ready_answers ready_connect_new]
  by (auto simp: ready_context ready_found has_counters_def ready_consts)

text \<open>Concluding a context is idempotent: after \<open>conclude\<close> has succeeded the context is valid (service id between 0
  and 127, both archive control channels IPC), the archive context shares the client and its error handler
  without owning the client, and concluding again connects nothing and changes nothing.\<close>

theorem conclude_twice:
  assumes "context_conclude L (c, w) = Some (Inr (), (c', w'))"
  shows "valid_context L c' \<and> context_conclude L (c', w') = Some (Inr (), (c', w'))
    \<and> ctx_aeron c' \<noteq> None \<and> arc_aeron (ctx_archiveContext c') = ctx_aeron c'
    \<and> \<not> arc_ownsAeronClient (ctx_archiveContext c') \<and> arc_errorHandler (ctx_archiveContext c') = ctx_errorHandler c'
    \<and> (ctx_ownsAeronClient c' \<longleftrightarrow> ctx_ownsAeronClient c \<or> ctx_aeron c = None)"
proof -
  have valid: "valid_context L c" using assms by (rule context_conclude_valid)
  obtain a owns where c': "c' = concluded L c a owns" "owns \<longleftrightarrow> ctx_ownsAeronClient c \<or> ctx_aeron c = None"
  proof (cases "ctx_aeron c")
    case (Some a)
    with assms context_conclude_given_aeron [OF Some valid, of w] that [of a "ctx_ownsAeronClient c"] show thesis
      by simp
  next
    case None
    obtain r w1 where "aeron_connect L (ctx_aeronDirectoryName c)
       (case ctx_errorHandler c of None \<Rightarrow> Some (defaultErrorHandler L) | Some h \<Rightarrow> Some h) w = (r, w1)"
      by (metis surj_pair)
    from context_conclude_connects [OF None valid this] assms that [of _ True] None show thesis
      by (cases r) auto
  qed
  have "valid_context L c'" "ctx_aeron c' = Some a" using valid by (simp_all add: c' valid_context_def concluded_def Let_def)
  moreover from context_conclude_given_aeron [OF this(2,1), of w']
  have "context_conclude L (c', w') = Some (Inr (), (c', w'))"
    by (simp add: c' concluded_def Let_def split: option.split)
  ultimately show ?thesis using c' by (simp add: concluded_def Let_def)
qed

theorem conclude_twice_witness:
  "\<exists>c'. context_conclude ready_env (demo_context, 0) = Some (Inr (), (c', 0))
     \<and> context_conclude ready_env (c', 0) = Some (Inr (), (c', 0)) \<and> ctx_ownsAeronClient c'"
proof -
  have "valid_context ready_env demo_context" "ctx_aeron demo_context = None" "ctx_errorHandler demo_context = None"
    by (simp_all add: valid_context_def demo_context_def default_context_def demo_archive_def ready_env_def
      SERVICE_ID_DEFAULT_def starts_with_def)
  from context_conclude_connects [OF this(2,1), of 0 "Inr 0" 0]
  have run: "context_conclude ready_env (demo_context, 0) = Some (Inr (), (concluded ready_env demo_context 0 True, 0))"
    by (simp add: ready_env_def split: option.split)
  from conclude_twice [OF run] run show ?thesis
    by (auto simp: concluded_def Let_def)
qed

end
