(* ===== verification/SafetyProperties.thy ===== *)
theory SafetyProperties
  imports ConnectSafety ConnectProperties
begin

text \<open>
  The states a service container can reach, from a new connect object on: polls, work cycles,
  calls of the service, changes of the world outside and the loss of the commit counter, in any
  order and however they end. What holds in all of them.
\<close>

section \<open>Reachable states\<close>

inductive connecting :: "('b, 'w, 'z) env_scheme \<Rightarrow> 'w service_connect \<Rightarrow> bool" for E :: "('b, 'w, 'z) env_scheme" where
  started_connect: "new_service_connect E ctx w = Some (Inr c, w') \<Longrightarrow> connecting E c"
| polled: "connecting E c \<Longrightarrow> service_connect_poll E c = Some (r, c') \<Longrightarrow> connecting E c'"
| outside_connect: "connecting E c \<Longrightarrow> connecting E (c\<lparr>ac_agent := (ac_agent c)\<lparr>world := w\<rparr>\<rparr>)"

inductive serving :: "('b, 'w, 'z) env_scheme \<Rightarrow> 'w sys \<Rightarrow> bool" for E :: "('b, 'w, 'z) env_scheme" where
  handed_out: "connecting E c \<Longrightarrow> service_connect_poll E c = Some (Inr True, c') \<Longrightarrow> serving E (ac_agent c')"
| works: "serving E s \<Longrightarrow> doWork E s = Some (r, s') \<Longrightarrow> serving E s'"
| calls: "serving E s \<Longrightarrow> run_callback E (k :: (unit, 'w) callback) s = Some (r, s') \<Longrightarrow> serving E s'"
| counter_lost: "serving E s \<Longrightarrow> onUnavailableCounter i j s = Some (r, s') \<Longrightarrow> serving E s'"
| outside: "serving E s \<Longrightarrow> serving E (s\<lparr>world := w\<rparr>)"

section \<open>Invariants\<close>

lemma new_connect_ok:
  assumes "new_service_connect E ctx w = Some (Inr c, w')"
  shows "connect_ok b c"
  using new_service_connect_fresh [OF assms]
  by (simp add: connect_ok_def fresh_connect_def table_safe_empty)

lemma connecting_ok:
  assumes "connecting E c" "b \<Longrightarrow> tame_env E"
  shows "connect_ok b c"
  using assms(1)
proof induction
  case (started_connect ctx w c w')
  then show ?case by (rule new_connect_ok)
next
  case (polled c r c')
  from cleanD(1) [OF clean_service_connect_poll [of b E, OF assms(2)] polled.IH polled.hyps(2)] show ?case .
next
  case (outside_connect c w)
  then show ?case by (simp add: connect_ok_def agent_ok_def)
qed

text \<open>The agent is handed out in the last step only.\<close>

lemma poll_True_step:
  assumes "service_connect_poll E c = Some (Inr True, c')"
  shows "ac_step c' = 4"
proof -
  have frame: "keeps ac_step (connect_step_4 E)"
    unfolding connect_step_4_def agentE_def by (intro keeps_rules) simp_all
  from assms obtain c1 where "connect_step_4 E c1 = Some (Inr True, c')" "ac_step c1 = 4"
    unfolding service_connect_poll_def
    by (auto simp: bindE_eq_Some_Inr exec_run split: if_splits)
  with keepsD [OF frame] show ?thesis by metis
qed

lemma serving_ok:
  assumes "serving E s"
  shows "agent_ok False s"
  using assms
proof induction
  case (handed_out c c')
  from polled [OF handed_out] connecting_ok [of E c' False] poll_True_step [OF handed_out(2)]
  show ?case by (simp add: connect_ok_def)
next
  case (works s r s')
  from cleanD(1) [OF clean_doWork [of False E, OF FalseE] works.IH works.hyps(2)] show ?case .
next
  case (calls s k r s')
  from cleanD(1) [OF clean_run_callback [of False E, OF FalseE FalseE] calls.IH calls.hyps(2)] show ?case .
next
  case (counter_lost s i j r s')
  then show ?case by (auto simp: onUnavailableCounter_def exec_run agent_ok_def split: option.splits)
next
  case (outside s w)
  then show ?case by (simp add: agent_ok_def)
qed

lemma ready_agent:
  "\<exists>s. serving ready_env s \<and> m_commitPosition s \<noteq> None"
proof -
  have fresh: "fresh_connect ready_env ready_connect" "ctx_clusterId (ac_ctx ready_connect) = 0"
    using new_service_connect_fresh(1,2) [OF ready_connect_new] by (simp_all add: ready_context)
  obtain c1 c2 c3 where "service_connect_poll ready_env ready_connect = Some (Inr False, c1)"
    "service_connect_poll ready_env c1 = Some (Inr False, c2)" "service_connect_poll ready_env c2 = Some (Inr True, c3)"
    "m_commitPosition (ac_agent c3) \<noteq> None"
    using three_polls [OF ready_answers fresh(1)] fresh(2)
    by (auto simp: ready_found has_counters_def ready_consts)
  then show ?thesis
    using handed_out polled started_connect [OF ready_connect_new] by metis
qed

lemma ready_tame: "tame_env ready_env"
  by (simp add: tame_env_def tame_def tame_decoder_def ready_env_def is_null_def)

section \<open>Theorems\<close>

text \<open>C24. In every state that the container can reach, the pointers that a session id leads to are
  not dangling and point to the session with that id, the sessions are ordered by id, and the agent
  has its proxy, its archive and the adapter it is bound to.\<close>

theorem reachable_invariant:
  assumes "serving E s"
  shows "table_safe (m_table s)
    \<and> (\<forall>i. case find_pointer (m_table s) i of None \<Rightarrow> True
         | Some a \<Rightarrow> (case deref (m_table s) a of None \<Rightarrow> False | Some x \<Rightarrow> cs_id x = i))
    \<and> m_proxy s \<noteq> None \<and> m_archive s \<noteq> None \<and> (\<exists>a. m_serviceAdapter s = Some a \<and> sa_agentBound a)"
proof -
  from serving_ok [OF assms] have ok: "agent_ok False s" .
  then have safe: "table_safe (m_table s)" by (simp add: agent_ok_def)
  have "case find_pointer (m_table s) i of None \<Rightarrow> True
         | Some a \<Rightarrow> (case deref (m_table s) a of None \<Rightarrow> False | Some x \<Rightarrow> cs_id x = i)" for i
    using table_safeD(4) [OF safe, of i] by (auto split: option.split)
  with ok show ?thesis by (simp add: agent_ok_def)
qed

theorem reachable_invariant_witness:
  "\<exists>s. serving ready_env s \<and> table_safe (m_table s) \<and> m_proxy s \<noteq> None"
  using ready_agent reachable_invariant [of ready_env] by blast

text \<open>C26. No work cycle uses a null pointer: in a reachable state that still has its commit counter,
  whatever the messages and whatever the service does in its callbacks, \<open>doWork\<close> does not end in a null
  dereference when the library calls, the decoders and the service themselves do not.\<close>

theorem work_uses_no_null:
  assumes "tame_env E" "serving E s" "m_commitPosition s \<noteq> None"
  shows "doWork E s \<noteq> Some (Inl (NullDereference what), s')"
proof
  assume run: "doWork E s = Some (Inl (NullDereference what), s')"
  from serving_ok [OF assms(2)] assms(3) have "agent_ok True s" by (simp add: agent_ok_def)
  from cleanD(2) [OF clean_doWork [of True E] this run refl] assms(1) show False
    by (simp add: is_null_def)
qed

theorem work_uses_no_null_witness:
  "\<exists>s. serving ready_env s \<and> m_commitPosition s \<noteq> None \<and> (\<forall>what s'. doWork ready_env s \<noteq> Some (Inl (NullDereference what), s'))"
  using ready_agent work_uses_no_null [OF ready_tame] by blast

text \<open>C27. Connecting uses no null pointer either: no poll of a connect object ends in a null dereference,
  in whatever order the parts, the snapshot and the acknowledgement come.\<close>

theorem connect_uses_no_null:
  assumes "tame_env E" "connecting E c"
  shows "service_connect_poll E c \<noteq> Some (Inl (NullDereference what), c')"
proof
  assume run: "service_connect_poll E c = Some (Inl (NullDereference what), c')"
  from cleanD(2) [OF clean_service_connect_poll [of True E] connecting_ok [OF assms(2)] run refl] assms(1)
  show False by (simp add: is_null_def)
qed

theorem connect_uses_no_null_witness:
  "\<forall>what c'. service_connect_poll ready_env ready_connect \<noteq> Some (Inl (NullDereference what), c')"
  using connect_uses_no_null [OF ready_tame started_connect [OF ready_connect_new]] by blast

text \<open>C29. The exception is real: once the commit counter has been lost (\<open>onUnavailableCounter\<close>), a work cycle
  of an agent with a joined log and nothing else to do dereferences the null pointer to the counter.\<close>

theorem lost_counter_dereferenced:
  assumes lost: "onUnavailableCounter (counter_registrationId k) (counter_id k) s = Some (Inr (), s1)"
      "m_commitPosition s = Some k"
    and idle: "la_image s \<noteq> None" "m_currentSnapshot s = None" "\<not> m_isAbort s"
    and clock: "systemNanoClock E (world s) = (Inr now, w1)" "now - m_lastSlowTickNs s \<le> 1000 * 1000"
      "aeron_isClosed E w1 = (Inr False, w2)"
  shows "\<exists>s2. doWork E s1 = Some (Inl (NullDereference ''m_commitPosition''), s2)"
proof -
  have "s1 = s\<lparr>m_commitPosition := None\<rparr>" using lost by (simp add: onUnavailableCounter_def exec_run)
  with idle have s1: "la_image s1 \<noteq> None" "m_currentSnapshot s1 = None" "\<not> m_isAbort s1" "world s1 = world s"
    "m_lastSlowTickNs s1 = m_lastSlowTickNs s" "m_commitPosition s1 = None" by simp_all
  let ?s = "s1\<lparr>world := w1\<rparr>" and ?t = "s1\<lparr>world := w2\<rparr>"
  have nano: "world_call (systemNanoClock E) s1 = Some (Inr now, ?s)"
    using clock(1) s1 by (simp add: world_exec_run exec_run)
  have "world_call (aeron_isClosed E) ?s = Some (Inr False, ?t)"
    using clock(3) by (simp add: world_exec_run exec_run)
  then have tick: "checkForClockTick E now ?s = Some (Inr False, ?t)"
    using clock(2) s1 by (simp add: checkForClockTick_def checkAeronOpen_def bindE_def exec_run whenE_def)
  have "doWork E s1 = poll_log E ?t"
    using s1 by (simp add: doWork_def bindE_Some(1) [where m = "world_call (systemNanoClock E)", OF nano] bindE_run
      bindE_Some(1) [where m = "checkForClockTick E now", OF tick] whenE_def exec_run)
  then show ?thesis using s1 by (simp add: poll_log_def bindE_run derefE_run exec_run)
qed

text \<open>An agent with a joined log.\<close>

definition joined_agent :: "nat sys" where
  "joined_agent = (demo_agent 0)\<lparr>m_commitPosition := Some \<lparr>counter_registrationId = 41, counter_id = 1\<rparr>,
     la_image := Some 0\<rparr>"

lemma joined_agent_fields:
  "m_commitPosition joined_agent = Some \<lparr>counter_registrationId = 41, counter_id = 1\<rparr>" "la_image joined_agent \<noteq> None"
  "m_currentSnapshot joined_agent = None" "\<not> m_isAbort joined_agent" "m_lastSlowTickNs joined_agent = 0"
  by (simp_all add: joined_agent_def demo_agent_def new_agent_def demo_context_def default_context_def)

theorem lost_counter_dereferenced_witness:
  "\<exists>s1 s2. onUnavailableCounter 41 1 joined_agent = Some (Inr (), s1)
     \<and> doWork ready_env s1 = Some (Inl (NullDereference ''m_commitPosition''), s2)"
proof -
  have lost: "onUnavailableCounter 41 1 joined_agent = Some (Inr (), joined_agent\<lparr>m_commitPosition := None\<rparr>)"
    by (simp add: onUnavailableCounter_def exec_run joined_agent_fields)
  have "\<exists>s2. doWork ready_env (joined_agent\<lparr>m_commitPosition := None\<rparr>) = Some (Inl (NullDereference ''m_commitPosition''), s2)"
    by (rule lost_counter_dereferenced [where k = "\<lparr>counter_registrationId = 41, counter_id = 1\<rparr>" and now = 0
        and s = joined_agent and ?w1.0 = "world joined_agent" and ?w2.0 = "world joined_agent"])
      (use lost joined_agent_fields in \<open>simp_all add: ready_env_def\<close>)
  with lost show ?thesis by blast
qed

end
