(* ===== verification/LogProperties.thy ===== *)
theory LogProperties
  imports LogEvents Demo
begin

text \<open>The properties of the session table and of the handlers of the log.\<close>

section \<open>Witness data\<close>

text \<open>A replica of the demonstration and a log for it.\<close>

definition demo_log :: "nat log_event list" where
  "demo_log = [NewLeadershipTerm 4 32 100 0 1 7 1, SessionOpened 4 64 9 101 5 ''aeron:udp'' ''a'',
     SessionOpened 4 96 2 102 5 ''aeron:udp'' ''b'', SessionClosed 4 128 9 103 0]"

text \<open>Messages whose buffer is the number of their template.\<close>

definition log_env :: "(nat, 'w) env" where
  "log_env = demo_env\<lparr>
     MessageHeader_wrap := \<lambda>b _ _ _. Inr (MessageHeader 0 (int b) 111 8),
     SessionOpenEvent_wrap := \<lambda>_ _ _ _ _ _. Inr (SessionOpenEvent 4 9 101 5 (''aeron:udp'' @ [CHR 0x00]) 2) \<rparr>"

definition demo_header :: frag_header where
  "demo_header = \<lparr>fh_position = 64, fh_flags = 0xC0, fh_context = 0\<rparr>"

lemma demo_agent_table [simp]: "m_table (demo_agent w) = empty_table"
  by (simp add: demo_agent_def new_agent_def demo_context_def)

lemma demo_agent_inv [simp]: "table_inv (m_table (demo_agent w))"
  by simp

lemma demo_agent_view [simp]: "view_of (demo_agent w) =
   \<lparr>cv_sessions = Map.empty, cv_logPosition = -1, cv_clusterTime = -1, cv_leadershipTermId = -1\<rparr>"
  by (simp add: view_of_def demo_agent_def new_agent_def demo_context_def empty_table_def fun_eq_iff
    table_views_def lookup_session_def find_pointer_def)

text \<open>An agent with three sessions.\<close>

definition demo_full :: "'w \<Rightarrow> 'w sys" where
  "demo_full w = (demo_agent w)\<lparr>m_table := demo_table\<rparr>"

lemma demo_table_facts [simp]:
  "table_inv demo_table" "lookup_session demo_table 2 = Some (demo_session 2)"
  "lookup_session demo_table 9 = None"
proof -
  let ?xs = "map demo_session [3, 1, 2]"
  have id: "cs_id (demo_session i) = i" for i by (simp add: demo_session_def new_session_def)
  have t: "table_inv demo_table" "set (table_elems demo_table) = set ?xs"
    using registry.add_all [of empty_table ?xs] unfolding demo_table_def
    by (simp_all add: id registry.elems_empty)
  then show "table_inv demo_table" "lookup_session demo_table 2 = Some (demo_session 2)"
    by (simp_all add: registry.lookup_elems id)
  have "lookup_session demo_table 9 \<noteq> Some y" for y
    using t by (auto simp: registry.lookup_elems id)
  then show "lookup_session demo_table 9 = None" by (cases "lookup_session demo_table 9") auto
qed

lemma demo_full_table [simp]: "m_table (demo_full w) = demo_table"
  by (simp add: demo_full_def)

section \<open>Replicas\<close>

text \<open>C1. Two replicas of the service that have the same sessions, log position, cluster time and
  leadership term and are given the same log both get through it and agree again: on those, and on
  the order and the data of the sessions in the vector a snapshot is written from. This holds for
  any two services, whatever their callbacks do (call back into the cluster, throw), and for any
  behaviour of the libraries on either side.\<close>

theorem replicas_agree:
  fixes E1 :: "('b, 'w1, 'z1) env_scheme" and E2 :: "('b, 'w2, 'z2) env_scheme"
    and s1 :: "'w1 sys" and s2 :: "'w2 sys"
  assumes "table_inv (m_table s1)" "table_inv (m_table s2)" "view_of s1 = view_of s2"
  shows "\<exists>t1 t2. replay E1 evs s1 = Some (Inr (), t1) \<and> replay E2 evs s2 = Some (Inr (), t2)
    \<and> view_of t1 = view_of t2 \<and> vector_views (m_table t1) = vector_views (m_table t2)"
  using assms by (rule replays_agree)

theorem replicas_agree_witness:
  "\<exists>t1 t2. replay (demo_env\<lparr>svc_onTimerEvent := \<lambda>_ _. Raise (UserError 1)\<rparr>) demo_log (demo_agent (0 :: nat)) = Some (Inr (), t1)
    \<and> replay demo_env demo_log (demo_agent True) = Some (Inr (), t2)
    \<and> view_of t1 = view_of t2 \<and> vector_views (m_table t1) = vector_views (m_table t2)"
  by (rule replicas_agree) (simp_all)

text \<open>C3. What a message of the log does to a replica: if it does not decode, nothing; otherwise what
  the specification of its event says (an open adds the session unless its id is taken, a close
  deletes it, every event moves the log position and the cluster time, a new leadership term sets
  the term), whatever the service's callback does and whether the handler returns or throws. The
  invariant of the session table is kept, and the only action returned is \<open>CONTINUE\<close>.\<close>

theorem log_message_refines:
  assumes "log_onMessage E buffer offset len header s = Some (r, s')" "table_inv (m_table s)"
  shows "table_inv (m_table s')
    \<and> view_of s' = (case decode_event E buffer offset len header of
           Inl e \<Rightarrow> view_of s | Inr ev \<Rightarrow> apply_event ev (view_of s))
    \<and> (r = Inr CONTINUE \<or> (\<exists>e. r = Inl e))"
proof (cases "decode_event E buffer offset len header")
  case (Inl e)
  with assms show ?thesis by (auto simp: log_onMessage_eq exec_simps)
next
  case (Inr ev)
  with assms(1) obtain q where q: "handle_event E ev s = Some (q, s')" "r = Inr CONTINUE \<or> (\<exists>e. r = Inl e)"
    by (auto simp: log_onMessage_eq bindE_liftE bindE_eq_Some exec_run)
  with handle_event_refines [OF q(1) assms(2)] Inr show ?thesis by simp
qed

theorem log_message_refines_witness:
  "\<exists>r s'. log_onMessage log_env 21 0 100 demo_header (demo_agent True) = Some (r, s')
     \<and> view_of s' = \<lparr>cv_sessions = [9 \<mapsto> (9, 5, ''aeron:udp'', replicate 2 (CHR 0x00))],
         cv_logPosition = 64, cv_clusterTime = 101, cv_leadershipTermId = - 1\<rparr>"
proof -
  obtain r s' where run: "log_onMessage log_env 21 0 100 demo_header (demo_agent True) = Some (r, s')"
    using totalD [OF total_log_onMessage] by metis
  have "decode_event (log_env :: (nat, bool) env) 21 0 100 demo_header =
    Inr (SessionOpened 4 64 9 101 5 ''aeron:udp'' (replicate 2 (CHR 0x00)))"
    by (simp add: decode_event_def decode_message_def log_env_def demo_header_def c_string_def)
  with log_message_refines [OF run] run show ?thesis
    by (simp add: advance_def)
qed

section \<open>Opening and closing a session\<close>

text \<open>C5. Opening a session with a new id: a session is made from the data of the event, on the leader of a
  service that responds to clients it is connected first (which cannot fail the open), on every other member it stays
  unconnected; then, in both cases, the session is registered under its id with the position and the time those of the event, and only then
  is the service told, with that session.\<close>

theorem open_new_session:
  assumes "table_inv (m_table s)" "lookup_session (m_table s) i = None"
  shows "\<exists>x w s1. (let new = new_session E i stream channel encPrincipal (uninit_bool E (Session_isClosing i) (world s)) in
         if m_role s = LEADER \<and> ctx_isRespondingService (m_ctx s) then connect E (new, world s) = Some (Inr (), (x, w))
         else x = new \<and> w = world s)
    \<and> session_view x = (i, stream, channel, encPrincipal)
    \<and> s1 = s\<lparr>m_logPosition := p, m_clusterTime := t, world := w, m_table := addSession x (m_table s)\<rparr>
    \<and> getClientSession i s1 = Some (Inr (Some (next_addr (m_table s))), s1)
    \<and> session_at (next_addr (m_table s)) s1 = Some (Inr x, s1)
    \<and> onSessionOpen E termId p i t stream channel encPrincipal s = run_callback E (svc_onSessionOpen E x t) s1"
proof -
  let ?new = "new_session E i stream channel encPrincipal (uninit_bool E (Session_isClosing i) (world s))"
  let ?make = "if m_role s = LEADER \<and> ctx_isRespondingService (m_ctx s) then with_local ?new (connect E) else retE ?new"
  let ?s0 = "s\<lparr>m_logPosition := p, m_clusterTime := t\<rparr>"
  have none: "find_pointer (m_table s) i = None" using assms by (simp add: lookup_session_None)
  obtain x w where made: "?make ?s0 = Some (Inr x, ?s0\<lparr>world := w\<rparr>)"
      "if m_role s = LEADER \<and> ctx_isRespondingService (m_ctx s) then connect E (?new, world s) = Some (Inr (), (x, w))
       else x = ?new \<and> w = world s" "session_view x = session_view ?new"
  proof (cases "m_role s = LEADER \<and> ctx_isRespondingService (m_ctx s)")
    case True
    obtain x w where "connect E (?new, world s) = Some (Inr (), (x, w))" by (rule connect_total)
    with True that [of x w] with_local_connect(2) [of ?new E ?s0 "Inr x" "?s0\<lparr>world := w\<rparr>" x] show thesis
      by (simp add: with_local_def)
  next
    case False
    with that [of ?new "world s"] show thesis by (simp add: exec_run)
  qed
  let ?s1 = "?s0\<lparr>world := w, m_table := addSession x (m_table s)\<rparr>"
  have view: "session_view x = (i, stream, channel, encPrincipal)" using made(3) by (simp add: new_session_def session_view_def)
  have at: "session_at (next_addr (m_table s)) ?s1 = Some (Inr x, ?s1)"
    using deref_add [OF table_invD(1) [OF assms(1)], of x] by (simp add: session_at_def derefE_def exec_run)
  have "onSessionOpen E termId p i t stream channel encPrincipal s
      = bindE (session_at (next_addr (m_table s))) (\<lambda>x. run_callback E (svc_onSessionOpen E x t)) ?s1"
    unfolding onSessionOpen_run(2) [OF none] bindE_Some(1) [where m = ?make, OF made(1)] by simp
  then have "onSessionOpen E termId p i t stream channel encPrincipal s = run_callback E (svc_onSessionOpen E x t) ?s1"
    by (simp only: bindE_Some(1) [where m = "session_at (next_addr (m_table s))", OF at])
  moreover have "getClientSession i ?s1 = Some (Inr (Some (next_addr (m_table s))), ?s1)"
    using none view by (simp add: getClientSession_def exec_run find_pointer_add session_view_def)
  ultimately show ?thesis using made(2) view at by (intro exI [of _ x] exI [of _ w] exI [of _ ?s1]) (simp add: Let_def)
qed

theorem open_new_session_witness:
  "\<exists>x w. connect (demo_env :: (nat, bool) env) (new_session (demo_env :: (nat, bool) env) 9 5 ''aeron:udp'' ''a''
         (uninit_bool (demo_env :: (nat, bool) env) (Session_isClosing 9) True), True) = Some (Inr (), (x, w))
     \<and> (\<exists>s1. onSessionOpen (demo_env :: (nat, bool) env) 4 64 9 101 5 ''aeron:udp'' ''a'' ((demo_agent True)\<lparr>m_role := LEADER\<rparr>)
      = run_callback (demo_env :: (nat, bool) env) (svc_onSessionOpen (demo_env :: (nat, bool) env) x 101) s1
      \<and> m_logPosition s1 = 64 \<and> world s1 = w)"
proof -
  have role: "ctx_isRespondingService (m_ctx (demo_agent True))" and w: "world (demo_agent True) = True"
    by (simp_all add: demo_agent_def new_agent_def demo_context_def default_context_def)
  have "table_inv (m_table ((demo_agent True)\<lparr>m_role := LEADER\<rparr>))" "lookup_session (m_table ((demo_agent True)\<lparr>m_role := LEADER\<rparr>)) 9 = None"
    using demo_agent_inv by simp_all
  note new = open_new_session [OF this, of "demo_env :: (nat, bool) env" 5 "''aeron:udp''" "''a''" 101 64 4]
  show ?thesis
    using new
  proof (elim exE conjE, goal_cases)
    case (1 x w' s1)
    with role w show ?case by (intro exI [of _ x] exI [of _ w'] conjI exI [of _ s1]) (simp_all add: Let_def)
  qed
qed

text \<open>C6. An open whose id is taken is refused: it throws, the sessions stay as they are and the service
  is not called; the position and the time of the event are kept nevertheless.\<close>

theorem open_clash:
  assumes "table_inv (m_table s)" "lookup_session (m_table s) i \<noteq> None"
  shows "onSessionOpen E termId p i t stream channel encPrincipal s =
    Some (Inl (ClashingOpen i termId p), s\<lparr>m_logPosition := p, m_clusterTime := t\<rparr>)"
proof -
  have "find_pointer (m_table s) i \<noteq> None" using assms by (metis lookup_session_None)
  then show ?thesis by (rule onSessionOpen_run(1))
qed

theorem open_clash_witness:
  "onSessionOpen demo_env 4 64 2 101 5 ''aeron:udp'' ''a'' (demo_full True) =
    Some (Inl (ClashingOpen 2 4 64), (demo_full True)\<lparr>m_logPosition := 64, m_clusterTime := 101\<rparr>)"
  by (rule open_clash) simp_all

text \<open>C7. Closing a session the replica has: the session is deleted, its publication is closed and
  forgotten, and only then is the service told, with the closed session; it can no longer look
  it up. Closing a session it does not have throws and changes the position and the time only.\<close>

theorem close_session:
  assumes inv: "table_inv (m_table s)"
    and T: "T = snd (removeSession i (m_table s))"
    and s1: "s1 = s\<lparr>m_logPosition := p, m_clusterTime := t, m_table := T\<rparr>"
  shows "onSessionClose E termId p i t reason s =
     (case lookup_session (m_table s) i of
        None \<Rightarrow> Some (Inl (UnknownSessionClose i reason termId p), s1)
      | Some x \<Rightarrow> bindE (with_local x (disconnect E)) (\<lambda>x'. run_callback E (svc_onSessionClose E x' t reason)) s1)
    \<and> lookup_session T = (lookup_session (m_table s))(i := None)
    \<and> (lookup_session (m_table s) i = None \<longrightarrow> m_sessions T = m_sessions (m_table s))
    \<and> getClientSession i s1 = Some (Inr None, s1)"
proof (intro conjI impI)
  show "onSessionClose E termId p i t reason s =
     (case lookup_session (m_table s) i of
        None \<Rightarrow> Some (Inl (UnknownSessionClose i reason termId p), s1)
      | Some x \<Rightarrow> bindE (with_local x (disconnect E)) (\<lambda>x'. run_callback E (svc_onSessionClose E x' t reason)) s1)"
    unfolding s1 T by (simp add: onSessionClose_run Let_def registry.remove_result [OF inv])
  show "lookup_session T = (lookup_session (m_table s))(i := None)"
    unfolding T by (rule registry.lookup_remove [OF inv])
  show "getClientSession i s1 = Some (Inr None, s1)"
    by (simp add: getClientSession_def exec_run s1 T find_pointer_remove)
  assume "lookup_session (m_table s) i = None"
  then show "m_sessions T = m_sessions (m_table s)"
    using removed_session [OF inv, of i] by (cases rule: removeSession_cases [of i "m_table s"]) (simp_all add: T)
qed

theorem close_session_witness:
  "\<exists>T s1. onSessionClose demo_env 4 64 9 101 0 (demo_full True) = Some (Inl (UnknownSessionClose 9 0 4 64), s1)
    \<and> m_table s1 = T \<and> lookup_session T = lookup_session demo_table \<and> m_logPosition s1 = 64"
  using close_session [of "demo_full True" _ 9, OF _ refl refl, of demo_env 4 64 101 0] by fastforce

end
