(* ===== verification/AgentProperties.thy ===== *)
theory AgentProperties
  imports WorkLemmas LogProperties
begin

text \<open>
  The properties of what the service may do in its callbacks, of the acknowledgements, of the
  clock tick, and of joining and closing the log.
\<close>

section \<open>Witness data\<close>

text \<open>An agent with three sessions and a proxy, and publications that accept or refuse.\<close>

definition demo_running :: "'w \<Rightarrow> 'w sys" where
  "demo_running w = (demo_full w)\<lparr>m_proxy := Some 7\<rparr>"

definition refusing_env :: "('b, 'w) env" where
  "refusing_env = demo_env\<lparr>pub_tryClaim := \<lambda>_ _. demo_ret (- 2, 0)\<rparr>"

lemma demo_running_fields [simp]:
  "m_table (demo_running w) = demo_table" "m_proxy (demo_running w) = Some 7"
  "m_activeLifecycleCallbackName (demo_running w) = None" "m_isBackgroundInvocation (demo_running w) = False"
  "world (demo_running w) = w" "m_role (demo_running w) = FOLLOWER" "m_ackId (demo_running w) = 0"
  "m_logPosition (demo_running w) = - 1" "m_clusterTime (demo_running w) = - 1" "m_serviceId (demo_running w) = 0"
  "m_isAbort (demo_running w) = False" "m_lastSlowTickNs (demo_running w) = 0"
  "m_activeLogEvent (demo_running w) = None" "m_currentSnapshot (demo_running w) = None"
  "la_image (demo_running w) = None" "m_commitPosition (demo_running w) = None"
  by (simp_all add: demo_running_def demo_full_def demo_agent_def new_agent_def demo_context_def
    default_context_def SERVICE_ID_DEFAULT_def)

lemma demo_claim [simp]: "claim (demo_env :: ('b, 'w) env) p q w = Some (Inr True, w)"
  by (simp add: claim_def tryClaim_def ATTEMPTS_def numeral_3_eq_3 bindE_def exec_run)

section \<open>Calls of the service into the cluster\<close>

text \<open>What a request to close a session does once the invocation is valid.\<close>

lemma closeClientSession_run:
  assumes "m_activeLifecycleCallbackName s = None" "\<not> m_isBackgroundInvocation s" "m_proxy s = Some p"
  shows "find_pointer (m_table s) i = None \<Longrightarrow> closeClientSession L i s = Some (Inl (UnknownClusterSession i), s)"
    "find_pointer (m_table s) i = Some a \<Longrightarrow> deref (m_table s) a = Some x \<Longrightarrow>
     closeClientSession L i s =
       (if cs_isClosing x then Some (Inr True, s)
        else case claim L p (CloseSession i) (world s) of
            None \<Rightarrow> None
          | Some (Inl e, w) \<Rightarrow> Some (Inl e, s\<lparr>world := w\<rparr>)
          | Some (Inr sent, w) \<Rightarrow>
              if sent then Some (Inr True, s\<lparr>m_table := update_at a (markClosing x) (m_table s), world := w\<rparr>)
              else Some (Inr False, s\<lparr>world := w\<rparr>))"
proof -
  have valid: "checkForValidInvocation s = Some (Inr (), s)"
    using assms by (simp add: checkForValidInvocation_def bindE_run(3) whenE_def exec_run)
  show "find_pointer (m_table s) i = None \<Longrightarrow> closeClientSession L i s = Some (Inl (UnknownClusterSession i), s)"
    by (simp add: closeClientSession_def bindE_def valid exec_run)
  assume a: "find_pointer (m_table s) i = Some a" "deref (m_table s) a = Some x"
  then show "closeClientSession L i s =
       (if cs_isClosing x then Some (Inr True, s)
        else case claim L p (CloseSession i) (world s) of
            None \<Rightarrow> None
          | Some (Inl e, w) \<Rightarrow> Some (Inl e, s\<lparr>world := w\<rparr>)
          | Some (Inr sent, w) \<Rightarrow>
              if sent then Some (Inr True, s\<lparr>m_table := update_at a (markClosing x) (m_table s), world := w\<rparr>)
              else Some (Inr False, s\<lparr>world := w\<rparr>))"
    by (simp add: closeClientSession_def bindE_def valid exec_run session_at_def derefE_def
      with_proxy_run [OF assms(3)] world_exec_run closeSession_def with_session_def
      split: option.split sum.split prod.split)
qed

text \<open>C8. A service that asks for a session to be closed gets it requested once: after a call that
  returned true, calling again returns true without touching anything, whatever the publication
  to the consensus module would do.\<close>

theorem close_requested_once:
  assumes "table_inv (m_table s)" "m_activeLifecycleCallbackName s = None" "\<not> m_isBackgroundInvocation s"
    "m_proxy s = Some p" "closeClientSession L i s = Some (Inr True, s')"
  shows "closeClientSession L' i s' = Some (Inr True, s')"
proof -
  note run = closeClientSession_run [OF assms(2-4)]
  obtain a where a: "find_pointer (m_table s) i = Some a"
    using assms(5) run(1) [of i L] by (cases "find_pointer (m_table s) i") auto
  obtain x where x: "deref (m_table s) a = Some x"
    using a table_safeD(4) [OF table_invD(1) [OF assms(1)]] by blast
  show ?thesis
  proof (cases "cs_isClosing x")
    case True
    with assms(5) have "s' = s" by (simp add: run(2) [OF a x])
    with True show ?thesis by (simp add: run(2) [OF a x])
  next
    case False
    with assms(5) obtain w where s': "s' = s\<lparr>m_table := update_at a (markClosing x) (m_table s), world := w\<rparr>"
      by (auto simp: run(2) [OF a x] split: option.splits prod.splits sum.splits if_splits)
    have "closeClientSession L' i s' = (if cs_isClosing (markClosing x) then Some (Inr True, s') else
        (case claim L' p (CloseSession i) (world s') of
            None \<Rightarrow> None
          | Some (Inl e, w) \<Rightarrow> Some (Inl e, s'\<lparr>world := w\<rparr>)
          | Some (Inr sent, w) \<Rightarrow>
              if sent then Some (Inr True, s'\<lparr>m_table := update_at a (markClosing (markClosing x)) (m_table s'), world := w\<rparr>)
              else Some (Inr False, s'\<lparr>world := w\<rparr>)))"
      using assms(2-4) a x by (intro closeClientSession_run(2)) (simp_all add: s' deref_update)
    then show ?thesis by (simp add: markClosing_def)
  qed
qed

theorem close_requested_once_witness:
  "\<exists>s'. closeClientSession (demo_env :: (nat, bool) env) 2 (demo_running True) = Some (Inr True, s')
     \<and> closeClientSession (refusing_env :: (nat, bool) env) 2 s' = Some (Inr True, s')"
proof -
  obtain a where a: "find_pointer demo_table 2 = Some a" "deref demo_table a = Some (demo_session 2)"
    using demo_table_facts(2) by (auto simp: lookup_session_def bind_eq_Some_conv)
  have "cs_isClosing (demo_session 2) = False" by (simp add: demo_session_def new_session_def)
  with a have "\<exists>s'. closeClientSession (demo_env :: (nat, bool) env) 2 (demo_running True) = Some (Inr True, s')"
    using closeClientSession_run(2) [of "demo_running True" 7 2 a "demo_session 2" "demo_env :: (nat, bool) env"]
    by simp
  then obtain s' where s': "closeClientSession (demo_env :: (nat, bool) env) 2 (demo_running True) = Some (Inr True, s')"
    by blast
  have "closeClientSession (refusing_env :: (nat, bool) env) 2 s' = Some (Inr True, s')"
    by (rule close_requested_once [OF _ _ _ _ s']) simp_all
  with s' show ?thesis by blast
qed

lemma guarded_callback:
  assumes "m_activeLifecycleCallbackName s = Some n"
  shows "run_callback L c s = run_callback L' c s"
  using assms
proof (induction c arbitrary: s)
  case (World u k)
  then show ?case unfolding run_callback.simps by (simp add: bindE_run(3,4))
next
  case (GetClientSession i k)
  have "(case p of None \<Rightarrow> run_callback L (k None) | Some a \<Rightarrow> bindE (session_at a) (\<lambda>x. run_callback L (k (Some x)))) s
      = (case p of None \<Rightarrow> run_callback L' (k None) | Some a \<Rightarrow> bindE (session_at a) (\<lambda>x. run_callback L' (k (Some x)))) s" for p
    using GetClientSession
    by (cases p) (auto simp: bindE_def session_at_def derefE_def exec_run split: option.split)
  then show ?case unfolding run_callback.simps getClientSession_def by (simp add: bindE_run(3))
next
  case (CloseClientSession i k)
  then show ?case
    unfolding run_callback.simps by (simp add: attemptE_def closeClientSession_guarded)
qed simp_all

text \<open>C9. While the service is told of a role change it cannot send anything: its calls to close a
  session throw, so the whole role change is the same whatever the publication would do; and
  when the role change is over, by return or by exception, calls are allowed again and the new
  role is in place.\<close>

theorem role_change_isolated:
  fixes E :: "('b, 'w, 'z) env_scheme" and E' :: "('c, 'w, 'y) env_scheme"
  assumes "svc_onRoleChange E = svc_onRoleChange E'" "m_activeLifecycleCallbackName s = None"
  shows "set_role E r s = set_role E' r s
    \<and> (\<exists>q s'. set_role E r s = Some (q, s') \<and> m_activeLifecycleCallbackName s' = None \<and> m_role s' = r)"
proof (cases "r = m_role s")
  case True
  with assms show ?thesis by (simp add: set_role_def bindE_run(3) whenE_def exec_run)
next
  case False
  let ?s = "s\<lparr>m_role := r, m_activeLifecycleCallbackName := Some ''onRoleChange''\<rparr>"
  let ?c = "svc_onRoleChange E r"
  obtain q t where t: "run_callback E ?c ?s = Some (q, t)" using totalD [OF total_run_callback] by metis
  have t': "run_callback E' ?c ?s = Some (q, t)"
    using t guarded_callback [of ?s "''onRoleChange''" E' ?c E] by simp
  have "keeps m_role (run_callback E ?c)" by (intro keeps_run_callback) simp_all
  from keepsD [OF this t] have role: "m_role t = r" by simp
  have "set_role E r s = Some (q, t\<lparr>m_activeLifecycleCallbackName := None\<rparr>)"
    if "run_callback E (svc_onRoleChange E r) ?s = Some (q, t)" for E :: "('d, 'w, 'x) env_scheme"
    using that False
    by (cases q) (simp_all add: set_role_def bindE_run(3,4) whenE_def catchE_def bindE_def exec_run)
  from this [OF t] this [of E'] t' assms(1) role show ?thesis by simp
qed

text \<open>A service that tries to close a session when its role changes.\<close>

theorem role_change_isolated_witness:
  "\<exists>q s'. set_role ((demo_env :: (nat, bool) env)\<lparr>svc_onRoleChange := \<lambda>_. CloseClientSession 2 (\<lambda>_. Return ())\<rparr>)
       LEADER (demo_running True) = Some (q, s')
     \<and> set_role ((refusing_env :: (nat, bool) env)\<lparr>svc_onRoleChange := \<lambda>_. CloseClientSession 2 (\<lambda>_. Return ())\<rparr>)
       LEADER (demo_running True) = Some (q, s')
     \<and> m_activeLifecycleCallbackName s' = None \<and> m_role s' = LEADER"
proof -
  let ?c = "\<lambda>_ :: role. CloseClientSession 2 (\<lambda>_. Return ()) :: (unit, bool) callback"
  let ?E = "(demo_env :: (nat, bool) env)\<lparr>svc_onRoleChange := ?c\<rparr>"
  let ?E' = "(refusing_env :: (nat, bool) env)\<lparr>svc_onRoleChange := ?c\<rparr>"
  have "set_role ?E LEADER (demo_running True) = set_role ?E' LEADER (demo_running True)
    \<and> (\<exists>q s'. set_role ?E LEADER (demo_running True) = Some (q, s')
       \<and> m_activeLifecycleCallbackName s' = None \<and> m_role s' = LEADER)"
    by (rule role_change_isolated) simp_all
  then show ?thesis by metis
qed

section \<open>Acknowledgements\<close>

text \<open>An agent that is asked to acknowledge a position it has passed.\<close>

definition demo_waiting :: "'w \<Rightarrow> 'w sys" where
  "demo_waiting w = (demo_running w)\<lparr>m_serviceAdapter := Some (new_service_adapter 3),
     m_logPosition := 64, m_requestedAckPosition := 32\<rparr>"

lemma demo_waiting_fields [simp]:
  "m_proxy (demo_waiting w) = Some 7" "world (demo_waiting w) = w" "m_activeLogEvent (demo_waiting w) = None"
  "m_serviceAdapter (demo_waiting w) = Some (new_service_adapter 3)" "m_logPosition (demo_waiting w) = 64"
  "m_requestedAckPosition (demo_waiting w) = 32" "m_ackId (demo_waiting w) = 0" "la_image (demo_waiting w) = None"
  "(demo_waiting w)\<lparr>world := w\<rparr> = demo_waiting w"
  by (simp_all add: demo_waiting_def)

lemma ack_run:
  assumes "m_proxy s = Some p"
  shows "ack L relevantId s =
    (case claim L p (ServiceAck (m_logPosition s) (m_clusterTime s) (m_ackId s) relevantId (m_serviceId s)) (world s) of
       None \<Rightarrow> None
     | Some (Inl e, w) \<Rightarrow> Some (Inl e, s\<lparr>world := w\<rparr>)
     | Some (Inr sent, w) \<Rightarrow>
         if sent then Some (Inr True, s\<lparr>m_ackId := m_ackId s + 1, m_requestedAckPosition :=
             (if relevantId = NULL_VALUE L then NULL_POSITION L else m_requestedAckPosition s), world := w\<rparr>)
         else Some (Inr False, s\<lparr>world := w\<rparr>))"
  by (simp add: ack_def bindE_def exec_run with_proxy_run [OF assms] world_exec_run proxy_ack_def whenE_def
    split: option.split sum.split prod.split)

text \<open>C10. An acknowledgement carries the position, the time and the next number, and the number is
  used up exactly when the request has been claimed, written and committed in one of three
  attempts; when three attempts are refused nothing but the world changes, and the same number is
  used the next time. Acknowledging without a relevant id also clears the requested position.\<close>

theorem ack_numbers:
  assumes "m_proxy s = Some p" "ack L relevantId s = Some (Inr sent, s')"
    "q = ServiceAck (m_logPosition s) (m_clusterTime s) (m_ackId s) relevantId (m_serviceId s)"
  shows "if sent
    then request_sent L p q (world s) (world s')
       \<and> s' = s\<lparr>m_ackId := m_ackId s + 1, world := world s', m_requestedAckPosition :=
             (if relevantId = NULL_VALUE L then NULL_POSITION L else m_requestedAckPosition s)\<rparr>
    else request_refused L p q (world s) (world s') \<and> s' = s\<lparr>world := world s'\<rparr>"
proof -
  obtain r w where c: "claim L p q (world s) = Some (r, w)" using totalD [OF total_claim] by metis
  with assms(2) obtain b where b: "r = Inr b" "sent = b"
    unfolding ack_run [OF assms(1)] assms(3) [symmetric] by (auto split: sum.splits if_splits)
  with c claim_results [of L p q "world s" w] have req:
    "if sent then request_sent L p q (world s) w else request_refused L p q (world s) w" by auto
  from assms(2) c b show ?thesis
    unfolding ack_run [OF assms(1)] assms(3) [symmetric] using req by (auto split: if_splits)
qed

theorem ack_numbers_witness:
  "request_sent (demo_env :: (nat, nat) env) 7 (ServiceAck (- 1) (- 1) 0 5 0) 3 3
   \<and> request_refused (refusing_env :: (nat, nat) env) 7 (ServiceAck (- 1) (- 1) 0 5 0) 3 3"
proof -
  have sent: "ack (demo_env :: (nat, nat) env) 5 (demo_running 3) = Some (Inr True, (demo_running 3)\<lparr>m_ackId := 1,
      m_requestedAckPosition := m_requestedAckPosition (demo_running (3 :: nat)), world := 3\<rparr>)"
    by (simp add: ack_run [of _ 7])
  have refused: "ack (refusing_env :: (nat, nat) env) 5 (demo_running 3) = Some (Inr False, (demo_running 3)\<lparr>world := 3\<rparr>)"
    by (simp add: ack_run [of _ 7] refusing_env_def claim_def tryClaim_def ATTEMPTS_def numeral_3_eq_3 bindE_def
      exec_run proxy_checkResult_def)
  show ?thesis
    using ack_numbers [OF _ sent refl] ack_numbers [OF _ refused refl] by simp
qed

section \<open>The clock tick\<close>

lemma checkAeronOpen_ok:
  assumes "checkAeronOpen L s = Some (Inr (), s')"
  shows "\<not> m_isAbort s \<and> (\<exists>w. s' = s\<lparr>world := w\<rparr>)"
  using assms
  by (cases "m_isAbort s")
    (auto simp: checkAeronOpen_def bindE_run(3) bindE_eq_Some exec_run world_exec_run whenE_eq_Some
      split: prod.splits if_splits)

lemma clock_tick_aborted:
  "m_isAbort s \<Longrightarrow> checkForClockTick L nowNs s = Some (Inl UnexpectedAeronClose, s)"
  by (simp add: checkForClockTick_def checkAeronOpen_def bindE_def exec_run whenE_def)

lemma checkForClockTick_cases:
  assumes "checkForClockTick L nowNs s = Some (Inr due, s')"
  obtains (due) s1 where "due" "\<not> m_isAbort s" "nowNs - m_lastSlowTickNs s > 1000000" "m_lastSlowTickNs s' = nowNs"
    | (early) "\<not> due" "\<not> m_isAbort s" "nowNs - m_lastSlowTickNs s \<le> 1000000" "\<exists>w. s' = s\<lparr>world := w\<rparr>"
proof -
  obtain s1 where s1: "checkAeronOpen L s = Some (Inr (), s1)"
    using assms by (auto simp: checkForClockTick_def bindE_eq_Some)
  obtain w where w: "\<not> m_isAbort s" "s1 = s\<lparr>world := w\<rparr>" using checkAeronOpen_ok [OF s1] by blast
  let ?tick = "bindE (world_call (aeron_usesAgentInvoker L)) (\<lambda>invoker.
       bindE (whenE invoker (world_call (aeron_invoke L))) (\<lambda>_.
       bindE (checkAeronOpen L) (\<lambda>_.
       bindE (world_call (aeron_countersReader L)) (\<lambda>_.
       bindE (getsE m_commitPosition) (\<lambda>commitPosition.
       bindE (case commitPosition of
                None \<Rightarrow> retE False
              | Some c \<Rightarrow> world_call (commit_isClosed L c)) (\<lambda>closed.
       bindE (whenE closed (throwE CommitPositionClosed)) (\<lambda>_.
       bindE (world_call (currentTimeMillis L)) (\<lambda>nowMs.
       bindE (getsE m_markFileUpdateDeadlineMs) (\<lambda>deadline.
       bindE (whenE (nowMs \<ge> deadline)
         (modifyE (\<lambda>s. s\<lparr>m_markFileUpdateDeadlineMs := nowMs + 1\<rparr>))) (\<lambda>_.
       retE True))))))))))"
  show thesis
  proof (cases "nowNs - m_lastSlowTickNs s > 1000 * 1000")
    case True
    with assms w have run: "?tick (s1\<lparr>m_lastSlowTickNs := nowNs\<rparr>) = Some (Inr due, s')"
      unfolding checkForClockTick_def bindE_Some(1) [where m = "checkAeronOpen L", OF s1]
      by (simp add: bindE_run(3,4))
    have "keeps m_lastSlowTickNs ?tick" by (intro keeps_rules) simp_all
    from keepsD [OF this, OF run] have "m_lastSlowTickNs s' = nowNs" by simp
    moreover have "due" using run by (auto simp: bindE_eq_Some_Inr exec_run)
    ultimately show thesis using True w due by simp
  next
    case False
    with assms w have n: "\<not> due" "s' = s1"
      unfolding checkForClockTick_def bindE_Some(1) [where m = "checkAeronOpen L", OF s1]
      by (simp_all add: bindE_run(3) exec_run)
    have "\<exists>w. s' = s\<lparr>world := w\<rparr>" unfolding n(2) w(2) by blast
    from early [OF n(1) w(1) _ this] False show thesis by simp
  qed
qed

text \<open>C12. The clock tick: an agent that is aborted, or finds its Aeron client closed, aborts for good -
  every later tick throws and changes nothing. A tick that succeeds comes more than a millisecond
  after the one before and is remembered; a tick that is not due changes nothing but the world.\<close>

theorem clock_tick:
  assumes "checkForClockTick L nowNs s = Some (r, s')"
  shows "(m_isAbort s \<longrightarrow> r = Inl UnexpectedAeronClose \<and> s' = s)
    \<and> (r = Inr True \<longrightarrow> nowNs - m_lastSlowTickNs s > 1000000 \<and> m_lastSlowTickNs s' = nowNs)
    \<and> (r = Inr False \<longrightarrow> nowNs - m_lastSlowTickNs s \<le> 1000000 \<and> s' = s\<lparr>world := world s'\<rparr>)"
proof (cases r)
  case (Inl e)
  with assms clock_tick_aborted [of s L nowNs] show ?thesis by auto
next
  case (Inr due)
  with assms have "checkForClockTick L nowNs s = Some (Inr due, s')" by simp
  then show ?thesis
  proof (cases rule: checkForClockTick_cases)
    case (early)
    then obtain w where "s' = s\<lparr>world := w\<rparr>" by blast
    then have "s' = s\<lparr>world := world s'\<rparr>" by simp
    with early Inr show ?thesis by simp
  qed (simp add: Inr)
qed

theorem clock_tick_witness:
  "\<exists>s'. checkForClockTick demo_env 2000000 (demo_running True) = Some (Inr True, s') \<and> m_lastSlowTickNs s' = 2000000"
proof -
  have "\<exists>s'. checkForClockTick demo_env 2000000 (demo_running True) = Some (Inr True, s')"
    by (simp add: checkForClockTick_def checkAeronOpen_def bindE_def exec_run world_exec_run whenE_def)
  then show ?thesis using clock_tick by blast
qed

section \<open>Joining and closing the log\<close>

text \<open>An agent that is told to join, as leader, the log it is at the start of.\<close>

definition demo_event :: "i64 \<Rightarrow> active_log_event" where
  "demo_event maxPosition = \<lparr> al_logPosition = 0, al_maxLogPosition = maxPosition, al_memberId = 3, al_sessionId = 7,
     al_streamId = 100, al_isStartup = False, al_role = LEADER, al_channel = ''aeron:udp'',
     al_logSubscriptionId = - 1, al_subscription = None, al_image = None \<rparr>"

definition demo_joining :: "'w \<Rightarrow> 'w sys" where
  "demo_joining w = (demo_running w)\<lparr>m_logPosition := 0, m_activeLogEvent := Some (demo_event 512)\<rparr>"

lemma demo_joining_fields [simp]:
  "m_logPosition (demo_joining w) = 0" "m_activeLogEvent (demo_joining w) = Some (demo_event 512)"
  "m_table (demo_joining w) = demo_table"
  by (simp_all add: demo_joining_def)

lemma demo_joins: "\<exists>s'. joinActiveLog (demo_env :: (nat, nat) env) (demo_joining w) = Some (Inr True, s')"
proof -
  let ?E = "demo_env :: (nat, nat) env"
  let ?e1 = "(demo_event 512)\<lparr>al_logSubscriptionId := 0, al_subscription := Some 0\<rparr>"
  let ?s1 = "(demo_joining w)\<lparr>m_activeLogEvent := Some ?e1\<rparr>"
  let ?s2 = "(demo_joining w)\<lparr>m_activeLogEvent := Some (?e1\<lparr>al_image := Some 0\<rparr>)\<rparr>"
  have w: "world (demo_joining w) = w" "(demo_joining w)\<lparr>world := w\<rparr> = demo_joining w"
    by (simp_all add: demo_joining_def)
  have s1: "join_subscription ?E (demo_joining w) = Some (Inr True, ?s1)"
    by (simp add: join_subscription_def event_get_def event_set_def bindE_def exec_run derefE_def whenE_def
      world_exec_run demo_event_def demo_joining_def)
  have s2: "join_image ?E ?s1 = Some (Inr True, ?s2)"
    by (simp add: join_image_def event_get_def event_set_def bindE_def exec_run derefE_def
      world_exec_run demo_event_def demo_joining_def)
  let ?t = "?s2\<lparr>la_image := Some 0, la_maxLogPosition := 512\<rparr>"
  obtain b s3 where s3: "ack ?E (- 1) (?t\<lparr>m_activeLogEvent := Some (?e1\<lparr>al_image := Some 0, al_subscription := None\<rparr>)\<rparr>)
      = Some (Inr b, s3)" "table_safe (m_table s3)" "m_activeLogEvent s3 = Some (?e1\<lparr>al_image := Some 0, al_subscription := None\<rparr>)"
    by (simp add: ack_run [of _ 7] demo_joining_def table_invD(1))
  let ?s3 = "s3\<lparr>m_memberId := 3\<rparr>"
  obtain s4 where s4: "reconnect_sessions ?E False ?s3 = Some (Inr (), s4)"
    using reconnect_sessions_result [of ?s3 ?E False] s3(2) by auto
  have "\<exists>s5. set_role ?E LEADER s4 = Some (Inr (), s5)"
    by (cases "m_role s4") (simp_all add: set_role_def bindE_run(3,4) whenE_def catchE_def bindE_def exec_run)
  then obtain s5 where s5: "set_role ?E LEADER s4 = Some (Inr (), s5)" by blast
  have "joinActiveLog ?E (demo_joining w) = Some (Inr True, s5)"
    unfolding joinActiveLog_def bindE_Some(1) [where m = "join_subscription ?E", OF s1] not_True_eq_False if_False
      bindE_Some(1) [where m = "join_image ?E", OF s2]
    using s3(1) s4 s5
    by (simp add: event_get_def event_set_def bindE_run derefE_run join_contiguous_def exec_run demo_event_def whenE_def
      bindE_Some(1) [where m = "ack ?E (- 1)"] bindE_Some(1) [where m = "reconnect_sessions ?E False"]
      bindE_Some(1) [where m = "set_role ?E LEADER"])
  then show ?thesis by blast
qed

text \<open>C13. An agent joins only a log that goes on exactly where it stopped: when a join succeeds, the
  position at which the image of the log was joined and the position the consensus module named
  are both the agent's log position, which stays as it is. From then on it polls that image, up to
  the limit of the event, as the member and in the role the event named.\<close>

theorem join_contiguous_only:
  assumes "joinActiveLog E s = Some (Inr True, s')" "m_activeLogEvent s = Some ev"
  shows "\<exists>img. image_joinPosition E img = m_logPosition s \<and> al_logPosition ev = m_logPosition s
    \<and> la_image s' = Some img \<and> la_maxLogPosition s' = al_maxLogPosition ev
    \<and> m_memberId s' = al_memberId ev \<and> m_role s' = al_role ev \<and> m_logPosition s' = m_logPosition s"
  using joinActiveLog_True [OF assms] by blast

theorem join_contiguous_only_witness:
  "\<exists>s'. joinActiveLog (demo_env :: (nat, nat) env) (demo_joining 3) = Some (Inr True, s')
     \<and> m_role s' = LEADER \<and> la_maxLogPosition s' = 512"
proof -
  obtain s' where s': "joinActiveLog (demo_env :: (nat, nat) env) (demo_joining 3) = Some (Inr True, s')"
    using demo_joins by blast
  with join_contiguous_only [OF s', of "demo_event 512"] show ?thesis by (auto simp: demo_event_def)
qed

text \<open>C14. A member that joins the log as leader starts with no session marked as closing, so that
  the service may ask again for the close of a session whose request the old leader lost; the
  callback about the role change, which comes later, cannot set a mark.\<close>

theorem leader_resets_closing:
  assumes "joinActiveLog E s = Some (Inr True, s')" "m_activeLogEvent s = Some ev" "al_role ev = LEADER"
    "table_safe (m_table s)"
  shows "\<forall>x \<in> set (table_elems (m_table s')). \<not> cs_isClosing x"
  using joinActiveLog_True [OF assms(1,2)] assms(3,4) by blast

theorem leader_resets_closing_witness:
  "\<exists>s'. joinActiveLog (demo_env :: (nat, nat) env) (demo_joining 3) = Some (Inr True, s')
     \<and> (\<forall>x \<in> set (table_elems (m_table s')). \<not> cs_isClosing x)"
proof -
  obtain s' where s': "joinActiveLog (demo_env :: (nat, nat) env) (demo_joining 3) = Some (Inr True, s')"
    using demo_joins by blast
  with leader_resets_closing [OF s', of "demo_event 512"] show ?thesis
    by (auto simp: demo_event_def table_invD(1))
qed

lemma closeLog_run:
  assumes "la_image s = Some img" "image_position E img (world s) = (Inr p, w)" "image_close E img w = (Inr (), w')"
  shows "closeLog E s = set_role E FOLLOWER (s\<lparr>m_logPosition := max p (m_logPosition s), world := w', la_image := None\<rparr>)"
  using assms by (simp add: closeLog_def log_close_def bindE_def exec_run derefE_def world_exec_run)

text \<open>C15. When the image of the log ends, the log position moves to where the image stopped and never
  back, the image is closed and forgotten, and the member is a follower again; whatever the
  service does when it is told so.\<close>

theorem close_log_position:
  assumes "la_image s = Some img" "image_position E img (world s) = (Inr p, w)"
    "image_close E img w = (Inr (), w')"
  shows "\<exists>r s'. closeLog E s = Some (r, s') \<and> m_logPosition s' = max p (m_logPosition s)
    \<and> m_logPosition s \<le> m_logPosition s' \<and> la_image s' = None \<and> m_role s' = FOLLOWER"
proof -
  let ?s = "s\<lparr>m_logPosition := max p (m_logPosition s), world := w', la_image := None\<rparr>"
  obtain r s' where run: "set_role E FOLLOWER ?s = Some (r, s')" using totalD [OF total_set_role] by metis
  have "keeps (\<lambda>s. (m_logPosition s, la_image s)) (set_role E FOLLOWER)" by (intro keeps_rules) simp_all
  from keepsD [OF this, OF run] set_role_result [OF run] run closeLog_run [OF assms] show ?thesis by auto
qed

theorem close_log_position_witness:
  "\<exists>r s'. closeLog ((demo_env :: (nat, nat) env)\<lparr>image_position := \<lambda>_. demo_ret 640\<rparr>)
      ((demo_running 3)\<lparr>la_image := Some 2, m_logPosition := 512\<rparr>) = Some (r, s') \<and> m_logPosition s' = 640"
  using close_log_position [of "(demo_running (3 :: nat))\<lparr>la_image := Some 2, m_logPosition := 512\<rparr>" 2
    "(demo_env :: (nat, nat) env)\<lparr>image_position := \<lambda>_. demo_ret 640\<rparr>" 640 3 3] by auto

end
