(* ===== verification/SnapshotProperties.thy ===== *)
theory SnapshotProperties
  imports SnapshotLemmas AgentProperties
begin

text \<open>The properties of taking and of loading a snapshot.\<close>

section \<open>Witness data\<close>

text \<open>
  A stream of messages as buffers. The message of a session ends with its principal, and the accessor of the principal
  consumes it.
\<close>

type_synonym snap_message = "client_session_msg + snapshot_marker"

definition snap_codecs :: "(snap_message, 'w) env" where
  "snap_codecs = demo_env\<lparr>
     MessageHeader_wrap := \<lambda>b _ _ _. Inr (MessageHeader 0 (case b of Inl _ \<Rightarrow> 102 | Inr _ \<Rightarrow> 100) 111 8),
     SnapshotMarker_encode := \<lambda>_ m. Inr (Inr m),
     ClientSession_encode := \<lambda>_ m. Inr (Inl m),
     SnapshotMarker_wrap := \<lambda>b _ _ _ _ _. (case b of Inl _ \<Rightarrow> Inl (LibraryError 1) | Inr m \<Rightarrow> Inr m),
     ClientSession_wrap := \<lambda>b _ _ _ _ _. (case b of
         Inl m \<Rightarrow> Inr (cm_clusterSessionId m, cm_responseStreamId m,
                      \<lparr>fw_buffer = b, fw_bufferLength = 6, fw_position = 0\<rparr>)
       | Inr _ \<Rightarrow> Inl (LibraryError 1)),
     ClientSession_responseChannel := \<lambda>fw. Inr (0, fw),
     ClientSession_encodedPrincipal := \<lambda>fw.
       (let pos = fw_position fw; end_ptr = pos + 4 + 2 in
        if end_ptr > fw_bufferLength fw then Inl (LibraryError 100) else Inr (pos + 4, fw\<lparr>fw_position := end_ptr\<rparr>)),
     buffer_bytes := \<lambda>b from_ptr _. (case b of
         Inl m \<Rightarrow> if from_ptr = 0 then cm_responseChannel m else cm_encodedPrincipal m | Inr _ \<Rightarrow> []) \<rparr>"

text \<open>A world that is what the publication has accepted.\<close>

definition consuming_env :: "(snap_message, snap_message list) env" where
  "consuming_env = snap_codecs\<lparr>pub_offer := \<lambda>_ b w. (Inr 1, w @ [b])\<rparr>"

definition snap_fragment :: "snap_message \<Rightarrow> snap_message fragment" where
  "snap_fragment b = Fragment b 0 100 \<lparr>fh_position = 0, fh_flags = 0xC0, fh_context = 0\<rparr>"

section \<open>Writing a snapshot\<close>

text \<open>C16. A snapshot is written completely or not at all: writing it succeeds exactly when the
  publication accepts, one after the other and with nothing in between, the marker of the begin
  with the log position, the term and the version of the service, one message for every session in
  the order of their ids, and the marker of the end; and it changes nothing but the outside world.\<close>

theorem snapshot_written:
  "snapshotState E p position termId s = Some (Inr (), s') \<longleftrightarrow>
     (\<exists>ms w. snapshot_messages E position termId (ctx_appVersion (m_ctx s)) (table_elems (m_table s)) ms
        \<and> accepted E p ms (world s) w \<and> s' = s\<lparr>world := w\<rparr>)"
  by (rule snapshotState_accepted)

text \<open>C17. What was written as a snapshot can be read back only if it holds no session. The messages that the publication accepts
  when a snapshot is written, delivered to a new loader in their order: with no session they are the two markers, and
  the loader says that it is done, with the version of the snapshot and the agent as it was; with sessions, the loader throws at the
  message of the first one, because it asks for the principal twice and the accessor consumes it: it is not done, and
  no session was added.\<close>

theorem snapshot_round_trip:
  assumes "snapshot_codec E carries prefix err" "snapshotState E p position termId s = Some (Inr (), s')"
  shows "\<exists>ms w. s' = s\<lparr>world := w\<rparr> \<and> accepted E p ms (world s) w \<and> length ms = length (table_elems (m_table s)) + 2
    \<and> (\<forall>fs. list_all2 carries fs ms \<longrightarrow>
        deliver (loader_onFragment E) finish on_throw 0 fs (new_loader img u, t) =
          (let l = \<lparr>ld_image = img, ld_inSnapshot = True, ld_isDone = False, ld_appVersion = ctx_appVersion (m_ctx s)\<rparr> in
           if table_elems (m_table s) = [] then finish 2 (l\<lparr>ld_isDone := True\<rparr>, t) else on_throw 1 err (l, t)))"
proof -
  let ?v = "ctx_appVersion (m_ctx s)" and ?xs = "table_elems (m_table s)"
  let ?l = "\<lparr>ld_image = img, ld_inSnapshot = True, ld_isDone = False, ld_appVersion = ?v\<rparr>"
  obtain ms w where ms: "snapshot_messages E position termId ?v ?xs ms" "accepted E p ms (world s) w" "s' = s\<lparr>world := w\<rparr>"
    using assms(2) unfolding snapshotState_accepted by blast
  obtain b bs e where b: "ms = b # bs @ [e]" "encodes_marker E position termId BEGIN ?v b"
      "list_all2 (encodes_session E) ?xs bs" "encodes_marker E position termId END ?v e"
    using ms(1) by (auto simp: snapshot_messages_def)
  have "deliver (loader_onFragment E) finish on_throw 0 fs (new_loader img u, t)
      = (if ?xs = [] then finish 2 (?l\<lparr>ld_isDone := True\<rparr>, t) else on_throw 1 err (?l, t))" if fs: "list_all2 carries fs ms" for fs
  proof -
    from fs obtain f gs where f: "fs = f # gs" "carries f b" "list_all2 carries gs (bs @ [e])"
      unfolding b(1) by (auto simp: list_all2_Cons2)
    note first_marker = loader_marker_run [OF loader_written(1) [OF assms(1) f(2) b(2)]]
    have first: "deliver (loader_onFragment E) finish on_throw 0 fs (new_loader img u, t)
        = deliver (loader_onFragment E) finish on_throw 1 gs (?l, t)"
      by (simp add: f(1) attemptE_def first_marker loader_onMarker_def new_loader_def bindE_run exec_run)
    show ?thesis
    proof (cases "?xs")
      case Nil
      with b(3) f(3) obtain g where g: "gs = [g]" "carries g e" by (auto simp: list_all2_Cons2)
      note last_marker = loader_marker_run [OF loader_written(1) [OF assms(1) g(2) b(4)]]
      show ?thesis
        unfolding first using Nil g(1)
        by (simp add: attemptE_def last_marker loader_onMarker_def bindE_run exec_run numeral_2_eq_2)
    next
      case (Cons x xs)
      with b(3) f(3) obtain g hs m where g: "gs = g # hs" "carries g m" "encodes_session E x m"
        by (auto simp: list_all2_Cons1 list_all2_Cons2)
      from loader_written(2) [OF assms(1) g(2,3)] Cons g(1) show ?thesis unfolding first by (simp add: attemptE_def)
    qed
  qed
  moreover have "length ms = length ?xs + 2" using b(1) list_all2_lengthD [OF b(3)] by simp
  ultimately show ?thesis using ms(2,3) by (intro exI [of _ ms] exI [of _ w]) (simp add: Let_def)
qed

lemma consuming_codec: "snapshot_codec consuming_env (\<lambda>f b. f = snap_fragment b) (\<lambda>_ _. 2) (LibraryError 100)"
  by (auto simp: snapshot_codec_def consuming_principal_def reads_marker_def reads_to_principal_def reads_client_session_def
    header_is_def consuming_env_def snap_codecs_def snap_fragment_def Let_def)

lemma consuming_accepts: "accepted consuming_env p ms w (w @ ms)"
proof (induction ms arbitrary: w)
  case Nil
  show ?case by (simp add: accepted.nothing)
next
  case (Cons m ms)
  have "pub_offer consuming_env p m w = (Inr 1, w @ [m])" by (simp add: consuming_env_def snap_codecs_def)
  from accepted.one_more [OF backs_off.none this _ Cons.IH] show ?case by simp
qed

lemma consuming_written:
  "snapshotState consuming_env p position termId s = Some (Inr (), s\<lparr>world := world s @
     Inr (SnapshotMarker SNAPSHOT_TYPE_ID position termId 0 BEGIN NANOS (ctx_appVersion (m_ctx s)))
     # map (Inl \<circ> session_message) (table_elems (m_table s))
     @ [Inr (SnapshotMarker SNAPSHOT_TYPE_ID position termId 0 END NANOS (ctx_appVersion (m_ctx s)))]\<rparr>)"
proof -
  have "list_all2 (encodes_session consuming_env) xs (map (Inl \<circ> session_message) xs)" for xs
    by (induction xs) (simp_all add: encodes_session_def consuming_env_def snap_codecs_def)
  then have "snapshot_messages consuming_env position termId v xs (Inr (SnapshotMarker SNAPSHOT_TYPE_ID position termId 0 BEGIN NANOS v)
     # map (Inl \<circ> session_message) xs @ [Inr (SnapshotMarker SNAPSHOT_TYPE_ID position termId 0 END NANOS v)])" for v xs
    by (auto simp: snapshot_messages_def encodes_marker_def consuming_env_def snap_codecs_def)
  with consuming_accepts show ?thesis unfolding snapshotState_accepted by blast
qed

lemma list_all2_eq_map: "list_all2 (\<lambda>f b. f = g b) (map g bs) bs"
  by (induction bs) simp_all

theorem snapshot_round_trip_witness:
  "(\<exists>ms w. length ms = 2 \<and> accepted consuming_env 5 ms [] w
      \<and> deliver (loader_onFragment consuming_env) (\<lambda>k. retE (int k)) (\<lambda>_. throwE) 0 (map snap_fragment ms) (new_loader 3 0, demo_agent [])
        = Some (Inr 2, (\<lparr>ld_image = 3, ld_inSnapshot = True, ld_isDone = True, ld_appVersion = ctx_appVersion demo_context\<rparr>, demo_agent [])))
   \<and> (\<exists>ms w. length ms = 5 \<and> accepted consuming_env 5 ms [] w
      \<and> deliver (loader_onFragment consuming_env) (\<lambda>k. retE (int k)) (\<lambda>_. throwE) 0 (map snap_fragment ms) (new_loader 3 0, demo_agent [])
        = Some (Inl (LibraryError 100), (\<lparr>ld_image = 3, ld_inSnapshot = True, ld_isDone = False, ld_appVersion = ctx_appVersion demo_context\<rparr>, demo_agent [])))"
proof -
  let ?finish = "\<lambda>k. retE (int k) :: (loader \<times> snap_message list sys, int) exec"
  let ?throw = "(\<lambda>_. throwE) :: nat \<Rightarrow> cluster_error \<Rightarrow> (loader \<times> snap_message list sys, int) exec"
  have facts: "m_ctx (demo_full []) = demo_context" "m_ctx (demo_agent []) = demo_context" "world (demo_full []) = []" "world (demo_agent []) = []"
      "table_elems (m_table (demo_agent [])) = []" "table_elems empty_table = []" "m_table (demo_full []) = demo_table"
    by (simp_all add: demo_full_def demo_agent_def new_agent_def demo_context_def empty_table_def table_elems_def)
  have three: "length (table_elems demo_table) = 3" by code_simp
  then have some: "table_elems demo_table \<noteq> []" by auto
  note trip = snapshot_round_trip [OF consuming_codec consuming_written, where finish = ?finish and on_throw = ?throw
    and img = 3 and u = 0 and t = "demo_agent []"]
  have read: "\<exists>ms w. length ms = length (table_elems (m_table s)) + 2 \<and> accepted consuming_env 5 ms (world s) w
      \<and> deliver (loader_onFragment consuming_env) ?finish ?throw 0 (map snap_fragment ms) (new_loader 3 0, demo_agent []) =
          (let l = \<lparr>ld_image = 3, ld_inSnapshot = True, ld_isDone = False, ld_appVersion = ctx_appVersion (m_ctx s)\<rparr> in
           if table_elems (m_table s) = [] then ?finish 2 (l\<lparr>ld_isDone := True\<rparr>, demo_agent [])
           else ?throw 1 (LibraryError 100) (l, demo_agent []))" for s :: "snap_message list sys"
    using trip [where p = 5 and position = 64 and termId = 4 and s = s]
    by (elim exE conjE) (intro exI conjI; (assumption | erule allE, erule mp, rule list_all2_eq_map))
  from read [of "demo_agent []"]
  have "\<exists>ms w. length ms = 2 \<and> accepted consuming_env 5 ms [] w
      \<and> deliver (loader_onFragment consuming_env) ?finish ?throw 0 (map snap_fragment ms) (new_loader 3 0, demo_agent [])
        = Some (Inr 2, (\<lparr>ld_image = 3, ld_inSnapshot = True, ld_isDone = True, ld_appVersion = ctx_appVersion demo_context\<rparr>, demo_agent []))"
    by (simp add: facts exec_run Let_def numeral_2_eq_2)
  moreover from read [of "demo_full []"]
  have "\<exists>ms w. length ms = 5 \<and> accepted consuming_env 5 ms [] w
      \<and> deliver (loader_onFragment consuming_env) ?finish ?throw 0 (map snap_fragment ms) (new_loader 3 0, demo_agent [])
        = Some (Inl (LibraryError 100), (\<lparr>ld_image = 3, ld_inSnapshot = True, ld_isDone = False, ld_appVersion = ctx_appVersion demo_context\<rparr>, demo_agent []))"
    by (simp add: facts exec_run three some Let_def)
  ultimately show ?thesis by blast
qed

section \<open>Reading the principal of a session\<close>

text \<open>C18. With an accessor that consumes the field, as the generated one does, the loader cannot read
  the message of a session in which the principal comes last: it asks for the field twice, the
  second time past the end, so the handler throws, whatever order the compiler evaluates the
  arguments in, and adds no session.\<close>

theorem loader_principal_throws:
  assumes "consuming_principal L prefix err"
    "SnapshotMarker_sbeTemplateId L \<noteq> ClientSession_sbeTemplateId L"
    "reads_client_session L f i stream fw" "loader_responseChannel L fw = Inr (channel, fw1)"
    "fw_position fw1 + 4 + prefix (fw_buffer fw1) (fw_position fw1) = fw_bufferLength fw1"
  shows "loader_onFragment L f (l, s) = Some (Inl err, (l, s))"
  using assms by (rule loader_principal_fails)

theorem loader_principal_throws_witness:
  "loader_onFragment consuming_env (snap_fragment (Inl (session_message (demo_session 2)))) (new_loader 3 0, demo_agent [])
     = Some (Inl (LibraryError 100), (new_loader 3 0, demo_agent []))"
proof -
  let ?fw = "\<lparr>fw_buffer = Inl (session_message (demo_session 2)), fw_bufferLength = 6, fw_position = 0\<rparr> :: snap_message flyweight"
  have reads: "reads_client_session consuming_env (snap_fragment (Inl (session_message (demo_session 2)))) 2 5 ?fw"
    by (auto simp: reads_client_session_def header_is_def consuming_env_def snap_codecs_def snap_fragment_def
      session_message_def demo_session_def new_session_def)
  have channel: "\<exists>channel. loader_responseChannel consuming_env ?fw = Inr (channel, ?fw)"
    by (simp add: loader_responseChannel_def consuming_env_def snap_codecs_def Let_def)
  then obtain channel where channel: "loader_responseChannel consuming_env ?fw = Inr (channel, ?fw)" by blast
  show ?thesis
    by (rule loader_principal_throws [OF _ _ reads channel, where prefix = "\<lambda>_ _. 2"])
      (simp_all add: consuming_principal_def consuming_env_def snap_codecs_def Let_def)
qed

section \<open>Taking a snapshot\<close>

text \<open>C19. While a snapshot is being taken the agent does nothing else: a round of its work that does
  not complete the snapshot reads nothing from the log and nothing from the control stream, so the
  sessions, the log position, the cluster time and the term stay as they are - also when a step of
  the snapshot throws - and the log that is being polled and the log to be joined are the same.\<close>

theorem snapshot_freezes_log:
  assumes "m_currentSnapshot s \<noteq> None" "systemNanoClock E (world s) = (Inr now, w)"
    "snapshot_doWork E (s\<lparr>world := w\<rparr>) = Some (q, t)" "q \<noteq> Inr True" "table_inv (m_table s)"
  shows "doWork E s = Some (map_sum id (\<lambda>_. ()) q, t)
    \<and> view_of t = view_of s \<and> la_image t = la_image s \<and> m_role t = m_role s \<and> m_activeLogEvent t = m_activeLogEvent s"
proof -
  have "view_of t = view_of s"
    using preservesD [OF snapshot_work_view _ assms(3), of "view_of s"] assms(5) by simp
  moreover have "keeps (\<lambda>s. (la_image s, m_role s, m_activeLogEvent s)) (snapshot_doWork E)"
    by (intro keeps_rules) simp_all
  from keepsD [OF this, OF assms(3)] have "la_image t = la_image s" "m_role t = m_role s"
    "m_activeLogEvent t = m_activeLogEvent s" by simp_all
  moreover have "doWork E s = Some (map_sum id (\<lambda>_. ()) q, t)"
  proof (cases q)
    case (Inl e)
    with assms(1-3) show ?thesis
      by (auto simp: doWork_def bindE_def exec_run world_exec_run)
  next
    case (Inr b)
    with assms(1-4) show ?thesis
      by (auto simp: doWork_def bindE_def exec_run world_exec_run whenE_def)
  qed
  ultimately show ?thesis by blast
qed

definition demo_snapshot :: snapshot_state where
  "demo_snapshot = \<lparr>ss_snapshotChannel = ''aeron:ipc'', ss_snapshotStreamId = 106, ss_publicationId = 5,
     ss_publication = None, ss_recordingCounterId = - 1, ss_recordingId = - 1, ss_snapshotComplete = False\<rparr>"

text \<open>The publication of the snapshot cannot be found yet.\<close>

theorem snapshot_freezes_log_witness:
  "\<exists>t. doWork ((demo_env :: (nat, nat) env)\<lparr>aeron_findExclusivePublication := \<lambda>_. demo_ret None\<rparr>)
        ((demo_full 3)\<lparr>m_currentSnapshot := Some demo_snapshot\<rparr>) = Some (Inr (), t)
     \<and> view_of t = view_of (demo_full (3 :: nat))"
proof -
  let ?E = "(demo_env :: (nat, nat) env)\<lparr>aeron_findExclusivePublication := \<lambda>_. demo_ret None\<rparr>"
  let ?s = "(demo_full (3 :: nat))\<lparr>m_currentSnapshot := Some demo_snapshot\<rparr>"
  have "\<exists>t. snapshot_doWork ?E (?s\<lparr>world := 3\<rparr>) = Some (Inr False, t)"
    by (simp add: snapshot_doWork_def snapshot_publication_def snapshot_get_def snapshot_set_def bindE_def
      exec_run derefE_def world_exec_run demo_snapshot_def)
  then obtain t where t: "snapshot_doWork ?E (?s\<lparr>world := 3\<rparr>) = Some (Inr False, t)" by blast
  have v: "view_of ?s = view_of (demo_full (3 :: nat))" by simp
  have w: "world ?s = 3" by (simp add: demo_full_def demo_agent_def new_agent_def demo_context_def)
  show ?thesis
    using snapshot_freezes_log [of ?s ?E 0 3 "Inr False" t] t v w by simp
qed

text \<open>C22. A snapshot is not taken at the position of the action that asked for it: the action only
  opens the publication, and the poll of the log that handed it on goes on with the messages after it in the same batch, up to the
  end of the batch or to the first handler that throws. Their changes of the sessions, the position, the time and the term
  are in the state of the agent by the time that the first message of the snapshot can be written: when the poll ends the snapshot
  has no publication yet.\<close>

theorem snapshot_after_later_events:
  assumes "table_inv (m_table s)" "la_image s = Some img"
    "image_boundedControlledPoll E img limit (la_fragmentLimit s) (world s) = (Inr (f # fs), w1)"
    "is_event E f (ServiceAction termId p t SNAPSHOT CLUSTER_ACTION_FLAGS_DEFAULT)" "list_all2 (is_event E) fs evs"
    "\<forall>ev \<in> set evs. \<forall>termId p t flags. ev \<noteq> ServiceAction termId p t SNAPSHOT flags"
    "aeron_addExclusivePublication E (ctx_snapshotChannel (m_ctx s)) (ctx_snapshotStreamId (m_ctx s)) w1 = (Inr i, w2)"
  shows "\<exists>n s1. n \<le> length evs \<and> view_of s1 = fold apply_event (take n evs) (advance p t (view_of s))
    \<and> map_option ss_publication (m_currentSnapshot s1) = Some None
    \<and> (n = length evs \<and> log_poll E limit s = world_call (poll_finish E (Suc (length fs))) s1
      \<or> (\<exists>e. 0 < n \<and> log_poll E limit s = world_call (poll_on_throw E n e) s1))"
proof -
  let ?s = "s\<lparr>world := w1\<rparr>" and ?action = "ServiceAction termId p t SNAPSHOT CLUSTER_ACTION_FLAGS_DEFAULT"
  let ?finish = "\<lambda>k. world_call (poll_finish E k)" and ?throw = "\<lambda>k e. world_call (poll_on_throw E k e)"
  obtain s1 where s1: "handle_event E ?action ?s = Some (Inr (), s1)" "map_option ss_publication (m_currentSnapshot s1) = Some None"
    using assms(7) by (simp add: onServiceAction_def at_position_run executeAction_def onTakeSnapshot_def new_snapshot_state_def
      shouldSnapshot_def bindE_run(3) whenE_def) (simp add: bindE_def exec_run world_exec_run)
  have at: "at_view (advance p t (view_of s)) s1" using handle_event_refines [OF s1(1)] assms(1) by simp
  have poll: "log_poll E limit s = deliver (log_onFragment E) ?finish ?throw 0 (f # fs) ?s"
    using assms(2,3) by (simp add: log_poll_def pollE_def bindE_def derefE_def exec_run world_exec_run)
  also have "\<dots> = deliver (log_onFragment E) ?finish ?throw 1 fs s1"
    using s1(1) by (simp add: event_run [OF assms(4)] attemptE_def bindE_def exec_run)
  finally have poll: "log_poll E limit s = deliver (log_onFragment E) ?finish ?throw 1 fs s1" .
  from deliver_events [OF assms(5) _ assms(6), of s1 ?finish ?throw 1] at
  obtain n s2 where "n \<le> length evs" "view_of s2 = fold apply_event (take n evs) (advance p t (view_of s))"
    "m_currentSnapshot s2 = m_currentSnapshot s1"
    "n = length evs \<and> log_poll E limit s = ?finish (1 + length fs) s2 \<or> (\<exists>m e. n = Suc m \<and> log_poll E limit s = ?throw (1 + m) e s2)"
    unfolding poll by auto
  with s1(2) show ?thesis by (intro exI [of _ n] exI [of _ s2]) auto
qed

text \<open>A log in which a close follows the request for a snapshot.\<close>

definition batch_fragment :: "nat \<Rightarrow> i64 \<Rightarrow> nat fragment" where
  "batch_fragment b p = Fragment b 0 100 \<lparr>fh_position = p, fh_flags = 0xC0, fh_context = 0\<rparr>"

definition batch_env :: "(nat, nat) env" where
  "batch_env = demo_env\<lparr>
     image_boundedControlledPoll := \<lambda>_ _ _. demo_ret [batch_fragment 23 64, batch_fragment 22 96],
     MessageHeader_wrap := \<lambda>b _ _ _. Inr (MessageHeader 0 (int b) 111 8),
     ClusterActionRequest_wrap := \<lambda>_ _ _ _ _ _. Inr (ClusterActionRequest 4 64 100 SNAPSHOT 0),
     SessionCloseEvent_wrap := \<lambda>_ _ _ _ _ _. Inr (SessionCloseEvent 4 2 102 0)\<rparr>"

theorem snapshot_after_later_events_witness:
  "\<exists>r s'. log_poll batch_env 1000 ((demo_full 3)\<lparr>la_image := Some 0\<rparr>) = Some (r, s')
    \<and> cv_logPosition (view_of s') = 96 \<and> cv_sessions (view_of s') 2 = None
    \<and> map_option ss_publication (m_currentSnapshot s') = Some None"
proof -
  let ?s = "(demo_full 3)\<lparr>la_image := Some 0\<rparr> :: nat sys" and ?close = "SessionClosed 4 96 2 102 0 :: nat log_event"
  have events: "is_event batch_env (batch_fragment 23 64) (ServiceAction 4 64 100 SNAPSHOT CLUSTER_ACTION_FLAGS_DEFAULT)"
    "list_all2 (is_event batch_env) [batch_fragment 22 96] [?close]"
    by (simp_all add: is_event_def decode_event_def decode_message_def batch_env_def batch_fragment_def has_flags_def)
  have poll: "image_boundedControlledPoll batch_env 0 1000 (la_fragmentLimit ?s) (world ?s)
      = (Inr (batch_fragment 23 64 # [batch_fragment 22 96]), world ?s)"
    "aeron_addExclusivePublication batch_env (ctx_snapshotChannel (m_ctx ?s)) (ctx_snapshotStreamId (m_ctx ?s)) (world ?s) = (Inr 0, world ?s)"
    by (simp_all add: batch_env_def)
  obtain n s1 where n: "n \<le> 1" "view_of s1 = fold apply_event (take n [?close]) (advance 64 100 (view_of ?s))"
      "map_option ss_publication (m_currentSnapshot s1) = Some None"
      "n = 1 \<and> log_poll batch_env 1000 ?s = world_call (poll_finish batch_env 2) s1
        \<or> (\<exists>e. 0 < n \<and> log_poll batch_env 1000 ?s = world_call (poll_on_throw batch_env n e) s1)"
    using snapshot_after_later_events [OF _ _ poll(1) events _ poll(2)] by (auto simp: numeral_2_eq_2)
  have "log_poll batch_env 1000 ?s = world_call (poll_finish batch_env 2) s1
      \<or> (\<exists>e. log_poll batch_env 1000 ?s = world_call (poll_on_throw batch_env n e) s1)" and "n = 1"
    using n(1,4) by auto
  then obtain r where "log_poll batch_env 1000 ?s = Some (r, s1)"
    by (auto simp: world_exec_run exec_run batch_env_def)
  with n(2,3) \<open>n = 1\<close> show ?thesis by (intro exI [of _ r] exI [of _ s1]) (simp add: advance_def)
qed

end
