(* ===== verification/CounterProperties.thy ===== *)
theory CounterProperties
  imports ConnectProperties
begin

text \<open>
  What the scans of the counters find. Both scans go through the counters in the order of their
  ids and stop at the first hit or at the first slot that was never used; the locale
  \<open>counter_scan\<close> holds the loop they share.
\<close>

section \<open>Scanning\<close>

text \<open>The first hit at or after \<open>i\<close>, with no stop before it.\<close>

definition first_hit :: "int \<Rightarrow> (int \<Rightarrow> bool) \<Rightarrow> (int \<Rightarrow> bool) \<Rightarrow> int \<Rightarrow> int \<Rightarrow> bool" where
  "first_hit limit hit stop i j \<longleftrightarrow>
     i \<le> j \<and> j < limit \<and> hit j \<and> (\<forall>k. i \<le> k \<and> k < j \<longrightarrow> \<not> hit k \<and> \<not> stop k)"

lemma first_hit_unique: "first_hit limit hit stop i j \<Longrightarrow> first_hit limit hit stop i j' \<Longrightarrow> j = j'"
  unfolding first_hit_def by (meson linorder_neqE)

locale counter_scan =
  fixes limit :: int
    and hit :: "int \<Rightarrow> bool"
    and stop :: "int \<Rightarrow> bool"
    and found :: "int \<Rightarrow> 'r"
    and missing :: 'r
    and scan :: "int \<Rightarrow> 'r"
  assumes scan_step: "scan i =
    (if i < limit then if hit i then found i else if stop i then missing else scan (i + 1) else missing)"
begin

lemma first_hit_next: "i < limit \<Longrightarrow> \<not> hit i \<Longrightarrow> \<not> stop i \<Longrightarrow> first_hit limit hit stop i j \<longleftrightarrow> first_hit limit hit stop (i + 1) j"
  unfolding first_hit_def by (metis int_one_le_iff_zero_less le_less zless_add1_eq add1_zle_eq)

lemma scan_finds: "first_hit limit hit stop i j \<Longrightarrow> scan i = found j"
proof (induction "nat (limit - i)" arbitrary: i)
  case 0
  then show ?case by (simp add: first_hit_def)
next
  case (Suc n)
  show ?case
  proof (cases "i = j")
    case True
    with Suc.prems show ?thesis by (subst scan_step) (simp add: first_hit_def)
  next
    case False
    with Suc.prems have ij: "i < limit" "\<not> hit i" "\<not> stop i" by (auto simp: first_hit_def)
    with Suc.prems have "first_hit limit hit stop (i + 1) j" by (simp add: first_hit_next)
    moreover have "n = nat (limit - (i + 1))" using Suc.hyps(2) by simp
    ultimately have "scan (i + 1) = found j" by (intro Suc.hyps(1))
    with ij show ?thesis by (subst scan_step) simp
  qed
qed

lemma scan_misses: "\<nexists>j. first_hit limit hit stop i j \<Longrightarrow> scan i = missing"
proof (induction "nat (limit - i)" arbitrary: i)
  case 0
  then show ?case by (subst scan_step) simp
next
  case (Suc n)
  then have i: "i < limit" by simp
  have "\<not> hit i" using Suc.prems i by (auto simp: first_hit_def)
  show ?case
  proof (cases "stop i")
    case True
    with \<open>\<not> hit i\<close> show ?thesis by (subst scan_step) simp
  next
    case False
    have "scan (i + 1) = missing"
      using Suc.prems Suc.hyps(2) first_hit_next [OF i \<open>\<not> hit i\<close> False] by (intro Suc.hyps(1)) auto
    with False \<open>\<not> hit i\<close> show ?thesis by (subst scan_step) simp
  qed
qed

end

text \<open>A counter of the cluster with a type.\<close>

definition cluster_counter :: "('z) aeron_consts_scheme \<Rightarrow> counters \<Rightarrow> i32 \<Rightarrow> i32 \<Rightarrow> i32 \<Rightarrow> bool" where
  "cluster_counter L C typeId clusterId i \<longleftrightarrow> getCounterState C i = RECORD_ALLOCATED L
     \<and> getCounterTypeId C i = typeId \<and> getCounterClusterId L C i = clusterId"

definition recovery_state :: "('z) aeron_consts_scheme \<Rightarrow> counters \<Rightarrow> i32 \<Rightarrow> i32 \<Rightarrow> bool" where
  "recovery_state L C clusterId i \<longleftrightarrow> recovery_counter L C i
     \<and> metaInt32 C (metadataOffset L i + KEY_OFFSET L + CLUSTER_ID_OFFSET) = clusterId"

definition unused :: "('z) aeron_consts_scheme \<Rightarrow> counters \<Rightarrow> i32 \<Rightarrow> bool" where
  "unused L C i \<longleftrightarrow> getCounterState C i = RECORD_UNUSED L \<and> getCounterState C i \<noteq> RECORD_ALLOCATED L"

interpretation by_type: counter_scan "maxCounterId C" "cluster_counter L C typeId clusterId" "unused L C"
    "\<lambda>i. Some \<lparr>counter_registrationId = getCounterRegistrationId C i, counter_id = i\<rparr>" None
    "find_from L C typeId clusterId" for L C typeId clusterId
  by unfold_locales (subst find_from.simps, auto simp: cluster_counter_def unused_def Let_def)

interpretation recovery: counter_scan "maxCounterId C" "recovery_state L C clusterId"
    "\<lambda>i. getCounterState C i = RECORD_UNUSED L \<and> \<not> recovery_counter L C i" id "NULL_COUNTER_ID L"
    "findCounter_from L C clusterId" for L C clusterId
  by unfold_locales (subst findCounter_from.simps, auto simp: recovery_state_def recovery_counter_def Let_def)

section \<open>Theorems\<close>

text \<open>C30. \<open>ClusterCounters::find\<close> is exact: it finds a counter if and only if, among the slots before the first
  unused one, there is an allocated counter of the type and the cluster, and then it is the one with the
  smallest id, with its registration id.\<close>

theorem find_counter_exact:
  "find_counter L C typeId clusterId = Some c \<longleftrightarrow>
     (\<exists>j \<ge> 0. j < maxCounterId C \<and> cluster_counter L C typeId clusterId j
        \<and> (\<forall>k. 0 \<le> k \<and> k < j \<longrightarrow> \<not> cluster_counter L C typeId clusterId k \<and> \<not> unused L C k)
        \<and> c = \<lparr>counter_registrationId = getCounterRegistrationId C j, counter_id = j\<rparr>)"
proof -
  let ?F = "first_hit (maxCounterId C) (cluster_counter L C typeId clusterId) (unused L C) 0"
    and ?at = "\<lambda>j. \<lparr>counter_registrationId = getCounterRegistrationId C j, counter_id = j\<rparr>"
  have "find_counter L C typeId clusterId = Some c \<longleftrightarrow> (\<exists>j. ?F j \<and> c = ?at j)"
  proof (cases "\<exists>j. ?F j")
    case True
    then obtain j where j: "?F j" by blast
    have found: "find_counter L C typeId clusterId = Some (?at j)"
      using by_type.scan_finds [OF j] by (simp add: find_counter_def)
    show ?thesis
    proof
      assume "find_counter L C typeId clusterId = Some c"
      with found have "c = ?at j" by (simp only: option.inject)
      with j show "\<exists>j. ?F j \<and> c = ?at j" by blast
    next
      assume "\<exists>j. ?F j \<and> c = ?at j"
      then obtain j' where j': "?F j'" "c = ?at j'" by blast
      from first_hit_unique [OF j j'(1)] j'(2) found show "find_counter L C typeId clusterId = Some c" by (simp only:)
    qed
  next
    case False
    with by_type.scan_misses [OF False] show ?thesis by (simp add: find_counter_def)
  qed
  then show ?thesis unfolding first_hit_def by blast
qed

theorem find_counter_exact_witness:
  "find_counter ready_env ready_counters 203 0 = Some \<lparr>counter_registrationId = 41, counter_id = 1\<rparr>"
proof -
  have "k = 0" if "0 \<le> k" "k < (1 :: int)" for k using that by simp
  then show ?thesis
    by (subst find_counter_exact)
      (auto simp: ready_env_def ready_counters_def cluster_counter_def unused_def getCounterClusterId_def intro!: exI [of _ 1])
qed

definition first_recovery_state :: "('z) aeron_consts_scheme \<Rightarrow> counters \<Rightarrow> i32 \<Rightarrow> i32 \<Rightarrow> bool" where
  "first_recovery_state L C clusterId j \<longleftrightarrow> first_hit (maxCounterId C) (recovery_state L C clusterId)
     (\<lambda>i. getCounterState C i = RECORD_UNUSED L \<and> \<not> recovery_counter L C i) 0 j"

text \<open>C31. \<open>RecoveryState::findCounter\<close> answers with the first recovery state of the cluster before the first unused
  slot, and with the null id if and only if there is none; the position, the time and the term that are
  read with the id found are the fields of its key.\<close>

theorem recovery_counter_exact:
  "(findCounter L C clusterId = k \<longleftrightarrow>
      (if \<exists>j. first_recovery_state L C clusterId j then first_recovery_state L C clusterId k
       else k = NULL_COUNTER_ID L))
   \<and> (first_recovery_state L C clusterId k \<longrightarrow>
        getLogPosition L C k = metaInt64 C (metadataOffset L k + KEY_OFFSET L + 8)
      \<and> getTimestamp L C k = metaInt64 C (metadataOffset L k + KEY_OFFSET L + 16)
      \<and> getLeadershipTermId L C k = metaInt64 C (metadataOffset L k + KEY_OFFSET L))"
proof (intro conjI impI)
  show "findCounter L C clusterId = k \<longleftrightarrow>
      (if \<exists>j. first_recovery_state L C clusterId j then first_recovery_state L C clusterId k
       else k = NULL_COUNTER_ID L)"
  proof (cases "\<exists>j. first_recovery_state L C clusterId j")
    case True
    then obtain j where j: "first_recovery_state L C clusterId j" by blast
    have found: "findCounter L C clusterId = j"
      using recovery.scan_finds [OF j [unfolded first_recovery_state_def]] by (simp add: findCounter_def)
    have "k = j" if "first_recovery_state L C clusterId k"
      using first_hit_unique [OF that [unfolded first_recovery_state_def] j [unfolded first_recovery_state_def]] .
    then have "j = k \<longleftrightarrow> first_recovery_state L C clusterId k" using j by blast
    with found True show ?thesis by simp
  next
    case False
    from recovery.scan_misses [OF False [unfolded first_recovery_state_def]] False show ?thesis
      by (auto simp: findCounter_def)
  qed
qed (auto simp: first_recovery_state_def first_hit_def recovery_state_def getLogPosition_def getTimestamp_def
  getLeadershipTermId_def recovery_offsets)

theorem recovery_counter_exact_witness:
  "findCounter ready_env ready_counters 0 = 0 \<and> getLogPosition ready_env ready_counters 0 = 64
     \<and> getTimestamp ready_env ready_counters 0 = 7"
proof -
  have "first_recovery_state ready_env ready_counters 0 0"
    by (simp add: first_recovery_state_def first_hit_def ready_env_def ready_counters_def recovery_state_def recovery_counter_def)
  with recovery_counter_exact [where L = ready_env and C = ready_counters and clusterId = 0 and k = 0]
  have "findCounter ready_env ready_counters 0 = 0"
    "getLogPosition ready_env ready_counters 0 = metaInt64 ready_counters (metadataOffset ready_env 0 + KEY_OFFSET ready_env + 8)"
    "getTimestamp ready_env ready_counters 0 = metaInt64 ready_counters (metadataOffset ready_env 0 + KEY_OFFSET ready_env + 16)"
    by presburger+
  then show ?thesis by (simp add: ready_env_def ready_counters_def)
qed

section \<open>Waiting for a recording\<close>

text \<open>How waiting may end, and one round of the loop: it ends, or goes on from a later state.\<close>

definition wait_ends :: "('b, 'w, 'z) aeron_scheme \<Rightarrow> nat \<Rightarrow> i64 \<Rightarrow> i64 \<Rightarrow> i32 \<Rightarrow> cluster_error + unit \<Rightarrow> 'w \<Rightarrow> bool" where
  "wait_ends L archive recordingId position counterId r w' \<longleftrightarrow> (case r of
      Inr _ \<Rightarrow> \<exists>w1 v. aeron_getCounterValue L counterId w1 = (Inr v, w') \<and> position \<le> v
    | Inl e \<Rightarrow> e = RecordingStopped recordingId
          \<and> (\<exists>w1. RecordingPos_isActive L counterId recordingId w1 = (Inr False, w'))
        \<or> (\<exists>w1. aeron_getCounterValue L counterId w1 = (Inl e, w') \<or> idle_idle L w1 = (Inl e, w')
             \<or> archive_checkForErrorResponse L archive w1 = (Inl e, w')
             \<or> RecordingPos_isActive L counterId recordingId w1 = (Inl e, w')))"

lemma wait_round:
  assumes "bindE (callE (aeron_getCounterValue L k)) (\<lambda>v.
     if v < p then
       bindE (callE (idle_idle L)) (\<lambda>_.
       bindE (callE (archive_checkForErrorResponse L a)) (\<lambda>_.
       bindE (callE (RecordingPos_isActive L k rid)) (\<lambda>active.
       if \<not> active then throwE (RecordingStopped rid) else again)))
     else retE ()) w = Some (r, w')"
  shows "wait_ends L a rid p k r w' \<or> (\<exists>w2. again w2 = Some (r, w'))"
proof -
  from assms consider e w1 where "r = Inl e" "aeron_getCounterValue L k w1 = (Inl e, w')"
    | v where "r = Inr ()" "aeron_getCounterValue L k w = (Inr v, w')" "p \<le> v"
    | w1 where "bindE (callE (idle_idle L)) (\<lambda>_.
       bindE (callE (archive_checkForErrorResponse L a)) (\<lambda>_.
       bindE (callE (RecordingPos_isActive L k rid)) (\<lambda>active.
       if \<not> active then throwE (RecordingStopped rid) else again))) w1 = Some (r, w')"
    unfolding bindE_eq_Some [where m = "callE (aeron_getCounterValue L k)"] by (auto simp: exec_run split: if_splits)
  then show ?thesis
  proof cases
    case 3
    then consider e w2 where "r = Inl e" "idle_idle L w2 = (Inl e, w') \<or> archive_checkForErrorResponse L a w2 = (Inl e, w')
          \<or> RecordingPos_isActive L k rid w2 = (Inl e, w')"
      | w2 where "r = Inl (RecordingStopped rid)" "RecordingPos_isActive L k rid w2 = (Inr False, w')"
      | w2 where "again w2 = Some (r, w')"
      by (auto simp: bindE_eq_Some exec_run split: if_splits)
    then show ?thesis by cases (auto simp: wait_ends_def)
  qed (auto simp: wait_ends_def)
qed

text \<open>Waiting for a recording to complete ends well only when the counter has reached the position; it ends with
  \<open>RecordingStopped\<close> only when the recording has been seen inactive; otherwise a library call has failed.\<close>

theorem await_recording_complete:
  fixes L :: "('b, 'w, 'z) aeron_scheme"
  assumes "awaitRecordingComplete L archive recordingId position counterId w = Some (r, w')"
  shows "case r of
      Inr _ \<Rightarrow> \<exists>w1 v. aeron_getCounterValue L counterId w1 = (Inr v, w') \<and> position \<le> v
    | Inl e \<Rightarrow> e = RecordingStopped recordingId
          \<and> (\<exists>w1. RecordingPos_isActive L counterId recordingId w1 = (Inr False, w'))
        \<or> (\<exists>w1. aeron_getCounterValue L counterId w1 = (Inl e, w') \<or> idle_idle L w1 = (Inl e, w')
             \<or> archive_checkForErrorResponse L archive w1 = (Inl e, w')
             \<or> RecordingPos_isActive L counterId recordingId w1 = (Inl e, w'))"
proof -
  have "wait_ends L archive recordingId position counterId (fst (r, w')) (snd (r, w'))"
  proof (rule awaitRecordingComplete.raw_induct
      [where P = "\<lambda>L a rid p k w y. wait_ends L a rid p k (fst y) (snd y)", OF _ assms], goal_cases)
    case (1 again L a rid p k w y)
    from wait_round [of L k p a rid "again L a rid p k" w "fst y" "snd y"] 1(2) 1(1) show ?case by auto
  qed
  then show ?thesis by (simp add: wait_ends_def)
qed

theorem await_recording_complete_witness:
  "awaitRecordingComplete ready_env 0 9 0 1 5 = Some (Inr (), 5)
     \<and> (\<exists>w1 v. aeron_getCounterValue ready_env 1 w1 = (Inr v, 5) \<and> 0 \<le> v)"
proof -
  have run: "awaitRecordingComplete ready_env 0 9 0 1 5 = Some (Inr (), 5)"
    by (subst awaitRecordingComplete.simps) (simp add: ready_env_def bindE_def exec_run)
  from await_recording_complete [OF run] run show ?thesis by simp
qed

end
