(* ===== verification/IngressEndpoints.thy ===== *)
theory IngressEndpoints
  imports Prelude
begin

text \<open>
  \<open>parseIngressEndpoints\<close> and the map of the members of the cluster it makes
  (\<open>AeronCluster::MemberIngress\<close>, \<open>MemberIngressMap\<close>), with the functions of the standard
  library it uses.
\<close>

section \<open>Strings\<close>

text \<open>\<open>std::string::find\<close> of a character, from a position on; \<open>None\<close> is \<open>npos\<close>.\<close>

fun find_char :: "char \<Rightarrow> string \<Rightarrow> nat option" where
  "find_char c [] = None"
| "find_char c (x # xs) = (if x = c then Some 0 else map_option Suc (find_char c xs))"

definition find_char_from :: "char \<Rightarrow> nat \<Rightarrow> string \<Rightarrow> nat option" where
  "find_char_from c pos s = map_option (\<lambda>i. pos + i) (find_char c (drop pos s))"

text \<open>\<open>std::stoi\<close>: leading white space, a sign, digits; what follows is ignored.\<close>

definition is_space :: "char \<Rightarrow> bool" where
  "is_space c \<longleftrightarrow> of_char c = (32 :: nat) \<or> (9 \<le> (of_char c :: nat) \<and> of_char c \<le> (13 :: nat))"

definition is_digit :: "char \<Rightarrow> bool" where
  "is_digit c \<longleftrightarrow> 48 \<le> (of_char c :: nat) \<and> of_char c \<le> (57 :: nat)"

definition digits_value :: "string \<Rightarrow> int" where
  "digits_value s = foldl (\<lambda>v c. 10 * v + (int (of_char c) - 48)) 0 s"

definition stoi :: "string \<Rightarrow> cluster_error + int" where
  "stoi s =
    (let t = dropWhile is_space s;
         negative = (t \<noteq> [] \<and> hd t = CHR ''-'');
         u = (if t \<noteq> [] \<and> (hd t = CHR ''-'' \<or> hd t = CHR ''+'') then tl t else t);
         ds = takeWhile is_digit u;
         v = (if negative then - digits_value ds else digits_value ds)
     in if ds = [] then Inl StdInvalidArgument
        else if \<not> i32_range v then Inl StdOutOfRange
        else Inr v)"

section \<open>Members\<close>

record member_ingress =
  mi_memberId :: i32
  mi_registrationId :: i64
  mi_endpoint :: string
  mi_publication :: "nat option"

definition new_member_ingress :: "i64 \<Rightarrow> i32 \<Rightarrow> string \<Rightarrow> member_ingress" where
  "new_member_ingress null_value memberId endpoint =
     \<lparr>mi_memberId = memberId, mi_registrationId = null_value, mi_endpoint = endpoint, mi_publication = None\<rparr>"

text \<open>\<open>std::map\<close> as a list in the order of the keys; \<open>insert\<close> leaves an existing entry as it is.\<close>

type_synonym member_map = "(i32 \<times> member_ingress) list"

fun member_insert :: "i32 \<Rightarrow> member_ingress \<Rightarrow> member_map \<Rightarrow> member_map" where
  "member_insert k x [] = [(k, x)]"
| "member_insert k x ((k', x') # xs) =
     (if k < k' then (k, x) # (k', x') # xs
      else if k = k' then (k', x') # xs
      else (k', x') # member_insert k x xs)"

definition member_update :: "i32 \<Rightarrow> (member_ingress \<Rightarrow> member_ingress) \<Rightarrow> member_map \<Rightarrow> member_map" where
  "member_update k f xs = map (\<lambda>(k', x). if k' = k then (k', f x) else (k', x)) xs"

definition member_erase :: "i32 \<Rightarrow> member_map \<Rightarrow> member_map" where
  "member_erase k xs = filter (\<lambda>(k', x). k' \<noteq> k) xs"

section \<open>Parsing\<close>

text \<open>What one round of the loop makes of the text before a comma.\<close>

definition parse_endpoint :: "i64 \<Rightarrow> string \<Rightarrow> string \<Rightarrow> cluster_error + i32 \<times> member_ingress" where
  "parse_endpoint null_value endpoints endpoint =
    (case find_char CHR ''='' endpoint of
       None \<Rightarrow> Inl (EndpointMissingSeparator endpoints)
     | Some sep \<Rightarrow>
         (case stoi (take sep endpoint) of
            Inl e \<Rightarrow> Inl e
          | Inr memberId \<Rightarrow> Inr (memberId, new_member_ingress null_value memberId (drop (sep + 1) endpoint))))"

text \<open>
  The loop. Its step looks for the next comma from the position of the current one on, which is
  where it is: \<open>None\<close> as the result of the whole function is that it does not return.
\<close>

partial_function (option) parse_loop :: "i64 \<Rightarrow> string \<Rightarrow> nat option \<Rightarrow> member_map \<Rightarrow>
    (cluster_error + member_map) option" where
  "parse_loop null_value endpoints pos endpointByIdMap =
     (case pos of
        None \<Rightarrow> Some (Inr endpointByIdMap)
      | Some p \<Rightarrow>
          (case parse_endpoint null_value endpoints (take p endpoints) of
             Inl e \<Rightarrow> Some (Inl e)
           | Inr (memberId, x) \<Rightarrow>
               parse_loop null_value endpoints (find_char_from CHR '','' p endpoints)
                 (member_insert memberId x endpointByIdMap)))"

definition parseIngressEndpoints :: "i64 \<Rightarrow> string \<Rightarrow> (cluster_error + member_map) option" where
  "parseIngressEndpoints null_value endpoints =
     parse_loop null_value endpoints (find_char CHR '','' endpoints) []"

section \<open>Results\<close>

lemma find_char_None: "find_char c s = None \<longleftrightarrow> c \<notin> set s"
  by (induction s) auto

lemma find_char_Some: "find_char c s = Some i \<Longrightarrow> i < length s \<and> s ! i = c \<and> c \<notin> set (take i s)"
  by (induction s arbitrary: i) (auto split: if_splits)

lemma find_char_again:
  assumes "find_char c s = Some p"
  shows "find_char_from c p s = Some p"
proof -
  from find_char_Some [OF assms] have "drop p s = c # drop (Suc p) s"
    by (metis Cons_nth_drop_Suc)
  then show ?thesis by (simp add: find_char_from_def)
qed

text \<open>Once at a comma, the loop stays there.\<close>

lemma parse_loop_stuck:
  assumes p: "find_char CHR '','' endpoints = Some p"
    and e: "parse_endpoint null_value endpoints (take p endpoints) = Inr (memberId, x)"
  shows "parse_loop null_value endpoints (Some p) m = None"
proof (rule ccontr)
  assume "parse_loop null_value endpoints (Some p) m \<noteq> None"
  then obtain y where y: "parse_loop null_value endpoints (Some p) m = Some y" by blast
  let ?P = "\<lambda>n s q m y. \<forall>p' k x. find_char CHR '','' s = Some p' \<and> q = Some p'
      \<and> parse_endpoint n s (take p' s) = Inr (k, x) \<longrightarrow> False"
  have "?P null_value endpoints (Some p) m y"
  proof (rule parse_loop.raw_induct [where P = ?P, OF _ y])
    fix f n s q m y
    assume IH: "\<And>n s q m y. f n s q m = Some y \<Longrightarrow> ?P n s q m y"
      and step: "(case q of None \<Rightarrow> Some (Inr m) | Some p \<Rightarrow> (case parse_endpoint n s (take p s) of
          Inl e \<Rightarrow> Some (Inl e) | Inr (memberId, x) \<Rightarrow>
          f n s (find_char_from CHR '','' p s) (member_insert memberId x m))) = Some y"
    show "?P n s q m y"
    proof (intro allI impI)
      fix p' k x
      assume at: "find_char CHR '','' s = Some p' \<and> q = Some p' \<and> parse_endpoint n s (take p' s) = Inr (k, x)"
      with step have "f n s (Some p') (member_insert k x m) = Some y"
        using find_char_again by auto
      from IH [OF this] at show False by blast
    qed
  qed
  with p e show False by blast
qed

lemma parseIngressEndpoints_result:
  "parseIngressEndpoints null_value endpoints =
    (case find_char CHR '','' endpoints of
       None \<Rightarrow> Some (Inr [])
     | Some p \<Rightarrow>
         (case parse_endpoint null_value endpoints (take p endpoints) of
            Inl e \<Rightarrow> Some (Inl e)
          | Inr _ \<Rightarrow> None))"
proof (cases "find_char CHR '','' endpoints")
  case None
  then show ?thesis by (simp add: parseIngressEndpoints_def parse_loop.simps [of _ _ None])
next
  case (Some p)
  show ?thesis
  proof (cases "parse_endpoint null_value endpoints (take p endpoints)")
    case (Inl e)
    with Some show ?thesis by (simp add: parseIngressEndpoints_def parse_loop.simps [of _ _ "Some p"])
  next
    case (Inr r)
    obtain k x where "r = (k, x)" by (cases r)
    with Inr parse_loop_stuck [OF Some] Some show ?thesis by (simp add: parseIngressEndpoints_def)
  qed
qed

end
