(* ===== verification/ClientConnect.thy ===== *)
theory ClientConnect
  imports Egress IngressEndpoints
begin

text \<open>
  \<open>AeronCluster\<close>: the client's context, the client object and \<open>AsyncConnect\<close>, the state machine
  that connects a client to the cluster. Its steps are numbered as in the source: -1 creates the
  egress subscription, 0 the ingress publications, 1 waits for a publication to be connected, 2
  sends the request, 3 polls for the response, 4 concludes, 5 is done.
\<close>

section \<open>Context\<close>

datatype consumer = DefaultConsumer | UserConsumer nat

record client_context =
  cc_messageTimeoutNs :: i64
  cc_ingressEndpoints :: string
  cc_ingressChannel :: string
  cc_ingressStreamId :: i32
  cc_egressChannel :: string
  cc_egressStreamId :: i32
  cc_aeronDirectoryName :: string
  cc_aeron :: "nat option"
  cc_ownsAeronClient :: bool
  cc_isIngressExclusive :: bool
  cc_errorHandler :: "nat option"
  cc_onNewLeaderEvent :: "consumer option"
  cc_onSessionMessage :: "consumer option"
  cc_onSessionEvent :: "consumer option"
  cc_onAdminResponse :: "consumer option"

text \<open>\<open>Context ctx{}\<close> sets every member to zero or empty.\<close>

definition empty_client_context :: client_context where
  "empty_client_context =
     \<lparr> cc_messageTimeoutNs = 0, cc_ingressEndpoints = [], cc_ingressChannel = [], cc_ingressStreamId = 0,
       cc_egressChannel = [], cc_egressStreamId = 0, cc_aeronDirectoryName = [], cc_aeron = None,
       cc_ownsAeronClient = False, cc_isIngressExclusive = False, cc_errorHandler = None,
       cc_onNewLeaderEvent = None, cc_onSessionMessage = None, cc_onSessionEvent = None,
       cc_onAdminResponse = None \<rparr>"

text \<open>The getter of the timeout does not return what its setter stores.\<close>

definition set_messageTimeoutNs :: "i64 \<Rightarrow> client_context \<Rightarrow> client_context" where
  "set_messageTimeoutNs t c = c\<lparr>cc_messageTimeoutNs := t\<rparr>"

definition messageTimeoutNs :: "client_context \<Rightarrow> i64" where
  "messageTimeoutNs c = 0"

definition set_ingressEndpoints :: "string \<Rightarrow> client_context \<Rightarrow> client_context" where
  "set_ingressEndpoints x c = c\<lparr>cc_ingressEndpoints := x\<rparr>"

definition set_ingressChannel :: "string \<Rightarrow> client_context \<Rightarrow> client_context" where
  "set_ingressChannel x c = c\<lparr>cc_ingressChannel := x\<rparr>"

definition set_ingressStreamId :: "i32 \<Rightarrow> client_context \<Rightarrow> client_context" where
  "set_ingressStreamId x c = c\<lparr>cc_ingressStreamId := x\<rparr>"

definition set_egressChannel :: "string \<Rightarrow> client_context \<Rightarrow> client_context" where
  "set_egressChannel x c = c\<lparr>cc_egressChannel := x\<rparr>"

definition set_egressStreamId :: "i32 \<Rightarrow> client_context \<Rightarrow> client_context" where
  "set_egressStreamId x c = c\<lparr>cc_egressStreamId := x\<rparr>"

definition set_aeronDirectoryName :: "string \<Rightarrow> client_context \<Rightarrow> client_context" where
  "set_aeronDirectoryName x c = c\<lparr>cc_aeronDirectoryName := x\<rparr>"

definition set_aeron :: "nat \<Rightarrow> client_context \<Rightarrow> client_context" where
  "set_aeron x c = c\<lparr>cc_aeron := Some x\<rparr>"

definition set_ownsAeronClient :: "bool \<Rightarrow> client_context \<Rightarrow> client_context" where
  "set_ownsAeronClient x c = c\<lparr>cc_ownsAeronClient := x\<rparr>"

definition set_errorHandler :: "nat \<Rightarrow> client_context \<Rightarrow> client_context" where
  "set_errorHandler x c = c\<lparr>cc_errorHandler := Some x\<rparr>"

definition set_isIngressExclusive :: "bool \<Rightarrow> client_context \<Rightarrow> client_context" where
  "set_isIngressExclusive x c = c\<lparr>cc_isIngressExclusive := x\<rparr>"

definition set_newLeaderEventConsumer :: "consumer \<Rightarrow> client_context \<Rightarrow> client_context" where
  "set_newLeaderEventConsumer x c = c\<lparr>cc_onNewLeaderEvent := Some x\<rparr>"

definition set_sessionMessageConsumer :: "consumer \<Rightarrow> client_context \<Rightarrow> client_context" where
  "set_sessionMessageConsumer x c = c\<lparr>cc_onSessionMessage := Some x\<rparr>"

definition set_sessionEventConsumer :: "consumer \<Rightarrow> client_context \<Rightarrow> client_context" where
  "set_sessionEventConsumer x c = c\<lparr>cc_onSessionEvent := Some x\<rparr>"

definition set_adminResponseConsumer :: "consumer \<Rightarrow> client_context \<Rightarrow> client_context" where
  "set_adminResponseConsumer x c = c\<lparr>cc_onAdminResponse := Some x\<rparr>"

definition default_consumer :: "consumer option \<Rightarrow> consumer option" where
  "default_consumer x = (case x of None \<Rightarrow> Some DefaultConsumer | Some y \<Rightarrow> Some y)"

definition client_conclude :: "('b, 'w, 'z) aeron_scheme \<Rightarrow> (client_context \<times> 'w, unit) exec" where
  "client_conclude L =
     bindE (getsE fst) (\<lambda>c.
     bindE (whenE (cc_aeron c = None)
       (bindE (zoomE snd (\<lambda>w (c, _). (c, w)) (callE (aeron_connect L (cc_aeronDirectoryName c) None))) (\<lambda>a.
        modifyE (\<lambda>(c, w). (c\<lparr>cc_aeron := Some a, cc_ownsAeronClient := True\<rparr>, w))))) (\<lambda>_.
     modifyE (\<lambda>(c, w). (c\<lparr>cc_onSessionMessage := default_consumer (cc_onSessionMessage c),
       cc_onSessionEvent := default_consumer (cc_onSessionEvent c),
       cc_onNewLeaderEvent := default_consumer (cc_onNewLeaderEvent c),
       cc_onAdminResponse := default_consumer (cc_onAdminResponse c)\<rparr>, w))))"

section \<open>State\<close>

record aeron_cluster =
  cl_ctx :: client_context
  cl_clusterSessionId :: i64
  cl_leadershipTermId :: i64
  cl_leaderMemberId :: i32
  cl_isClosed :: bool
  cl_subscription :: "sub option"
  cl_egressImage :: image
  cl_publication :: "pub option"
  cl_memberByIdMap :: member_map

text \<open>The constructor does not initialise \<open>m_leaderMemberId\<close> and \<open>m_isClosed\<close>.\<close>

definition new_aeron_cluster :: "client_context \<Rightarrow> pub option \<Rightarrow> sub option \<Rightarrow> image \<Rightarrow> member_map \<Rightarrow>
    i64 \<Rightarrow> i64 \<Rightarrow> i32 \<Rightarrow> i32 \<Rightarrow> bool \<Rightarrow> aeron_cluster" where
  "new_aeron_cluster ctx publication subscription img members clusterSessionId leadershipTermId
      leaderMemberId uninit_id uninit_closed =
     \<lparr> cl_ctx = ctx, cl_clusterSessionId = clusterSessionId, cl_leadershipTermId = leadershipTermId,
       cl_leaderMemberId = uninit_id, cl_isClosed = uninit_closed, cl_subscription = subscription,
       cl_egressImage = img, cl_publication = publication, cl_memberByIdMap = members \<rparr>"

record ('b, 'w) client_connect =
  cn_deadlineNs :: i64
  cn_ctx :: "client_context option"
  cn_correlationId :: i64
  cn_clusterSessionId :: i64
  cn_leadershipTermId :: i64
  cn_leaderMemberId :: i32
  cn_step :: int
  cn_messageLength :: i64
  cn_egressSubscription :: "sub option"
  cn_egressPoller :: "egress_poller option"
  cn_egressRegistrationId :: i64
  cn_memberByIdMap :: member_map
  cn_ingressRegistrationId :: i64
  cn_ingressPublication :: "pub option"
  cn_egressImage :: "image option"
  cn_buffer :: "'b option"
  cn_world :: 'w

definition cn_call :: "('w, 'a) call \<Rightarrow> (('b, 'w) client_connect, 'a) exec" where
  "cn_call c = zoomE cn_world (\<lambda>w s. s\<lparr>cn_world := w\<rparr>) (callE c)"

abbreviation cn_modify :: "(('b, 'w) client_connect \<Rightarrow> ('b, 'w) client_connect) \<Rightarrow>
    (('b, 'w) client_connect, unit) exec" where
  "cn_modify f \<equiv> modifyE f"

text \<open>Using a pointer held by the state.\<close>

definition cn_deref :: "string \<Rightarrow> (('b, 'w) client_connect \<Rightarrow> 'a option) \<Rightarrow>
    (('b, 'w) client_connect, 'a) exec" where
  "cn_deref what f = bindE (getsE f) (derefE what)"

definition set_step :: "int \<Rightarrow> (('b, 'w) client_connect, unit) exec" where
  "set_step n = modifyE (\<lambda>s. s\<lparr>cn_step := n\<rparr>)"

text \<open>
  \<open>asyncConnect\<close>: the constructor leaves the session id, the term and the leader uninitialised;
  they are the arguments \<open>i\<close>, \<open>t\<close> and \<open>m\<close>.
\<close>

definition new_client_connect :: "('b, 'w, 'z) aeron_scheme \<Rightarrow> client_context \<Rightarrow> i64 \<Rightarrow> i64 \<Rightarrow> i64 \<Rightarrow>
    i32 \<Rightarrow> 'w \<Rightarrow> ('b, 'w) client_connect" where
  "new_client_connect L ctx deadlineNs i t m w =
     \<lparr> cn_deadlineNs = deadlineNs, cn_ctx = Some ctx, cn_correlationId = NULL_VALUE L,
       cn_clusterSessionId = i, cn_leadershipTermId = t, cn_leaderMemberId = m, cn_step = -1,
       cn_messageLength = 0, cn_egressSubscription = None, cn_egressPoller = None,
       cn_egressRegistrationId = NULL_VALUE L, cn_memberByIdMap = [],
       cn_ingressRegistrationId = NULL_VALUE L, cn_ingressPublication = None, cn_egressImage = None,
       cn_buffer = None, cn_world = w \<rparr>"

definition client_asyncConnect :: "('b, 'w, 'z) aeron_scheme \<Rightarrow>
    (client_context \<times> 'w, ('b, 'w) client_connect) exec" where
  "client_asyncConnect L =
     bindE (client_conclude L) (\<lambda>_.
     bindE (zoomE snd (\<lambda>w (c, _). (c, w)) (callE (systemNanoClock L))) (\<lambda>nowNs.
     bindE (getsE id) (\<lambda>(ctx, w).
     retE (new_client_connect L ctx (nowNs + messageTimeoutNs ctx)
       (uninit_int L Client_clusterSessionId w) (uninit_int L Client_leadershipTermId w)
       (uninit_int L Client_leaderMemberId w) w))))"

section \<open>The deadline\<close>

definition checkDeadline :: "('b, 'w, 'z) aeron_scheme \<Rightarrow> (('b, 'w) client_connect, unit) exec" where
  "checkDeadline L =
     bindE (getsE cn_deadlineNs) (\<lambda>deadlineNs.
     whenE (deadlineNs < 0)
       (bindE (getsE cn_egressSubscription) (\<lambda>subscription.
        bindE (case subscription of
                 None \<Rightarrow> retE ()
               | Some q \<Rightarrow> bindE (cn_call (sub_isConnected L q)) (\<lambda>_.
                   bindE (cn_call (sub_tryResolveChannelEndpointPort L q)) (\<lambda>_. retE ()))) (\<lambda>_.
        bindE (cn_deref ''m_ctx'' cn_ctx) (\<lambda>_.
        bindE (cn_deref ''m_ingressPublication'' cn_ingressPublication) (\<lambda>_.
        throwE ConnectTimeout))))))"

section \<open>Steps\<close>

definition createEgressSubscription :: "('b, 'w, 'z) client_env_scheme \<Rightarrow>
    (('b, 'w) client_connect, unit) exec" where
  "createEgressSubscription L =
     bindE (cn_deref ''m_ctx'' cn_ctx) (\<lambda>ctx.
     bindE (getsE cn_egressRegistrationId) (\<lambda>registrationId.
     bindE (whenE (NULL_VALUE L = registrationId)
       (bindE (cn_call (aeron_addSubscription L (cc_egressChannel ctx) (cc_egressStreamId ctx))) (\<lambda>i.
        cn_modify (\<lambda>s. s\<lparr>cn_egressRegistrationId := i\<rparr>)))) (\<lambda>_.
     bindE (getsE cn_egressRegistrationId) (\<lambda>registrationId.
     bindE (cn_call (aeron_findSubscription L registrationId)) (\<lambda>subscription.
     bindE (cn_modify (\<lambda>s. s\<lparr>cn_egressSubscription := subscription\<rparr>)) (\<lambda>_.
     case subscription of
       None \<Rightarrow> retE ()
     | Some q \<Rightarrow>
         bindE (cn_modify (\<lambda>s. s\<lparr>cn_egressPoller :=
           Some (new_egress_poller q 10 (uninit_poller L (cn_world s)))\<rparr>)) (\<lambda>_.
         set_step 0)))))))"

text \<open>One member of the loop in \<open>createIngressPublications\<close>; whether it has a publication.\<close>

definition member_get :: "i32 \<Rightarrow> (member_ingress \<Rightarrow> 'a) \<Rightarrow> (('b, 'w) client_connect, 'a) exec" where
  "member_get k f =
     bindE (getsE (\<lambda>s. map_of (cn_memberByIdMap s) k)) (\<lambda>x. bindE (derefE ''member'' x) (\<lambda>x. retE (f x)))"

definition member_set :: "i32 \<Rightarrow> (member_ingress \<Rightarrow> member_ingress) \<Rightarrow>
    (('b, 'w) client_connect, unit) exec" where
  "member_set k f = modifyE (\<lambda>s. s\<lparr>cn_memberByIdMap := member_update k f (cn_memberByIdMap s)\<rparr>)"

definition create_member :: "('b, 'w, 'z) aeron_scheme \<Rightarrow> client_context \<Rightarrow> i32 \<Rightarrow>
    (('b, 'w) client_connect, bool) exec" where
  "create_member L ctx k =
     bindE (liftE (ChannelUri_media L (cc_ingressChannel ctx))) (\<lambda>media.
     bindE (member_get k mi_endpoint) (\<lambda>endpoint.
     bindE (member_get k mi_registrationId) (\<lambda>registrationId.
     bindE (whenE (NULL_VALUE L = registrationId)
       (bindE (cn_call (aeron_addPublication L
           (ChannelUri_toString L (cc_ingressChannel ctx) (if media = UDP_MEDIA L then Some endpoint else None))
           (cc_ingressStreamId ctx))) (\<lambda>i.
        member_set k (\<lambda>x. x\<lparr>mi_registrationId := i\<rparr>)))) (\<lambda>_.
     bindE (member_get k mi_publication) (\<lambda>publication.
     bindE (whenE (publication = None)
       (bindE (member_get k mi_registrationId) (\<lambda>registrationId.
        bindE (cn_call (aeron_findExclusivePublication L registrationId)) (\<lambda>found.
        member_set k (\<lambda>x. x\<lparr>mi_publication := found\<rparr>))))) (\<lambda>_.
     member_get k (\<lambda>x. mi_publication x \<noteq> None)))))))"

fun create_members :: "('b, 'w, 'z) aeron_scheme \<Rightarrow> client_context \<Rightarrow> i32 list \<Rightarrow> int \<Rightarrow>
    (('b, 'w) client_connect, int) exec" where
  "create_members L ctx [] count = retE count"
| "create_members L ctx (k # ks) count =
     bindE (catchE (create_member L ctx k)
              (\<lambda>e. if e = RegistrationException then retE False else throwE e)) (\<lambda>has.
     create_members L ctx ks (if has then count + 1 else count))"

definition createIngressPublications :: "('b, 'w, 'z) aeron_scheme \<Rightarrow>
    (('b, 'w) client_connect, unit) exec" where
  "createIngressPublications L =
     bindE (cn_deref ''m_ctx'' cn_ctx) (\<lambda>ctx.
     if cc_ingressEndpoints ctx = [] then
       bindE (getsE cn_ingressRegistrationId) (\<lambda>registrationId.
       bindE (whenE (NULL_VALUE L = registrationId)
         (bindE (cn_call (aeron_addPublication L (cc_ingressChannel ctx) (cc_ingressStreamId ctx))) (\<lambda>i.
          cn_modify (\<lambda>s. s\<lparr>cn_ingressRegistrationId := i\<rparr>)))) (\<lambda>_.
       bindE (getsE id) (\<lambda>s.
       bindE (whenE (cn_ingressPublication s = None)
         (bindE (cn_call (aeron_findExclusivePublication L (cn_ingressRegistrationId s))) (\<lambda>found.
          cn_modify (\<lambda>s. s\<lparr>cn_ingressPublication := found\<rparr>)))) (\<lambda>_.
       bindE (getsE cn_ingressPublication) (\<lambda>publication.
       whenE (publication \<noteq> None)
         (bindE (cn_modify (\<lambda>s. s\<lparr>cn_ingressRegistrationId := NULL_VALUE L\<rparr>)) (\<lambda>_. set_step 1)))))))
     else
       bindE (liftE (ChannelUri_media L (cc_ingressChannel ctx))) (\<lambda>_.
       bindE (getsE (\<lambda>s. map fst (cn_memberByIdMap s))) (\<lambda>ks.
       bindE (create_members L ctx ks 0) (\<lambda>publicationCount.
       whenE (publicationCount = int (length ks)) (set_step 1)))))"

definition prepareConnectRequest :: "('b, 'w, 'z) client_env_scheme \<Rightarrow> string \<Rightarrow>
    (('b, 'w) client_connect, unit) exec" where
  "prepareConnectRequest L responseChannel =
     bindE (cn_call (aeron_nextCorrelationId L)) (\<lambda>i.
     bindE (cn_modify (\<lambda>s. s\<lparr>cn_correlationId := i\<rparr>)) (\<lambda>_.
     bindE (cn_call (credentials_encoded L)) (\<lambda>encodedCredentials.
     bindE (cn_deref ''m_ctx'' cn_ctx) (\<lambda>ctx.
     let request = SessionConnectRequest i (cc_egressStreamId ctx) 0 responseChannel encodedCredentials in
     bindE (liftE (client_encode L request)) (\<lambda>buffer.
     bindE (cn_modify (\<lambda>s. s\<lparr>cn_buffer := Some buffer,
       cn_messageLength := MessageHeader_encodedLength L + client_encodedLength L request\<rparr>)) (\<lambda>_.
     set_step 2))))))"

text \<open>The first member whose publication is connected, in the order of the map.\<close>

fun connect_member :: "('b, 'w, 'z) client_env_scheme \<Rightarrow> string \<Rightarrow> i32 list \<Rightarrow>
    (('b, 'w) client_connect, unit) exec" where
  "connect_member L responseChannel [] = retE ()"
| "connect_member L responseChannel (k # ks) =
     bindE (member_get k mi_publication) (\<lambda>publication.
     bindE (case publication of
              None \<Rightarrow> retE False
            | Some p \<Rightarrow> cn_call (pub_isConnected L p)) (\<lambda>connected.
     if connected then
       bindE (cn_modify (\<lambda>s. s\<lparr>cn_ingressPublication := publication\<rparr>)) (\<lambda>_.
       prepareConnectRequest L responseChannel)
     else connect_member L responseChannel ks))"

definition awaitPublicationConnected :: "('b, 'w, 'z) client_env_scheme \<Rightarrow>
    (('b, 'w) client_connect, unit) exec" where
  "awaitPublicationConnected L =
     bindE (cn_deref ''m_egressSubscription'' cn_egressSubscription) (\<lambda>q.
     bindE (cn_call (sub_tryResolveChannelEndpointPort L q)) (\<lambda>responseChannel.
     whenE (responseChannel \<noteq> [])
       (bindE (getsE cn_ingressPublication) (\<lambda>publication.
        case publication of
          None \<Rightarrow>
            bindE (getsE (\<lambda>s. map fst (cn_memberByIdMap s))) (\<lambda>ks.
            connect_member L responseChannel ks)
        | Some p \<Rightarrow>
            bindE (cn_call (pub_isConnected L p)) (\<lambda>connected.
            whenE connected (prepareConnectRequest L responseChannel))))))"

definition sendMessage :: "('b, 'w, 'z) codecs_scheme \<Rightarrow> (('b, 'w) client_connect, unit) exec" where
  "sendMessage L =
     bindE (cn_deref ''m_ingressPublication'' cn_ingressPublication) (\<lambda>p.
     bindE (cn_deref ''m_buffer'' cn_buffer) (\<lambda>b.
     bindE (getsE cn_messageLength) (\<lambda>messageLength.
     bindE (cn_call (pub_offer L p (buffer_view L b messageLength))) (\<lambda>result.
     if result > 0 then set_step 3
     else if PUBLICATION_CLOSED L = result \<or> NOT_CONNECTED L = result then throwE LostClusterConnection
     else retE ()))))"

definition prepareChallengeResponse :: "('b, 'w, 'z) client_env_scheme \<Rightarrow> string \<Rightarrow>
    (('b, 'w) client_connect, unit) exec" where
  "prepareChallengeResponse L encodedCredentials =
     bindE (cn_call (aeron_nextCorrelationId L)) (\<lambda>i.
     bindE (cn_modify (\<lambda>s. s\<lparr>cn_correlationId := i\<rparr>)) (\<lambda>_.
     bindE (getsE cn_clusterSessionId) (\<lambda>clusterSessionId.
     let response = ChallengeResponse i clusterSessionId encodedCredentials in
     bindE (liftE (client_encode L response)) (\<lambda>buffer.
     bindE (cn_modify (\<lambda>s. s\<lparr>cn_buffer := Some buffer,
       cn_messageLength := MessageHeader_encodedLength L + client_encodedLength L response\<rparr>)) (\<lambda>_.
     set_step 2)))))"

definition close_member :: "('b, 'w, 'z) aeron_scheme \<Rightarrow> member_ingress \<Rightarrow>
    (('b, 'w) client_connect, unit) exec" where
  "close_member L x =
     (case mi_publication x of None \<Rightarrow> retE () | Some p \<Rightarrow> cn_call (pub_close L p))"

text \<open>
  Replacing the map destroys the old entries, whose destructors close their publications. The
  parse may not return, and then this does not either.
\<close>

definition updateMembers :: "('b, 'w, 'z) aeron_scheme \<Rightarrow> (('b, 'w) client_connect, unit) exec" where
  "updateMembers L =
     bindE (cn_deref ''m_egressPoller'' cn_egressPoller) (\<lambda>poller.
     bindE (cn_modify (\<lambda>s. s\<lparr>cn_leaderMemberId := ep_leaderMemberId poller,
       cn_ingressRegistrationId := NULL_VALUE L\<rparr>)) (\<lambda>_.
     bindE (getsE cn_ingressPublication) (\<lambda>publication.
     bindE (case publication of
              None \<Rightarrow> retE ()
            | Some p \<Rightarrow> bindE (cn_call (pub_close L p)) (\<lambda>_.
                cn_modify (\<lambda>s. s\<lparr>cn_ingressPublication := None\<rparr>))) (\<lambda>_.
     (\<lambda>s. case parseIngressEndpoints (NULL_VALUE L) (ep_detail poller) of
        None \<Rightarrow> None
      | Some r \<Rightarrow>
          bindE (liftE r) (\<lambda>members.
          bindE (getsE (\<lambda>s. map snd (cn_memberByIdMap s))) (\<lambda>old.
          bindE (for_each (close_member L) old) (\<lambda>_.
          bindE (cn_modify (\<lambda>s. s\<lparr>cn_memberByIdMap := members\<rparr>)) (\<lambda>_.
          set_step 1)))) s)))))"

text \<open>Running a method of the poller.\<close>

definition pollerE :: "(egress_poller \<times> 'w, 'a) exec \<Rightarrow> (('b, 'w) client_connect, 'a) exec" where
  "pollerE m =
     bindE (cn_deref ''m_egressPoller'' cn_egressPoller) (\<lambda>p.
     zoomE (\<lambda>s. (p, cn_world s)) (\<lambda>(p, w) s. s\<lparr>cn_egressPoller := Some p, cn_world := w\<rparr>) m)"

definition pollResponse :: "('b, 'w, 'z) client_env_scheme \<Rightarrow> (('b, 'w) client_connect, unit) exec" where
  "pollResponse L =
     bindE (pollerE (poller_poll L)) (\<lambda>n.
     bindE (cn_deref ''m_egressPoller'' cn_egressPoller) (\<lambda>poller.
     bindE (getsE cn_correlationId) (\<lambda>correlationId.
     whenE (n > 0 \<and> ep_isPollComplete poller \<and> ep_correlationId poller = correlationId)
       (if ep_isChallenged poller then
          bindE (cn_modify (\<lambda>s. s\<lparr>cn_correlationId := NULL_VALUE L,
            cn_clusterSessionId := ep_clusterSessionId poller\<rparr>)) (\<lambda>_.
          bindE (cn_call (credentials_onChallenge L (ep_encodedChallenge poller))) (\<lambda>encodedCredentials.
          prepareChallengeResponse L encodedCredentials))
        else
          (case ep_eventCode poller of
             EC_OK \<Rightarrow>
               bindE (cn_modify (\<lambda>s. s\<lparr>cn_leadershipTermId := poller_leadershipTermId poller,
                 cn_leaderMemberId := ep_leaderMemberId poller,
                 cn_clusterSessionId := ep_clusterSessionId poller\<rparr>)) (\<lambda>_.
               bindE (derefE ''m_egressImage'' (ep_egressImage poller)) (\<lambda>img.
               bindE (cn_modify (\<lambda>s. s\<lparr>cn_egressImage := Some img\<rparr>)) (\<lambda>_.
               set_step 4)))
           | EC_ERROR \<Rightarrow> throwE (ClusterRejected (ep_detail poller))
           | EC_REDIRECT \<Rightarrow> updateMembers L
           | EC_AUTHENTICATION_REJECTED \<Rightarrow> throwE (ClusterRejected (ep_detail poller))
           | EC_CLOSED \<Rightarrow> retE ()
           | EC_NULL_VALUE \<Rightarrow> retE ())))))"

definition concludeConnect :: "('b, 'w, 'z) aeron_scheme \<Rightarrow>
    (('b, 'w) client_connect, aeron_cluster option) exec" where
  "concludeConnect L =
     bindE (getsE cn_ingressPublication) (\<lambda>publication.
     case publication of
       None \<Rightarrow>
         bindE (cn_deref ''m_ctx'' cn_ctx) (\<lambda>_.
         bindE (getsE cn_ingressRegistrationId) (\<lambda>registrationId.
         bindE (cn_call (aeron_findExclusivePublication L registrationId)) (\<lambda>found.
         bindE (cn_modify (\<lambda>s. s\<lparr>cn_ingressPublication := found\<rparr>)) (\<lambda>_. retE None))))
     | Some _ \<Rightarrow>
         bindE (cn_deref ''m_ctx'' cn_ctx) (\<lambda>ctx.
         bindE (cn_deref ''m_egressImage'' cn_egressImage) (\<lambda>img.
         bindE (getsE id) (\<lambda>s.
         let cluster = new_aeron_cluster ctx publication (cn_egressSubscription s) img (cn_memberByIdMap s)
           (cn_clusterSessionId s) (cn_leadershipTermId s) (cn_leaderMemberId s)
           (uninit_int L Cluster_leaderMemberId (cn_world s)) (uninit_bool L Cluster_isClosed (cn_world s)) in
         bindE (cn_modify (\<lambda>s. s\<lparr>cn_ctx := None, cn_ingressPublication := None,
           cn_egressSubscription := None\<rparr>)) (\<lambda>_.
         bindE (case map_of (cn_memberByIdMap s) (cn_leaderMemberId s) of
                  None \<Rightarrow> retE ()
                | Some x \<Rightarrow> close_member L x) (\<lambda>_.
         bindE (cn_modify (\<lambda>s. s\<lparr>cn_memberByIdMap :=
           member_erase (cn_leaderMemberId s) (cn_memberByIdMap s)\<rparr>)) (\<lambda>_.
         bindE (set_step 5) (\<lambda>_.
         retE (Some cluster)))))))))"

definition client_connect_poll :: "('b, 'w, 'z) client_env_scheme \<Rightarrow>
    (('b, 'w) client_connect, aeron_cluster option) exec" where
  "client_connect_poll L =
     bindE (checkDeadline L) (\<lambda>_.
     bindE (getsE cn_step) (\<lambda>step.
     if step = -1 then bindE (createEgressSubscription L) (\<lambda>_. retE None)
     else if step = 0 then bindE (createIngressPublications L) (\<lambda>_. retE None)
     else if step = 1 then bindE (awaitPublicationConnected L) (\<lambda>_. retE None)
     else if step = 2 then bindE (sendMessage L) (\<lambda>_. retE None)
     else if step = 3 then bindE (pollResponse L) (\<lambda>_. retE None)
     else if step = 4 then concludeConnect L
     else retE None))"

text \<open>\<open>AsyncConnect::close\<close>; a member's \<open>close\<close> also resets it.\<close>

definition client_connect_close :: "('b, 'w, 'z) aeron_scheme \<Rightarrow> (('b, 'w) client_connect, unit) exec" where
  "client_connect_close L =
     bindE (getsE cn_step) (\<lambda>step.
     whenE (5 \<noteq> step)
       (bindE (cn_deref ''m_ingressPublication'' cn_ingressPublication) (\<lambda>p.
        bindE (cn_call (pub_close L p)) (\<lambda>_.
        bindE (cn_deref ''m_egressSubscription'' cn_egressSubscription) (\<lambda>q.
        bindE (cn_call (sub_closeAndRemoveImages L q)) (\<lambda>_.
        bindE (getsE cn_memberByIdMap) (\<lambda>members.
        for_each (\<lambda>(k, x). bindE (close_member L x) (\<lambda>_.
          member_set k (\<lambda>x. x\<lparr>mi_publication := None, mi_registrationId := NULL_VALUE L\<rparr>))) members)))))))"

definition stepName :: "int \<Rightarrow> string" where
  "stepName step =
     (if step = -1 then ''CREATE_EGRESS_SUBSCRIPTION''
      else if step = 0 then ''CREATE_INGRESS_PUBLICATIONS''
      else if step = 1 then ''AWAIT_PUBLICATION_CONNECTED''
      else if step = 2 then ''SEND_MESSAGE''
      else if step = 3 then ''POLL_RESPONSE''
      else if step = 4 then ''CONCLUDE_CONNECT''
      else if step = 5 then ''DONE''
      else ''<unknown>'')"

section \<open>The client program\<close>

text \<open>\<open>client/main.cpp\<close>: polls until a client is handed out, and ends; the client goes with it.\<close>

definition client_main_context :: client_context where
  "client_main_context =
     set_messageTimeoutNs (1000 * 1000 * 60)
       (set_egressStreamId 2 (set_egressChannel ''aeron:ipc''
         (set_ingressStreamId 1 (set_ingressChannel ''aeron:ipc''
           (set_aeronDirectoryName ''./aeronDir'' empty_client_context)))))"

partial_function (option) client_wait :: "('b, 'w, 'z) client_env_scheme \<Rightarrow> ('b, 'w) client_connect \<Rightarrow>
    ((cluster_error + aeron_cluster) \<times> ('b, 'w) client_connect) option" where
  "client_wait L s =
     bindE (client_connect_poll L) (\<lambda>cluster.
     case cluster of None \<Rightarrow> client_wait L | Some x \<Rightarrow> retE x) s"

definition client_main :: "('b, 'w, 'z) client_env_scheme \<Rightarrow> ('w, unit) exec" where
  "client_main L w =
     (case client_asyncConnect L (client_main_context, w) of
        None \<Rightarrow> None
      | Some (Inl e, (_, w1)) \<Rightarrow> Some (Inl e, w1)
      | Some (Inr s, _) \<Rightarrow> map_option (\<lambda>(r, s'). (map_sum id (\<lambda>_. ()) r, cn_world s')) (client_wait L s))"

end
