(* ===== verification/EgressProperties.thy ===== *)
theory EgressProperties
  imports Egress Demo
begin

text \<open>
  The egress stream as a client sees it: while connecting, one response per poll; once connected,
  the messages of its own session only.
\<close>

section \<open>The poller\<close>

lemma poller_set_run: "poller_set f (p, w) = Some (Inr (), (f p, w))"
  by (simp add: poller_set_def exec_run)

text \<open>A complete poll takes no further fragment.\<close>

lemma poller_complete_aborts:
  "ep_isPollComplete p \<Longrightarrow> poller_onFragment L f (p, w) = Some (Inr ABORT, (p, w))"
  by (simp add: poller_onFragment_def bindE_run exec_run Let_def)

text \<open>
  What a fragment of the egress stream is, told from its bytes alone: one of the four responses a poll waits for, or
  another message (\<open>Inr None\<close>), if it decodes.
\<close>

datatype egress_response =
    MessageResponse session_message_header
  | EventResponse session_event
  | LeaderResponse new_leader_event
  | ChallengedResponse challenge_msg

definition decoded_rest :: "('b, 'w, 'z) codecs_scheme \<Rightarrow> ('b, 'm) decoder \<Rightarrow> message_header \<Rightarrow> 'b fragment \<Rightarrow>
    cluster_error + 'm" where
  "decoded_rest L wrap h f = wrap (frag_buffer f) 0 (frag_offset f + MessageHeader_encodedLength L)
     (rest_length L (frag_length f)) (mh_blockLength h) (mh_version h)"

definition response_with :: "('b, 'w, 'z) codecs_scheme \<Rightarrow> message_header \<Rightarrow> 'b fragment \<Rightarrow>
    cluster_error + egress_response option" where
  "response_with L h f =
    (let templateId = mh_templateId h in
     if templateId = SessionMessageHeader_sbeTemplateId L then map_sum id (Some \<circ> MessageResponse) (decoded_rest L (SessionMessageHeader_wrap L) h f)
     else if templateId = SessionEvent_sbeTemplateId L then map_sum id (Some \<circ> EventResponse) (decoded_rest L (SessionEvent_wrap L) h f)
     else if templateId = NewLeaderEvent_sbeTemplateId L then map_sum id (Some \<circ> LeaderResponse) (decoded_rest L (NewLeaderEvent_wrap L) h f)
     else if templateId = Challenge_sbeTemplateId L then map_sum id (Some \<circ> ChallengedResponse) (decoded_rest L (Challenge_wrap L) h f)
     else Inr None)"

definition response_of :: "('b, 'w, 'z) codecs_scheme \<Rightarrow> 'b fragment \<Rightarrow> cluster_error + egress_response option" where
  "response_of L f =
    (case MessageHeader_wrap L (frag_buffer f) (frag_offset f) (to_u64 (frag_length f)) (MessageHeader_sbeSchemaVersion L) of
       Inl e \<Rightarrow> Inl e
     | Inr h \<Rightarrow>
       if mh_schemaId h \<noteq> MessageHeader_sbeSchemaId L
       then Inl (ThrownPointer (UnexpectedSchemaId (MessageHeader_sbeSchemaId L) (mh_schemaId h)))
       else response_with L h f)"

text \<open>What a poller reads after a response.\<close>

fun shows_response :: "egress_response \<Rightarrow> image \<Rightarrow> egress_poller \<Rightarrow> bool" where
  "shows_response (MessageResponse m) i p \<longleftrightarrow>
     ep_leadershipTermId p = smh_leadershipTermId m \<and> ep_clusterSessionId p = smh_clusterSessionId m"
| "shows_response (EventResponse m) i p \<longleftrightarrow>
     ep_clusterSessionId p = se_clusterSessionId m \<and> ep_correlationId p = se_correlationId m
     \<and> ep_leadershipTermId p = se_leadershipTermId m \<and> ep_leaderMemberId p = se_leaderMemberId m
     \<and> ep_eventCode p = se_code m \<and> ep_version p = se_version m \<and> ep_detail p = c_string (se_detail m)
     \<and> ep_egressImage p = Some i"
| "shows_response (LeaderResponse m) i p \<longleftrightarrow>
     ep_clusterSessionId p = ne_clusterSessionId m \<and> ep_leadershipTermId p = ne_leadershipTermId m
     \<and> ep_leaderMemberId p = ne_leaderMemberId m \<and> ep_detail p = c_string (ne_ingressEndpoints m)"
| "shows_response (ChallengedResponse m) i p \<longleftrightarrow>
     ep_encodedChallenge p = (Some (ch_encodedChallenge m), ch_lengthAfter m)
     \<and> ep_clusterSessionId p = ch_clusterSessionId m \<and> ep_correlationId p = ch_correlationId m"

lemma header_of_response:
  assumes "response_of L f = Inr r"
  obtains h where "header_is L (frag_buffer f) (frag_offset f) (frag_length f) h" "response_with L h f = Inr r"
  using assms by (auto simp: response_of_def header_is_def split: sum.splits if_splits)

lemma poller_header_of_is: "header_is L b i n h \<Longrightarrow> poller_header_of L b i n s = Some (Inr h, s)"
  by (simp add: poller_header_of_def header_is_def bindE_def exec_run)

text \<open>A response ends the poll; any other message leaves it going.\<close>

lemma poller_takes_response:
  assumes "response_of L f = Inr (Some r)" "\<not> ep_isPollComplete p"
  obtains q where "\<And>w. poller_onFragment L f (p, w) = Some (Inr BREAK, (q, w))" "ep_isPollComplete q"
    "shows_response r (fh_context (frag_header f)) q"
proof -
  from assms(1) obtain h where h: "header_is L (frag_buffer f) (frag_offset f) (frag_length f) h"
    "response_with L h f = Inr (Some r)" by (elim header_of_response)
  have "\<exists>q. (\<forall>w. poller_onFragment L f (p, w) = Some (Inr BREAK, (q, w))) \<and> ep_isPollComplete q
      \<and> shows_response r (fh_context (frag_header f)) q"
    using h(2) assms(2)
    by (auto simp: poller_onFragment_def Let_def bindE_def exec_run poller_header_of_is [OF h(1)] poller_set_def response_with_def decoded_rest_def
      decode_from_def map_sum_def split: if_splits sum.splits)
  with that show ?thesis by blast
qed

lemma poller_skips_other:
  assumes "response_of L f = Inr None" "\<not> ep_isPollComplete p"
  obtains q where "\<And>w. poller_onFragment L f (p, w) = Some (Inr CONTINUE, (q, w))" "\<not> ep_isPollComplete q"
proof -
  from assms(1) obtain h where h: "header_is L (frag_buffer f) (frag_offset f) (frag_length f) h"
    "response_with L h f = Inr None" by (elim header_of_response)
  have "poller_onFragment L f (p, w) = Some (Inr CONTINUE, (p\<lparr>ep_templateId := mh_templateId h\<rparr>, w))" for w
    using h(2) assms(2)
    by (auto simp: poller_onFragment_def Let_def bindE_def exec_run poller_header_of_is [OF h(1)] poller_set_def response_with_def map_sum_def
      split: if_splits sum.splits)
  with assms(2) that [of "p\<lparr>ep_templateId := mh_templateId h\<rparr>"] show ?thesis by simp
qed

text \<open>So a batch is taken up to and including its first response.\<close>

lemma deliver_first_response:
  assumes "\<forall>g\<in>set gs. response_of L g = Inr None" "response_of L f = Inr (Some r)" "\<not> ep_isPollComplete p"
  shows "\<exists>q. ep_isPollComplete q \<and> shows_response r (fh_context (frag_header f)) q
    \<and> (\<forall>finish on_throw k w. deliver (poller_onFragment L) finish on_throw k (gs @ f # fs) (p, w) = finish (Suc (k + length gs)) (q, w))"
  using assms
proof (induction gs arbitrary: p)
  case Nil
  from poller_takes_response [OF Nil(2,3)] obtain q where "\<And>w. poller_onFragment L f (p, w) = Some (Inr BREAK, (q, w))"
    "ep_isPollComplete q" "shows_response r (fh_context (frag_header f)) q" by metis
  then show ?case by (intro exI [of _ q]) (simp add: attemptE_def)
next
  case (Cons g gs)
  then obtain p' where p': "\<And>w. poller_onFragment L g (p, w) = Some (Inr CONTINUE, (p', w))" "\<not> ep_isPollComplete p'"
    by (auto elim: poller_skips_other)
  with Cons obtain q where "ep_isPollComplete q" "shows_response r (fh_context (frag_header f)) q"
    "\<forall>finish on_throw k w. deliver (poller_onFragment L) finish on_throw k (gs @ f # fs) (p', w) = finish (Suc (k + length gs)) (q, w)"
    by (metis list.set_intros(2))
  with p' show ?case by (intro exI [of _ q]) (simp add: attemptE_def)
qed

lemma keeps_isChallenged_fragment:
  "keeps (\<lambda>(p, w). ep_isChallenged p) (poller_onFragment L f)"
  unfolding poller_onFragment_def Let_def poller_set_def
  by (intro keeps_rules) auto

lemma keeps_isChallenged_poll:
  "keeps (\<lambda>(p, w). ep_isChallenged p) (poller_poll L)"
  unfolding poller_poll_def Let_def poller_set_def
  by (intro keeps_rules keeps_isChallenged_fragment) (auto simp: poller_reset_def)

definition before_poll :: "egress_poller \<Rightarrow> egress_poller" where
  "before_poll p = (if ep_isPollComplete p then poller_reset p else p)"

lemma poller_poll_run:
  "poller_poll L (p, w) = (
     let world_call = (\<lambda>c. zoomE snd (\<lambda>w (p, _). (p, w)) (callE c)) in
     pollE (zoomE snd (\<lambda>w (p, _). (p, w)) (callE (sub_controlledPoll L (ep_subscription p) (ep_fragmentLimit p))))
       (\<lambda>k. world_call (poll_finish L k)) (\<lambda>k e. world_call (poll_on_throw L k e)) (poller_onFragment L)
       (before_poll p, w))"
  by (cases "ep_isPollComplete p")
    (simp_all add: poller_poll_def bindE_run(1,3) Let_def before_poll_def whenE_def poller_set_def bindE_run(4) poller_reset_def)

text \<open>C38. One response per poll: whatever other messages the poll finds first, the first fragment that decodes to a
  response - a session message, a session event, a new leader or a challenge - ends the poll, and what it says
  stands in the poller, whatever fragments come after it. The poller is complete then: a further fragment handed to it would be
  left to the next poll, and the next poll starts from a reset poller.\<close>

theorem first_response_ends_poll:
  assumes "sub_controlledPoll L (ep_subscription p) (ep_fragmentLimit p) w = (Inr (gs @ f # fs), w1)"
    "\<forall>g\<in>set gs. response_of L g = Inr None" "response_of L f = Inr (Some r)"
  shows "\<exists>q. poller_poll L (p, w) = (case poll_finish L (Suc (length gs)) w1 of (x, w2) \<Rightarrow> Some (x, (q, w2)))
    \<and> ep_isPollComplete q \<and> shows_response r (fh_context (frag_header f)) q
    \<and> (\<forall>g w3. poller_onFragment L g (q, w3) = Some (Inr ABORT, (q, w3)))
    \<and> (\<forall>w4. poller_poll L (q, w4) = poller_poll L (poller_reset q, w4))"
proof -
  have "\<not> ep_isPollComplete (before_poll p)" by (simp add: before_poll_def poller_reset_def)
  from deliver_first_response [OF assms(2,3) this, of fs] obtain q
    where q: "ep_isPollComplete q" "shows_response r (fh_context (frag_header f)) q"
      "\<forall>finish on_throw k w. deliver (poller_onFragment L) finish on_throw k (gs @ f # fs) (before_poll p, w) = finish (Suc (k + length gs)) (q, w)"
    by blast
  have "poller_poll L (p, w) = (case poll_finish L (Suc (length gs)) w1 of (x, w2) \<Rightarrow> Some (x, (q, w2)))"
    by (simp add: poller_poll_run Let_def pollE_def bindE_def zoomE_def exec_run assms(1) q(3) split: prod.split)
  moreover have "poller_poll L (q, w4) = poller_poll L (poller_reset q, w4)" for w4
    using q(1) by (simp add: poller_poll_run before_poll_def poller_reset_def)
  ultimately show ?thesis using q(1,2) poller_complete_aborts [OF q(1), of L] by (intro exI [of _ q]) simp
qed

text \<open>An environment whose egress holds the acceptance of a session; one in which a message of no interest comes first.\<close>

definition demo_frame :: "nat fragment" where
  "demo_frame = Fragment 0 0 100 \<lparr>fh_position = 0, fh_flags = 0xC0, fh_context = 6\<rparr>"

definition accepting_env :: "(nat, nat) client_env" where
  "accepting_env = demo_client\<lparr>sub_controlledPoll := \<lambda>_ _. demo_ret [demo_frame, demo_frame],
     MessageHeader_wrap := \<lambda>_ _ _ _. Inr (MessageHeader 8 2 111 8),
     SessionEvent_wrap := \<lambda>_ _ _ _ _ _. Inr (SessionEvent 9 0 7 1 EC_OK 3 ''ok'')\<rparr>"

definition accepted_poller :: egress_poller where
  "accepted_poller = demo_poller\<lparr>ep_templateId := 2, ep_clusterSessionId := 9, ep_correlationId := 0,
     ep_leadershipTermId := 7, ep_leaderMemberId := 1, ep_eventCode := EC_OK, ep_version := 3, ep_detail := ''ok'',
     ep_isPollComplete := True, ep_egressImage := Some 6\<rparr>"

lemma accepting_fragment:
  "poller_onFragment accepting_env demo_frame (demo_poller, w) = Some (Inr BREAK, (accepted_poller, w))"
  by (simp add: poller_onFragment_def poller_header_of_def decode_from_def accepting_env_def demo_frame_def demo_poller_def
    accepted_poller_def bindE_def exec_run poller_set_def Let_def c_string_def)

lemma accepting_poll: "poller_poll accepting_env (demo_poller, w) = Some (Inr 1, (accepted_poller, w))"
  using accepting_fragment
  by (simp add: poller_poll_run before_poll_def pollE_def bindE_def zoomE_def exec_run attemptE_def accepting_env_def
    demo_poller_def)

definition other_frame :: "nat fragment" where
  "other_frame = Fragment 1 0 50 \<lparr>fh_position = 0, fh_flags = 0xC0, fh_context = 6\<rparr>"

definition later_env :: "(nat, nat) client_env" where
  "later_env = accepting_env\<lparr>sub_controlledPoll := \<lambda>_ _. demo_ret [other_frame, demo_frame, other_frame],
     MessageHeader_wrap := \<lambda>b _ _ _. Inr (if b = 1 then MessageHeader 8 99 111 8 else MessageHeader 8 2 111 8)\<rparr>"

theorem first_response_ends_poll_witness:
  "\<exists>q. poller_poll later_env (demo_poller, 0) = Some (Inr 2, (q, 0))
     \<and> ep_isPollComplete q \<and> ep_eventCode q = EC_OK \<and> ep_clusterSessionId q = 9 \<and> ep_detail q = ''ok''"
proof -
  let ?r = "EventResponse (SessionEvent 9 0 7 1 EC_OK 3 ''ok'')"
  have "sub_controlledPoll later_env (ep_subscription demo_poller) (ep_fragmentLimit demo_poller) 0
      = (Inr ([other_frame] @ demo_frame # [other_frame]), 0)"
    and finish: "poll_finish later_env k w = (Inr (int k), w)" for k w
    by (simp_all add: later_env_def accepting_env_def demo_client_def demo_ret_def)
  moreover have "response_of later_env other_frame = Inr None" "response_of later_env demo_frame = Inr (Some ?r)"
    by (simp_all add: response_of_def response_with_def decoded_rest_def later_env_def accepting_env_def other_frame_def
      demo_frame_def demo_client_def)
  ultimately show ?thesis
    using first_response_ends_poll [of later_env demo_poller 0 "[other_frame]" demo_frame "[other_frame]" 0 ?r]
    by (auto simp: c_string_def)
qed

section \<open>The adapter\<close>

text \<open>The session a message of the egress stream is for; \<open>Inr None\<close> for other messages.\<close>

definition egress_session :: "('b, 'w, 'z) codecs_scheme \<Rightarrow> 'b fragment \<Rightarrow> cluster_error + i64 option" where
  "egress_session L f =
    (let buffer = frag_buffer f; offset = frag_offset f; len = frag_length f in
     case MessageHeader_wrap L buffer offset (to_u64 len) (MessageHeader_sbeSchemaVersion L) of
       Inl e \<Rightarrow> Inl e
     | Inr h \<Rightarrow>
       if mh_schemaId h \<noteq> MessageHeader_sbeSchemaId L then Inl (UnexpectedSchemaId (MessageHeader_sbeSchemaId L) (mh_schemaId h))
       else if SessionMessageHeader_sbeTemplateId L = mh_templateId h then
         map_sum id (Some \<circ> smh_clusterSessionId) (SessionMessageHeader_wrap L buffer 0 (offset + MessageHeader_encodedLength L)
           (rest_length L len) (mh_blockLength h) (mh_version h))
       else if SessionEvent_sbeTemplateId L = mh_templateId h then
         map_sum id (Some \<circ> se_clusterSessionId) (SessionEvent_wrap L buffer 0 (offset + MessageHeader_encodedLength L)
           (rest_length L len) (mh_blockLength h) (mh_version h))
       else if NewLeaderEvent_sbeTemplateId L = mh_templateId h then
         map_sum id (Some \<circ> ne_clusterSessionId) (NewLeaderEvent_wrap L buffer 0 (offset + MessageHeader_encodedLength L)
           (rest_length L len) (mh_blockLength h) (mh_version h))
       else if AdminResponse_sbeTemplateId L = mh_templateId h then
         map_sum id (Some \<circ> ar_clusterSessionId) (AdminResponse_wrap L buffer 0 (offset + MessageHeader_encodedLength L)
           (rest_length L len) (mh_blockLength h) (mh_version h))
       else Inr None)"

text \<open>Only the own session is heard: a message of another session, whatever its kind, reaches no consumer of the user and
  changes nothing; the comparison of the ids as unsigned numbers is exact for 64-bit ids.\<close>

theorem other_sessions_ignored:
  assumes "egress_session L f = Inr (Some i)" "i \<noteq> ea_clusterSessionId a"
    "i64_range i" "i64_range (ea_clusterSessionId a)"
  shows "egress_onFragment L a f w = Some (Inr (), w)"
proof -
  have other: "\<not> own_session a i" using assms(2-4) by (simp add: own_session_def to_u64_inj)
  obtain h where h: "header_is L (frag_buffer f) (frag_offset f) (frag_length f) h"
    using assms(1) by (auto simp: egress_session_def header_is_def Let_def split: sum.splits if_splits)
  note header = message_header_of_is [OF h]
  from h have "MessageHeader_wrap L (frag_buffer f) (frag_offset f) (to_u64 (frag_length f)) (MessageHeader_sbeSchemaVersion L) = Inr h"
    "mh_schemaId h = MessageHeader_sbeSchemaId L" by (simp_all add: header_is_def)
  note session = assms(1) [unfolded egress_session_def Let_def this sum.case]
  consider "SessionMessageHeader_sbeTemplateId L = mh_templateId h"
    | "SessionMessageHeader_sbeTemplateId L \<noteq> mh_templateId h" "SessionEvent_sbeTemplateId L = mh_templateId h"
    | "SessionMessageHeader_sbeTemplateId L \<noteq> mh_templateId h" "SessionEvent_sbeTemplateId L \<noteq> mh_templateId h"
      "NewLeaderEvent_sbeTemplateId L = mh_templateId h"
    | "SessionMessageHeader_sbeTemplateId L \<noteq> mh_templateId h" "SessionEvent_sbeTemplateId L \<noteq> mh_templateId h"
      "NewLeaderEvent_sbeTemplateId L \<noteq> mh_templateId h" "AdminResponse_sbeTemplateId L = mh_templateId h"
    using session by (auto split: if_splits)
  then show ?thesis
    unfolding egress_onFragment_def Let_def header bindE_run(1)
    using session other
    by cases (auto simp: decode_from_def bindE_def exec_run whenE_def map_sum_def split: sum.splits)
qed

theorem other_sessions_ignored_witness:
  "egress_onFragment accepting_env (new_egress_adapter None (Some (\<lambda>_ _ _ _ _ _ w. (Inl (UserError 1), w))) None None 4 0 10)
     demo_frame 5 = Some (Inr (), 5)"
proof -
  have "egress_session accepting_env demo_frame = Inr (Some 9)"
    by (simp add: egress_session_def accepting_env_def demo_frame_def Let_def)
  from other_sessions_ignored [OF this] show ?thesis by (simp add: i64_range_def new_egress_adapter_def)
qed

end
