(* ===== verification/ClientProperties.thy ===== *)
theory ClientProperties
  imports ClientConnect EgressProperties
begin

text \<open>
  What connecting a client does: which clients get a connection at all, what a connected client
  holds, and what the steps of \<open>AsyncConnect\<close> leave undone.
\<close>

section \<open>Polls\<close>

text \<open>The states that polling a connect object leads to, however the polls end.\<close>

inductive polled_to :: "('b, 'w, 'z) client_env_scheme \<Rightarrow> ('b, 'w) client_connect \<Rightarrow> ('b, 'w) client_connect \<Rightarrow> bool"
  for L :: "('b, 'w, 'z) client_env_scheme" and s :: "('b, 'w) client_connect" where
  here: "polled_to L s s"
| again: "polled_to L s s1 \<Longrightarrow> client_connect_poll L s1 = Some (r, s2) \<Longrightarrow> polled_to L s s2"

text \<open>The loop of the client program ends with the client of a poll.\<close>

lemma client_wait_polled:
  assumes "client_wait L s = Some (Inr cluster, s2)"
  shows "\<exists>s1. polled_to L s s1 \<and> client_connect_poll L s1 = Some (Inr (Some cluster), s2)"
proof -
  have "\<forall>cluster s2 s0. y = (Inr cluster, s2) \<longrightarrow> polled_to L s0 s \<longrightarrow>
      (\<exists>s1. polled_to L s0 s1 \<and> client_connect_poll L s1 = Some (Inr (Some cluster), s2))"
    if "client_wait L s = Some y" for y
  proof (rule client_wait.raw_induct [where P = "\<lambda>L s y. \<forall>cluster s2 s0. y = (Inr cluster, s2) \<longrightarrow> polled_to L s0 s \<longrightarrow>
      (\<exists>s1. polled_to L s0 s1 \<and> client_connect_poll L s1 = Some (Inr (Some cluster), s2))", OF _ that], goal_cases)
    case (1 f L s y)
    show ?case
    proof (intro allI impI)
      fix cluster s2 s0 assume y: "y = (Inr cluster, s2)" and path: "polled_to L s0 s"
      note IH = 1(1)
      obtain x s1 where poll: "client_connect_poll L s = Some (Inr x, s1)"
        and rest: "(case x of None \<Rightarrow> f L | Some z \<Rightarrow> retE z) s1 = Some (Inr cluster, s2)"
        using 1(2) unfolding y bindE_eq_Some_Inr by blast
      show "\<exists>s1. polled_to L s0 s1 \<and> client_connect_poll L s1 = Some (Inr (Some cluster), s2)"
      proof (cases x)
        case None
        with rest have "f L s1 = Some (Inr cluster, s2)" by simp
        from IH [OF this] again [OF path poll] show ?thesis by blast
      next
        case (Some z)
        with rest poll path show ?thesis by (auto simp: exec_run)
      qed
    qed
  qed
  with assms here show ?thesis by blast
qed

lemma keeps_cn_call [keeps_rules]: "(\<And>w s. f (s\<lparr>cn_world := w\<rparr>) = f s) \<Longrightarrow> keeps f (cn_call c)"
  unfolding cn_call_def by (intro keeps_rules)

lemma keeps_cn_deref [keeps_rules]: "keeps f (cn_deref what g)"
  unfolding cn_deref_def by (intro keeps_rules)

lemma keeps_set_step [keeps_rules]: "(\<And>n s. f (s\<lparr>cn_step := n\<rparr>) = f s) \<Longrightarrow> keeps f (set_step n)"
  unfolding set_step_def by (intro keeps_rules)

lemma keeps_members [keeps_rules]:
  "keeps f (member_get k g)" "(\<And>m s. f (s\<lparr>cn_memberByIdMap := m\<rparr>) = f s) \<Longrightarrow> keeps f (member_set k h)"
  unfolding member_get_def member_set_def by (intro keeps_rules; assumption?)+

lemma keeps_close_member [keeps_rules]:
  "(\<And>w s. f (s\<lparr>cn_world := w\<rparr>) = f s) \<Longrightarrow> keeps f (close_member L x)"
  unfolding close_member_def by (intro keeps_rules)

lemma keeps_checkDeadline [keeps_rules]:
  "(\<And>w s. f (s\<lparr>cn_world := w\<rparr>) = f s) \<Longrightarrow> keeps f (checkDeadline L)"
  unfolding checkDeadline_def by (intro keeps_rules)

lemma keeps_create_member [keeps_rules]:
  "(\<And>w s. f (s\<lparr>cn_world := w\<rparr>) = f s) \<Longrightarrow> (\<And>m s. f (s\<lparr>cn_memberByIdMap := m\<rparr>) = f s) \<Longrightarrow>
   keeps f (create_member L ctx k)"
  unfolding create_member_def by (intro keeps_rules)

lemma keeps_create_members [keeps_rules]:
  assumes "\<And>w s. f (s\<lparr>cn_world := w\<rparr>) = f s" "\<And>m s. f (s\<lparr>cn_memberByIdMap := m\<rparr>) = f s"
  shows "keeps f (create_members L ctx ks n)"
  by (induction ks arbitrary: n) (unfold create_members.simps, (intro keeps_rules assms | assumption)+)

lemma keeps_prepare [keeps_rules]:
  assumes "\<And>w s. f (s\<lparr>cn_world := w\<rparr>) = f s" "\<And>i s. f (s\<lparr>cn_correlationId := i\<rparr>) = f s"
    "\<And>b n s. f (s\<lparr>cn_buffer := b, cn_messageLength := n\<rparr>) = f s" "\<And>n s. f (s\<lparr>cn_step := n\<rparr>) = f s"
  shows "keeps f (prepareConnectRequest L c)" "keeps f (prepareChallengeResponse L c)"
  unfolding prepareConnectRequest_def prepareChallengeResponse_def Let_def by (intro keeps_rules assms)+

lemma keeps_connect_member [keeps_rules]:
  assumes "\<And>w s. f (s\<lparr>cn_world := w\<rparr>) = f s" "\<And>i s. f (s\<lparr>cn_correlationId := i\<rparr>) = f s"
    "\<And>b n s. f (s\<lparr>cn_buffer := b, cn_messageLength := n\<rparr>) = f s" "\<And>n s. f (s\<lparr>cn_step := n\<rparr>) = f s"
    "\<And>p s. f (s\<lparr>cn_ingressPublication := p\<rparr>) = f s"
  shows "keeps f (connect_member L c ks)"
  by (induction ks) (unfold connect_member.simps, (intro keeps_rules assms | assumption)+)

lemma keeps_pollerE [keeps_rules]:
  "(\<And>p w s. f (s\<lparr>cn_egressPoller := p, cn_world := w\<rparr>) = f s) \<Longrightarrow> keeps f (pollerE m)"
  unfolding pollerE_def by (intro keeps_rules) (auto split: prod.split)

lemma keeps_optional [keeps_rules]:
  "(\<And>r. keeps f (m r)) \<Longrightarrow> keeps f (\<lambda>s. case p of None \<Rightarrow> None | Some r \<Rightarrow> m r s)"
  by (cases p) (simp_all add: keeps_def)

lemma keeps_event_code [keeps_rules]:
  "keeps f m1 \<Longrightarrow> keeps f m2 \<Longrightarrow> keeps f m3 \<Longrightarrow> keeps f m4 \<Longrightarrow> keeps f m5 \<Longrightarrow> keeps f m6 \<Longrightarrow>
   keeps f (case c of EC_OK \<Rightarrow> m1 | EC_ERROR \<Rightarrow> m2 | EC_REDIRECT \<Rightarrow> m3 | EC_AUTHENTICATION_REJECTED \<Rightarrow> m4
     | EC_CLOSED \<Rightarrow> m5 | EC_NULL_VALUE \<Rightarrow> m6)"
  by (cases c) simp_all

section \<open>The deadline\<close>

lemma keeps_deadline: "keeps cn_deadlineNs (client_connect_poll L)"
  unfolding client_connect_poll_def createEgressSubscription_def createIngressPublications_def
    awaitPublicationConnected_def sendMessage_def pollResponse_def updateMembers_def concludeConnect_def Let_def
  by (intro keeps_rules; simp)

lemma polled_to_deadline: "polled_to L s s1 \<Longrightarrow> cn_deadlineNs s1 = cn_deadlineNs s"
  by (induction rule: polled_to.induct) (auto dest: keepsD [OF keeps_deadline])

text \<open>C32. Connecting never times out: \<open>asyncConnect\<close> computes a deadline from a timeout that reads as zero, and the
  poll compares it with zero instead of the time, so for a clock that is not negative the check of the
  deadline passes in every state the polls lead to, however late.\<close>

theorem deadline_never_passes:
  assumes "client_asyncConnect L (ctx, w) = Some (Inr s, ctx', w')" "\<And>w t w1. systemNanoClock L w = (Inr t, w1) \<Longrightarrow> 0 \<le> t"
    "polled_to L s s1"
  shows "checkDeadline L s1 = Some (Inr (), s1)"
proof -
  obtain t w1 w2 where "systemNanoClock L w1 = (Inr t, w2)" "cn_deadlineNs s = t"
    using assms(1) by (auto simp: client_asyncConnect_def bindE_eq_Some_Inr zoomE_eq_Some exec_run
      new_client_connect_def messageTimeoutNs_def)
  with assms(2) polled_to_deadline [OF assms(3)] have "\<not> cn_deadlineNs s1 < 0" by (simp add: leD)
  then show ?thesis by (simp add: checkDeadline_def bindE_run(3) whenE_def exec_run)
qed

text \<open>A client context, and the connect object made from it.\<close>

definition demo_client_context :: client_context where
  "demo_client_context = empty_client_context\<lparr>cc_aeron := Some 0, cc_ingressChannel := ''aeron:udp'',
     cc_messageTimeoutNs := 5\<rparr>"

definition demo_connect :: "client_context \<Rightarrow> (nat, nat) client_connect" where
  "demo_connect ctx = projr (fst (the (client_asyncConnect (demo_client :: (nat, nat) client_env) (ctx, 0))))"

lemma demo_connect_run:
  assumes "cc_aeron ctx = Some a"
  shows "\<exists>c. client_asyncConnect (demo_client :: (nat, nat) client_env) (ctx, 0) = Some (Inr (demo_connect ctx), c, 0)"
    "cn_step (demo_connect ctx) = -1" "cn_memberByIdMap (demo_connect ctx) = []"
    "cn_ingressPublication (demo_connect ctx) = None"
    "\<exists>c. cn_ctx (demo_connect ctx) = Some c \<and> cc_ingressEndpoints c = cc_ingressEndpoints ctx"
  using assms
  by (simp_all add: client_asyncConnect_def client_conclude_def bindE_run exec_run whenE_def demo_connect_def bindE_def
    zoomE_def new_client_connect_def)

theorem deadline_never_passes_witness:
  "checkDeadline (demo_client :: (nat, nat) client_env) (demo_connect demo_client_context)
     = Some (Inr (), demo_connect demo_client_context)"
proof -
  obtain c where run: "client_asyncConnect (demo_client :: (nat, nat) client_env) (demo_client_context, 0)
      = Some (Inr (demo_connect demo_client_context), c, 0)"
    using demo_connect_run(1) [of demo_client_context 0] by (auto simp: demo_client_context_def)
  show ?thesis by (rule deadline_never_passes [OF run _ here]) simp
qed

section \<open>A list of endpoints\<close>

lemma preserves_gets_bind:
  "(\<And>s. P s \<Longrightarrow> preserves P (h (f s))) \<Longrightarrow> preserves P (bindE (getsE f) h)"
  unfolding preserves_def bindE_run(3) by blast

lemma preserves_cn_call [preserves_rules]:
  "(\<And>w s. P (s\<lparr>cn_world := w\<rparr>) = P s) \<Longrightarrow> preserves P (cn_call c)"
  unfolding cn_call_def by (intro preserves_zoomE)

lemma preserves_cn_deref [preserves_rules]: "preserves P (cn_deref what g)"
  unfolding cn_deref_def by (intro preserves_rules)

lemma preserves_set_step [preserves_rules]:
  "(\<And>s. P s \<Longrightarrow> P (s\<lparr>cn_step := n\<rparr>)) \<Longrightarrow> preserves P (set_step n)"
  unfolding set_step_def by (intro preserves_rules)

text \<open>No members, no publication, and a context with endpoints.\<close>

definition stalled :: "('b, 'w) client_connect \<Rightarrow> bool" where
  "stalled s \<longleftrightarrow> cn_memberByIdMap s = [] \<and> cn_ingressPublication s = None \<and> cn_step s \<in> {-1, 0, 1}
     \<and> (\<exists>ctx. cn_ctx s = Some ctx \<and> cc_ingressEndpoints ctx \<noteq> [])"

lemma stalled_create_publications: "preserves stalled (createIngressPublications L)"
proof (rule preservesI)
  fix s r s' assume st: "stalled s" and run: "createIngressPublications L s = Some (r, s')"
  then obtain ctx where ctx: "cn_ctx s = Some ctx" "cc_ingressEndpoints ctx \<noteq> []" "cn_memberByIdMap s = []"
    by (auto simp: stalled_def)
  from run have "s' = s \<or> s' = s\<lparr>cn_step := 1\<rparr>"
    by (auto simp: createIngressPublications_def cn_deref_def bindE_run derefE_run ctx whenE_def set_step_def
      bindE_eq_Some exec_run)
  with st show "stalled s'" by (auto simp: stalled_def)
qed

lemma stalled_await: "preserves stalled (awaitPublicationConnected L)"
proof -
  have rest: "preserves stalled (bindE (getsE cn_ingressPublication) (\<lambda>publication.
        case publication of
          None \<Rightarrow>
            bindE (getsE (\<lambda>s. map fst (cn_memberByIdMap s))) (\<lambda>ks.
            connect_member L responseChannel ks)
        | Some p \<Rightarrow>
            bindE (cn_call (pub_isConnected L p)) (\<lambda>connected.
            whenE connected (prepareConnectRequest L responseChannel))))" for responseChannel
    by (rule preserves_gets_bind, simp add: stalled_def, rule preserves_gets_bind)
      (simp add: stalled_def preserves_atoms)
  show ?thesis
    unfolding awaitPublicationConnected_def
    by (rule preserves_bindE, rule preserves_cn_deref, rule preserves_bindE, rule preserves_cn_call, simp add: stalled_def,
      rule preserves_whenE, rule rest)
qed

lemma stalled_create_subscription: "preserves stalled (createEgressSubscription L)"
  unfolding createEgressSubscription_def
  by (intro preserves_rules) (auto simp: stalled_def)

lemma stalled_poll:
  fixes L :: "('b, 'w, 'z) client_env_scheme"
  assumes st: "stalled s" and run: "client_connect_poll L s = Some (r, s')"
  shows "stalled s' \<and> r \<noteq> Inr (Some cluster)"
proof -
  have deadline: "preserves stalled (checkDeadline L)"
    unfolding checkDeadline_def by (intro preserves_rules) (simp_all add: stalled_def)
  consider e where "checkDeadline L s = Some (Inl e, s')" "r = Inl e"
    | s1 where "checkDeadline L s = Some (Inr (), s1)" "bindE (getsE cn_step) (\<lambda>step.
     if step = -1 then bindE (createEgressSubscription L) (\<lambda>_. retE None)
     else if step = 0 then bindE (createIngressPublications L) (\<lambda>_. retE None)
     else if step = 1 then bindE (awaitPublicationConnected L) (\<lambda>_. retE None)
     else if step = 2 then bindE (sendMessage L) (\<lambda>_. retE None)
     else if step = 3 then bindE (pollResponse L) (\<lambda>_. retE None)
     else if step = 4 then concludeConnect L
     else retE None) s1 = Some (r, s')"
    using run unfolding client_connect_poll_def by (auto simp: bindE_eq_Some)
  then show ?thesis
  proof cases
    case 1
    with preservesD [OF deadline st] show ?thesis by auto
  next
    case 2
    with preservesD [OF deadline st] have s1: "stalled s1" by blast
    have step: "stalled s' \<and> r \<noteq> Inr (Some cluster)" if "bindE m (\<lambda>_. retE None) s1 = Some (r, s')" "preserves stalled m"
      for m :: "(('b, 'w) client_connect, unit) exec"
      using that(1) preservesD [OF that(2) s1] by (auto simp: bindE_eq_Some exec_run)
    from s1 consider "cn_step s1 = -1" | "cn_step s1 = 0" | "cn_step s1 = 1" by (auto simp: stalled_def)
    then show ?thesis
      using 2(2) step [OF _ stalled_create_subscription [of L]] step [OF _ stalled_create_publications [of L]]
        step [OF _ stalled_await [of L]]
      by cases (simp_all add: bindE_run(3))
  qed
qed

lemma stalled_polled: "polled_to L s s1 \<Longrightarrow> stalled s \<Longrightarrow> stalled s1"
  by (induction rule: polled_to.induct) (use stalled_poll in blast)+

text \<open>C33. A client that is given a list of ingress endpoints never connects: the list is not parsed before the
  first redirect, so there are no members to connect to, and every sequence of polls stays in the first three
  steps, without a publication and without handing out a client; the loop of the client program that waits for
  one never ends with one.\<close>

theorem endpoints_never_connect:
  assumes "client_asyncConnect L (ctx, w) = Some (Inr s, ctx', w')" "cc_ingressEndpoints ctx \<noteq> []"
    "polled_to L s s1"
  shows "cn_step s1 \<le> 1 \<and> cn_ingressPublication s1 = None
    \<and> (\<forall>cluster s2. client_connect_poll L s1 \<noteq> Some (Inr (Some cluster), s2)
         \<and> client_wait L s1 \<noteq> Some (Inr cluster, s2))"
proof -
  have "stalled s"
    using assms(1,2)
    by (auto simp: client_asyncConnect_def client_conclude_def whenE_def bindE_eq_Some_Inr zoomE_eq_Some exec_run
      new_client_connect_def stalled_def split: if_splits)
  with assms(3) have s1: "stalled s1" by (rule stalled_polled)
  have "client_connect_poll L s2 \<noteq> Some (Inr (Some cluster), s3)" if "polled_to L s1 s2" for s2 cluster s3
    using stalled_poll [OF stalled_polled [OF that s1]] by blast
  moreover have "client_wait L s1 \<noteq> Some (Inr cluster, s2)" for cluster s2
    using calculation client_wait_polled by blast
  moreover have "cn_step s1 \<le> 1 \<and> cn_ingressPublication s1 = None" using s1 by (auto simp: stalled_def)
  ultimately show ?thesis using here by blast
qed

theorem endpoints_never_connect_witness:
  "\<forall>cluster s2. client_connect_poll (demo_client :: (nat, nat) client_env)
     (demo_connect (demo_client_context\<lparr>cc_ingressEndpoints := ''0=host:9''\<rparr>)) \<noteq> Some (Inr (Some cluster), s2)"
proof -
  let ?ctx = "demo_client_context\<lparr>cc_ingressEndpoints := ''0=host:9''\<rparr>"
  obtain c where run: "client_asyncConnect (demo_client :: (nat, nat) client_env) (?ctx, 0) = Some (Inr (demo_connect ?ctx), c, 0)"
    using demo_connect_run(1) [of ?ctx 0] by (auto simp: demo_client_context_def)
  from endpoints_never_connect [OF run _ here] show ?thesis by simp
qed

section \<open>Redirects\<close>

definition well_formed_list :: "i64 \<Rightarrow> string \<Rightarrow> bool" where
  "well_formed_list null_value s \<longleftrightarrow> (\<exists>p k x. find_char CHR '','' s = Some p
     \<and> parse_endpoint null_value s (take p s) = Inr (k, x))"

lemma parse_well_formed: "parseIngressEndpoints n s = None \<longleftrightarrow> well_formed_list n s"
  by (auto simp: parseIngressEndpoints_result well_formed_list_def split: option.splits sum.splits)

lemma parse_returns: "parseIngressEndpoints n s = Some (Inr m) \<longleftrightarrow> CHR '','' \<notin> set s \<and> m = []"
  by (auto simp: parseIngressEndpoints_result find_char_None [symmetric] split: option.splits sum.splits)

text \<open>C34. \<open>parseIngressEndpoints\<close> never lists a member: it returns only for a text without a comma, and then with no
  members; it does not return exactly when there is a comma and the endpoint before the first one is well
  formed.\<close>

theorem endpoints_never_listed:
  "(parseIngressEndpoints n s = Some (Inr m) \<longleftrightarrow> CHR '','' \<notin> set s \<and> m = [])
   \<and> (parseIngressEndpoints n s = None \<longleftrightarrow> well_formed_list n s)"
  by (simp add: parse_returns parse_well_formed)

text \<open>The members are read anew from the detail of the response.\<close>

lemma updateMembers_outcome:
  assumes poller: "cn_egressPoller s = Some p"
    and close: "\<And>q w. cn_ingressPublication s = Some q \<Longrightarrow> fst (pub_close L q w) = Inr ()"
  shows "(well_formed_list (NULL_VALUE L) (ep_detail p) \<longrightarrow> updateMembers L s = None)
    \<and> (updateMembers L s = Some (r, s') \<longrightarrow> cn_ingressPublication s' = None
         \<and> (r = Inr () \<longrightarrow> CHR '','' \<notin> set (ep_detail p) \<and> cn_memberByIdMap s' = [] \<and> cn_step s' = 1))"
proof -
  let ?s = "s\<lparr>cn_leaderMemberId := ep_leaderMemberId p, cn_ingressRegistrationId := NULL_VALUE L\<rparr>"
  let ?rest = "\<lambda>s. case parseIngressEndpoints (NULL_VALUE L) (ep_detail p) of
        None \<Rightarrow> None
      | Some r \<Rightarrow>
          bindE (liftE r) (\<lambda>members.
          bindE (getsE (\<lambda>s. map snd (cn_memberByIdMap s))) (\<lambda>old.
          bindE (for_each (close_member L) old) (\<lambda>_.
          bindE (cn_modify (\<lambda>s. s\<lparr>cn_memberByIdMap := members\<rparr>)) (\<lambda>_.
          set_step 1)))) s"
  obtain t where run: "updateMembers L s = ?rest t" and t: "cn_ingressPublication t = None"
  proof (cases "cn_ingressPublication s")
    case None
    with that [of ?s] poller show thesis
      by (simp add: updateMembers_def cn_deref_def bindE_run derefE_run exec_run)
  next
    case (Some q)
    obtain w where "pub_close L q (cn_world s) = (Inr (), w)"
      using close [OF Some, of "cn_world s"] by (cases "pub_close L q (cn_world s)") auto
    then have "cn_call (pub_close L q) ?s = Some (Inr (), ?s\<lparr>cn_world := w\<rparr>)"
      by (simp add: cn_call_def zoomE_def exec_run)
    with that [of "?s\<lparr>cn_world := w, cn_ingressPublication := None\<rparr>"] poller Some show thesis
      by (simp add: updateMembers_def cn_deref_def bindE_run derefE_run exec_run
        bindE_Some(1) [where m = "cn_call (pub_close L q)"])
  qed
  have keep: "keeps (\<lambda>s. (cn_ingressPublication s)) (for_each (close_member L) old)" for old
    by (intro keeps_rules) simp_all
  show ?thesis
    unfolding run using t
    by (auto simp: parse_well_formed [symmetric] bindE_eq_Some exec_run set_step_def parse_returns
      dest: keepsD [OF keep] split: option.splits)
qed

lemma checkDeadline_passes: "0 \<le> cn_deadlineNs s \<Longrightarrow> checkDeadline L s = Some (Inr (), s)"
  by (simp add: checkDeadline_def bindE_run(3) whenE_def exec_run)

lemma poll_at:
  assumes "0 \<le> cn_deadlineNs s"
  shows "client_connect_poll L s = (
     if cn_step s = -1 then bindE (createEgressSubscription L) (\<lambda>_. retE None)
     else if cn_step s = 0 then bindE (createIngressPublications L) (\<lambda>_. retE None)
     else if cn_step s = 1 then bindE (awaitPublicationConnected L) (\<lambda>_. retE None)
     else if cn_step s = 2 then bindE (sendMessage L) (\<lambda>_. retE None)
     else if cn_step s = 3 then bindE (pollResponse L) (\<lambda>_. retE None)
     else if cn_step s = 4 then concludeConnect L
     else retE None) s"
  by (simp add: client_connect_poll_def bindE_Some(1) [where m = "checkDeadline L", OF checkDeadline_passes [OF assms]]
    bindE_run(3))

text \<open>A state in which a response is awaited.\<close>

definition awaiting :: "egress_poller \<Rightarrow> (nat, nat) client_connect" where
  "awaiting p = (demo_connect demo_client_context)\<lparr>cn_step := 3, cn_egressPoller := Some p, cn_ingressPublication := Some 0,
     cn_correlationId := 0, cn_egressSubscription := Some 0\<rparr>"

text \<open>The response that redirects: complete, for the request sent, without a challenge.\<close>

definition redirected_response :: "i64 \<Rightarrow> egress_poller \<Rightarrow> bool" where
  "redirected_response correlationId p \<longleftrightarrow> ep_isPollComplete p \<and> ep_correlationId p = correlationId
     \<and> \<not> ep_isChallenged p \<and> ep_eventCode p = EC_REDIRECT"

lemma pollResponse_redirected:
  assumes "cn_egressPoller s = Some p0" "poller_poll L (p0, cn_world s) = Some (Inr n, (p, w))"
    "n > 0" "redirected_response (cn_correlationId s) p"
  shows "pollResponse L s = updateMembers L (s\<lparr>cn_egressPoller := Some p, cn_world := w\<rparr>)"
proof -
  have "pollerE (poller_poll L) s = Some (Inr n, s\<lparr>cn_egressPoller := Some p, cn_world := w\<rparr>)"
    using assms(1,2) by (simp add: pollerE_def cn_deref_def bindE_run derefE_run zoomE_def)
  then show ?thesis
    using assms(3,4) by (simp add: pollResponse_def bindE_Some(1) [where m = "pollerE (poller_poll L)"] cn_deref_def
      bindE_run derefE_run whenE_def redirected_response_def)
qed

text \<open>C35. A redirect leads nowhere. Take a poll of a client that waits for its response (step 3), in which the poller
  completes with a redirect for the request sent. When the detail of the redirect has a comma and the endpoint before the first
  comma is well formed, the poll does not return (if closing the publication succeeds). If the poll does return, or throws, it hands out no
  client and the ingress publication is gone; when it returns, the detail had no comma, and the client
  has no members at all and is back in step 1.\<close>

theorem redirect_leads_nowhere:
  assumes "cn_step s = 3" "0 \<le> cn_deadlineNs s" "cn_egressPoller s = Some p0"
    "poller_poll L (p0, cn_world s) = Some (Inr n, (p, w))" "n > 0" "redirected_response (cn_correlationId s) p"
    and close: "\<And>q w. cn_ingressPublication s = Some q \<Longrightarrow> fst (pub_close L q w) = Inr ()"
  shows "(well_formed_list (NULL_VALUE L) (ep_detail p) \<longrightarrow> client_connect_poll L s = None)
    \<and> (client_connect_poll L s = Some (r, s') \<longrightarrow> (\<forall>cluster. r \<noteq> Inr (Some cluster)) \<and> cn_ingressPublication s' = None
         \<and> (r = Inr None \<longrightarrow> CHR '','' \<notin> set (ep_detail p) \<and> cn_memberByIdMap s' = [] \<and> cn_step s' = 1))"
proof -
  let ?s = "s\<lparr>cn_egressPoller := Some p, cn_world := w\<rparr>"
  have poll: "client_connect_poll L s = bindE (updateMembers L) (\<lambda>_. retE None) ?s"
    using assms(1) pollResponse_redirected [OF assms(3-6)] by (simp add: poll_at [OF assms(2)] bindE_def)
  have "cn_egressPoller ?s = Some p" "\<And>q w. cn_ingressPublication ?s = Some q \<Longrightarrow> fst (pub_close L q w) = Inr ()"
    using close by simp_all
  note outcome = updateMembers_outcome [OF this]
  show ?thesis
    unfolding poll using outcome by (auto simp: bindE_eq_Some exec_run bindE_Some(3) dest!: outcome [THEN conjunct2, rule_format])
qed

text \<open>An egress that holds a redirect to two members.\<close>

definition redirecting_env :: "(nat, nat) client_env" where
  "redirecting_env = accepting_env\<lparr>SessionEvent_wrap := \<lambda>_ _ _ _ _ _. Inr (SessionEvent 9 0 7 1 EC_REDIRECT 3 ''0=a:1,1=b:1'')\<rparr>"

definition redirected_poller :: egress_poller where
  "redirected_poller = accepted_poller\<lparr>ep_eventCode := EC_REDIRECT, ep_detail := ''0=a:1,1=b:1''\<rparr>"

lemma redirecting_poll: "poller_poll redirecting_env (demo_poller, w) = Some (Inr 1, (redirected_poller, w))"
proof -
  have "poller_onFragment redirecting_env demo_frame (demo_poller, w) = Some (Inr BREAK, (redirected_poller, w))"
    by (simp add: poller_onFragment_def poller_header_of_def decode_from_def redirecting_env_def accepting_env_def demo_frame_def
      demo_poller_def accepted_poller_def redirected_poller_def bindE_def exec_run poller_set_def Let_def c_string_def)
  then show ?thesis
    by (simp add: poller_poll_run before_poll_def pollE_def bindE_def zoomE_def exec_run attemptE_def redirecting_env_def
      accepting_env_def demo_poller_def)
qed

theorem redirect_leads_nowhere_witness:
  "client_connect_poll redirecting_env (awaiting demo_poller) = None"
proof -
  have "find_char CHR '','' ''0=a:1,1=b:1'' = Some 5" by simp
  moreover have "parse_endpoint (-1) ''0=a:1,1=b:1'' (take 5 ''0=a:1,1=b:1'') = Inr (0, new_member_ingress (-1) 0 ''a:1'')"
    by (simp add: parse_endpoint_def stoi_def is_space_def is_digit_def digits_value_def i32_range_def)
  ultimately have "well_formed_list (-1) ''0=a:1,1=b:1''" unfolding well_formed_list_def by blast
  moreover have "cn_deadlineNs (awaiting demo_poller) = 0" "cn_world (awaiting demo_poller) = 0"
    by (simp_all add: awaiting_def demo_connect_def client_asyncConnect_def client_conclude_def demo_client_context_def
      bindE_def zoomE_def exec_run whenE_def new_client_connect_def messageTimeoutNs_def)
  moreover have "redirected_response (cn_correlationId (awaiting demo_poller)) redirected_poller"
    by (simp add: redirected_response_def redirected_poller_def accepted_poller_def awaiting_def demo_poller_def)
  ultimately show ?thesis
    using redirect_leads_nowhere [of "awaiting demo_poller" demo_poller redirecting_env 1 redirected_poller 0] redirecting_poll
    by (simp add: awaiting_def redirecting_env_def accepting_env_def redirected_poller_def)
qed

section \<open>A connected client\<close>

text \<open>The response that connects: complete, for the request sent, accepted, from an image.\<close>

definition accepted_response :: "i64 \<Rightarrow> image \<Rightarrow> egress_poller \<Rightarrow> bool" where
  "accepted_response correlationId img p \<longleftrightarrow> ep_isPollComplete p \<and> ep_correlationId p = correlationId
     \<and> \<not> ep_isChallenged p \<and> ep_eventCode p = EC_OK \<and> ep_egressImage p = Some img"

lemma pollResponse_accepted:
  assumes poller: "cn_egressPoller s = Some p0" "poller_poll L (p0, cn_world s) = Some (Inr n, (p, w))"
    and resp: "n > 0" "accepted_response (cn_correlationId s) img p"
  shows "pollResponse L s = Some (Inr (), s\<lparr>cn_egressPoller := Some p, cn_world := w,
     cn_leadershipTermId := ep_leaderMemberId p, cn_leaderMemberId := ep_leaderMemberId p,
     cn_clusterSessionId := ep_clusterSessionId p, cn_egressImage := Some img, cn_step := 4\<rparr>)"
proof -
  have "pollerE (poller_poll L) s = Some (Inr n, s\<lparr>cn_egressPoller := Some p, cn_world := w\<rparr>)"
    using poller by (simp add: pollerE_def cn_deref_def bindE_run derefE_run zoomE_def)
  then show ?thesis
    using resp by (simp add: pollResponse_def bindE_Some(1) [where m = "pollerE (poller_poll L)"] cn_deref_def bindE_run
      derefE_run whenE_def accepted_response_def poller_leadershipTermId_def set_step_def exec_run)
qed

text \<open>C36. A client connects with the response it polled: in step 3, an accepted response leads in two polls to a client
  with the session of the response, the ingress publication, the egress subscription and the image of the
  connect object, which keeps none of them. The leadership term of the client is the response's leader member id:
  the term of the response is lost, because the accessor of the term returns the member id.\<close>

theorem connected_client:
  assumes "cn_step s = 3" "0 \<le> cn_deadlineNs s" "cn_egressPoller s = Some p0"
    "poller_poll L (p0, cn_world s) = Some (Inr n, (p, w))" "n > 0" "accepted_response (cn_correlationId s) img p"
    "cn_ctx s = Some ctx" "cn_ingressPublication s = Some q" "map_of (cn_memberByIdMap s) (ep_leaderMemberId p) = None"
  shows "\<exists>s1 s2 cluster. client_connect_poll L s = Some (Inr None, s1)
     \<and> client_connect_poll L s1 = Some (Inr (Some cluster), s2)
     \<and> cl_clusterSessionId cluster = ep_clusterSessionId p \<and> cl_leadershipTermId cluster = ep_leaderMemberId p
     \<and> cl_publication cluster = Some q \<and> cl_subscription cluster = cn_egressSubscription s
     \<and> cl_egressImage cluster = img \<and> cl_ctx cluster = ctx
     \<and> cn_step s2 = 5 \<and> cn_ingressPublication s2 = None \<and> cn_egressSubscription s2 = None \<and> cn_ctx s2 = None"
proof -
  let ?s = "s\<lparr>cn_egressPoller := Some p, cn_world := w,
     cn_leadershipTermId := ep_leaderMemberId p, cn_leaderMemberId := ep_leaderMemberId p,
     cn_clusterSessionId := ep_clusterSessionId p, cn_egressImage := Some img, cn_step := 4\<rparr>"
  have first: "client_connect_poll L s = Some (Inr None, ?s)"
    using assms(1) by (simp add: poll_at [OF assms(2)] bindE_Some(1) [where m = "pollResponse L",
      OF pollResponse_accepted [OF assms(3-6)]] exec_run)
  have "0 \<le> cn_deadlineNs ?s" using assms(2) by simp
  from poll_at [OF this, of L] have "client_connect_poll L ?s = concludeConnect L ?s" by simp
  also have "\<exists>cluster s2. concludeConnect L ?s = Some (Inr (Some cluster), s2)
     \<and> cl_clusterSessionId cluster = ep_clusterSessionId p \<and> cl_leadershipTermId cluster = ep_leaderMemberId p
     \<and> cl_publication cluster = Some q \<and> cl_subscription cluster = cn_egressSubscription s
     \<and> cl_egressImage cluster = img \<and> cl_ctx cluster = ctx
     \<and> cn_step s2 = 5 \<and> cn_ingressPublication s2 = None \<and> cn_egressSubscription s2 = None \<and> cn_ctx s2 = None"
    using assms(7-9) by (simp add: concludeConnect_def cn_deref_def bindE_run derefE_run exec_run set_step_def
      new_aeron_cluster_def Let_def)
  ultimately show ?thesis using first by auto
qed

theorem connected_client_witness:
  "\<exists>s1 s2 cluster. client_connect_poll accepting_env (awaiting demo_poller) = Some (Inr None, s1)
     \<and> client_connect_poll accepting_env s1 = Some (Inr (Some cluster), s2)
     \<and> cl_clusterSessionId cluster = 9 \<and> cl_leadershipTermId cluster = 1 \<and> ep_leadershipTermId accepted_poller = 7"
proof -
  obtain c where c: "cn_ctx (awaiting demo_poller) = Some c"
    using demo_connect_run(5) [of demo_client_context 0] by (auto simp: awaiting_def demo_client_context_def)
  have "cn_deadlineNs (awaiting demo_poller) = 0" "cn_world (awaiting demo_poller) = 0"
    by (simp_all add: awaiting_def demo_connect_def client_asyncConnect_def client_conclude_def demo_client_context_def
      bindE_def zoomE_def exec_run whenE_def new_client_connect_def messageTimeoutNs_def)
  moreover have "accepted_response (cn_correlationId (awaiting demo_poller)) 6 accepted_poller"
    by (simp add: accepted_response_def accepted_poller_def awaiting_def demo_poller_def)
  moreover have "cn_memberByIdMap (awaiting demo_poller) = []"
    using demo_connect_run(3) [of demo_client_context 0] by (simp add: awaiting_def demo_client_context_def)
  ultimately show ?thesis
    using connected_client [of "awaiting demo_poller" demo_poller accepting_env 1 accepted_poller 0 6 c 0] accepting_poll [of 0] c
    by (auto simp: awaiting_def accepted_poller_def)
qed

section \<open>Challenges\<close>

definition unchallenged :: "('b, 'w) client_connect \<Rightarrow> bool" where
  "unchallenged s \<longleftrightarrow> (\<forall>p. cn_egressPoller s = Some p \<longrightarrow> \<not> ep_isChallenged p)"

lemma unchallenged_world: "unchallenged (s\<lparr>cn_world := w\<rparr>) = unchallenged s"
  by (simp add: unchallenged_def)

lemma preserves_unchallenged: "keeps cn_egressPoller m \<Longrightarrow> preserves unchallenged m"
  by (auto simp: keeps_def preserves_def unchallenged_def)

lemma unchallenged_pollerE: "preserves unchallenged (pollerE (poller_poll L))"
proof (rule preservesI)
  fix s r s' assume s: "unchallenged s" and run: "pollerE (poller_poll L) s = Some (r, s')"
  show "unchallenged s'"
  proof (cases "cn_egressPoller s")
    case None
    with run s show ?thesis by (auto simp: pollerE_def cn_deref_def bindE_run derefE_run exec_run)
  next
    case (Some p)
    with run obtain q w where "poller_poll L (p, cn_world s) = Some (r, (q, w))" "cn_egressPoller s' = Some q"
      by (auto simp: pollerE_def cn_deref_def bindE_run derefE_run zoomE_eq_Some)
    with keepsD [OF keeps_isChallenged_poll this(1)] s Some show ?thesis by (simp add: unchallenged_def)
  qed
qed

lemma unchallenged_poll:
  assumes "\<And>w. \<not> ep_isChallenged (uninit_poller L w)"
  shows "preserves unchallenged (client_connect_poll L)"
proof -
  have sub: "preserves unchallenged (createEgressSubscription L)"
    unfolding createEgressSubscription_def
    by (intro preserves_rules) (auto simp: unchallenged_def new_egress_poller_def assms)
  have frames: "keeps cn_egressPoller (checkDeadline L)" "keeps cn_egressPoller (createIngressPublications L)"
    "keeps cn_egressPoller (awaitPublicationConnected L)" "keeps cn_egressPoller (sendMessage L)"
    "keeps cn_egressPoller (concludeConnect L)" "keeps cn_egressPoller (updateMembers L)"
    "keeps cn_egressPoller (prepareChallengeResponse L c)" for c
    unfolding createIngressPublications_def awaitPublicationConnected_def sendMessage_def concludeConnect_def
      updateMembers_def Let_def
    by (intro keeps_rules; simp)+
  have rest: "keeps cn_egressPoller (bindE (cn_deref ''m_egressPoller'' cn_egressPoller) h)"
    if "\<And>x. keeps cn_egressPoller (h x)" for h :: "egress_poller \<Rightarrow> (('b, 'w) client_connect, unit) exec"
    using that by (intro keeps_rules)
  have poll: "preserves unchallenged (pollResponse L)"
    unfolding pollResponse_def
    by (rule preserves_bindE, rule unchallenged_pollerE, rule preserves_unchallenged)
      (intro keeps_rules frames; simp)
  show ?thesis
    unfolding client_connect_poll_def
    by (intro preserves_bindE preserves_cases preserves_atoms sub poll preserves_unchallenged [OF frames(1)]
      preserves_unchallenged [OF frames(2)] preserves_unchallenged [OF frames(3)] preserves_unchallenged [OF frames(4)]
      preserves_unchallenged [OF frames(5)])
qed

text \<open>The operations other than the response do not depend on the answer to a challenge.\<close>

lemma credentials_unused_loops:
  fixes L :: "('b, 'w, 'z) client_env_scheme"
  shows "create_members (L\<lparr>credentials_onChallenge := f\<rparr>) ctx ks n = create_members L ctx ks n"
    "prepareConnectRequest (L\<lparr>credentials_onChallenge := f\<rparr>) = prepareConnectRequest L"
    "connect_member (L\<lparr>credentials_onChallenge := f\<rparr>) c ks = connect_member L c ks"
proof -
  have "create_member (L\<lparr>credentials_onChallenge := f\<rparr>) = create_member L"
    by (intro ext) (simp add: create_member_def cong: if_cong option.case_cong)
  then show "create_members (L\<lparr>credentials_onChallenge := f\<rparr>) ctx ks n = create_members L ctx ks n"
    by (induction ks arbitrary: n) simp_all
  show prepare: "prepareConnectRequest (L\<lparr>credentials_onChallenge := f\<rparr>) = prepareConnectRequest L"
    by (intro ext) (simp add: prepareConnectRequest_def cong: if_cong option.case_cong)
  show "connect_member (L\<lparr>credentials_onChallenge := f\<rparr>) c ks = connect_member L c ks"
    by (induction ks) (simp_all add: prepare cong: if_cong option.case_cong)
qed

lemma credentials_unused:
  fixes L :: "('b, 'w, 'z) client_env_scheme"
  shows "checkDeadline (L\<lparr>credentials_onChallenge := f\<rparr>) = checkDeadline L"
    "createEgressSubscription (L\<lparr>credentials_onChallenge := f\<rparr>) = createEgressSubscription L"
    "createIngressPublications (L\<lparr>credentials_onChallenge := f\<rparr>) = createIngressPublications L"
    "sendMessage (L\<lparr>credentials_onChallenge := f\<rparr>) = sendMessage L"
    "awaitPublicationConnected (L\<lparr>credentials_onChallenge := f\<rparr>) = awaitPublicationConnected L"
    "updateMembers (L\<lparr>credentials_onChallenge := f\<rparr>) = updateMembers L"
    "concludeConnect (L\<lparr>credentials_onChallenge := f\<rparr>) = concludeConnect L"
    "poller_poll (L\<lparr>credentials_onChallenge := f\<rparr>) = poller_poll L"
proof -
  have close: "close_member (L\<lparr>credentials_onChallenge := f\<rparr>) = close_member L"
    by (intro ext) (simp add: close_member_def cong: option.case_cong)
  have fragment: "poller_onFragment (L\<lparr>credentials_onChallenge := f\<rparr>) = poller_onFragment L"
    by (intro ext) (simp add: poller_onFragment_def poller_header_of_def decode_from_def rest_length_def cong: if_cong option.case_cong)
  show "checkDeadline (L\<lparr>credentials_onChallenge := f\<rparr>) = checkDeadline L"
    "createEgressSubscription (L\<lparr>credentials_onChallenge := f\<rparr>) = createEgressSubscription L"
    "createIngressPublications (L\<lparr>credentials_onChallenge := f\<rparr>) = createIngressPublications L"
    "sendMessage (L\<lparr>credentials_onChallenge := f\<rparr>) = sendMessage L"
    "awaitPublicationConnected (L\<lparr>credentials_onChallenge := f\<rparr>) = awaitPublicationConnected L"
    "updateMembers (L\<lparr>credentials_onChallenge := f\<rparr>) = updateMembers L"
    "concludeConnect (L\<lparr>credentials_onChallenge := f\<rparr>) = concludeConnect L"
    "poller_poll (L\<lparr>credentials_onChallenge := f\<rparr>) = poller_poll L"
    by (simp_all add: checkDeadline_def createEgressSubscription_def createIngressPublications_def sendMessage_def
      awaitPublicationConnected_def updateMembers_def concludeConnect_def poller_poll_def close fragment
      credentials_unused_loops cong: if_cong option.case_cong)
qed

lemma response_unchallenged:
  fixes L :: "('b, 'w, 'z) client_env_scheme"
  assumes "unchallenged s"
  shows "pollResponse (L\<lparr>credentials_onChallenge := f\<rparr>) s = pollResponse L s"
proof (cases "pollerE (poller_poll L) s")
  case None
  then show ?thesis by (simp add: pollResponse_def credentials_unused bindE_def)
next
  case (Some y)
  obtain r s1 where y: "y = (r, s1)" by (cases y)
  show ?thesis
  proof (cases r)
    case (Inl e)
    with Some y show ?thesis by (simp add: pollResponse_def credentials_unused bindE_def)
  next
    case (Inr n)
    have "unchallenged s1" using preservesD [OF unchallenged_pollerE assms Some [unfolded y]] .
    with Some y Inr show ?thesis
      by (cases "cn_egressPoller s1")
        (simp_all add: pollResponse_def credentials_unused bindE_Some(1) [where m = "pollerE (poller_poll L)"] cn_deref_def
          bindE_run derefE_run unchallenged_def cong: if_cong option.case_cong event_code.case_cong)
  qed
qed

text \<open>C39. Challenges are never answered: if the memory of the poller's flag reads false, then in every state that the polls
  lead to, what the credentials supplier would answer to a challenge makes no difference to the next poll, because
  nothing sets the flag.\<close>

theorem challenge_never_answered:
  fixes L :: "('b, 'w, 'z) client_env_scheme"
  assumes "client_asyncConnect L (ctx, w) = Some (Inr s, ctx', w')" "polled_to L s s1"
    "\<And>w. \<not> ep_isChallenged (uninit_poller L w)"
  shows "client_connect_poll (L\<lparr>credentials_onChallenge := f\<rparr>) s1 = client_connect_poll L s1"
proof -
  have "unchallenged s"
    using assms(1) by (auto simp: client_asyncConnect_def bindE_eq_Some_Inr exec_run new_client_connect_def unchallenged_def)
  with assms(2) have s1: "unchallenged s1"
    by (induction rule: polled_to.induct) (use preservesD [OF unchallenged_poll [OF assms(3)]] in blast)+
  have "keeps cn_egressPoller (checkDeadline L)" by (intro keeps_checkDeadline) simp
  then have deadline: "unchallenged s2" if "checkDeadline L s1 = Some (r, s2)" for r s2
    using preservesD [OF preserves_unchallenged [where m = "checkDeadline L"]] s1 that by blast
  show ?thesis
  proof (cases "checkDeadline L s1")
    case None
    then show ?thesis by (simp add: client_connect_poll_def credentials_unused bindE_def)
  next
    case (Some y)
    obtain r s2 where y: "y = (r, s2)" by (cases y)
    have s2: "pollResponse (L\<lparr>credentials_onChallenge := f\<rparr>) s2 = pollResponse L s2"
      using response_unchallenged [OF deadline] Some y by blast
    show ?thesis
    proof (cases r)
      case (Inl e)
      with Some y show ?thesis by (simp add: client_connect_poll_def credentials_unused bindE_def)
    next
      case (Inr u)
      have "bindE (pollResponse (L\<lparr>credentials_onChallenge := f\<rparr>)) h s2 = bindE (pollResponse L) h s2"
        for h :: "unit \<Rightarrow> (('b, 'w) client_connect, aeron_cluster option) exec"
        unfolding bindE_def s2 ..
      with Some y Inr show ?thesis
        by (simp add: client_connect_poll_def credentials_unused bindE_Some(1) [where m = "checkDeadline L"] bindE_run(3))
    qed
  qed
qed

theorem challenge_never_answered_witness:
  "\<forall>f. client_connect_poll (accepting_env\<lparr>credentials_onChallenge := f\<rparr>) (demo_connect demo_client_context)
     = client_connect_poll accepting_env (demo_connect demo_client_context)"
proof -
  obtain c where "client_asyncConnect accepting_env (demo_client_context, 0)
      = Some (Inr (demo_connect demo_client_context), c, 0)"
    using demo_connect_run(1) [of demo_client_context 0]
    by (auto simp: accepting_env_def client_asyncConnect_def client_conclude_def demo_client_context_def new_client_connect_def)
  from challenge_never_answered [OF this here] show ?thesis by (simp add: accepting_env_def demo_poller_def)
qed

end
