(* ===== verification/MarkFile.thy ===== *)
theory MarkFile
  imports Environment
begin

text \<open>
  \<open>ClusterMarkFile\<close>: the file that marks a running component. The file system, the mapping of
  files and the clock are parameters; the header of the mapped file is a record. A file that is
  created has a header of zeros; which component type a zero is belongs to the schema, so it is a
  parameter as well. An access through a buffer that was never wrapped around memory is written as
  the use of a null pointer (the library raises an exception instead where it checks bounds).
\<close>

definition HEADER_LENGTH :: int where "HEADER_LENGTH = 8 * 1024"
definition VERSION_FAILED :: int where "VERSION_FAILED = -1"
definition ERROR_BUFFER_MIN_LENGTH :: i32 where "ERROR_BUFFER_MIN_LENGTH = 1024 * 1024"
definition ERROR_BUFFER_MAX_LENGTH :: i32 where "ERROR_BUFFER_MAX_LENGTH = 2 ^ 31 - 1 - HEADER_LENGTH"
definition MARK_FILENAME :: string where "MARK_FILENAME = ''cluster-mark.dat''"
definition SERVICE_FILENAME_PREFIX :: string where "SERVICE_FILENAME_PREFIX = ''cluster-mark-service-''"

section \<open>File names\<close>

text \<open>\<open>std::string::find_first_of\<close>: the first position that holds any of the characters.\<close>

fun find_first_of :: "string \<Rightarrow> string \<Rightarrow> nat option" where
  "find_first_of cs [] = None"
| "find_first_of cs (x # xs) = (if x \<in> set cs then Some 0 else map_option Suc (find_first_of cs xs))"

definition isServiceMarkFile :: "string \<Rightarrow> bool" where
  "isServiceMarkFile path \<longleftrightarrow> find_first_of SERVICE_FILENAME_PREFIX path = Some 0"

definition isConsensusModuleMarkFile :: "string \<Rightarrow> bool" where
  "isConsensusModuleMarkFile path \<longleftrightarrow> path = MARK_FILENAME"

section \<open>The constructor\<close>

datatype component_type = NULL_COMPONENT | CONSENSUS_MODULE | CONTAINER | BACKUP | STANDBY

record mark_header =
  mk_version :: int
  mk_candidateTermId :: i64
  mk_componentType :: component_type
  mk_headerLength :: int
  mk_errorBufferLength :: int
  mk_pid :: i64
  mk_startTimestamp :: i64
  mk_memberId :: i32
  mk_clusterId :: i32

record 'w mark_env =
  fileExists :: "string \<Rightarrow> ('w, bool) call"
  mapExisting :: "string \<Rightarrow> ('w, mark_header) call"
  createNew :: "string \<Rightarrow> int \<Rightarrow> ('w, unit) call"
  setMemory :: "int \<Rightarrow> int \<Rightarrow> ('w, unit) call"
  getpid :: "('w, i64) call"
  epochClock_time :: "('w, i64) call"
  mark_null_value :: i64
  componentType_zero :: component_type

definition new_mark_header :: "('w, 'z) mark_env_scheme \<Rightarrow> mark_header" where
  "new_mark_header F = \<lparr>mk_version = 0, mk_candidateTermId = 0, mk_componentType = componentType_zero F,
     mk_headerLength = 0, mk_errorBufferLength = 0, mk_pid = 0, mk_startTimestamp = 0,
     mk_memberId = 0, mk_clusterId = 0\<rparr>"

text \<open>
  The check of the length of the error buffer has an empty body, so the sum may be out of the
  range of \<open>int\<close>; it is taken to wrap. The result is the header and the length of a created file.
\<close>

definition total_file_length :: "i32 \<Rightarrow> i32" where
  "total_file_length errorBufferLength = to_i32 (HEADER_LENGTH + errorBufferLength)"

definition map_mark_file :: "('w, 'z) mark_env_scheme \<Rightarrow> string \<Rightarrow> bool \<Rightarrow> i32 \<Rightarrow> ('w, mark_header) exec" where
  "map_mark_file F markFilename exists errorBufferLength =
     (if exists then callE (mapExisting F markFilename)
      else bindE (callE (createNew F markFilename (total_file_length errorBufferLength))) (\<lambda>_.
           retE (new_mark_header F)))"

definition clear_errors :: "('w, 'z) mark_env_scheme \<Rightarrow> bool \<Rightarrow> mark_header \<Rightarrow> ('w, mark_header) exec" where
  "clear_errors F exists h =
     (if exists then bindE (callE (setMemory F (mk_headerLength h) (mk_errorBufferLength h))) (\<lambda>_. retE h)
      else retE (h\<lparr>mk_candidateTermId := mark_null_value F\<rparr>))"

definition type_compatible :: "component_type \<Rightarrow> component_type \<Rightarrow> bool" where
  "type_compatible existingType type \<longleftrightarrow>
     \<not> (existingType \<noteq> NULL_COMPONENT \<and> existingType \<noteq> type
        \<and> (existingType \<noteq> BACKUP \<or> CONSENSUS_MODULE \<noteq> type))"

text \<open>The object: the header in the mapped memory and \<open>m_buffer\<close>, which nothing wraps around it.\<close>

record mark_file =
  mf_header :: mark_header
  mf_bufferWrapped :: bool

definition new_mark_file :: "('w, 'z) mark_env_scheme \<Rightarrow> string \<Rightarrow> component_type \<Rightarrow> i32 \<Rightarrow>
    ('w, mark_file) exec" where
  "new_mark_file F markFilename type errorBufferLength =
     bindE (callE (fileExists F markFilename)) (\<lambda>exists.
     bindE (map_mark_file F markFilename exists errorBufferLength) (\<lambda>h.
     bindE (clear_errors F exists h) (\<lambda>h.
     if \<not> type_compatible (mk_componentType h) type then throwE (ThrownPointer MarkFileTypeMismatch)
     else
       bindE (callE (getpid F)) (\<lambda>pid.
       bindE (callE (epochClock_time F)) (\<lambda>now.
       retE \<lparr> mf_header = h\<lparr>mk_componentType := type, mk_headerLength := HEADER_LENGTH,
                mk_errorBufferLength := errorBufferLength, mk_pid := pid, mk_startTimestamp := now\<rparr>,
              mf_bufferWrapped = False \<rparr>)))))"

section \<open>Accessors through the buffer\<close>

definition through_buffer :: "(mark_header \<Rightarrow> 'a) \<Rightarrow> (mark_file, 'a) exec" where
  "through_buffer f =
     bindE (getsE id) (\<lambda>m. if mf_bufferWrapped m then retE (f (mf_header m)) else throwE (NullDereference ''m_buffer''))"

definition mark_candidateTermId :: "(mark_file, i64) exec" where
  "mark_candidateTermId = through_buffer mk_candidateTermId"

definition mark_memberId :: "(mark_file, i32) exec" where
  "mark_memberId = through_buffer mk_memberId"

definition set_mark_memberId :: "i32 \<Rightarrow> (mark_file, unit) exec" where
  "set_mark_memberId i = bindE (through_buffer (\<lambda>_. ())) (\<lambda>_.
     modifyE (\<lambda>m. m\<lparr>mf_header := (mf_header m)\<lparr>mk_memberId := i\<rparr>\<rparr>))"

definition mark_clusterId :: "(mark_file, i32) exec" where
  "mark_clusterId = through_buffer mk_clusterId"

definition set_mark_clusterId :: "i32 \<Rightarrow> (mark_file, unit) exec" where
  "set_mark_clusterId i = bindE (through_buffer (\<lambda>_. ())) (\<lambda>_.
     modifyE (\<lambda>m. m\<lparr>mf_header := (mf_header m)\<lparr>mk_clusterId := i\<rparr>\<rparr>))"

end
