(* ===== verification/MarkFileProperties.thy ===== *)
theory MarkFileProperties
  imports MarkFile
begin

text \<open>
  What opening a mark file leaves behind, in the file and in the object: the checks that the
  constructor makes, the ones it does not make, and what can be read afterwards.
\<close>

text \<open>A file system with at most one mark file, which holds a header; the world is the list of the
  ranges that were cleared.\<close>

definition demo_files :: "mark_header option \<Rightarrow> (int \<times> int) list mark_env" where
  "demo_files file = \<lparr>fileExists = (\<lambda>_ w. (Inr (file \<noteq> None), w)), mapExisting = (\<lambda>_ w. (Inr (the file), w)),
     createNew = (\<lambda>_ _ w. (Inr (), w)), setMemory = (\<lambda>offset n w. (Inr (), w @ [(offset, n)])),
     getpid = (\<lambda>w. (Inr 77, w)), epochClock_time = (\<lambda>w. (Inr 1000, w)), mark_null_value = -1,
     componentType_zero = NULL_COMPONENT\<rparr>"

definition demo_header :: "component_type \<Rightarrow> mark_header" where
  "demo_header type = \<lparr>mk_version = 1, mk_candidateTermId = 4, mk_componentType = type, mk_headerLength = 8192,
     mk_errorBufferLength = 1048576, mk_pid = 5, mk_startTimestamp = 3, mk_memberId = 2, mk_clusterId = 0\<rparr>"

section \<open>Opening\<close>

lemma clear_errors_keeps:
  "clear_errors F exists h w = Some (Inr h', w') \<Longrightarrow>
     mk_componentType h' = mk_componentType h \<and> mk_memberId h' = mk_memberId h
     \<and> mk_candidateTermId h' = (if exists then mk_candidateTermId h else mark_null_value F)"
  by (auto simp: clear_errors_def bindE_eq_Some_Inr exec_run split: if_splits)

text \<open>A file that exists and can be mapped, with a clock that works.\<close>

definition opens_existing :: "('w, 'z) mark_env_scheme \<Rightarrow> string \<Rightarrow> 'w \<Rightarrow> mark_header \<Rightarrow> 'w \<Rightarrow> bool" where
  "opens_existing F name w h w2 \<longleftrightarrow> (\<exists>w1. fileExists F name w = (Inr True, w1) \<and> mapExisting F name w1 = (Inr h, w2))"

text \<open>C40. Opening a mark file fills in the header: the type and the lengths are those that were asked for, the process
  is the one that \<open>getpid\<close> answers and the start time is the one that the clock then answers, whatever the file held; the
  candidate term of a file that was created is the null value and that of a file that existed is kept, as is the
  member; and the file was free, had the same type, or was a backup's that becomes a consensus module's.\<close>

theorem mark_file_opened:
  assumes "new_mark_file F name type n w = Some (Inr m, w')" "fileExists F name w = (Inr present, w1)"
  shows "mk_componentType (mf_header m) = type \<and> mk_headerLength (mf_header m) = HEADER_LENGTH
    \<and> mk_errorBufferLength (mf_header m) = n
    \<and> (\<exists>w3 w4. getpid F w3 = (Inr (mk_pid (mf_header m)), w4)
          \<and> epochClock_time F w4 = (Inr (mk_startTimestamp (mf_header m)), w'))
    \<and> (\<exists>h w2. (if present then mapExisting F name w1 = (Inr h, w2)
          else createNew F name (total_file_length n) w1 = (Inr (), w2) \<and> h = new_mark_header F)
        \<and> mk_candidateTermId (mf_header m) = (if present then mk_candidateTermId h else mark_null_value F)
        \<and> mk_memberId (mf_header m) = mk_memberId h
        \<and> (mk_componentType h = NULL_COMPONENT \<or> mk_componentType h = type
           \<or> mk_componentType h = BACKUP \<and> type = CONSENSUS_MODULE))"
proof -
  from assms obtain h w2 h' w3 w4 where map: "map_mark_file F name present n w1 = Some (Inr h, w2)"
    and clear: "clear_errors F present h w2 = Some (Inr h', w3)" and fit: "type_compatible (mk_componentType h') type"
    and own: "getpid F w3 = (Inr (mk_pid (mf_header m)), w4)" "epochClock_time F w4 = (Inr (mk_startTimestamp (mf_header m)), w')"
    and m: "mk_componentType (mf_header m) = type" "mk_headerLength (mf_header m) = HEADER_LENGTH"
      "mk_errorBufferLength (mf_header m) = n" "mk_candidateTermId (mf_header m) = mk_candidateTermId h'"
      "mk_memberId (mf_header m) = mk_memberId h'"
    by (auto simp: new_mark_file_def bindE_eq_Some_Inr exec_run split: if_splits)
  from map have "if present then mapExisting F name w1 = (Inr h, w2)
      else createNew F name (total_file_length n) w1 = (Inr (), w2) \<and> h = new_mark_header F"
    by (auto simp: map_mark_file_def bindE_eq_Some_Inr exec_run split: if_splits)
  moreover have "mk_componentType h = NULL_COMPONENT \<or> mk_componentType h = type
      \<or> mk_componentType h = BACKUP \<and> type = CONSENSUS_MODULE"
    using fit clear_errors_keeps [OF clear] by (auto simp: type_compatible_def)
  ultimately have "\<exists>h w2. (if present then mapExisting F name w1 = (Inr h, w2)
          else createNew F name (total_file_length n) w1 = (Inr (), w2) \<and> h = new_mark_header F)
        \<and> mk_candidateTermId (mf_header m) = (if present then mk_candidateTermId h else mark_null_value F)
        \<and> mk_memberId (mf_header m) = mk_memberId h
        \<and> (mk_componentType h = NULL_COMPONENT \<or> mk_componentType h = type
           \<or> mk_componentType h = BACKUP \<and> type = CONSENSUS_MODULE)"
    using m clear_errors_keeps [OF clear] by (intro exI [of _ h] exI [of _ w2] conjI) simp_all
  with m own show ?thesis by blast
qed

theorem mark_file_opened_witness:
  "\<exists>m w'. new_mark_file (demo_files (Some (demo_header BACKUP))) ''cluster-mark.dat'' CONSENSUS_MODULE 1048576 []
       = Some (Inr m, w')
     \<and> mk_componentType (mf_header m) = CONSENSUS_MODULE \<and> mk_candidateTermId (mf_header m) = 4
     \<and> mk_pid (mf_header m) = 77 \<and> mk_startTimestamp (mf_header m) = 1000"
proof -
  let ?F = "demo_files (Some (demo_header BACKUP))"
  obtain m w' where run: "new_mark_file ?F ''cluster-mark.dat'' CONSENSUS_MODULE 1048576 [] = Some (Inr m, w')"
    by (auto simp: new_mark_file_def map_mark_file_def clear_errors_def bindE_def exec_run demo_files_def demo_header_def
      type_compatible_def)
  from mark_file_opened [OF this, of True "[]"] show ?thesis
    using run by (auto simp: demo_files_def demo_header_def)
qed

text \<open>The owner of a mark file is protected too late: opening it for another type throws, but only after the
  errors recorded in the file were cleared; a backup's file that became a consensus module's does not open
  as a backup's again.\<close>

theorem mark_file_mismatch:
  assumes "opens_existing F name w h w2" "setMemory F (mk_headerLength h) (mk_errorBufferLength h) w2 = (Inr (), w3)"
    "mk_componentType h \<noteq> NULL_COMPONENT" "mk_componentType h \<noteq> type" "mk_componentType h \<noteq> BACKUP \<or> type \<noteq> CONSENSUS_MODULE"
  shows "new_mark_file F name type n w = Some (Inl (ThrownPointer MarkFileTypeMismatch), w3)"
  using assms
  by (auto simp: opens_existing_def new_mark_file_def map_mark_file_def clear_errors_def bindE_def exec_run type_compatible_def)

theorem mark_file_mismatch_witness:
  "new_mark_file (demo_files (Some (demo_header CONSENSUS_MODULE))) ''cluster-mark.dat'' BACKUP 1048576 []
     = Some (Inl (ThrownPointer MarkFileTypeMismatch), [(8192, 1048576)])"
  by (rule mark_file_mismatch [of _ _ _ "demo_header CONSENSUS_MODULE" "[]"])
    (simp_all add: opens_existing_def demo_files_def demo_header_def)

section \<open>The error buffer\<close>

text \<open>The length of a created file is the header plus the error buffer for every length that the limits allow;
  beyond the upper limit, which nothing enforces, the sum is out of range and wraps to a negative length.\<close>

theorem error_buffer_bounds:
  assumes "0 \<le> n" "n < 2 ^ 31"
  shows "total_file_length n = (if n \<le> ERROR_BUFFER_MAX_LENGTH then HEADER_LENGTH + n else HEADER_LENGTH + n - 2 ^ 32)
    \<and> (0 < total_file_length n) = (n \<le> ERROR_BUFFER_MAX_LENGTH)"
proof (cases "n \<le> ERROR_BUFFER_MAX_LENGTH")
  case True
  with assms show ?thesis
    by (simp add: total_file_length_def to_i32_id i32_range_def HEADER_LENGTH_def ERROR_BUFFER_MAX_LENGTH_def)
next
  case False
  with assms have n: "2 ^ 31 \<le> HEADER_LENGTH + n" "HEADER_LENGTH + n < 2 ^ 31 + 2 ^ 13"
    by (simp_all add: ERROR_BUFFER_MAX_LENGTH_def HEADER_LENGTH_def)
  have "(HEADER_LENGTH + n + 2 ^ 31) mod 2 ^ 32 = (HEADER_LENGTH + n - 2 ^ 31) mod (2 ^ 32 :: int)"
    by (simp add: mod_eq_dvd_iff)
  also have "\<dots> = HEADER_LENGTH + n - 2 ^ 31" using n by (intro mod_pos_pos_trivial) simp_all
  finally have "to_i32 (HEADER_LENGTH + n) = HEADER_LENGTH + n - 2 ^ 32"
    by (simp add: to_i32_def signed_take_bit_eq_take_bit_shift take_bit_eq_mod)
  with False n show ?thesis by (simp add: total_file_length_def)
qed

theorem error_buffer_bounds_witness:
  "total_file_length (2 ^ 31 - 1) = 8191 - 2 ^ 31 \<and> total_file_length 1048576 = 1056768"
  using error_buffer_bounds [of 1048576] error_buffer_bounds [of "2 ^ 31 - 1"]
  by (simp add: ERROR_BUFFER_MAX_LENGTH_def HEADER_LENGTH_def)

section \<open>Reading the file\<close>

lemma new_file_not_wrapped: "new_mark_file F name type n w = Some (Inr m, w') \<Longrightarrow> \<not> mf_bufferWrapped m"
  by (auto simp: new_mark_file_def bindE_eq_Some_Inr exec_run split: if_splits)

text \<open>The identities in an open mark file cannot be reached: reading and writing the member and the cluster and
  reading the candidate term all fail, because nothing makes the object's buffer refer to the file.\<close>

lemma mark_file_unreadable:
  assumes "new_mark_file F name type n w = Some (Inr m, w')"
  shows "mark_memberId m = Some (Inl (NullDereference ''m_buffer''), m)
    \<and> mark_clusterId m = Some (Inl (NullDereference ''m_buffer''), m)
    \<and> mark_candidateTermId m = Some (Inl (NullDereference ''m_buffer''), m)
    \<and> set_mark_memberId i m = Some (Inl (NullDereference ''m_buffer''), m)
    \<and> set_mark_clusterId j m = Some (Inl (NullDereference ''m_buffer''), m)"
  using new_file_not_wrapped [OF assms]
  by (simp add: mark_memberId_def mark_clusterId_def mark_candidateTermId_def set_mark_memberId_def set_mark_clusterId_def
    through_buffer_def bindE_def exec_run)

section \<open>Names\<close>

lemma find_first_of_zero: "find_first_of cs path = Some 0 \<longleftrightarrow> path \<noteq> [] \<and> hd path \<in> set cs"
  by (cases path) auto

text \<open>The test for the mark file of a service looks at one character: it accepts exactly the paths that begin with a
  letter of the prefix, among them the name of the consensus module's mark file.\<close>

lemma service_mark_file_names:
  "isServiceMarkFile path = (path \<noteq> [] \<and> hd path \<in> {CHR ''c'', CHR ''l'', CHR ''u'', CHR ''s'', CHR ''t'', CHR ''e'',
     CHR ''r'', CHR ''-'', CHR ''m'', CHR ''a'', CHR ''k'', CHR ''v'', CHR ''i''})
   \<and> isServiceMarkFile MARK_FILENAME \<and> isConsensusModuleMarkFile MARK_FILENAME"
  by (auto simp: isServiceMarkFile_def isConsensusModuleMarkFile_def find_first_of_zero SERVICE_FILENAME_PREFIX_def
    MARK_FILENAME_def)

end
