(* ===== verification/ServiceMain.thy ===== *)
theory ServiceMain
  imports ServiceConnect
begin

text \<open>
  \<open>service-main.cpp\<close>: the service \<open>TestService\<close> and the program that runs it: it connects a
  container and then works for ever. What it prints is left out. The buffer with the text that
  the service offers to its snapshot is a parameter.
\<close>

section \<open>TestService\<close>

text \<open>The result of \<open>offer\<close>, a position or a negative status, is returned as a \<open>bool\<close>.\<close>

definition test_onTakeSnapshot :: "('b, 'w, 'z) aeron_scheme \<Rightarrow> 'b \<Rightarrow> pub \<Rightarrow> (bool, 'w) callback" where
  "test_onTakeSnapshot L hello snapshotPublication =
     World (\<lambda>w. snd (pub_offer L snapshotPublication hello w))
       (\<lambda>w. case fst (pub_offer L snapshotPublication hello w) of Inl e \<Rightarrow> Raise e | Inr r \<Rightarrow> Return (r \<noteq> 0))"

definition test_service :: "'b \<Rightarrow> ('b, 'w, 'z) env_scheme \<Rightarrow> ('b, 'w, 'z) env_scheme" where
  "test_service hello E = E\<lparr>
     svc_onStart := \<lambda>_. Return True,
     svc_onSessionOpen := \<lambda>_ _. Return (),
     svc_onSessionClose := \<lambda>_ _ _. Return (),
     svc_onSessionMessage := \<lambda>_ _ _ _ _ _. Return (),
     svc_onTimerEvent := \<lambda>_ _. Return (),
     svc_onTakeSnapshot := test_onTakeSnapshot E hello,
     svc_onRoleChange := \<lambda>_. Return (),
     svc_onNewLeadershipTermEvent := \<lambda>_ _ _ _ _ _ _. Return ()\<rparr>"

section \<open>The program\<close>

definition main_context :: "('b, 'w, 'z) aeron_scheme \<Rightarrow> i32 \<Rightarrow> archive_context \<Rightarrow> service_context" where
  "main_context L uninit_appVersion arc =
     with_clusteredService True
       (with_archiveContext (arc\<lparr>arc_controlRequestChannel := ''aeron:ipc'', arc_controlResponseChannel := ''aeron:ipc''\<rparr>)
         (with_serviceId 0 (default_context L uninit_appVersion arc)))"

text \<open>The loop that polls until the agent is there, from its first round on.\<close>

partial_function (option) await_agent :: "('b, 'w, 'z) env_scheme \<Rightarrow> service_context \<Rightarrow> 'w service_connect \<Rightarrow>
    ((cluster_error + unit) \<times> 'w service_connect) option" where
  "await_agent E ctx c =
     bindE (connect_call (idle_idle E)) (\<lambda>_.
     bindE (derefE ''aeron'' (ctx_aeron ctx)) (\<lambda>_.
     bindE (connect_call (aeron_usesAgentInvoker E)) (\<lambda>invoker.
     bindE (whenE invoker (connect_call (aeron_invoke E))) (\<lambda>_.
     bindE (service_connect_poll E) (\<lambda>cluster.
     if cluster then retE () else await_agent E ctx))))) c"

partial_function (option) work_forever :: "('b, 'w, 'z) env_scheme \<Rightarrow> 'w sys \<Rightarrow>
    ((cluster_error + unit) \<times> 'w sys) option" where
  "work_forever E s =
     bindE (world_call (idle_idle E)) (\<lambda>_.
     bindE (doWork E) (\<lambda>_. work_forever E)) s"

definition run_agent :: "('b, 'w, 'z) env_scheme \<Rightarrow> service_context \<Rightarrow> ('w service_connect, unit) exec" where
  "run_agent E ctx =
     bindE (service_connect_poll E) (\<lambda>cluster.
     bindE (if cluster then retE () else await_agent E ctx) (\<lambda>_.
     agentE (work_forever E)))"

definition service_main :: "('b, 'w, 'z) env_scheme \<Rightarrow> 'b \<Rightarrow> i32 \<Rightarrow> archive_context \<Rightarrow> ('w, unit) exec" where
  "service_main E hello uninit_appVersion arc w =
     (case service_asyncConnect (test_service hello E) (main_context E uninit_appVersion arc, w) of
        None \<Rightarrow> None
      | Some (Inl e, (_, w1)) \<Rightarrow> Some (Inl e, w1)
      | Some (Inr c, (ctx, _)) \<Rightarrow>
          map_option (\<lambda>(r, c). (r, world (ac_agent c))) (run_agent (test_service hello E) ctx c))"

end
