(* ===== verification/MainProperties.thy ===== *)
theory MainProperties
  imports ServiceMain SafetyProperties SnapshotProperties
begin

text \<open>
  The container as a program: a run of \<open>service-main.cpp\<close> from the context on, with its own
  service. It never ends by itself, and it is free of null dereferences.
\<close>

section \<open>The loops\<close>

lemma clean_outcomes:
  "clean c P m \<longleftrightarrow> (\<forall>s y. P s \<longrightarrow> m s = Some y \<longrightarrow> P (snd y) \<and> (\<forall>e. fst y = Inl e \<longrightarrow> c \<longrightarrow> \<not> is_null e))"
  unfolding clean_def by force

lemma clean_connect_world: "(c \<Longrightarrow> tame f) \<Longrightarrow> clean c (connect_ok c) (connect_call f)"
  by (rule clean_connect_call) (simp_all add: connect_ok_def agent_ok_def)

lemma clean_await_agent:
  assumes "c \<Longrightarrow> tame_env E" "ctx_aeron ctx \<noteq> None"
  shows "clean c (connect_ok c) (await_agent E ctx)"
proof -
  have "(c \<longrightarrow> tame_env E) \<longrightarrow> ctx_aeron ctx \<noteq> None \<longrightarrow> connect_ok c x \<longrightarrow> connect_ok c (snd y) \<and> (\<forall>e. fst y = Inl e \<longrightarrow> c \<longrightarrow> \<not> is_null e)"
    if "await_agent E ctx x = Some y" for x y
  proof (rule await_agent.raw_induct [where P = "\<lambda>E ctx x y. (c \<longrightarrow> tame_env E) \<longrightarrow> ctx_aeron ctx \<noteq> None \<longrightarrow>
      connect_ok c x \<longrightarrow> connect_ok c (snd y) \<and> (\<forall>e. fst y = Inl e \<longrightarrow> c \<longrightarrow> \<not> is_null e)", OF _ that],
      goal_cases)
    case (1 f E ctx x y)
    show ?case
    proof (intro impI)
      assume E: "c \<longrightarrow> tame_env E" and aeron: "ctx_aeron ctx \<noteq> None" and ok: "connect_ok c x"
      have again: "clean c (connect_ok c) (f E ctx)" using 1(1) E aeron unfolding clean_outcomes by blast
      have "clean c (connect_ok c) (bindE (connect_call (idle_idle E)) (\<lambda>_.
        bindE (derefE ''aeron'' (ctx_aeron ctx)) (\<lambda>_.
        bindE (connect_call (aeron_usesAgentInvoker E)) (\<lambda>invoker.
        bindE (whenE invoker (connect_call (aeron_invoke E))) (\<lambda>_.
        bindE (service_connect_poll E) (\<lambda>cluster. if cluster then retE () else f E ctx))))))"
        using E aeron
        by (intro clean_bindE clean_connect_world clean_whenE clean_derefE clean_service_connect_poll clean_cases
          clean_atoms again) (auto intro: tame_envD)
      with ok 1(2) show "connect_ok c (snd y) \<and> (\<forall>e. fst y = Inl e \<longrightarrow> c \<longrightarrow> \<not> is_null e)"
        unfolding clean_outcomes by blast
    qed
  qed
  then show ?thesis using assms unfolding clean_outcomes by blast
qed

lemma await_agent_last_step:
  assumes "await_agent E ctx c = Some (Inr (), c')"
  shows "ac_step c' = 4"
proof -
  have "fst y = Inr () \<longrightarrow> ac_step (snd y) = 4" if "await_agent E ctx c = Some y" for y
  proof (rule await_agent.raw_induct [where P = "\<lambda>E ctx c y. fst y = Inr () \<longrightarrow> ac_step (snd y) = 4", OF _ that], goal_cases)
    case (1 f E ctx x y)
    show ?case
    proof
      assume "fst y = Inr ()"
      then obtain z where y: "y = (Inr (), z)" by (cases y) auto
      from 1(2) [unfolded y] show "ac_step (snd y) = 4"
        using 1(1) poll_True_step unfolding y by (fastforce simp: bindE_eq_Some_Inr exec_run split: if_splits)
    qed
  qed
  with assms show ?thesis by fastforce
qed

lemma clean_work_forever:
  assumes "c \<Longrightarrow> tame_env E"
  shows "clean c (agent_ok c) (work_forever E)"
proof -
  have "(c \<longrightarrow> tame_env E) \<longrightarrow> agent_ok c s \<longrightarrow> agent_ok c (snd y) \<and> (\<forall>e. fst y = Inl e \<longrightarrow> c \<longrightarrow> \<not> is_null e)"
    if "work_forever E s = Some y" for s y
  proof (rule work_forever.raw_induct [where P = "\<lambda>E s y. (c \<longrightarrow> tame_env E) \<longrightarrow>
      agent_ok c s \<longrightarrow> agent_ok c (snd y) \<and> (\<forall>e. fst y = Inl e \<longrightarrow> c \<longrightarrow> \<not> is_null e)", OF _ that], goal_cases)
    case (1 f E s y)
    show ?case
    proof (intro impI)
      assume E: "c \<longrightarrow> tame_env E" and ok: "agent_ok c s"
      have again: "clean c (agent_ok c) (f E)" using 1(1) E unfolding clean_outcomes by blast
      have "clean c (agent_ok c) (bindE (world_call (idle_idle E)) (\<lambda>_. bindE (doWork E) (\<lambda>_. f E)))"
        using E by (intro clean_rules clean_doWork again) (auto intro: tame_envD)
      with ok 1(2) show "agent_ok c (snd y) \<and> (\<forall>e. fst y = Inl e \<longrightarrow> c \<longrightarrow> \<not> is_null e)"
        unfolding clean_outcomes by blast
    qed
  qed
  then show ?thesis using assms unfolding clean_outcomes by blast
qed

lemma work_forever_throws: "work_forever E s \<noteq> Some (Inr (), s')"
proof -
  have "fst y \<noteq> Inr ()" if "work_forever E s = Some y" for y
  proof (rule work_forever.raw_induct [where P = "\<lambda>E s y. fst y \<noteq> Inr ()", OF _ that], goal_cases)
    case (1 f E s y)
    show ?case
    proof
      assume "fst y = Inr ()"
      then obtain z where y: "y = (Inr (), z)" by (cases y) auto
      from 1(2) [unfolded y] 1(1) show False by (fastforce simp: bindE_eq_Some_Inr)
    qed
  qed
  then show ?thesis by fastforce
qed

section \<open>The program\<close>

lemma tame_test_onTakeSnapshot: "tame_env E \<Longrightarrow> tame_callback (test_onTakeSnapshot E hello p)"
  using tame_envD(14) [of E p hello] by (auto simp: test_onTakeSnapshot_def tame_def split: sum.split) (metis prod.collapse)

lemma tame_test_service:
  assumes "tame_env E"
  shows "tame_env (test_service hello E)"
  using assms tame_test_onTakeSnapshot [OF assms] by (simp add: tame_env_def test_service_def)

lemma test_service_library:
  "service_asyncConnect (test_service hello E) = service_asyncConnect E"
  by (simp add: service_asyncConnect_def context_conclude_def new_service_connect_def new_agent_def test_service_def cong: if_cong)

lemma test_service_snapshot: "svc_onTakeSnapshot (test_service hello E) = test_onTakeSnapshot E hello"
  by (simp add: test_service_def)

text \<open>How connecting ends: with a fresh connect object and the client in the context, or with an exception of the
  library or of the checks of the context.\<close>

lemma clean_asyncConnect:
  assumes tame: "\<And>x h. tame (aeron_connect E x h)" "tame (archive_asyncConnect E)" "tame_env E"
  shows "clean True (\<lambda>_. True) (service_asyncConnect E)"
  unfolding service_asyncConnect_def context_conclude_def new_service_connect_def
  by (intro clean_bindE clean_whenE clean_cases clean_atoms clean_zoomE clean_callE tame tame_envD TrueI)
    (auto simp: new_agent_def is_null_def split: if_splits)

lemma asyncConnect_outcomes:
  assumes run: "service_asyncConnect E (ctx, w) = Some (r, (ctx', w'))"
    and tame: "\<And>x h. tame (aeron_connect E x h)" "tame (archive_asyncConnect E)" "tame_env E"
  shows "case r of Inl e \<Rightarrow> \<not> is_null e | Inr c \<Rightarrow> connect_ok True c \<and> ctx_aeron ctx' \<noteq> None"
proof (cases r)
  case (Inl e)
  from cleanD(2) [OF clean_asyncConnect [OF tame] TrueI run Inl] Inl show ?thesis by simp
next
  case (Inr c)
  with run obtain c0 w0 w1 where "context_conclude E (ctx, w) = Some (Inr (), (c0, w0))"
    "new_service_connect E c0 w0 = Some (Inr c, w1)" "ctx' = c0"
    by (auto simp: service_asyncConnect_def bindE_eq_Some_Inr exec_run zoomE_eq_Some)
  moreover from this(1) have "ctx_aeron c0 \<noteq> None"
    by (auto simp: context_conclude_def bindE_eq_Some_Inr exec_run whenE_def split: if_splits)
  ultimately show ?thesis using Inr new_connect_ok by auto
qed

lemma run_agent_outcomes:
  assumes E: "tame_env E" and ctx: "ctx_aeron ctx \<noteq> None" and c: "connect_ok True c"
    and run: "run_agent E ctx c = Some (r, c')"
  shows "\<exists>e. r = Inl e \<and> \<not> is_null e"
proof -
  let ?wait = "\<lambda>cluster. if cluster then retE () else await_agent E ctx"
  have poll: "clean True (connect_ok True) (service_connect_poll E)" by (rule clean_service_connect_poll) (rule E)
  have wait: "clean True (connect_ok True) (?wait b)" for b
    using ctx by (intro clean_cases clean_atoms clean_await_agent E)
  from run consider e where "service_connect_poll E c = Some (Inl e, c')" "r = Inl e"
    | b c1 e where "service_connect_poll E c = Some (Inr b, c1)" "?wait b c1 = Some (Inl e, c')" "r = Inl e"
    | b c1 u c2 where "service_connect_poll E c = Some (Inr b, c1)" "?wait b c1 = Some (Inr u, c2)"
        "agentE (work_forever E) c2 = Some (r, c')"
    unfolding run_agent_def bindE_eq_Some by blast
  then show ?thesis
  proof cases
    case 1
    with cleanD(2) [OF poll c] show ?thesis by blast
  next
    case 2
    with cleanD(2) [OF wait cleanD(1) [OF poll c 2(1)] 2(2)] show ?thesis by blast
  next
    case 3
    have "ac_step c2 = 4"
      using 3(1,2) poll_True_step await_agent_last_step by (cases b) (auto simp: exec_run)
    with cleanD(1) [OF wait cleanD(1) [OF poll c 3(1)] 3(2)] have ok: "agent_ok True (ac_agent c2)"
      by (simp add: connect_ok_def)
    from 3(3) obtain t where work: "work_forever E (ac_agent c2) = Some (r, t)" by (auto simp: agentE_def zoomE_eq_Some)
    with work_forever_throws obtain e where "r = Inl e" by (cases r) auto
    with cleanD(2) [OF clean_work_forever ok work] E show ?thesis by blast
  qed
qed

text \<open>C28. The program that runs the example service never ends by itself, and never through a null pointer: whatever the
  library answers and whatever messages come, a run of \<open>service_main\<close> that ends does so with an exception,
  and the exception is no null dereference, as long as no call of the library and no decoder ends in one.\<close>

theorem main_uses_no_null:
  assumes "tame_env E" "\<And>x h. tame (aeron_connect E x h)" "tame (archive_asyncConnect E)"
    "service_main E hello v arc w = Some (r, w')"
  shows "\<exists>e. r = Inl e \<and> (\<forall>what. e \<noteq> NullDereference what)"
proof -
  let ?E = "test_service hello E"
  have tame: "tame_env ?E" by (rule tame_test_service [OF assms(1)])
  obtain q ctx w1 where connect: "service_asyncConnect ?E (main_context E v arc, w) = Some (q, (ctx, w1))"
    using assms(4) by (auto simp: service_main_def split: option.splits)
  from asyncConnect_outcomes [OF connect [unfolded test_service_library] assms(2,3,1)]
  have outcome: "case q of Inl e \<Rightarrow> \<not> is_null e | Inr c \<Rightarrow> connect_ok True c \<and> ctx_aeron ctx \<noteq> None" .
  have "\<exists>e. r = Inl e \<and> \<not> is_null e"
  proof (cases q)
    case (Inl e)
    with assms(4) connect outcome show ?thesis by (auto simp: service_main_def)
  next
    case (Inr c)
    with assms(4) connect obtain c' where "run_agent ?E ctx c = Some (r, c')"
      by (auto simp: service_main_def)
    from run_agent_outcomes [OF tame _ _ this] outcome Inr show ?thesis by simp
  qed
  then show ?thesis by (auto simp: is_null_def)
qed

text \<open>A run: the surroundings answer until the container works, and then the clock fails.\<close>

definition stopping_env :: "(nat, nat) env" where
  "stopping_env = ready_env\<lparr>systemNanoClock := demo_fail\<rparr>"

definition stopping_service :: "(nat, nat) env" where
  "stopping_service = test_service 0 stopping_env"

definition archive_defaults :: archive_context where
  "archive_defaults = \<lparr>arc_controlRequestChannel = [], arc_controlResponseChannel = [], arc_aeron = None,
     arc_ownsAeronClient = False, arc_errorHandler = None\<rparr>"

lemmas stopping_defs = stopping_service_def test_service_def stopping_env_def ready_env_def

lemma stopping_tame: "tame_env stopping_env"
  using ready_tame by (simp add: stopping_env_def tame_env_def) (simp add: tame_def demo_fail_def is_null_def)

lemma stopping_answers: "answering stopping_service ready_surroundings" "starts stopping_service None"
  by (auto simp: answering_def always_def stopping_defs ready_surroundings_def starts_def exec_run)

lemma stopping_found:
  "has_counters stopping_service (sur_counters ready_surroundings) 0"
  "getLeadershipTermId stopping_service (sur_counters ready_surroundings)
     (findCounter stopping_service (sur_counters ready_surroundings) 0) = NULL_VALUE stopping_service"
  by (simp_all add: has_counters_def findCounter_def findCounter_from.simps find_counter_def find_from.simps
    getCounterClusterId_def stopping_defs ready_surroundings_def ready_counters_def getLeadershipTermId_def
    recovery_counter_def recovery_offsets)

lemma stopping_connects:
  "\<exists>c ctx. service_asyncConnect stopping_service (main_context stopping_env 0 archive_defaults, 0) = Some (Inr c, (ctx, 0))
     \<and> new_service_connect stopping_service ctx 0 = Some (Inr c, 0) \<and> ctx_clusterId ctx = 0 \<and> ctx_aeron ctx \<noteq> None"
  by (simp add: service_asyncConnect_def context_conclude_def main_context_def with_clusteredService_def
    with_archiveContext_def with_serviceId_def default_context_def archive_defaults_def SERVICE_ID_DEFAULT_def
    CLUSTER_ID_DEFAULT_def starts_with_def new_service_connect_def new_agent_def stopping_defs bindE_def exec_run zoomE_def
    whenE_def)

lemma stopping_call: "connect_call (demo_ret x) c = Some (Inr x, c)"
  by (simp add: agentE_def zoomE_def world_exec_def exec_run demo_ret_def)

lemma stopping_waits:
  assumes "service_connect_poll stopping_service c = Some (Inr b, c1)" "ctx_aeron ctx \<noteq> None"
  shows "await_agent stopping_service ctx c = (if b then Some (Inr (), c1) else await_agent stopping_service ctx c1)"
proof -
  have "idle_idle stopping_service = demo_ret ()" "aeron_usesAgentInvoker stopping_service = demo_ret False"
    by (simp_all add: stopping_defs)
  with assms show ?thesis
    by (subst await_agent.simps) (auto simp: bindE_def stopping_call exec_run derefE_def whenE_def)
qed

lemma stopping_works:
  "\<exists>s'. work_forever stopping_service s = Some (Inl (LibraryError 1), s')"
  by (subst work_forever.simps) (simp add: stopping_defs bindE_def world_exec_run exec_run demo_ret_def doWork_def demo_fail_def)

theorem main_uses_no_null_witness:
  "\<exists>e w'. service_main stopping_env 0 0 archive_defaults 0 = Some (Inl e, w') \<and> (\<forall>what. e \<noteq> NullDereference what)"
proof -
  obtain c ctx where c: "service_asyncConnect stopping_service (main_context stopping_env 0 archive_defaults, 0) = Some (Inr c, (ctx, 0))"
      "new_service_connect stopping_service ctx 0 = Some (Inr c, 0)" "ctx_clusterId ctx = 0" "ctx_aeron ctx \<noteq> None"
    using stopping_connects by blast
  note fresh = new_service_connect_fresh(1,2) [OF c(2)]
  obtain c1 c2 c3 where polls: "service_connect_poll stopping_service c = Some (Inr False, c1)"
      "service_connect_poll stopping_service c1 = Some (Inr False, c2)" "service_connect_poll stopping_service c2 = Some (Inr True, c3)"
    using three_polls [OF stopping_answers fresh(1), unfolded fresh(2) c(3), OF stopping_found] by blast
  have "await_agent stopping_service ctx c1 = Some (Inr (), c3)"
    using stopping_waits [OF polls(2) c(4)] stopping_waits [OF polls(3) c(4)] by simp
  moreover obtain s' where "work_forever stopping_service (ac_agent c3) = Some (Inl (LibraryError 1), s')"
    using stopping_works by blast
  ultimately have "\<exists>c'. run_agent stopping_service ctx c = Some (Inl (LibraryError 1), c')"
    using polls(1) by (auto simp: run_agent_def bindE_def agentE_def zoomE_def)
  with c(1) have "\<exists>w'. service_main stopping_env 0 0 archive_defaults 0 = Some (Inl (LibraryError 1), w')"
    by (auto simp: service_main_def stopping_service_def [symmetric])
  then obtain w' where run: "service_main stopping_env 0 0 archive_defaults 0 = Some (Inl (LibraryError 1), w')" ..
  from main_uses_no_null [OF stopping_tame _ _ run] run show ?thesis
    by (auto simp: stopping_env_def ready_env_def tame_def demo_ret_def)
qed

section \<open>The snapshot of the example service\<close>

text \<open>The example service takes a refused snapshot for a complete one: when the library answers the offer of its
  snapshot with a status other than zero, be it negative, the snapshot in progress counts as complete
  afterwards, however that stage of it ends.\<close>

theorem refused_snapshot_complete:
  assumes "m_currentSnapshot s = Some x" "ss_publication x = Some p" "\<not> ss_snapshotComplete x"
    "pub_offer E p hello (world s) = (Inr status, w)" "snapshot_complete (test_service hello E) s = Some (r, t)"
  shows "\<exists>y. m_currentSnapshot t = Some y \<and> (ss_snapshotComplete y \<longleftrightarrow> status \<noteq> 0)"
proof -
  let ?x = "x\<lparr>ss_snapshotComplete := status \<noteq> 0\<rparr>"
  let ?s = "s\<lparr>world := w, m_currentSnapshot := Some ?x\<rparr>"
  let ?E = "test_service hello E"
  define rest where "rest complete = (if \<not> complete then retE False
     else
       bindE (snapshot_get ss_recordingCounterId) (\<lambda>counterId.
       bindE (snapshot_positions ?E p counterId) (\<lambda>(recorded, position).
       if recorded < position then retE False
       else bindE (snapshot_get ss_recordingId) (\<lambda>recordingId. ack ?E recordingId))))" for complete
  have "rest (status \<noteq> 0) ?s = Some (r, t)"
    using assms
    by (cases "status = 0") (simp_all add: snapshot_complete_def snapshot_get_def snapshot_set_def bindE_run derefE_run
      exec_run rest_def test_service_snapshot test_onTakeSnapshot_def)
  moreover have "keeps m_currentSnapshot (rest b)" for b
    unfolding rest_def snapshot_positions_def by (intro keeps_rules; simp)
  ultimately have "m_currentSnapshot t = m_currentSnapshot ?s" by (rule keepsD [rotated])
  then show ?thesis by simp
qed

theorem refused_snapshot_complete_witness:
  "\<exists>t y. snapshot_complete (test_service 0 ((demo_env :: (nat, nat) env)\<lparr>pub_offer := \<lambda>_ _. demo_ret (- 2)\<rparr>))
       ((demo_running 3)\<lparr>m_currentSnapshot := Some (demo_snapshot\<lparr>ss_publication := Some 5, ss_snapshotComplete := False\<rparr>)\<rparr>)
       = Some (Inr True, t) \<and> m_currentSnapshot t = Some y \<and> ss_snapshotComplete y"
proof -
  let ?E = "(demo_env :: (nat, nat) env)\<lparr>pub_offer := \<lambda>_ _. demo_ret (- 2)\<rparr>"
  let ?x = "demo_snapshot\<lparr>ss_publication := Some 5, ss_snapshotComplete := False\<rparr>"
  let ?s = "(demo_running 3)\<lparr>m_currentSnapshot := Some ?x\<rparr>"
  have "\<exists>t. snapshot_complete (test_service 0 ?E) ?s = Some (Inr True, t)"
    by (simp add: snapshot_complete_def snapshot_positions_def snapshot_get_def snapshot_set_def bindE_def exec_run derefE_def world_exec_run
      test_service_def test_onTakeSnapshot_def demo_ret_def ack_def with_proxy_def proxy_ack_def claim_def tryClaim_def
      ATTEMPTS_def numeral_3_eq_3 whenE_def)
  then obtain t where "snapshot_complete (test_service 0 ?E) ?s = Some (Inr True, t)" ..
  with refused_snapshot_complete [of ?s ?x 5 ?E 0 "- 2" 3, OF _ _ _ _ this] show ?thesis by (auto simp: demo_ret_def)
qed

end
