(* ===== verification/Reassembly.thy ===== *)
theory Reassembly
  imports LogAdapter Demo
begin

text \<open>
  Fragmented log messages: a message that arrives in fragments is handled as it would be in one
  piece. The builder that collects the fragments belongs to the library; \<open>builder_model\<close> and \<open>builds_bytes\<close> say what
  is expected of it, and \<open>reads_bytes\<close> that messages are read from their bytes alone.
\<close>

section \<open>The builder\<close>

text \<open>
  \<open>content\<close> are the fragments appended since the last reset and \<open>expected\<close> the offset of the next
  one; \<open>joined\<close> and \<open>joined_length\<close> are the buffer and the limit the builder reads as.
\<close>

definition builder_model :: "('b, 'w, 'z) env_scheme \<Rightarrow> ('w \<Rightarrow> 'b fragment list) \<Rightarrow> ('w \<Rightarrow> int) \<Rightarrow>
    ('b fragment list \<Rightarrow> 'b) \<Rightarrow> ('b fragment list \<Rightarrow> int) \<Rightarrow> bool" where
  "builder_model E content expected joined joined_length \<longleftrightarrow>
     (\<forall>w. \<exists>w'. builder_reset E w = (Inr (), w') \<and> content w' = [])
   \<and> (\<forall>f w. \<exists>w'. builder_append E f w = (Inr (), w') \<and> content w' = content w @ [f] \<and> expected w' = expected w)
   \<and> (\<forall>n w. \<exists>w'. builder_setNextTermOffset E n w = (Inr (), w') \<and> content w' = content w \<and> expected w' = n)
   \<and> (\<forall>w. builder_nextTermOffset E w = (Inr (expected w), w))
   \<and> (\<forall>w. builder_limit E w = (Inr (joined_length (content w)), w))
   \<and> (\<forall>w. builder_buffer E w = (Inr (joined (content w)), w))"

lemma builder_modelD:
  assumes "builder_model E content expected joined joined_length"
  shows "\<exists>w'. builder_reset E w = (Inr (), w') \<and> content w' = []"
    "\<exists>w'. builder_append E f w = (Inr (), w') \<and> content w' = content w @ [f] \<and> expected w' = expected w"
    "\<exists>w'. builder_setNextTermOffset E n w = (Inr (), w') \<and> content w' = content w \<and> expected w' = n"
    "builder_nextTermOffset E w = (Inr (expected w), w)"
    "builder_limit E w = (Inr (joined_length (content w)), w)"
    "builder_buffer E w = (Inr (joined (content w)), w)"
  using assms unfolding builder_model_def by blast+

lemma world_call_bind:
  "f (world s) = (Inr x, w) \<Longrightarrow> bindE (world_call f) h s = h x (s\<lparr>world := w\<rparr>)"
  by (simp add: bindE_def world_exec_def zoomE_def exec_run)

section \<open>One fragment\<close>


definition goes_on :: "('z) aeron_consts_scheme \<Rightarrow> 'b fragment \<Rightarrow> bool" where
  "goes_on L f \<longleftrightarrow> \<not> has_flags (frag_header f) (BEGIN_FRAG L) \<and> \<not> has_flags (frag_header f) (UNFRAGMENTED L)"






text \<open>A fragment that does not follow the ones collected drops them.\<close>

lemma lost_fragment:
  assumes "builder_model E content expected joined joined_length" "goes_on E f"
    "frag_offset f \<noteq> expected (world s)"
  shows "\<exists>w. log_onFragment E f s = Some (Inr CONTINUE, s\<lparr>world := w\<rparr>) \<and> content w = []"
proof -
  note b = builder_modelD [OF assms(1)]
  obtain w where "builder_reset E (world s) = (Inr (), w)" "content w = []" using b(1) by blast
  with assms(2,3) show ?thesis
    by (auto simp: log_onFragment_def Let_def goes_on_def world_call_bind b(4) exec_run)
qed

section \<open>A whole message\<close>







section \<open>Bytes\<close>







section \<open>The theorem\<close>















end
