(* ===== verification/Wp.thy ===== *)
theory Wp
  imports Clean
begin

text \<open>
  Weakest preconditions of methods: \<open>wp m Q X s\<close> says that \<open>m\<close>, run in \<open>s\<close>, returns only results
  and states with \<open>Q\<close> and throws only exceptions in states with \<open>X\<close>. It says nothing of a method
  that does not return. The equations below compute it along the structure of a method; loops
  need an invariant.
\<close>

definition wp :: "('s, 'a) exec \<Rightarrow> ('a \<Rightarrow> 's \<Rightarrow> bool) \<Rightarrow> (cluster_error \<Rightarrow> 's \<Rightarrow> bool) \<Rightarrow> 's \<Rightarrow> bool" where
  "wp m Q X s \<longleftrightarrow> (case m s of None \<Rightarrow> True | Some (r, s') \<Rightarrow> (case r of Inl e \<Rightarrow> X e s' | Inr x \<Rightarrow> Q x s'))"

named_theorems wp_simps

lemma wpD:
  assumes "wp m Q X s"
  shows "m s = Some (Inr x, s') \<Longrightarrow> Q x s'" "m s = Some (Inl e, s') \<Longrightarrow> X e s'"
  using assms by (simp_all add: wp_def)

lemma wpI:
  assumes "\<And>x s'. m s = Some (Inr x, s') \<Longrightarrow> Q x s'" "\<And>e s'. m s = Some (Inl e, s') \<Longrightarrow> X e s'"
  shows "wp m Q X s"
  using assms unfolding wp_def by (simp split: option.split prod.split sum.split)

lemma wp_mono:
  assumes "wp m Q X s" "\<And>x s'. Q x s' \<Longrightarrow> Q' x s'" "\<And>e s'. X e s' \<Longrightarrow> X' e s'"
  shows "wp m Q' X' s"
  by (rule wpI) (use assms wpD [OF assms(1)] in blast)+

lemma wp_atoms [wp_simps]:
  "wp (retE x) Q X s = Q x s"
  "wp (throwE e) Q X s = X e s"
  "wp (getsE f) Q X s = Q (f s) s"
  "wp (modifyE k) R X s = R () (k s)"
  "wp (liftE r) Q X s \<longleftrightarrow> (\<forall>e. r = Inl e \<longrightarrow> X e s) \<and> (\<forall>x. r = Inr x \<longrightarrow> Q x s)"
  by (simp_all add: wp_def exec_run split: sum.split)

lemma wp_bindE [wp_simps]: "wp (bindE m h) Q X s = wp m (\<lambda>x. wp (h x) Q X) X s"
  by (simp add: wp_def bindE_def split: option.split prod.split sum.split)

lemma wp_attemptE [wp_simps]:
  "wp (attemptE m k) Q X s = wp m (\<lambda>x. wp (k (Inr x)) Q X) (\<lambda>e. wp (k (Inl e)) Q X) s"
  by (simp add: wp_def attemptE_def split: option.split prod.split sum.split)

lemma wp_catchE [wp_simps]: "wp (catchE m h) Q X s = wp m Q (\<lambda>e. wp (h e) Q X) s"
  by (simp add: wp_def catchE_def split: option.split prod.split sum.split)

lemma wp_whenE [wp_simps]: "wp (whenE b m) Q X s \<longleftrightarrow> (b \<longrightarrow> wp m Q X s) \<and> (\<not> b \<longrightarrow> Q () s)"
  by (simp add: whenE_def wp_simps)

lemma wp_derefE [wp_simps]:
  "wp (derefE what p) Q X s \<longleftrightarrow> (p = None \<longrightarrow> X (NullDereference what) s) \<and> (\<forall>x. p = Some x \<longrightarrow> Q x s)"
  by (cases p) (simp_all add: derefE_def wp_atoms)

lemma wp_zoomE [wp_simps]:
  "wp (zoomE get put m) Q X s = wp m (\<lambda>x t. Q x (put t s)) (\<lambda>e t. X e (put t s)) (get s)"
  by (simp add: wp_def zoomE_def split: option.split prod.split sum.split)

lemma wp_cases [wp_simps]:
  "wp (if b then m else n) Q X s \<longleftrightarrow> (b \<longrightarrow> wp m Q X s) \<and> (\<not> b \<longrightarrow> wp n Q X s)"
  "wp (case p of None \<Rightarrow> n' | Some x \<Rightarrow> k x) Q X s \<longleftrightarrow>
     (p = None \<longrightarrow> wp n' Q X s) \<and> (\<forall>x. p = Some x \<longrightarrow> wp (k x) Q X s)"
  "wp (case q of (a, b) \<Rightarrow> g a b) Q X s \<longleftrightarrow> (\<forall>a b. q = (a, b) \<longrightarrow> wp (g a b) Q X s)"
  by (simp_all split: option.split prod.split)

lemma wp_for_each:
  assumes "\<And>x s. x \<in> set xs \<Longrightarrow> I s \<Longrightarrow> wp (h x) (\<lambda>_. I) X s" "I s" "\<And>s. I s \<Longrightarrow> Q () s"
  shows "wp (for_each h xs) Q X s"
proof -
  have "wp (for_each h xs) (\<lambda>_. I) X s"
    using assms(1,2) by (induction xs arbitrary: s) (auto simp: wp_simps intro: wp_mono)
  with assms(3) show ?thesis by (auto intro: wp_mono)
qed

lemma wp_deliver:
  assumes "\<And>f s. I s \<Longrightarrow> wp (h f) (\<lambda>_. I) Y s"
    and "\<And>k s. I s \<Longrightarrow> wp (finish k) Q X s" "\<And>k e s. Y e s \<Longrightarrow> wp (on_throw k e) Q X s" "I s"
  shows "wp (deliver h finish on_throw k fs) Q X s"
  using assms(4)
proof (induction fs arbitrary: k s)
  case (Cons f fs)
  show ?case
    unfolding deliver.simps wp_attemptE sum.case
    using assms(1) [OF Cons.prems]
    by (rule wp_mono) (auto simp: wp_simps intro: Cons.IH assms(2,3))
qed (simp add: assms(2))

text \<open>A call of which it is known what it can return and throw.\<close>

definition returns :: "('a \<Rightarrow> bool) \<Rightarrow> ('w, 'a) call \<Rightarrow> bool" where
  "returns R c \<longleftrightarrow> (\<forall>w x w'. c w = (Inr x, w') \<longrightarrow> R x)"

lemma wp_call:
  assumes "tame c" "returns R c" "\<And>x w'. R x \<Longrightarrow> Q x w'" "\<And>e w'. \<not> is_null e \<Longrightarrow> X e w'"
  shows "wp (callE c) Q X w"
  by (rule wpI; simp only: exec_run option.inject) (use assms in \<open>unfold tame_def returns_def, blast\<close>)+

lemma wp_returns:
  assumes "returns R c" "\<And>x w'. R x \<Longrightarrow> Q x w'" "\<And>e w'. X e w'"
  shows "wp (callE c) Q X w"
  by (rule wpI; simp only: exec_run option.inject) (use assms in \<open>unfold returns_def, blast\<close>)+

lemma wp_tame:
  assumes "tame c" "\<And>x w'. Q x w'" "\<And>e w'. \<not> is_null e \<Longrightarrow> X e w'"
  shows "wp (callE c) Q X w"
  by (rule wpI; simp only: exec_run option.inject) (use assms in \<open>unfold tame_def, blast\<close>)+

end
