(* ===== verification/ClientProtocol.thy ===== *)
theory ClientProtocol
  imports Wp ClientConnect Demo
begin

text \<open>
  The protocol that \<open>AeronCluster::AsyncConnect\<close> follows: an automaton of its phases, which the
  polls of a connect object refine, and what the object holds in each phase.
\<close>

section \<open>The automaton\<close>

datatype phase =
  CreatingEgress | CreatingIngress | AwaitingConnection | Sending | AwaitingResponse | Concluding | Connected

text \<open>
  From the wait for a response the protocol goes on to the conclusion, back to the request to
  answer a challenge, or back to the wait for a connection after a redirect.
\<close>

inductive protocol :: "phase \<Rightarrow> phase \<Rightarrow> bool" where
  stays: "protocol x x"
| egress: "protocol CreatingEgress CreatingIngress"
| ingress: "protocol CreatingIngress AwaitingConnection"
| connection: "protocol AwaitingConnection Sending"
| request: "protocol Sending AwaitingResponse"
| accepted: "protocol AwaitingResponse Concluding"
| challenged: "protocol AwaitingResponse Sending"
| redirected: "protocol AwaitingResponse AwaitingConnection"
| concluded: "protocol Concluding Connected"

text \<open>The phase of a step.\<close>

definition phase_of :: "int \<Rightarrow> phase" where
  "phase_of step =
     (if step = -1 then CreatingEgress else if step = 0 then CreatingIngress
      else if step = 1 then AwaitingConnection else if step = 2 then Sending
      else if step = 3 then AwaitingResponse else if step = 4 then Concluding else Connected)"

lemma phase_of_simps [simp]:
  "phase_of (-1) = CreatingEgress" "phase_of 0 = CreatingIngress" "phase_of 1 = AwaitingConnection"
  "phase_of 2 = Sending" "phase_of 3 = AwaitingResponse" "phase_of 4 = Concluding" "phase_of 5 = Connected"
  by (simp_all add: phase_of_def)

section \<open>What the object holds\<close>

text \<open>
  A poller whose event code says something has the image the event came with, unless the next
  poll resets it.
\<close>

definition poller_ok :: "egress_poller \<Rightarrow> bool" where
  "poller_ok p \<longleftrightarrow> ep_isPollComplete p \<or> ep_eventCode p = EC_NULL_VALUE \<or> ep_egressImage p \<noteq> None"

definition client_ok :: "('b, 'w) client_connect \<Rightarrow> bool" where
  "client_ok s \<longleftrightarrow> cn_step s \<in> {-1, 0, 1, 2, 3, 4, 5} \<and> 0 \<le> cn_deadlineNs s
     \<and> (cn_step s \<noteq> 5 \<longrightarrow> cn_ctx s \<noteq> None)
     \<and> (cn_step s \<in> {0, 1, 2, 3, 4} \<longrightarrow> cn_egressSubscription s \<noteq> None)
     \<and> (\<forall>p. cn_egressPoller s = Some p \<longrightarrow> poller_ok p)
     \<and> (cn_step s \<in> {0, 1, 2, 3} \<longrightarrow> cn_egressPoller s \<noteq> None)
     \<and> (cn_step s \<in> {2, 3, 4} \<longrightarrow> cn_ingressPublication s \<noteq> None)
     \<and> (cn_step s = 2 \<longrightarrow> cn_buffer s \<noteq> None)
     \<and> (cn_step s = 4 \<longrightarrow> cn_egressImage s \<noteq> None)"

section \<open>Well-behaved surroundings\<close>

definition tame_client :: "('b, 'w, 'z) client_env_scheme \<Rightarrow> bool" where
  "tame_client L \<longleftrightarrow>
     (\<forall>x i. tame (aeron_addSubscription L x i)) \<and> (\<forall>x i. tame (aeron_addPublication L x i))
   \<and> (\<forall>i. tame (aeron_findSubscription L i)) \<and> (\<forall>i. tame (aeron_findExclusivePublication L i))
   \<and> tame (aeron_nextCorrelationId L) \<and> tame (credentials_encoded L) \<and> (\<forall>x. tame (credentials_onChallenge L x))
   \<and> (\<forall>p. tame (pub_isConnected L p)) \<and> (\<forall>p b. tame (pub_offer L p b)) \<and> (\<forall>p. tame (pub_close L p))
   \<and> (\<forall>q. tame (sub_tryResolveChannelEndpointPort L q)) \<and> (\<forall>q n. tame (sub_controlledPoll L q n))
   \<and> (\<forall>k. tame (poll_finish L k)) \<and> (\<forall>k e. \<not> is_null e \<longrightarrow> tame (poll_on_throw L k e))
   \<and> (\<forall>q e. client_encode L q = Inl e \<longrightarrow> \<not> is_null e) \<and> (\<forall>x e. ChannelUri_media L x = Inl e \<longrightarrow> \<not> is_null e)
   \<and> (\<forall>b i n v e. MessageHeader_wrap L b i n v = Inl e \<longrightarrow> \<not> is_null e)
   \<and> tame_decoder (SessionMessageHeader_wrap L) \<and> tame_decoder (SessionEvent_wrap L)
   \<and> tame_decoder (NewLeaderEvent_wrap L) \<and> tame_decoder (Challenge_wrap L)"

lemma tame_client_calls:
  assumes "tame_client L"
  shows "tame (aeron_addSubscription L x i)" "tame (aeron_addPublication L x i)" "tame (aeron_findSubscription L j)"
    "tame (aeron_findExclusivePublication L j)" "tame (aeron_nextCorrelationId L)" "tame (credentials_encoded L)"
    "tame (credentials_onChallenge L ch)" "tame (pub_isConnected L p)" "tame (pub_offer L p b)" "tame (pub_close L p)"
    "tame (sub_tryResolveChannelEndpointPort L p)" "tame (sub_controlledPoll L p n)" "tame (poll_finish L k)"
    "\<not> is_null e \<Longrightarrow> tame (poll_on_throw L k e)"
  using assms by (simp_all add: tame_client_def del: split_paired_All)

lemma tame_client_codecs:
  assumes "tame_client L"
  shows "client_encode L q = Inl e \<Longrightarrow> is_null e \<Longrightarrow> False" "ChannelUri_media L x = Inl e \<Longrightarrow> is_null e \<Longrightarrow> False"
    "MessageHeader_wrap L b i m v = Inl e \<Longrightarrow> is_null e \<Longrightarrow> False"
  using assms by (auto simp: tame_client_def)

lemma tame_client_decoders:
  assumes "tame_client L"
  shows "tame_decoder (SessionMessageHeader_wrap L)" "tame_decoder (SessionEvent_wrap L)"
    "tame_decoder (NewLeaderEvent_wrap L)" "tame_decoder (Challenge_wrap L)"
  using assms by (simp_all add: tame_client_def del: split_paired_All)

text \<open>Verification conditions: the postcondition after a result, no null dereference in an exception.\<close>

abbreviation vc :: "('s, 'a) exec \<Rightarrow> ('a \<Rightarrow> 's \<Rightarrow> bool) \<Rightarrow> 's \<Rightarrow> bool" where
  "vc m Q s \<equiv> wp m Q (\<lambda>e _. \<not> is_null e) s"

lemma wp_cn_call:
  "tame c \<Longrightarrow> (\<And>x w. Q x (s\<lparr>cn_world := w\<rparr>)) \<Longrightarrow> (\<And>e w. \<not> is_null e \<Longrightarrow> X e (s\<lparr>cn_world := w\<rparr>)) \<Longrightarrow>
   wp (cn_call c) Q X s"
  by (simp add: cn_call_def wp_zoomE wp_tame)

lemma vc_cn_call: "tame c \<Longrightarrow> (\<And>x w. Q x (s\<lparr>cn_world := w\<rparr>)) \<Longrightarrow> vc (cn_call c) Q s"
  by (rule wp_cn_call)

lemma wp_set_step [wp_simps]: "wp (set_step n) Q X s = Q () (s\<lparr>cn_step := n\<rparr>)"
  by (simp add: set_step_def wp_simps)

lemma wp_cn_deref [wp_simps]:
  "wp (cn_deref what f) Q X s \<longleftrightarrow> (f s = None \<longrightarrow> X (NullDereference what) s) \<and> (\<forall>x. f s = Some x \<longrightarrow> Q x s)"
  by (simp add: cn_deref_def wp_simps)

lemma is_null_others [simp]:
  "\<not> is_null LostClusterConnection" "\<not> is_null (ClusterRejected x)" "\<not> is_null ConnectTimeout"
  "\<not> is_null (ThrownPointer e)" "\<not> is_null (EndpointMissingSeparator x)" "\<not> is_null StdInvalidArgument"
  "\<not> is_null StdOutOfRange"
  by (simp_all add: is_null_def)

definition at_step :: "int set \<Rightarrow> ('b, 'w) client_connect \<Rightarrow> bool" where
  "at_step S s \<longleftrightarrow> client_ok s \<and> cn_step s \<in> S"

section \<open>The steps\<close>

lemma vc_createEgress:
  assumes "tame_client L" "client_ok s" "cn_step s = -1"
    "\<And>w. ep_isPollComplete (uninit_poller L w) \<or> ep_eventCode (uninit_poller L w) = EC_NULL_VALUE"
  shows "vc (createEgressSubscription L) (\<lambda>_. at_step {-1, 0}) s"
  using assms(2,3) assms(4)
  by (auto simp: createEgressSubscription_def at_step_def client_ok_def wp_simps new_egress_poller_def poller_ok_def
    intro!: vc_cn_call tame_client_calls [OF assms(1)])

lemma vc_prepareConnectRequest:
  assumes "tame_client L" "client_ok (s\<lparr>cn_step := 1\<rparr>)" "cn_ingressPublication s \<noteq> None"
  shows "vc (prepareConnectRequest L x) (\<lambda>_. at_step {2}) s"
  using assms(2,3)
  by (auto simp: prepareConnectRequest_def Let_def at_step_def client_ok_def wp_simps
    intro!: vc_cn_call tame_client_calls [OF assms(1)]) (metis tame_client_codecs(1) assms(1))

lemma client_ok_irrelevant [simp]:
  "client_ok (s\<lparr>cn_world := w\<rparr>) = client_ok s" "client_ok (s\<lparr>cn_memberByIdMap := m\<rparr>) = client_ok s"
  "client_ok (s\<lparr>cn_ingressRegistrationId := i\<rparr>) = client_ok s" "client_ok (s\<lparr>cn_correlationId := i\<rparr>) = client_ok s"
  by (simp_all add: client_ok_def)

text \<open>The loops over the members look only at members that are there.\<close>

definition has_members :: "i32 list \<Rightarrow> ('b, 'w) client_connect \<Rightarrow> bool" where
  "has_members ks s \<longleftrightarrow> set ks \<subseteq> fst ` set (cn_memberByIdMap s)"

lemma has_members_simps [simp]:
  "has_members [] s" "has_members ks (s\<lparr>cn_world := w\<rparr>) = has_members ks s"
  "has_members (map fst (cn_memberByIdMap s)) s"
  "has_members (k # ks) s \<longleftrightarrow> map_of (cn_memberByIdMap s) k \<noteq> None \<and> has_members ks s"
  by (auto simp: has_members_def map_of_eq_None_iff)

lemma has_members_update [simp]:
  "has_members ks (s\<lparr>cn_memberByIdMap := member_update k f m\<rparr>) = has_members ks (s\<lparr>cn_memberByIdMap := m\<rparr>)"
proof -
  have "fst ` set (member_update k f m) = fst ` set m"
    by (force simp: member_update_def)
  then show ?thesis by (simp add: has_members_def)
qed

lemma map_of_member_update [simp]:
  "map_of (member_update k f m) i = (if i = k then map_option f (map_of m i) else map_of m i)"
  by (induction m) (auto simp: member_update_def)

lemma wp_member [wp_simps]:
  "wp (member_get k f) Q X s \<longleftrightarrow> (map_of (cn_memberByIdMap s) k = None \<longrightarrow> X (NullDereference ''member'') s)
     \<and> (\<forall>x. map_of (cn_memberByIdMap s) k = Some x \<longrightarrow> Q (f x) s)"
  "wp (member_set k g) R X s = R () (s\<lparr>cn_memberByIdMap := member_update k g (cn_memberByIdMap s)\<rparr>)"
  by (simp_all add: member_get_def member_set_def wp_simps)

definition creating :: "i32 list \<Rightarrow> ('b, 'w) client_connect \<Rightarrow> bool" where
  "creating ks s \<longleftrightarrow> client_ok s \<and> cn_step s = 0 \<and> has_members ks s"

lemma wp_create_member:
  assumes "tame_client L" "creating (k # ks) s"
  shows "wp (create_member L ctx k) (\<lambda>_. creating ks) (\<lambda>e s'. \<not> is_null e \<and> creating ks s') s"
  using assms(2)
  by (auto simp: create_member_def creating_def wp_simps
    intro!: wp_cn_call tame_client_calls [OF assms(1)] dest: tame_client_codecs [OF assms(1)])

lemma vc_create_members:
  assumes "tame_client L" "creating ks s"
  shows "vc (create_members L ctx ks n) (\<lambda>_. creating []) s"
  using assms(2)
proof (induction ks arbitrary: s n)
  case (Cons k ks)
  show ?case
    unfolding create_members.simps wp_bindE wp_catchE
    by (rule wp_mono [OF wp_create_member [OF assms(1) Cons.prems]]) (auto simp: wp_simps intro: Cons.IH)
qed (simp add: wp_simps)

lemma vc_createIngress:
  assumes "tame_client L" "client_ok s" "cn_step s = 0"
  shows "vc (createIngressPublications L) (\<lambda>_. at_step {0, 1}) s"
proof (cases "\<exists>ctx. cn_ctx s = Some ctx \<and> cc_ingressEndpoints ctx \<noteq> []")
  case False
  with assms(2,3) show ?thesis
    by (auto simp: createIngressPublications_def wp_simps at_step_def client_ok_def
      intro!: vc_cn_call tame_client_calls [OF assms(1)])
next
  case True
  have "vc (create_members L ctx (map fst (cn_memberByIdMap s)) 0) (\<lambda>n. vc (whenE (n = int m) (set_step 1))
      (\<lambda>_. at_step {0, 1})) s" for ctx m
    using assms(2,3)
    by (intro wp_mono [OF vc_create_members [OF assms(1)]]) (auto simp: creating_def wp_simps at_step_def client_ok_def)
  with True assms(2,3) show ?thesis
    by (auto simp: createIngressPublications_def wp_bindE wp_cn_deref wp_cases wp_atoms dest: tame_client_codecs [OF assms(1)])
qed

text \<open>Step 1: the first member with a connection, or the publication that is already there.\<close>

lemma vc_connect_member:
  assumes "tame_client L" "client_ok s" "cn_step s = 1" "has_members ks s"
  shows "vc (connect_member L x ks) (\<lambda>_. at_step {1, 2}) s"
  using assms(2-4)
proof (induction ks arbitrary: s)
  case (Cons k ks)
  have found: "vc (prepareConnectRequest L x) (\<lambda>_. at_step {1, 2})
      (s\<lparr>cn_world := w, cn_ingressPublication := Some p\<rparr>)" for w p
    by (rule wp_mono [OF vc_prepareConnectRequest [OF assms(1)]]) (use Cons.prems in \<open>auto simp: at_step_def client_ok_def\<close>)
  from Cons.prems have "vc (connect_member L x ks) (\<lambda>_. at_step {1, 2}) (s\<lparr>cn_world := w\<rparr>)"
    "vc (connect_member L x ks) (\<lambda>_. at_step {1, 2}) s" for w
    by (auto intro!: Cons.IH)
  with Cons.prems found show ?case
    by (auto simp: wp_simps intro!: vc_cn_call tame_client_calls [OF assms(1)])
qed (simp add: wp_simps at_step_def)

lemma vc_awaitConnection:
  assumes "tame_client L" "client_ok s" "cn_step s = 1"
  shows "vc (awaitPublicationConnected L) (\<lambda>_. at_step {1, 2}) s"
proof -
  have request: "vc (prepareConnectRequest L x) (\<lambda>_. at_step {1, 2}) (s\<lparr>cn_world := w\<rparr>)"
    if "cn_ingressPublication s \<noteq> None" for w x
    by (rule wp_mono [OF vc_prepareConnectRequest [OF assms(1)]])
      (use assms(2,3) that in \<open>auto simp: at_step_def client_ok_def\<close>)
  have member: "vc (connect_member L x (map fst (cn_memberByIdMap s))) (\<lambda>_. at_step {1, 2})
      (s\<lparr>cn_world := w\<rparr>)" for w x
    by (rule vc_connect_member [OF assms(1)]) (simp_all add: assms(2,3))
  have "cn_egressSubscription s \<noteq> None" using assms(2,3) by (simp add: client_ok_def)
  moreover have "at_step {1, 2} (s\<lparr>cn_world := w\<rparr>)" for w using assms(2,3) by (simp add: at_step_def)
  ultimately show ?thesis using request member
    by (auto simp: awaitPublicationConnected_def wp_simps intro!: vc_cn_call tame_client_calls [OF assms(1)])
qed

lemma vc_sendMessage:
  assumes "tame_client L" "client_ok s" "cn_step s = 2"
  shows "vc (sendMessage L) (\<lambda>_. at_step {2, 3}) s"
  using assms(2,3)
  by (auto simp: sendMessage_def at_step_def wp_simps client_ok_def intro!: vc_cn_call tame_client_calls [OF assms(1)])

section \<open>The poller\<close>

text \<open>After a poll, an event code that says something has its image.\<close>

definition polled_ok :: "egress_poller \<Rightarrow> bool" where
  "polled_ok p \<longleftrightarrow> ep_eventCode p = EC_NULL_VALUE \<or> ep_egressImage p \<noteq> None"

lemma wp_decode_from:
  "tame_decoder d \<Longrightarrow> (\<And>m. Q m s) \<Longrightarrow> (\<And>e. \<not> is_null e \<Longrightarrow> X e s) \<Longrightarrow> wp (decode_from L d h b i n) Q X s"
  by (auto simp: decode_from_def wp_simps tame_decoder_def)

lemma wp_poller_header:
  "tame_client L \<Longrightarrow> (\<And>m. Q m s) \<Longrightarrow> (\<And>e. \<not> is_null e \<Longrightarrow> X e s) \<Longrightarrow> wp (poller_header_of L b i n) Q X s"
  by (auto simp: poller_header_of_def wp_simps dest: tame_client_codecs)

lemma wp_poller_set [wp_simps]: "wp (poller_set f) Q X s = Q () (case s of (p, w) \<Rightarrow> (f p, w))"
  by (simp add: poller_set_def wp_simps)

lemma wp_poller_onFragment:
  assumes "tame_client L" "polled_ok (fst s)"
  shows "wp (poller_onFragment L f) (\<lambda>_ s'. polled_ok (fst s')) (\<lambda>e s'. \<not> is_null e \<and> polled_ok (fst s')) s"
  using assms(2)
  by (auto simp: poller_onFragment_def Let_def wp_simps polled_ok_def
    intro!: wp_decode_from wp_poller_header assms(1) tame_client_decoders [OF assms(1)])

lemma wp_poller_call:
  "tame c \<Longrightarrow> (\<And>x w. Q x (fst s, w)) \<Longrightarrow> (\<And>e w. \<not> is_null e \<Longrightarrow> X e (fst s, w)) \<Longrightarrow>
   wp (zoomE snd (\<lambda>w (p, _). (p, w)) (callE c)) Q X s"
  by (cases s) (auto simp: wp_zoomE intro!: wp_tame)

lemma vc_poller_poll:
  assumes "tame_client L" "poller_ok (fst s)"
  shows "vc (poller_poll L) (\<lambda>_ s'. polled_ok (fst s')) s"
proof -
  let ?p = "if ep_isPollComplete (fst s) then poller_reset (fst s) else fst s"
  have "polled_ok ?p" using assms(2) by (auto simp: poller_ok_def polled_ok_def poller_reset_def)
  then have "vc (deliver (poller_onFragment L) (\<lambda>k. zoomE snd (\<lambda>w (p, _). (p, w)) (callE (poll_finish L k)))
      (\<lambda>k e. zoomE snd (\<lambda>w (p, _). (p, w)) (callE (poll_on_throw L k e))) k fs)
      (\<lambda>_ s'. polled_ok (fst s')) (?p, w)" for k fs w
    by (intro wp_deliver [where I = "\<lambda>s. polled_ok (fst s)" and Y = "\<lambda>e s. \<not> is_null e \<and> polled_ok (fst s)"])
      (auto intro!: wp_poller_onFragment [OF assms(1)] wp_poller_call tame_client_calls [OF assms(1)])
  then show ?thesis
    by (cases s) (auto simp: poller_poll_def pollE_def Let_def wp_simps intro!: wp_poller_call wp_tame tame_client_calls [OF assms(1)])
qed

section \<open>The response\<close>

lemma vc_pollerE:
  assumes "cn_egressPoller s = Some p" "vc m (\<lambda>x t. Q x (s\<lparr>cn_egressPoller := Some (fst t), cn_world := snd t\<rparr>)) (p, cn_world s)"
  shows "vc (pollerE m) Q s"
  using assms by (simp add: pollerE_def wp_simps split_beta)

lemma vc_prepareChallengeResponse:
  assumes "tame_client L" "at_step {3} s"
  shows "vc (prepareChallengeResponse L x) (\<lambda>_. at_step {2}) s"
proof -
  have "at_step {2} (s\<lparr>cn_world := w, cn_correlationId := i, cn_buffer := Some b, cn_messageLength := n, cn_step := 2\<rparr>)"
    for w i b n using assms(2) by (auto simp: at_step_def client_ok_def)
  then show ?thesis
    by (auto simp: prepareChallengeResponse_def Let_def wp_simps
      intro!: vc_cn_call tame_client_calls [OF assms(1)] dest: tame_client_codecs(1) [OF assms(1)])
qed

lemma vc_close_member:
  "tame_client L \<Longrightarrow> (\<And>w. Q () (s\<lparr>cn_world := w\<rparr>)) \<Longrightarrow> Q () s \<Longrightarrow> vc (close_member L x) Q s"
  by (auto simp: close_member_def wp_simps intro!: vc_cn_call tame_client_calls)

lemma stoi_throws: "stoi x = Inl e \<Longrightarrow> e = StdInvalidArgument \<or> e = StdOutOfRange"
  by (auto simp: stoi_def Let_def split: if_splits)

lemma parse_not_null:
  assumes "parseIngressEndpoints n x = Some (Inl e)"
  shows "\<not> is_null e"
proof -
  from assms obtain p where p: "parse_endpoint n x (take p x) = Inl e"
    by (auto simp: parseIngressEndpoints_result split: option.splits sum.splits)
  show ?thesis
  proof (cases "find_char CHR ''='' (take p x)")
    case None
    with p show ?thesis by (auto simp: parse_endpoint_def)
  next
    case (Some q)
    with p have "stoi (take q (take p x)) = Inl e"
      by (simp add: parse_endpoint_def split: sum.splits)
    from stoi_throws [OF this] show ?thesis by auto
  qed
qed

text \<open>A redirect leaves the object without a publication, waiting for a connection.\<close>

definition redirecting :: "('b, 'w) client_connect \<Rightarrow> bool" where
  "redirecting s \<longleftrightarrow> client_ok (s\<lparr>cn_step := 1\<rparr>)"

lemma redirecting_simps [simp]:
  "redirecting (s\<lparr>cn_world := w\<rparr>) = redirecting s" "redirecting (s\<lparr>cn_leaderMemberId := i\<rparr>) = redirecting s"
  "redirecting (s\<lparr>cn_ingressRegistrationId := j\<rparr>) = redirecting s"
  "redirecting (s\<lparr>cn_ingressPublication := p\<rparr>) = redirecting s"
  by (simp_all add: redirecting_def client_ok_def)

lemma at_response:
  assumes "at_step {3} s"
  shows "redirecting s" "cn_step s = 3" "\<exists>p. cn_egressPoller s = Some p \<and> poller_ok p" "cn_ctx s \<noteq> None"
proof -
  have "client_ok s" and step: "cn_step s = 3" using assms by (simp_all add: at_step_def)
  then show "redirecting s" "\<exists>p. cn_egressPoller s = Some p \<and> poller_ok p" "cn_ctx s \<noteq> None"
    unfolding redirecting_def client_ok_def by simp_all blast
  show "cn_step s = 3" by (rule step)
qed

definition replace_members :: "('b, 'w, 'z) aeron_scheme \<Rightarrow> string \<Rightarrow> (('b, 'w) client_connect, unit) exec" where
  "replace_members L x = (\<lambda>s. case parseIngressEndpoints (NULL_VALUE L) x of
        None \<Rightarrow> None
      | Some r \<Rightarrow>
          bindE (liftE r) (\<lambda>members.
          bindE (getsE (\<lambda>s. map snd (cn_memberByIdMap s))) (\<lambda>old.
          bindE (for_each (close_member L) old) (\<lambda>_.
          bindE (cn_modify (\<lambda>s. s\<lparr>cn_memberByIdMap := members\<rparr>)) (\<lambda>_.
          set_step 1)))) s)"

lemma vc_replace_members:
  assumes "tame_client L" "redirecting t"
  shows "vc (replace_members L x) (\<lambda>_. at_step {1}) t"
proof (cases "parseIngressEndpoints (NULL_VALUE L) x")
  case None
  then show ?thesis by (simp add: wp_def replace_members_def)
next
  case (Some r)
  have old: "vc (for_each (close_member L) xs) (\<lambda>_ t. at_step {1} (t\<lparr>cn_memberByIdMap := members, cn_step := 1\<rparr>)) t" for xs members
    by (rule wp_for_each [where I = redirecting])
      (use assms in \<open>auto simp: redirecting_def wp_simps at_step_def client_ok_def intro!: vc_close_member\<close>)
  have m: "replace_members L x =
      bindE (liftE r) (\<lambda>members.
      bindE (getsE (\<lambda>s. map snd (cn_memberByIdMap s))) (\<lambda>old.
      bindE (for_each (close_member L) old) (\<lambda>_.
      bindE (cn_modify (\<lambda>s. s\<lparr>cn_memberByIdMap := members\<rparr>)) (\<lambda>_.
      set_step 1))))"
    using Some by (simp add: replace_members_def)
  show ?thesis
    unfolding m wp_simps
  proof (intro conjI allI impI)
    fix e assume "r = Inl e"
    with Some show "\<not> is_null e" by (simp add: parse_not_null)
  qed (rule old)
qed

lemma vc_updateMembers:
  assumes "tame_client L" "at_step {3} s"
  shows "vc (updateMembers L) (\<lambda>_. at_step {1}) s"
  unfolding updateMembers_def replace_members_def [symmetric]
  using at_response [OF assms(2)]
  by (auto simp: wp_simps intro!: vc_cn_call vc_replace_members tame_client_calls [OF assms(1)] assms(1))

lemma response_ok:
  assumes "at_step {3} s" "polled_ok p"
  shows "at_step {3} (s\<lparr>cn_egressPoller := Some p, cn_world := w\<rparr>)"
  using assms by (simp add: at_step_def client_ok_def poller_ok_def polled_ok_def)

text \<open>What a response does to an object that waits for one.\<close>

definition respond :: "('b, 'w, 'z) client_env_scheme \<Rightarrow> egress_poller \<Rightarrow> (('b, 'w) client_connect, unit) exec" where
  "respond L p =
     (if ep_isChallenged p then
        bindE (cn_modify (\<lambda>s. s\<lparr>cn_correlationId := NULL_VALUE L,
          cn_clusterSessionId := ep_clusterSessionId p\<rparr>)) (\<lambda>_.
        bindE (cn_call (credentials_onChallenge L (ep_encodedChallenge p))) (\<lambda>encodedCredentials.
        prepareChallengeResponse L encodedCredentials))
      else
        (case ep_eventCode p of
           EC_OK \<Rightarrow>
             bindE (cn_modify (\<lambda>s. s\<lparr>cn_leadershipTermId := poller_leadershipTermId p,
               cn_leaderMemberId := ep_leaderMemberId p,
               cn_clusterSessionId := ep_clusterSessionId p\<rparr>)) (\<lambda>_.
             bindE (derefE ''m_egressImage'' (ep_egressImage p)) (\<lambda>img.
             bindE (cn_modify (\<lambda>s. s\<lparr>cn_egressImage := Some img\<rparr>)) (\<lambda>_.
             set_step 4)))
         | EC_ERROR \<Rightarrow> throwE (ClusterRejected (ep_detail p))
         | EC_REDIRECT \<Rightarrow> updateMembers L
         | EC_AUTHENTICATION_REJECTED \<Rightarrow> throwE (ClusterRejected (ep_detail p))
         | EC_CLOSED \<Rightarrow> retE ()
         | EC_NULL_VALUE \<Rightarrow> retE ()))"

lemma pollResponse_respond:
  "pollResponse L =
     bindE (pollerE (poller_poll L)) (\<lambda>n.
     bindE (cn_deref ''m_egressPoller'' cn_egressPoller) (\<lambda>poller.
     bindE (getsE cn_correlationId) (\<lambda>correlationId.
     whenE (n > 0 \<and> ep_isPollComplete poller \<and> ep_correlationId poller = correlationId) (respond L poller))))"
  by (simp only: pollResponse_def respond_def)

lemma vc_respond:
  assumes "tame_client L" "at_step {3} s" "polled_ok p"
  shows "vc (respond L p) (\<lambda>_. at_step {1, 2, 3, 4}) s"
proof (cases "ep_isChallenged p")
  case True
  have "at_step {3} (s\<lparr>cn_correlationId := i, cn_clusterSessionId := j, cn_world := w\<rparr>)" for i j w
    using assms(2) by (simp add: at_step_def client_ok_def)
  then have "vc (prepareChallengeResponse L x) (\<lambda>_. at_step {1, 2, 3, 4})
      (s\<lparr>cn_correlationId := i, cn_clusterSessionId := j, cn_world := w\<rparr>)" for x i j w
    by (intro wp_mono [OF vc_prepareChallengeResponse [OF assms(1)]]) (auto simp: at_step_def)
  with True show ?thesis
    by (auto simp: respond_def wp_simps intro!: vc_cn_call tame_client_calls [OF assms(1)])
next
  case False
  have stay: "at_step {1, 2, 3, 4} s" using assms(2) by (simp add: at_step_def)
  show ?thesis
  proof (cases "ep_eventCode p")
    case EC_OK
    have "at_step {1, 2, 3, 4} (s\<lparr>cn_leadershipTermId := t, cn_leaderMemberId := m, cn_clusterSessionId := i,
        cn_egressImage := Some img, cn_step := 4\<rparr>)" for t m i img
      using assms(2) by (simp add: at_step_def client_ok_def)
    with EC_OK False assms(3) show ?thesis by (auto simp: respond_def wp_simps polled_ok_def)
  next
    case EC_REDIRECT
    with False show ?thesis
      by (simp add: respond_def) (rule wp_mono [OF vc_updateMembers [OF assms(1,2)]], auto simp: at_step_def)
  qed (use False stay in \<open>simp_all add: respond_def wp_simps\<close>)
qed

lemma vc_pollResponse:
  assumes "tame_client L" "client_ok s" "cn_step s = 3"
  shows "vc (pollResponse L) (\<lambda>_. at_step {1, 2, 3, 4}) s"
proof -
  have at: "at_step {3} s" using assms(2,3) by (simp add: at_step_def)
  then obtain p where p: "cn_egressPoller s = Some p" "poller_ok p" using at_response(3) by blast
  have rest: "vc (whenE b (respond L q)) (\<lambda>_. at_step {1, 2, 3, 4}) (s\<lparr>cn_egressPoller := Some q, cn_world := w\<rparr>)"
    if "polled_ok q" for b q w
    unfolding wp_whenE
    using vc_respond [OF assms(1) response_ok [OF at that] that, of w] response_ok [OF at that, of w]
    by (auto simp: at_step_def)
  show ?thesis
    unfolding pollResponse_respond wp_bindE
    by (rule vc_pollerE [OF p(1)], rule wp_mono [OF vc_poller_poll [OF assms(1)]])
      (use p(2) rest in \<open>auto simp: wp_cn_deref wp_atoms\<close>)
qed

text \<open>The conclusion finds its publication, so it hands out a client.\<close>

lemma vc_concludeConnect:
  assumes "tame_client L" "client_ok s" "cn_step s = 4"
  shows "vc (concludeConnect L) (\<lambda>x s'. at_step {5} s' \<and> x \<noteq> None) s"
proof -
  have "at_step {5} (s\<lparr>cn_ctx := None, cn_ingressPublication := None, cn_egressSubscription := None, cn_world := w,
      cn_memberByIdMap := m, cn_step := 5\<rparr>)"
    "at_step {5} (s\<lparr>cn_ctx := None, cn_ingressPublication := None, cn_egressSubscription := None,
      cn_memberByIdMap := m, cn_step := 5\<rparr>)" for w m
    using assms(2) by (simp_all add: at_step_def client_ok_def)
  moreover have "cn_ingressPublication s \<noteq> None" "cn_ctx s \<noteq> None" "cn_egressImage s \<noteq> None"
    using assms(2,3) by (simp_all add: client_ok_def)
  ultimately show ?thesis
    by (auto simp: concludeConnect_def Let_def wp_simps intro!: vc_close_member assms(1))
qed

section \<open>The polls\<close>

text \<open>A poll that returns takes a step of the protocol; it hands out a client when it gets connected.\<close>

definition follows_protocol :: "('b, 'w) client_connect \<Rightarrow> aeron_cluster option \<Rightarrow> ('b, 'w) client_connect \<Rightarrow> bool" where
  "follows_protocol s c s' \<longleftrightarrow> protocol (phase_of (cn_step s)) (phase_of (cn_step s'))
     \<and> (c \<noteq> None \<longleftrightarrow> cn_step s \<noteq> 5 \<and> cn_step s' = 5)"

lemma vc_poll:
  assumes "tame_client L" "client_ok s"
    and fresh: "\<And>w. ep_isPollComplete (uninit_poller L w) \<or> ep_eventCode (uninit_poller L w) = EC_NULL_VALUE"
  shows "vc (client_connect_poll L) (\<lambda>c s'. client_ok s' \<and> follows_protocol s c s') s"
proof -
  have step: "cn_step s \<in> {-1, 0, 1, 2, 3, 4, 5}" "0 \<le> cn_deadlineNs s" using assms(2) by (simp_all add: client_ok_def)
  have in_time: "wp (checkDeadline L) Q X s = Q () s" for Q X
    using step(2) by (simp add: checkDeadline_def wp_simps)
  have finish: "vc (bindE m (\<lambda>_. retE None)) (\<lambda>c s'. client_ok s' \<and> follows_protocol s c s') s"
    if "vc m (\<lambda>_. at_step S) s" "\<And>n. n \<in> S \<Longrightarrow> protocol (phase_of (cn_step s)) (phase_of n) \<and> n \<noteq> 5" for m :: "(_, unit) exec" and S
    unfolding wp_bindE
    by (rule wp_mono [OF that(1)]) (use that(2) in \<open>auto simp: at_step_def follows_protocol_def wp_atoms\<close>)
  note steps = finish [OF vc_createEgress [OF assms(1,2) _ fresh]] finish [OF vc_createIngress [OF assms(1,2)]]
    finish [OF vc_awaitConnection [OF assms(1,2)]] finish [OF vc_sendMessage [OF assms(1,2)]]
    finish [OF vc_pollResponse [OF assms(1,2)]]
  have conclude: "vc (concludeConnect L) (\<lambda>c s'. client_ok s' \<and> follows_protocol s c s') s" if "cn_step s = 4"
    by (rule wp_mono [OF vc_concludeConnect [OF assms(1,2) that]])
      (auto simp: at_step_def follows_protocol_def that intro: protocol.intros)
  show ?thesis
    unfolding client_connect_poll_def wp_bindE in_time wp_atoms
    using step(1) assms(2)
    by (auto simp: wp_cases wp_atoms follows_protocol_def [of _ None s] intro!: steps conclude intro: protocol.intros)
qed

inductive polled :: "('b, 'w, 'z) client_env_scheme \<Rightarrow> ('b, 'w) client_connect \<Rightarrow> ('b, 'w) client_connect \<Rightarrow> bool"
  for L s where
  not_yet: "polled L s s"
| once_more: "polled L s t \<Longrightarrow> client_connect_poll L t = Some (Inr c, t') \<Longrightarrow> polled L s t'"

lemma asyncConnect_ok:
  assumes "client_asyncConnect L (ctx, w) = Some (Inr s, c)"
    and clock: "\<And>w t w'. systemNanoClock L w = (Inr t, w') \<Longrightarrow> 0 \<le> t"
  shows "client_ok s"
proof -
  from assms(1) obtain nowNs ctx' w1 w2 i j m where "systemNanoClock L w1 = (Inr nowNs, w2)"
    "s = new_client_connect L ctx' (nowNs + messageTimeoutNs ctx') i j m w2"
    by (auto simp: client_asyncConnect_def bindE_eq_Some_Inr exec_run zoomE_eq_Some)
  with clock show ?thesis by (simp add: client_ok_def new_client_connect_def messageTimeoutNs_def)
qed

section \<open>The theorem\<close>

text \<open>C37. A client that connects follows the protocol: as long as its polls return, each of them stays in
  its phase or takes a step of the automaton, it hands out a client exactly when it gets to the last
  phase, and none dereferences a null pointer - provided the memory of a new poller does not read as
  an event before the poller has seen one.\<close>

theorem polls_follow_protocol:
  assumes "tame_client L" "\<forall>w. ep_isPollComplete (uninit_poller L w) \<or> ep_eventCode (uninit_poller L w) = EC_NULL_VALUE"
    "\<forall>w t w'. systemNanoClock L w = (Inr t, w') \<longrightarrow> 0 \<le> t"
    "client_asyncConnect L (ctx, w) = Some (Inr s, c)" "polled L s t" "client_connect_poll L t = Some (r, t')"
  shows "case r of
      Inl e \<Rightarrow> \<not> is_null e
    | Inr x \<Rightarrow> protocol (phase_of (cn_step t)) (phase_of (cn_step t'))
        \<and> (x \<noteq> None \<longleftrightarrow> cn_step t \<noteq> 5 \<and> cn_step t' = 5)"
proof -
  have poll: "vc (client_connect_poll L) (\<lambda>c s'. client_ok s' \<and> follows_protocol s c s') s" if "client_ok s" for s
    using vc_poll [OF assms(1) that] assms(2) by blast
  have "client_ok t"
    using assms(5)
  proof induction
    case not_yet
    from asyncConnect_ok [OF assms(4)] assms(3) show ?case by blast
  next
    case (once_more t c t')
    from wpD(1) [OF poll [OF once_more.IH] once_more.hyps(2)] show ?case by blast
  qed
  from poll [OF this] assms(6) show ?thesis
    by (simp add: wp_def follows_protocol_def split: sum.splits)
qed

definition quiet_client :: "(nat, bool) client_env" where
  "quiet_client = demo_client\<lparr>uninit_poller := \<lambda>_. demo_poller\<lparr>ep_eventCode := EC_NULL_VALUE\<rparr>\<rparr>"

theorem polls_follow_protocol_witness:
  "\<exists>s c r t'. client_asyncConnect quiet_client (client_main_context, True) = Some (Inr s, c)
     \<and> client_connect_poll quiet_client s = Some (r, t') \<and> (case r of
      Inl e \<Rightarrow> \<not> is_null e
    | Inr x \<Rightarrow> protocol (phase_of (cn_step s)) (phase_of (cn_step t'))
        \<and> (x \<noteq> None \<longleftrightarrow> cn_step s \<noteq> 5 \<and> cn_step t' = 5))"
proof -
  have tame: "tame_client quiet_client"
    by (simp add: quiet_client_def tame_client_def tame_def tame_decoder_def is_null_def)
  have clock: "\<forall>w t w'. systemNanoClock quiet_client w = (Inr t, w') \<longrightarrow> 0 \<le> t"
    by (simp add: quiet_client_def demo_ret_def)
  have fresh: "\<forall>w. ep_isPollComplete (uninit_poller quiet_client w)
      \<or> ep_eventCode (uninit_poller quiet_client w) = EC_NULL_VALUE"
    by (simp add: quiet_client_def)
  have "\<exists>s c. client_asyncConnect quiet_client (client_main_context, True) = Some (Inr s, c)"
    by (auto simp add: client_asyncConnect_def client_conclude_def bindE_def exec_run zoomE_def whenE_def demo_ret_def quiet_client_def)
  then obtain s c where start: "client_asyncConnect quiet_client (client_main_context, True) = Some (Inr s, c)"
    by blast
  have step: "cn_step s = -1" "cn_ctx s \<noteq> None" "cn_deadlineNs s = 0"
    using start by (auto simp: client_asyncConnect_def bindE_eq_Some_Inr exec_run zoomE_eq_Some new_client_connect_def
      messageTimeoutNs_def demo_ret_def quiet_client_def)
  then have "\<exists>r t'. client_connect_poll quiet_client s = Some (r, t')"
    by (cases "cn_egressRegistrationId s = -1")
      (auto simp: client_connect_poll_def checkDeadline_def createEgressSubscription_def cn_deref_def derefE_def cn_call_def
        bindE_def exec_run zoomE_def whenE_def demo_ret_def set_step_def quiet_client_def)
  then obtain r t' where "client_connect_poll quiet_client s = Some (r, t')" by blast
  with start polls_follow_protocol [OF tame fresh clock start polled.not_yet this] show ?thesis by blast
qed

end
