(* ===== verification/SnapshotProgress.thy ===== *)
theory SnapshotProgress
  imports Wp AgentProperties SnapshotProperties
begin

text \<open>
  The progress of a snapshot: when \<open>SnapshotState::doWork\<close> may say that the snapshot is complete,
  and what an exception in the middle of writing it leaves behind.
\<close>

section \<open>Calls and callbacks\<close>

lemma wp_world_call [wp_simps]:
  "wp (world_call c) Q X s \<longleftrightarrow> (\<forall>x w. c (world s) = (Inr x, w) \<longrightarrow> Q x (s\<lparr>world := w\<rparr>))
     \<and> (\<forall>e w. c (world s) = (Inl e, w) \<longrightarrow> X e (s\<lparr>world := w\<rparr>))"
  by (auto simp: wp_def world_exec_run exec_run split: sum.splits prod.splits)

lemma wp_frame:
  assumes "keeps f m" "\<And>x s'. f s' = f s \<Longrightarrow> Q x s'" "\<And>e s'. f s' = f s \<Longrightarrow> X e s'"
  shows "wp m Q X s"
  by (rule wpI) (use assms keepsD [OF assms(1)] in blast)+

lemma wp_snapshot [wp_simps]:
  "wp (snapshot_get f) Q X s \<longleftrightarrow> (m_currentSnapshot s = None \<longrightarrow> X (NullDereference ''m_currentSnapshot'') s)
     \<and> (\<forall>x. m_currentSnapshot s = Some x \<longrightarrow> Q (f x) s)"
  "wp (snapshot_set g) R X s = R () (s\<lparr>m_currentSnapshot := map_option g (m_currentSnapshot s)\<rparr>)"
  by (auto simp: snapshot_get_def snapshot_set_def wp_simps)

text \<open>What the snapshot does not touch.\<close>

definition ack_frame where
  "ack_frame s = (m_logPosition s, m_clusterTime s, m_serviceId s, m_proxy s, m_ackId s)"

definition acknowledged :: "('b, 'w, 'z) codecs_scheme \<Rightarrow> i64 \<Rightarrow> 'w sys \<Rightarrow> 'w \<Rightarrow> 'w sys \<Rightarrow> bool" where
  "acknowledged E relevantId s w s' \<longleftrightarrow> (\<exists>p. m_proxy s = Some p
     \<and> request_sent E p (ServiceAck (m_logPosition s) (m_clusterTime s) (m_ackId s) relevantId (m_serviceId s)) w (world s'))
     \<and> m_ackId s' = m_ackId s + 1"

lemma acknowledged_frame: "ack_frame s = ack_frame t \<Longrightarrow> acknowledged E r s w s' = acknowledged E r t w s'"
  by (simp add: acknowledged_def ack_frame_def)

lemma acknowledged_world [simp]: "acknowledged E r (s\<lparr>world := w\<rparr>) = acknowledged E r s"
  by (simp add: acknowledged_def fun_eq_iff)

lemma wp_ack:
  assumes "\<And>s'. acknowledged E relevantId s (world s) s' \<Longrightarrow> m_currentSnapshot s' = m_currentSnapshot s \<Longrightarrow> Q True s'"
    "\<And>s'. Q False s'" "\<And>e s'. X e s'"
  shows "wp (ack E relevantId) Q X s"
proof (rule wpI)
  fix sent s' assume run: "ack E relevantId s = Some (Inr sent, s')"
  have "keeps m_currentSnapshot (ack E relevantId)" unfolding ack_def by (intro keeps_rules | simp)+
  from keepsD [OF this run] have keep: "m_currentSnapshot s' = m_currentSnapshot s" .
  show "Q sent s'"
  proof (cases sent)
    case True
    from run obtain p where p: "m_proxy s = Some p"
      by (auto simp: ack_def bindE_eq_Some_Inr exec_run with_proxy_def derefE_def split: option.splits)
    from run True obtain w where "proxy_ack E p (m_logPosition s) (m_clusterTime s) (m_ackId s) relevantId (m_serviceId s)
        (world s) = Some (Inr True, w)" "world s' = w" "m_ackId s' = m_ackId s + 1"
      by (auto simp: ack_def bindE_eq_Some_Inr exec_run with_proxy_run [OF p] world_exec_run whenE_eq_Some
        split: option.splits prod.splits if_splits)
    then have "acknowledged E relevantId s (world s) s'"
      using p by (simp add: acknowledged_def proxy_ack_def claim_True)
    from assms(1) [OF this keep] True show ?thesis by simp
  qed (simp add: assms(2))
qed (rule assms(3))

section \<open>The last stage\<close>

text \<open>
  The snapshot is recorded: the recording of the counter has reached the position of the
  publication, as the two were read one after the other, and the acknowledgement followed at once.
\<close>

definition read_together :: "('b, 'w, 'z) aeron_scheme \<Rightarrow> pub \<Rightarrow> i32 \<Rightarrow> 'w \<Rightarrow> i64 \<Rightarrow> i64 \<Rightarrow> 'w \<Rightarrow> bool" where
  "read_together E p counterId w recorded position w' \<longleftrightarrow>
     (\<exists>u. aeron_getCounterValue E counterId w = (Inr recorded, u) \<and> pub_position E p u = (Inr position, w'))
   \<or> (\<exists>u. pub_position E p w = (Inr position, u) \<and> aeron_getCounterValue E counterId u = (Inr recorded, w'))"

lemma wp_positions:
  assumes "\<And>recorded position w. read_together E p counterId (world s) recorded position w \<Longrightarrow>
      Q (recorded, position) (s\<lparr>world := w\<rparr>)" "\<And>e s'. X e s'"
  shows "wp (snapshot_positions E p counterId) Q X s"
  unfolding snapshot_positions_def using assms by (auto simp: wp_simps read_together_def)

definition recorded_and_acknowledged :: "('b, 'w, 'z) env_scheme \<Rightarrow> 'w sys \<Rightarrow> 'w sys \<Rightarrow> bool" where
  "recorded_and_acknowledged E s s' \<longleftrightarrow> (\<exists>x p w w2 recorded position.
     m_currentSnapshot s' = Some x \<and> ss_publication x = Some p \<and> ss_snapshotComplete x
   \<and> read_together E p (ss_recordingCounterId x) w recorded position w2 \<and> position \<le> recorded
   \<and> acknowledged E (ss_recordingId x) s w2 s')"

lemma recorded_and_acknowledgedI:
  assumes "read_together E p (ss_recordingCounterId x) w recorded position w2" "position \<le> recorded"
    "acknowledged E (ss_recordingId x) s w2 s'"
    "m_currentSnapshot s' = Some x" "ss_publication x = Some p" "ss_snapshotComplete x"
  shows "recorded_and_acknowledged E s s'"
  using assms unfolding recorded_and_acknowledged_def by blast

lemma keeps_ack_frame [keeps_rules]:
  "keeps ack_frame (run_callback E c)" "keeps ack_frame (snapshot_publication E)" "keeps ack_frame (snapshot_recording E)"
  by (intro keeps_rules; simp add: ack_frame_def)+

text \<open>The service's part: it is asked until it says that its snapshot is complete.\<close>

lemma service_part:
  fixes E :: "('b, 'w, 'z) env_scheme"
  assumes "m_currentSnapshot s = Some x"
    "(if ss_snapshotComplete x then retE True
      else bindE (run_callback E c) (\<lambda>done. bindE (snapshot_set (\<lambda>x. x\<lparr>ss_snapshotComplete := done\<rparr>)) (\<lambda>_. retE done))) s
      = Some (Inr True, t)"
  shows "m_currentSnapshot t = Some (x\<lparr>ss_snapshotComplete := True\<rparr>)" "ack_frame t = ack_frame s"
proof -
  have "m_currentSnapshot t = Some (x\<lparr>ss_snapshotComplete := True\<rparr>) \<and> ack_frame t = ack_frame s"
  proof (cases "ss_snapshotComplete x")
    case True
    with assms show ?thesis by (cases x) (simp add: exec_run)
  next
    case False
    with assms(2) obtain u where u: "run_callback E c s = Some (Inr True, u)"
      "t = u\<lparr>m_currentSnapshot := map_option (\<lambda>x. x\<lparr>ss_snapshotComplete := True\<rparr>) (m_currentSnapshot u)\<rparr>"
      by (auto simp: bindE_eq_Some_Inr exec_run snapshot_set_def)
    have k: "keeps m_currentSnapshot (run_callback E c)" by (intro keeps_rules) simp_all
    from keepsD [OF k u(1)] keepsD [OF keeps_ack_frame(1) u(1)] assms(1) u(2) show ?thesis
      by (simp add: ack_frame_def)
  qed
  then show "m_currentSnapshot t = Some (x\<lparr>ss_snapshotComplete := True\<rparr>)" "ack_frame t = ack_frame s" by simp_all
qed

lemma snapshot_complete_True:
  fixes E :: "('a, 'b, 'z) env_scheme"
  assumes "snapshot_complete E s = Some (Inr True, s')"
  shows "recorded_and_acknowledged E s s'"
    "map_option ss_recordingCounterId (m_currentSnapshot s') = map_option ss_recordingCounterId (m_currentSnapshot s)"
proof -
  have get: "bindE (snapshot_get f) h s = (case m_currentSnapshot s of
      None \<Rightarrow> Some (Inl (NullDereference ''m_currentSnapshot''), s) | Some x \<Rightarrow> h (f x) s)" for f and h :: "_ \<Rightarrow> ('b sys, bool) exec"
    by (simp add: snapshot_get_def bindE_def exec_run derefE_def split: option.split)
  from assms obtain x where x: "m_currentSnapshot s = Some x"
    by (auto simp: snapshot_complete_def get split: option.splits)
  with assms obtain p where p: "ss_publication x = Some p"
    by (auto simp: snapshot_complete_def get bindE_eq_Some_Inr derefE_eq_Some_Inr)
  from assms x p obtain t where part: "(if ss_snapshotComplete x then retE True
      else bindE (run_callback E (svc_onTakeSnapshot E p)) (\<lambda>done.
           bindE (snapshot_set (\<lambda>x. x\<lparr>ss_snapshotComplete := done\<rparr>)) (\<lambda>_. retE done))) s = Some (Inr True, t)"
    and rest: "bindE (snapshot_get ss_recordingCounterId) (\<lambda>counterId.
       bindE (snapshot_positions E p counterId) (\<lambda>(recorded, position).
       if recorded < position then retE False
       else bindE (snapshot_get ss_recordingId) (\<lambda>recordingId. ack E recordingId))) t = Some (Inr True, s')"
    unfolding snapshot_complete_def
    by (simp add: get derefE_run bindE_run(1)) (auto simp: bindE_eq_Some_Inr [where m = "if _ then _ else _"] exec_run split: if_splits)
  note t = service_part [OF x part]
  let ?x = "x\<lparr>ss_snapshotComplete := True\<rparr>"
  have ends: "recorded_and_acknowledged E t u" if "read_together E p (ss_recordingCounterId x) w recorded position w'"
      "position \<le> recorded" "acknowledged E (ss_recordingId x) t w' u" "m_currentSnapshot u = Some ?x"
    for w recorded position w' u
    using that p recorded_and_acknowledgedI [of E p ?x w recorded position w' t u] by simp
  have "wp (bindE (snapshot_get ss_recordingCounterId) (\<lambda>counterId.
       bindE (snapshot_positions E p counterId) (\<lambda>(recorded, position).
       if recorded < position then retE False
       else bindE (snapshot_get ss_recordingId) (\<lambda>recordingId. ack E recordingId))))
     (\<lambda>done s'. done \<longrightarrow> m_currentSnapshot s' = Some ?x \<and> recorded_and_acknowledged E t s') (\<lambda>_ _. True) t"
    by (auto simp: wp_simps t(1) p not_less intro!: wp_ack wp_positions) (erule (3) ends)
  from wpD(1) [OF this rest] have s': "m_currentSnapshot s' = Some ?x" "recorded_and_acknowledged E t s'" by simp_all
  then show "recorded_and_acknowledged E s s'"
    by (simp add: recorded_and_acknowledged_def acknowledged_frame [OF t(2)])
  show "map_option ss_recordingCounterId (m_currentSnapshot s') = map_option ss_recordingCounterId (m_currentSnapshot s)"
    using s'(1) x by simp
qed

section \<open>The theorems\<close>

lemma snapshot_recording_True:
  assumes "snapshot_recording E s = Some (Inr True, s')"
  shows "\<exists>x. m_currentSnapshot s' = Some x \<and> ss_recordingCounterId x \<noteq> NULL_COUNTER_ID E"
proof -
  have kept: "wp (snapshotState E p position termId) Q (\<lambda>_ _. True) t"
    if "\<And>x s'. m_currentSnapshot s' = m_currentSnapshot t \<Longrightarrow> Q x s'" for p position termId Q t
    by (rule wp_frame [where f = m_currentSnapshot]) (auto intro!: keeps_rules that)
  have "wp (snapshot_recording E) (\<lambda>done s'. done \<longrightarrow>
      (\<exists>x. m_currentSnapshot s' = Some x \<and> ss_recordingCounterId x \<noteq> NULL_COUNTER_ID E)) (\<lambda>_ _. True) s"
    unfolding snapshot_recording_def with_archive_def
    by (auto simp: wp_simps intro!: kept)
  from wpD(1) [OF this assms] show ?thesis by simp
qed

text \<open>C20. A snapshot counts as complete only when it is: the service has said so for its part, the
  recording of the archive has reached the position of the publication, and an acknowledgement that
  names the recording and carries the next number has been sent right after the two were compared.\<close>

theorem snapshot_ends_recorded:
  assumes "snapshot_doWork E s = Some (Inr True, s')"
  shows "\<exists>x p q w w2 recorded position. m_currentSnapshot s' = Some x \<and> ss_publication x = Some p
    \<and> ss_recordingCounterId x \<noteq> NULL_COUNTER_ID E \<and> ss_snapshotComplete x
    \<and> read_together E p (ss_recordingCounterId x) w recorded position w2 \<and> position \<le> recorded \<and> m_proxy s = Some q
    \<and> request_sent E q (ServiceAck (m_logPosition s) (m_clusterTime s) (m_ackId s) (ss_recordingId x) (m_serviceId s))
        w2 (world s')
    \<and> m_ackId s' = m_ackId s + 1"
proof -
  from assms obtain C s1 s2 s3 where s1: "world_call (aeron_countersReader E) s = Some (Inr C, s1)"
    and s2: "snapshot_publication E s1 = Some (Inr True, s2)" and s3: "snapshot_recording E s2 = Some (Inr True, s3)"
    and run: "snapshot_complete E s3 = Some (Inr True, s')"
    by (auto simp: snapshot_doWork_def bindE_eq_Some_Inr exec_run split: if_splits)
  have "keeps ack_frame (world_call (aeron_countersReader E))"
    by (intro keeps_rules) (simp add: ack_frame_def)
  from keepsD [OF this s1] have "ack_frame s1 = ack_frame s" .
  with keepsD [OF keeps_ack_frame(2) s2] keepsD [OF keeps_ack_frame(3) s3] have frame: "ack_frame s3 = ack_frame s" by simp
  from snapshot_recording_True [OF s3] snapshot_complete_True(2) [OF run]
  have counter: "ss_recordingCounterId x \<noteq> NULL_COUNTER_ID E" if "m_currentSnapshot s' = Some x" for x
    using that by auto
  from snapshot_complete_True(1) [OF run] obtain x p w w2 recorded position where x: "m_currentSnapshot s' = Some x"
      "ss_publication x = Some p" "ss_snapshotComplete x"
      "read_together E p (ss_recordingCounterId x) w recorded position w2" "position \<le> recorded"
    and "acknowledged E (ss_recordingId x) s3 w2 s'"
    unfolding recorded_and_acknowledged_def by blast
  then have "acknowledged E (ss_recordingId x) s w2 s'"
    by (simp add: acknowledged_frame [OF frame])
  with x counter [OF x(1)] show ?thesis
    unfolding acknowledged_def by blast
qed

definition recorded_snapshot :: snapshot_state where
  "recorded_snapshot = demo_snapshot\<lparr>ss_publication := Some 9, ss_recordingCounterId := 2, ss_recordingId := 31\<rparr>"

text \<open>The service is done at its first call; the acknowledgement is number 0 and names recording 31.\<close>

theorem snapshot_ends_recorded_witness:
  "\<exists>s'. snapshot_doWork (demo_env :: (nat, nat) env) ((demo_running 3)\<lparr>m_currentSnapshot := Some recorded_snapshot\<rparr>)
      = Some (Inr True, s') \<and> m_ackId s' = 1"
proof -
  let ?E = "demo_env :: (nat, nat) env"
  let ?s = "(demo_running (3 :: nat))\<lparr>m_currentSnapshot := Some recorded_snapshot\<rparr>"
  have "\<exists>s'. snapshot_doWork ?E ?s = Some (Inr True, s')"
    by (simp add: snapshot_doWork_def snapshot_publication_def snapshot_recording_def snapshot_complete_def snapshot_positions_def
      snapshot_get_def snapshot_set_def bindE_def exec_run derefE_def world_exec_run recorded_snapshot_def
      demo_snapshot_def ack_run [of _ 7])
  then obtain s' where s': "snapshot_doWork ?E ?s = Some (Inr True, s')" by blast
  from snapshot_ends_recorded [OF this] have "m_ackId s' = m_ackId ?s + 1" by blast
  with s' show ?thesis by simp
qed

text \<open>C21. An exception while the state is being written ends the round, but the counter of the
  recording has been noted before: when the agent is run again, the snapshot counts as written,
  and the next round goes on with the service's part and the acknowledgement. Nothing writes the
  rest of the state.\<close>

theorem half_written_snapshot:
  fixes E :: "('b, 'w, 'z) env_scheme"
  assumes "m_currentSnapshot s = Some x" "ss_publication x = Some p" "ss_recordingCounterId x = NULL_COUNTER_ID E"
    "aeron_countersReader E (world s) = (Inr C, wa)"
    "RecordingPos_findCounterIdBySessionId E (pub_sessionId E p) wa = (Inr c, wb)" "c \<noteq> NULL_COUNTER_ID E"
    "RecordingPos_getRecordingId E c wb = (Inr r, wc)"
    "snapshotState E p (m_logPosition s) (m_leadershipTermId s)
      (s\<lparr>world := wc, m_currentSnapshot := Some (x\<lparr>ss_recordingCounterId := c, ss_recordingId := r\<rparr>)\<rparr>) = Some (Inl e, s1)"
    "aeron_countersReader E w = (Inr C', w')"
  shows "snapshot_doWork E s = Some (Inl e, s1)
    \<and> snapshot_doWork E (s1\<lparr>world := w\<rparr>) = snapshot_complete E (s1\<lparr>world := w'\<rparr>)"
proof -
  have k: "keeps m_currentSnapshot (snapshotState E p (m_logPosition s) (m_leadershipTermId s))"
    by (intro keeps_rules) simp_all
  from keepsD [OF k assms(8)]
  have s1: "m_currentSnapshot s1 = Some (x\<lparr>ss_recordingCounterId := c, ss_recordingId := r\<rparr>)" by simp
  let ?t = "s\<lparr>world := wc, m_currentSnapshot := Some (x\<lparr>ss_recordingCounterId := c, ss_recordingId := r\<rparr>)\<rparr>"
  have get: "snapshot_get f t = (case m_currentSnapshot t of
      None \<Rightarrow> Some (Inl (NullDereference ''m_currentSnapshot''), t) | Some x \<Rightarrow> Some (Inr (f x), t))" for f and t :: "'w sys"
    by (simp add: snapshot_get_def bindE_def exec_run derefE_def split: option.split)
  have "snapshot_doWork E s = Some (Inl e, s1)"
    using assms(1-8) by (simp add: snapshot_doWork_def snapshot_publication_def snapshot_recording_def
      snapshot_set_def get bindE_def exec_run derefE_def world_exec_run)
  moreover have "snapshot_doWork E (s1\<lparr>world := w\<rparr>) = snapshot_complete E (s1\<lparr>world := w'\<rparr>)"
    using assms(2,6,9) s1 by (simp add: snapshot_doWork_def snapshot_publication_def snapshot_recording_def
      get bindE_def exec_run world_exec_run split: option.split)
  ultimately show ?thesis by blast
qed

text \<open>The marker that opens the snapshot is written, the first session cannot be encoded; the next
  round acknowledges the snapshot.\<close>

definition half_env :: "(nat, nat) env" where
  "half_env = demo_env\<lparr>SnapshotMarker_encode := \<lambda>_ _. Inr 5, pub_offer := \<lambda>_ _. demo_ret 64\<rparr>"

lemma half_fields [simp]:
  "svc_onTakeSnapshot half_env p = Return True" "aeron_getCounterValue half_env i w = (Inr 0, w)"
  "pub_position half_env p w = (Inr 0, w)" "NULL_VALUE half_env = - 1"
  by (simp_all add: half_env_def)

theorem half_written_snapshot_witness:
  "\<exists>s1 s2. snapshot_doWork half_env ((demo_running 3)\<lparr>m_currentSnapshot :=
        Some (demo_snapshot\<lparr>ss_publication := Some 9\<rparr>)\<rparr>) = Some (Inl (LibraryError 1), s1)
    \<and> snapshot_doWork half_env (s1\<lparr>world := 4\<rparr>) = Some (Inr True, s2)
    \<and> m_ackId s1 = 0 \<and> m_ackId s2 = 1"
proof -
  let ?x = "demo_snapshot\<lparr>ss_publication := Some 9\<rparr>"
  let ?s = "(demo_running (3 :: nat))\<lparr>m_currentSnapshot := Some ?x\<rparr>"
  let ?t = "(demo_running (3 :: nat))\<lparr>m_currentSnapshot := Some (?x\<lparr>ss_recordingCounterId := 0, ss_recordingId := 0\<rparr>)\<rparr>"
  let ?u = "?t\<lparr>world := 3\<rparr>"
  have table: "table_elems demo_table = [demo_session 1, demo_session 2, demo_session 3]" by code_simp
  have "markBegin half_env 9 SNAPSHOT_TYPE_ID k l i v 3 = Some (Inr (), 3)" for k l i v
    by (simp add: markBegin_def markSnapshot_def half_env_def bindE_def exec_run offer.simps)
  then have begins: "world_exec (markBegin half_env 9 SNAPSHOT_TYPE_ID k l i v) ?u = Some (Inr (), ?u)" for k l i v
    by (simp add: world_exec_run)
  have "snapshotSession half_env 9 x 3 = Some (Inl (LibraryError 1), 3)" for x
    by (simp add: snapshotSession_def half_env_def bindE_def exec_run)
  then have stops: "world_exec (snapshotSession half_env 9 x) ?u = Some (Inl (LibraryError 1), ?u)" for x
    by (simp add: world_exec_run)
  have "snapshotState half_env 9 (m_logPosition ?s) (m_leadershipTermId ?s) ?u = Some (Inl (LibraryError 1), ?u)"
    by (simp add: snapshotState_def bindE_def exec_run Let_def begins table stops)
  moreover have "?u = ?s\<lparr>world := 3, m_currentSnapshot := Some (?x\<lparr>ss_recordingCounterId := 0, ss_recordingId := 0\<rparr>)\<rparr>"
    by (rule sys.equality) simp_all
  ultimately have writes: "snapshotState half_env 9 (m_logPosition ?s) (m_leadershipTermId ?s)
      (?s\<lparr>world := 3, m_currentSnapshot := Some (?x\<lparr>ss_recordingCounterId := 0, ss_recordingId := 0\<rparr>)\<rparr>)
      = Some (Inl (LibraryError 1), ?u)"
    by (simp only:)
  note run = half_written_snapshot [where x = ?x and p = 9 and c = 0 and r = 0 and C = demo_counters and wa = 3 and wb = 3 and wc = 3
    and C' = demo_counters and w = 4 and w' = 4, OF _ _ _ _ _ _ _ writes]
  have sent: "claim half_env 7 q 4 = Some (Inr True, 4)" for q
    by (simp add: half_env_def claim_def tryClaim_def ATTEMPTS_def numeral_3_eq_3 bindE_def exec_run)
  have "\<exists>s2. snapshot_complete half_env (?u\<lparr>world := 4\<rparr>) = Some (Inr True, s2) \<and> m_ackId s2 = 1"
    by (simp add: snapshot_complete_def snapshot_positions_def snapshot_get_def snapshot_set_def bindE_def exec_run derefE_def world_exec_run
      demo_snapshot_def ack_run [of _ 7] sent)
  with run show ?thesis by (auto simp: demo_snapshot_def half_env_def)
qed

end
