(* ===== verification/ConnectInvariant.thy ===== *)
theory ConnectInvariant
  imports Wp ServiceConnect
begin

text \<open>
  What every poll of the connect object keeps of the agent that it builds, for any property of the agent that its steps keep. Steps whose
  effect depends on what the libraries answer need a law of the answer: \<open>yields\<close> says what a
  method returns along with what it keeps.
\<close>

section \<open>Results with a property\<close>

definition yields :: "('s \<Rightarrow> bool) \<Rightarrow> ('a \<Rightarrow> bool) \<Rightarrow> ('s, 'a) exec \<Rightarrow> bool" where
  "yields P R m \<longleftrightarrow> (\<forall>s r s'. P s \<longrightarrow> m s = Some (r, s') \<longrightarrow> P s' \<and> (\<forall>x. r = Inr x \<longrightarrow> R x))"

lemma preserves_then:
  assumes "yields P R m" "\<And>x. R x \<Longrightarrow> preserves P (h x)"
  shows "preserves P (bindE m h)"
proof (rule preservesI)
  fix s r s' assume s: "P s" and run: "bindE m h s = Some (r, s')"
  from run consider e where "m s = Some (Inl e, s')" | x t where "m s = Some (Inr x, t)" "h x t = Some (r, s')"
    by (auto simp: bindE_eq_Some)
  then show "P s'"
  proof cases
    case 1
    with assms(1) s show ?thesis unfolding yields_def by blast
  next
    case (2 x t)
    with assms(1) s have "P t" "R x" unfolding yields_def by blast+
    with assms(2) 2(2) show ?thesis unfolding preserves_def by blast
  qed
qed

lemma yields_gets: "(\<And>s. P s \<Longrightarrow> R (f s)) \<Longrightarrow> yields P R (getsE f)"
  by (simp add: yields_def exec_run)

lemma yields_lift: "(\<And>x. r = Inr x \<Longrightarrow> R x) \<Longrightarrow> yields P R (liftE r)"
  by (simp add: yields_def exec_run)

lemma preserves_deliver_each:
  assumes "\<forall>x \<in> set xs. preserves P (h x)" "\<And>k. preserves P (finish k)" "\<And>k e. preserves P (on_throw k e)"
  shows "preserves P (deliver h finish on_throw k xs)"
  using assms(1)
proof (induction xs arbitrary: k)
  case (Cons x xs)
  then show ?case
    unfolding deliver.simps by (intro preserves_attemptE preserves_cases assms(2,3)) simp_all
qed (simp add: assms(2))

lemma preserves_poll:
  assumes "yields P (\<lambda>xs. \<forall>x \<in> set xs. R x) poll" "\<And>x. R x \<Longrightarrow> preserves P (h x)"
    "\<And>k. preserves P (finish k)" "\<And>k e. preserves P (on_throw k e)"
  shows "preserves P (pollE poll finish on_throw h)"
  unfolding pollE_def
  by (rule preserves_then [OF assms(1)], rule preserves_deliver_each) (simp_all add: assms(2-4))

text \<open>A law of a decoder, and what follows a message it has decoded.\<close>

definition decodes :: "('m \<Rightarrow> bool) \<Rightarrow> ('b, 'm) decoder \<Rightarrow> bool" where
  "decodes R wrap \<longleftrightarrow> (\<forall>b i k n l v m. wrap b i k n l v = Inr m \<longrightarrow> R m)"

lemma preserves_decode_then:
  assumes "decodes R wrap" "\<And>m. R m \<Longrightarrow> preserves P (h m)"
  shows "preserves P (bindE (decode_at E wrap msgHeader buffer offset len) h)"
proof -
  have "yields P R (decode_at E wrap msgHeader buffer offset len)"
    using assms(1) unfolding decode_at_def decodes_def by (intro yields_lift) simp
  then show ?thesis by (rule preserves_then) (rule assms(2))
qed

section \<open>The parts of the connect object\<close>

lemma preserves_agentE [preserves_rules]: "preserves P m \<Longrightarrow> preserves (\<lambda>c. P (ac_agent c)) (agentE m)"
  by (auto simp: preserves_def agentE_def zoomE_eq_Some)

lemma preserves_loaderE:
  assumes "preserves (\<lambda>(l, s). P s) m"
  shows "preserves (\<lambda>c. P (ac_agent c)) (loaderE m)"
proof -
  have "preserves (\<lambda>c. P (ac_agent c)) (zoomE (\<lambda>c. (l, ac_agent c)) (\<lambda>(l, a) c. c\<lparr>ac_snapshotLoader := Some l, ac_agent := a\<rparr>) m)" for l
    using assms by (fastforce simp: preserves_def zoomE_eq_Some)
  then show ?thesis unfolding loaderE_def by (intro preserves_bindE preserves_atoms preserves_derefE)
qed

lemma preserves_loader_agent [preserves_rules]:
  "preserves P m \<Longrightarrow> preserves (\<lambda>(l, s). P s) (loader_agent m)"
  by (auto simp: preserves_def loader_agent_def zoomE_eq_Some)

lemma yields_counters:
  assumes "\<And>w s. P (s\<lparr>world := w\<rparr>) = P s" "returns K f"
  shows "yields (\<lambda>c. P (ac_agent c)) K (connect_call f)"
  using assms by (auto simp: yields_def returns_def agentE_def world_exec_def zoomE_eq_Some exec_run) blast

lemma yields_polled:
  assumes "\<And>w s. P (s\<lparr>world := w\<rparr>) = P s" "returns R f"
  shows "yields (\<lambda>(l, s). P s) R (loader_agent (world_call f))"
  using assms by (auto simp: yields_def returns_def loader_agent_def world_exec_def zoomE_eq_Some exec_run) blast

section \<open>Every poll\<close>

text \<open>The handler of the loader need only keep the property on the fragments that the images hand out.\<close>

lemma preserves_service_connect_poll:
  fixes E :: "('b, 'w, 'z) env_scheme" and P :: "'w sys \<Rightarrow> bool"
  assumes world: "\<And>w s. P (s\<lparr>world := w\<rparr>) = P s"
    and parts: "\<And>x s. P (s\<lparr>m_proxy := x\<rparr>) = P s" "\<And>x s. P (s\<lparr>m_serviceAdapter := x\<rparr>) = P s" "\<And>x s. P (s\<lparr>m_archive := x\<rparr>) = P s"
      "\<And>x s. P (s\<lparr>m_commitPosition := x\<rparr>) = P s" "\<And>x s. P (s\<lparr>m_isServiceActive := x\<rparr>) = P s"
    and counters: "returns K (aeron_countersReader E)"
    and recovery: "\<And>C i s. K C \<Longrightarrow> P s \<Longrightarrow> P (s\<lparr>m_logPosition := getLogPosition E C i\<rparr>)"
      "\<And>C i s. K C \<Longrightarrow> P s \<Longrightarrow> P (s\<lparr>m_clusterTime := getTimestamp E C i\<rparr>)"
      "\<And>C i s. K C \<Longrightarrow> P s \<Longrightarrow> P (s\<lparr>m_leadershipTermId := getLeadershipTermId E C i\<rparr>)"
    and service: "\<And>i. preserves P (run_callback E (svc_onStart E i))" "\<And>i. preserves P (ack E i)"
    and fragments: "\<And>i n. returns (\<lambda>fs. \<forall>f \<in> set fs. R f) (image_controlledPoll E i n)"
      "\<And>f. R f \<Longrightarrow> preserves (\<lambda>(l, s). P s) (loader_onFragment E f)"
  shows "preserves (\<lambda>c. P (ac_agent c)) (service_connect_poll E)"
proof -
  let ?P = "\<lambda>c. P (ac_agent c)"
  have call: "preserves P (world_call f)" for f :: "('w, 'x) call" by (intro preserves_rules) (rule world)
  have archive: "preserves P (with_archive m)" for m :: "nat \<Rightarrow> ('w, 'x) call"
    by (rule preserves_keeps [OF keeps_with_archive]) (rule world)
  have set_parts: "preserves P (modifyE (\<lambda>s. s\<lparr>m_proxy := a\<rparr>))" "preserves P (modifyE (\<lambda>s. s\<lparr>m_serviceAdapter := g s\<rparr>))"
      "preserves P (modifyE (\<lambda>s. s\<lparr>m_archive := b\<rparr>))" "preserves P (modifyE (\<lambda>s. s\<lparr>m_commitPosition := d\<rparr>))"
      "preserves P (modifyE (\<lambda>s. s\<lparr>m_isServiceActive := e\<rparr>))" for a g b d e
    by (intro preserves_modifyE; simp add: parts)+
  have "preserves ?P (connect_parts E)"
    unfolding connect_parts_def connect_publication_def connect_subscription_def connect_proxy_def connect_adapter_def
      connect_archive_def connect_counters_def
    by (intro preserves_bindE preserves_atoms preserves_whenE preserves_cases preserves_agentE call set_parts preserves_modifyE) simp_all
  moreover have "preserves ?P (connect_step_0 E)"
    unfolding connect_step_0_def
    by (intro preserves_bindE preserves_atoms preserves_derefE preserves_cases preserves_agentE call set_parts preserves_modifyE) simp_all
  moreover have "preserves ?P (connect_step_1 E)"
  proof -
    have sets: "preserves ?P (agentE (modifyE (\<lambda>s. s\<lparr>m_logPosition := getLogPosition E C i\<rparr>)))"
        "preserves ?P (agentE (modifyE (\<lambda>s. s\<lparr>m_clusterTime := getTimestamp E C i\<rparr>)))"
        "preserves ?P (agentE (modifyE (\<lambda>s. s\<lparr>m_leadershipTermId := getLeadershipTermId E C i\<rparr>)))" if "K C" for C i
      by (intro preserves_agentE preserves_modifyE recovery that, assumption)+
    have rest: "preserves ?P (connect_call f)" for f :: "('w, 'x) call" by (intro preserves_agentE call)
    show ?thesis
      unfolding connect_step_1_def Let_def
      by (rule preserves_bindE [OF preserves_atoms(3)] preserves_then [OF yields_counters [OF world counters]]
          preserves_bindE [OF sets(1)] preserves_bindE [OF sets(2)] preserves_bindE [OF sets(3)] preserves_cases(1)
          preserves_bindE preserves_atoms preserves_agentE [OF archive] rest preserves_modifyE | assumption | simp)+
  qed
  moreover have "preserves ?P (connect_step_2 E)"
  proof -
    have "preserves (\<lambda>(l, s). P s) (loader_poll E)"
      unfolding loader_poll_def
      by (rule preserves_bindE [OF preserves_atoms(3)], rule preserves_poll [OF yields_polled [OF world fragments(1)]])
        (intro fragments(2) preserves_loader_agent call; assumption)+
    then have poll: "preserves ?P (loaderE (loader_poll E))" by (rule preserves_loaderE)
    have get: "preserves ?P (loaderE (getsE g))" for g :: "_ \<Rightarrow> 'x" by (intro preserves_loaderE preserves_atoms)
    show ?thesis
      unfolding connect_step_2_def connect_replay_def
      by (intro preserves_bindE preserves_atoms preserves_whenE preserves_cases poll get preserves_agentE archive call preserves_modifyE)
        simp_all
  qed
  moreover have "preserves ?P (connect_step_3 E)"
    unfolding connect_step_3_def
    by (intro preserves_bindE preserves_atoms preserves_whenE preserves_agentE service preserves_modifyE) simp_all
  moreover have "preserves ?P (connect_step_4 E)"
    unfolding connect_step_4_def
    by (intro preserves_bindE preserves_atoms preserves_cases preserves_agentE call service set_parts)
  ultimately show ?thesis
    unfolding service_connect_poll_def by (intro preserves_bindE preserves_cases preserves_atoms)
qed

end
