(* ===== verification/AckProperties.thy ===== *)
theory AckProperties
  imports ConnectInvariant AgentProperties SnapshotLemmas
begin

text \<open>
  The acknowledgement that the consensus module asks for: the request stands through the rounds of work until an
  acknowledgement has been sent.
\<close>

section \<open>A request that stands\<close>









section \<open>The stage of a poll that acknowledges\<close>



section \<open>The theorem\<close>





end
