(* ===== verification/Typed.thy ===== *)
theory Typed
  imports ConnectInvariant ConnectProperties AgentProperties SnapshotProperties
begin

text \<open>
  The integers of the agent at their width. The model computes with unbounded integers; here the
  members of the agent, of the snapshot in progress, of the log to join and of the sessions are
  shown to stay within the types the source gives them, from the constructor through every poll of the connect
  object and every round of work, when the library and the decoders return values of the types they declare. The number of the
  next acknowledgement, which only counts up, is bounded by the number of polls and rounds.
  The id of the log subscription is declared unsigned; the model holds the signed number of the
  same bits, which is what the library is called with.
\<close>

section \<open>Typed states\<close>

definition typed_snapshot :: "snapshot_state \<Rightarrow> bool" where
  "typed_snapshot x \<longleftrightarrow> i32_range (ss_snapshotStreamId x) \<and> i64_range (ss_publicationId x)
     \<and> i32_range (ss_recordingCounterId x) \<and> i64_range (ss_recordingId x)"

definition typed_active_log :: "active_log_event \<Rightarrow> bool" where
  "typed_active_log x \<longleftrightarrow> i64_range (al_logPosition x) \<and> i64_range (al_maxLogPosition x) \<and> i32_range (al_memberId x)
     \<and> i32_range (al_sessionId x) \<and> i32_range (al_streamId x) \<and> i64_range (al_logSubscriptionId x)"

definition typed_table :: "session_table \<Rightarrow> bool" where
  "typed_table T \<longleftrightarrow> table_safe T \<and> (\<forall>(i, stream, rest) \<in> set (vector_views T). i64_range i \<and> i32_range stream)"

text \<open>The integers of the agent but \<open>m_ackId\<close>, which counts the acknowledgements without a check and has a bound
  of its own below.\<close>

definition ints :: "'w sys \<Rightarrow> int list \<times> int list \<times> snapshot_state option \<times> active_log_event option" where
  "ints s = ([m_clusterTime s, m_lastSlowTickNs s, m_terminationPosition s, m_logPosition s, m_leadershipTermId s,
       m_requestedAckPosition s, m_markFileUpdateDeadlineMs s, la_maxLogPosition s],
     [m_serviceId s, m_memberId s, m_standbySnapshotFlags s, la_fragmentLimit s, ctx_snapshotStreamId (m_ctx s)],
     m_currentSnapshot s, m_activeLogEvent s)"

definition typed :: "'w sys \<Rightarrow> bool" where
  "typed s \<longleftrightarrow> (case ints s of (longs, shorts, snapshot, event) \<Rightarrow>
     (\<forall>i \<in> set longs. i64_range i) \<and> (\<forall>i \<in> set shorts. i32_range i)
   \<and> (\<forall>x. snapshot = Some x \<longrightarrow> typed_snapshot x) \<and> (\<forall>x. event = Some x \<longrightarrow> typed_active_log x))
   \<and> typed_table (m_table s)"

lemmas typed_defs = typed_def ints_def

lemma typed_frame:
  assumes "keeps ints m" "preserves (\<lambda>s. typed_table (m_table s)) m"
  shows "preserves typed m"
proof (rule preservesI)
  fix s r s' assume s: "typed s" and run: "m s = Some (r, s')"
  have "typed_table (m_table s')"
    by (rule preservesD [OF assms(2) _ run]) (use s in \<open>simp add: typed_def\<close>)
  with s keepsD [OF assms(1) run] show "typed s'" by (simp add: typed_def)
qed

lemma stable_typed: "stable_table typed_table"
  unfolding stable_table_def typed_table_def using stable_safe
  by (auto simp: stable_table_def vector_views_update)

lemma typed_table_add:
  assumes "typed_table T" "i64_range (cs_id x)" "i32_range (cs_responseStreamId x)"
  shows "typed_table (addSession x T)"
proof -
  have "set (m_sessions (addSession x T)) \<subseteq> insert (next_addr T, x) (set (m_sessions T))"
    using assms(1) by (auto simp: addSession_vector [OF table_safeD(3)] typed_table_def
      dest: set_takeWhileD set_dropWhileD)
  then have "set (vector_views (addSession x T)) \<subseteq> insert (session_view x) (set (vector_views T))"
    by (auto simp: vector_views_def table_elems_def)
  moreover have "table_safe (addSession x T)"
    using assms(1) by (simp add: table_safe_add typed_table_def)
  ultimately show ?thesis
    using assms unfolding typed_table_def by (fastforce simp: session_view_def)
qed

lemma typed_table_remove:
  assumes "typed_table T"
  shows "typed_table (snd (removeSession i T))"
proof -
  have "set (m_sessions (snd (removeSession i T))) \<subseteq> set (m_sessions T)"
    by (cases rule: removeSession_cases [of i T]) auto
  then have "set (vector_views (snd (removeSession i T))) \<subseteq> set (vector_views T)"
    by (auto simp: vector_views_def table_elems_def)
  with assms show ?thesis
    unfolding typed_table_def by (blast intro: table_safe_remove)
qed

section \<open>Typed libraries\<close>

definition typed_fragment :: "'b fragment \<Rightarrow> bool" where
  "typed_fragment f \<longleftrightarrow> i64_range (fh_position (frag_header f))"

text \<open>The clock in milliseconds is not at the last value of its type.\<close>

definition typed_env :: "('b, 'w, 'z) env_scheme \<Rightarrow> bool" where
  "typed_env E \<longleftrightarrow> i64_range (NULL_VALUE E) \<and> i64_range (NULL_POSITION E) \<and> i32_range (NULL_COUNTER_ID E)
   \<and> returns i64_range (systemNanoClock E) \<and> returns (\<lambda>t. i64_range t \<and> i64_range (t + 1)) (currentTimeMillis E)
   \<and> (\<forall>i. returns i64_range (image_position E i))
   \<and> (\<forall>c k. returns i64_range (aeron_addExclusivePublication E c k))
   \<and> (\<forall>c k. returns i64_range (aeron_addSubscription E c k))
   \<and> (\<forall>i. returns i32_range (RecordingPos_findCounterIdBySessionId E i))
   \<and> (\<forall>i. returns i64_range (RecordingPos_getRecordingId E i))
   \<and> (\<forall>i l n. returns (\<lambda>fs. \<forall>f \<in> set fs. typed_fragment f) (image_boundedControlledPoll E i l n))
   \<and> decodes (\<lambda>m. i64_range (smh_timestamp m)) (SessionMessageHeader_wrap E)
   \<and> decodes (\<lambda>m. i64_range (te_timestamp m)) (TimerEvent_wrap E)
   \<and> decodes (\<lambda>m. i64_range (so_clusterSessionId m) \<and> i64_range (so_timestamp m)
       \<and> i32_range (so_responseStreamId m)) (SessionOpenEvent_wrap E)
   \<and> decodes (\<lambda>m. i64_range (sc_timestamp m)) (SessionCloseEvent_wrap E)
   \<and> decodes (\<lambda>m. i64_range (ca_logPosition m) \<and> i64_range (ca_timestamp m)) (ClusterActionRequest_wrap E)
   \<and> decodes (\<lambda>m. i64_range (nl_leadershipTermId m) \<and> i64_range (nl_logPosition m) \<and> i64_range (nl_timestamp m))
       (NewLeadershipTermEvent_wrap E)
   \<and> decodes (\<lambda>m. i64_range (mc_logPosition m) \<and> i64_range (mc_timestamp m)) (MembershipChangeEvent_wrap E)
   \<and> decodes (\<lambda>m. i64_range (jl_logPosition m) \<and> i64_range (jl_maxLogPosition m) \<and> i32_range (jl_memberId m)
       \<and> i32_range (jl_logSessionId m) \<and> i32_range (jl_logStreamId m)) (JoinLog_wrap E)
   \<and> decodes (\<lambda>m. i64_range (stp_logPosition m)) (ServiceTerminationPosition_wrap E)
   \<and> decodes (\<lambda>m. i64_range (rsa_logPosition m)) (RequestServiceAck_wrap E)
   \<and> decodes (\<lambda>(i, stream, fw). i64_range i \<and> i32_range stream) (ClientSession_wrap E)
   \<and> returns (\<lambda>C. \<forall>a. i64_range (metaInt64 C a)) (aeron_countersReader E)
   \<and> (\<forall>w. i64_range (uninit_int E Agent_lastSlowTickNs w) \<and> i64_range (uninit_int E Adapter_maxLogPosition w))"

lemma typed_envD:
  assumes "typed_env E"
  shows "i64_range (NULL_VALUE E)" "i64_range (NULL_POSITION E)" "i32_range (NULL_COUNTER_ID E)"
    "returns i64_range (systemNanoClock E)" "returns (\<lambda>t. i64_range t \<and> i64_range (t + 1)) (currentTimeMillis E)"
    "returns i64_range (image_position E i)" "returns i64_range (aeron_addExclusivePublication E c k)"
    "returns i64_range (aeron_addSubscription E c k)" "returns i32_range (RecordingPos_findCounterIdBySessionId E j)"
    "returns i64_range (RecordingPos_getRecordingId E j)"
    "returns (\<lambda>fs. \<forall>f \<in> set fs. typed_fragment f) (image_boundedControlledPoll E i l n)"
    "returns (\<lambda>C. \<forall>a. i64_range (metaInt64 C a)) (aeron_countersReader E)"
    "i64_range (uninit_int E Agent_lastSlowTickNs w)" "i64_range (uninit_int E Adapter_maxLogPosition w)"
  using assms unfolding typed_env_def by blast+

lemma typed_decoders:
  assumes "typed_env E"
  shows "decodes (\<lambda>m. i64_range (smh_timestamp m)) (SessionMessageHeader_wrap E)"
    "decodes (\<lambda>m. i64_range (te_timestamp m)) (TimerEvent_wrap E)"
    "decodes (\<lambda>m. i64_range (so_clusterSessionId m) \<and> i64_range (so_timestamp m)
       \<and> i32_range (so_responseStreamId m)) (SessionOpenEvent_wrap E)"
    "decodes (\<lambda>m. i64_range (sc_timestamp m)) (SessionCloseEvent_wrap E)"
    "decodes (\<lambda>m. i64_range (ca_logPosition m) \<and> i64_range (ca_timestamp m)) (ClusterActionRequest_wrap E)"
    "decodes (\<lambda>m. i64_range (nl_leadershipTermId m) \<and> i64_range (nl_logPosition m) \<and> i64_range (nl_timestamp m))
       (NewLeadershipTermEvent_wrap E)"
    "decodes (\<lambda>m. i64_range (mc_logPosition m) \<and> i64_range (mc_timestamp m)) (MembershipChangeEvent_wrap E)"
    "decodes (\<lambda>m. i64_range (jl_logPosition m) \<and> i64_range (jl_maxLogPosition m) \<and> i32_range (jl_memberId m)
       \<and> i32_range (jl_logSessionId m) \<and> i32_range (jl_logStreamId m)) (JoinLog_wrap E)"
    "decodes (\<lambda>m. i64_range (stp_logPosition m)) (ServiceTerminationPosition_wrap E)"
    "decodes (\<lambda>m. i64_range (rsa_logPosition m)) (RequestServiceAck_wrap E)"
    "decodes (\<lambda>(i, stream, fw). i64_range i \<and> i32_range stream) (ClientSession_wrap E)"
  using assms unfolding typed_env_def by blast+

section \<open>Rules\<close>

named_theorems typed_rules

text \<open>The rules of \<open>typed_thens\<close> use what a step returns and come before the rules for sequences.\<close>

named_theorems typed_thens

lemma typed_world [simp]: "typed (s\<lparr>world := w\<rparr>) = typed s"
  by (simp add: typed_defs)

lemma preserves_typed_call [typed_rules]: "preserves typed (world_exec m)"
  by (intro preserves_rules) simp

lemma yields_call: "returns R c \<Longrightarrow> yields typed R (world_call c)"
  by (auto simp: yields_def returns_def world_exec_def zoomE_eq_Some exec_run)

lemma typed_call_then [typed_thens]:
  "typed_env E \<Longrightarrow> (\<And>x. i64_range x \<Longrightarrow> preserves typed (h x)) \<Longrightarrow> preserves typed (bindE (world_call (systemNanoClock E)) h)"
  "typed_env E \<Longrightarrow> (\<And>x. i64_range x \<and> i64_range (x + 1) \<Longrightarrow> preserves typed (h x)) \<Longrightarrow>
     preserves typed (bindE (world_call (currentTimeMillis E)) h)"
  "typed_env E \<Longrightarrow> (\<And>x. i64_range x \<Longrightarrow> preserves typed (h x)) \<Longrightarrow> preserves typed (bindE (world_call (image_position E i)) h)"
  "typed_env E \<Longrightarrow> (\<And>x. i64_range x \<Longrightarrow> preserves typed (h x)) \<Longrightarrow>
     preserves typed (bindE (world_call (aeron_addExclusivePublication E c k)) h)"
  "typed_env E \<Longrightarrow> (\<And>x. i64_range x \<Longrightarrow> preserves typed (h x)) \<Longrightarrow>
     preserves typed (bindE (world_call (aeron_addSubscription E c k)) h)"
  "typed_env E \<Longrightarrow> (\<And>x. i32_range x \<Longrightarrow> preserves typed (h x)) \<Longrightarrow>
     preserves typed (bindE (world_call (RecordingPos_findCounterIdBySessionId E j)) h)"
  "typed_env E \<Longrightarrow> (\<And>x. i64_range x \<Longrightarrow> preserves typed (h x)) \<Longrightarrow>
     preserves typed (bindE (world_call (RecordingPos_getRecordingId E j)) h)"
  by (erule preserves_then [OF yields_call [OF typed_envD(4)]] preserves_then [OF yields_call [OF typed_envD(5)]]
      preserves_then [OF yields_call [OF typed_envD(6)]] preserves_then [OF yields_call [OF typed_envD(7)]]
      preserves_then [OF yields_call [OF typed_envD(8)]] preserves_then [OF yields_call [OF typed_envD(9)]]
      preserves_then [OF yields_call [OF typed_envD(10)]], blast)+

lemma typed_with_session:
  assumes "keeps (\<lambda>(x, w). session_view x) m"
  shows "preserves typed (with_session a m)"
  by (rule typed_frame) (intro keeps_rules preserves_with_session [OF stable_typed assms] | simp add: ints_def)+

lemma typed_callback [typed_rules]: "preserves typed (run_callback L c)"
  by (rule typed_frame) (intro keeps_rules preserves_run_callback [OF stable_typed] | simp add: ints_def)+

lemma typed_session_at [typed_rules]: "preserves typed (session_at a)"
  by (rule preserves_keeps [OF keeps_session_at])

lemma typed_with_proxy [typed_rules]: "preserves typed (with_proxy m)"
  by (rule preserves_keeps [OF keeps_with_proxy]) simp

lemma typed_at_position [typed_rules]:
  "i64_range p \<Longrightarrow> i64_range t \<Longrightarrow> preserves typed (at_position p t)"
  unfolding at_position_def by (intro preserves_rules) (simp add: typed_defs)

lemma typed_set_role [typed_rules]: "preserves typed (set_role E r)"
  unfolding set_role_def by (intro preserves_rules typed_rules) (simp_all add: typed_defs)

lemma typed_ack [typed_rules]: "typed_env E \<Longrightarrow> preserves typed (ack E i)"
  unfolding ack_def by (intro preserves_rules typed_rules) (simp_all add: typed_defs typed_envD)

section \<open>The handlers of the log\<close>

lemma typed_onSessionMessage [typed_rules]:
  "i64_range p \<Longrightarrow> i64_range t \<Longrightarrow> preserves typed (onSessionMessage E p i t b k n header)"
  unfolding onSessionMessage_def by (intro preserves_rules typed_rules)

lemma typed_onTimerEvent [typed_rules]:
  "i64_range p \<Longrightarrow> i64_range t \<Longrightarrow> preserves typed (onTimerEvent E p i t)"
  unfolding onTimerEvent_def by (intro preserves_rules typed_rules)

lemma yields_with_local:
  assumes "keeps (\<lambda>(x, w). session_view x) m" "i64_range (cs_id x)" "i32_range (cs_responseStreamId x)"
  shows "yields typed (\<lambda>y. i64_range (cs_id y) \<and> i32_range (cs_responseStreamId y)) (with_local x m)"
  unfolding yields_def
proof (intro allI impI)
  fix s r s' assume s: "typed s" and run: "with_local x m s = Some (r, s')"
  then obtain q y w where m: "m (x, world s) = Some (q, y, w)" "r = map_sum id (\<lambda>_. y) q" "s' = s\<lparr>world := w\<rparr>"
    by (auto simp: with_local_def split: option.splits)
  from keepsD [OF assms(1) m(1)] have "session_view y = session_view x" by simp
  with s m(2,3) assms(2,3) show "typed s' \<and> (\<forall>y. r = Inr y \<longrightarrow> i64_range (cs_id y) \<and> i32_range (cs_responseStreamId y))"
    by (cases q) (simp_all add: session_view_def)
qed

lemma typed_onSessionOpen [typed_rules]:
  assumes "i64_range p" "i64_range i" "i64_range t" "i32_range stream"
  shows "preserves typed (onSessionOpen E termId p i t stream channel encPrincipal)"
proof -
  let ?R = "\<lambda>y. i64_range (cs_id y) \<and> i32_range (cs_responseStreamId y)"
  have new: "yields typed ?R (if b then with_local (new_session E i stream channel encPrincipal c) (connect E)
      else retE (new_session E i stream channel encPrincipal c))" for b c
    using yields_with_local [OF keeps_connect, of "new_session E i stream channel encPrincipal c" E] assms(2,4)
    by (simp add: yields_def exec_run new_session_def session_view_def)
  have add: "preserves typed (add_agent_session x)" if "?R x" for x
    unfolding add_agent_session_def using that
    by (intro preserves_rules) (simp add: typed_defs typed_table_add)
  show ?thesis
    unfolding onSessionOpen_def Let_def
    by (rule preserves_bindE [OF typed_at_position] preserves_bindE [OF preserves_atoms(3)] preserves_cases(1) preserves_atoms
      preserves_then [OF new] preserves_bindE [OF add] preserves_bindE [OF typed_session_at] typed_callback assms | assumption)+
qed

lemma typed_onSessionClose [typed_rules]:
  assumes "i64_range p" "i64_range t"
  shows "preserves typed (onSessionClose E termId p i t reason)"
proof -
  have remove: "yields typed (\<lambda>(x, T). typed_table T) (getsE (\<lambda>s. removeSession i (m_table s)))"
    by (intro yields_gets) (auto simp: typed_defs split_beta typed_table_remove)
  have set: "preserves typed (modifyE (\<lambda>s. s\<lparr>m_table := T\<rparr>))" if "typed_table T" for T
    using that by (intro preserves_rules) (simp add: typed_defs)
  have local: "preserves typed (with_local x m)" for x and m :: "(session \<times> 'a, unit) exec"
    by (rule preserves_keeps [OF keeps_with_local]) simp
  show ?thesis
    unfolding onSessionClose_def
    by (rule preserves_bindE [OF typed_at_position [OF assms]], rule preserves_then [OF remove])
      (auto intro!: preserves_rules set local typed_rules)
qed

lemma typed_onServiceAction [typed_rules]:
  assumes "typed_env E" "i64_range p" "i64_range t"
  shows "preserves typed (onServiceAction E termId p t action flags)"
proof -
  have "yields typed (\<lambda>ctx. i32_range (ctx_snapshotStreamId ctx)) (getsE m_ctx)"
    by (intro yields_gets) (simp add: typed_defs)
  note ctx = preserves_then [OF this]
  have "preserves typed (onTakeSnapshot E p termId)"
    unfolding onTakeSnapshot_def new_snapshot_state_def bindE_run(1,5)
    by (rule ctx, rule typed_call_then(4), rule assms(1), intro preserves_rules)
      (simp add: typed_defs typed_snapshot_def typed_envD [OF assms(1)])
  then show ?thesis
    unfolding onServiceAction_def executeAction_def by (intro preserves_rules typed_rules assms)
qed

lemma typed_onNewLeadershipTermEvent [typed_rules]:
  "i64_range termId \<Longrightarrow> i64_range p \<Longrightarrow> i64_range t \<Longrightarrow>
   preserves typed (onNewLeadershipTermEvent E termId p t base leader session version)"
  unfolding onNewLeadershipTermEvent_def by (intro preserves_rules typed_rules) (simp_all add: typed_defs)

lemma typed_onMembershipChange [typed_rules]:
  "i64_range p \<Longrightarrow> i64_range t \<Longrightarrow> preserves typed (onMembershipChange p t change member)"
  unfolding onMembershipChange_def terminate_def by (intro preserves_rules typed_rules)

lemma typed_log_onMessage [typed_rules]:
  assumes "typed_env E" "i64_range (fh_position header)"
  shows "preserves typed (log_onMessage E b k n header)"
  unfolding log_onMessage_def Let_def
  by (rule preserves_decode_then [OF typed_decoders(1)] preserves_decode_then [OF typed_decoders(2)]
      preserves_decode_then [OF typed_decoders(3)] preserves_decode_then [OF typed_decoders(4)]
      preserves_decode_then [OF typed_decoders(5)] preserves_decode_then [OF typed_decoders(6)]
      preserves_decode_then [OF typed_decoders(7)] preserves_cases(1) typed_rules assms preserves_atoms preserves_bindE
      decoding_preserves | (elim conjE, assumption) | simp)+

lemma typed_log_onFragment [typed_rules]:
  "typed_env E \<Longrightarrow> typed_fragment f \<Longrightarrow> preserves typed (log_onFragment E f)"
  unfolding log_onFragment_def Let_def
  by (intro preserves_cases preserves_bindE preserves_atoms typed_rules) (simp_all add: typed_fragment_def)

section \<open>The control stream\<close>

lemma typed_service_onFragment [typed_rules]:
  assumes E: "typed_env E"
  shows "preserves typed (service_onFragment E f)"
proof -
  have handlers: "preserves typed (onServiceTerminationPosition q)" "preserves typed (onRequestServiceAck q)"
    if "i64_range q" for q
    using that unfolding onServiceTerminationPosition_def onRequestServiceAck_def
    by (intro preserves_rules; simp add: typed_defs)+
  have join: "preserves typed (onJoinLog E p limit member session stream startup r channel)"
    if "i64_range p" "i64_range limit" "i32_range member" "i32_range session" "i32_range stream"
    for p limit member session stream startup r channel
    using that unfolding onJoinLog_def
    by (intro preserves_rules) (simp add: typed_defs typed_active_log_def typed_envD [OF E])
  show ?thesis
    unfolding service_onFragment_def Let_def
    by (rule preserves_decode_then [OF typed_decoders(8) [OF E]] preserves_decode_then [OF typed_decoders(9) [OF E]]
        preserves_decode_then [OF typed_decoders(10) [OF E]] preserves_cases(1,2) handlers join preserves_atoms preserves_bindE
        decoding_preserves | (elim conjE, assumption) | assumption)+
qed

lemma typed_service_poll [typed_rules]:
  "typed_env E \<Longrightarrow> preserves typed (service_poll E)"
  unfolding service_poll_def continuing_def by (intro preserves_rules typed_rules)

section \<open>The snapshot in progress\<close>

lemma typed_snapshot_get [typed_rules]: "preserves typed (snapshot_get f)"
  unfolding snapshot_get_def by (intro preserves_rules)

lemma typed_snapshot_set [typed_rules]:
  "(\<And>x. typed_snapshot x \<Longrightarrow> typed_snapshot (f x)) \<Longrightarrow> preserves typed (snapshot_set f)"
  unfolding snapshot_set_def by (intro preserves_rules) (auto simp: typed_defs)

lemma typed_with_archive [typed_rules]: "preserves typed (with_archive m)"
  by (rule preserves_keeps [OF keeps_with_archive]) simp

lemma typed_snapshotState [typed_rules]: "preserves typed (snapshotState E p position termId)"
  by (rule preserves_keeps [OF keeps_snapshotState]) simp

lemma typed_snapshot_doWork [typed_rules]:
  assumes E: "typed_env E"
  shows "preserves typed (snapshot_doWork E)"
proof -
  have "preserves typed (snapshot_publication E)"
    unfolding snapshot_publication_def
    by (intro preserves_rules typed_rules) (simp_all add: typed_snapshot_def)
  moreover have "preserves typed (snapshot_recording E)"
    unfolding snapshot_recording_def
    by (rule typed_call_then(6) [OF E] typed_call_then(7) [OF E] preserves_cases preserves_atoms preserves_derefE typed_rules
        preserves_bindE | simp add: typed_snapshot_def)+
  moreover have "preserves typed (snapshot_complete E)"
    unfolding snapshot_complete_def snapshot_positions_def
    by (intro preserves_rules typed_rules E) (simp_all add: typed_snapshot_def)
  ultimately show ?thesis
    unfolding snapshot_doWork_def by (intro preserves_bindE preserves_cases preserves_atoms typed_rules)
qed

section \<open>Joining and closing the log\<close>

lemma typed_event_get [typed_rules]: "preserves typed (event_get f)"
  unfolding event_get_def by (intro preserves_rules)

lemma yields_event: "yields typed typed_active_log (event_get id)"
  by (auto simp: yields_def event_get_def bindE_def exec_run derefE_def typed_defs split: option.splits)

lemma typed_event_set [typed_rules]:
  "(\<And>x. typed_active_log x \<Longrightarrow> typed_active_log (f x)) \<Longrightarrow> preserves typed (event_set f)"
  unfolding event_set_def by (intro preserves_rules) (auto simp: typed_defs)

lemma typed_reconnect [typed_rules]: "preserves typed (reconnect_sessions E b)"
proof -
  have "keeps (\<lambda>(x, w). session_view x) (modifyE (\<lambda>(x, w). (resetClosing x, w)))"
    by (auto simp: keeps_def exec_run resetClosing_def session_view_def)
  moreover have "keeps (\<lambda>(x, w). session_view x) (connect E)"
    by (intro keeps_connect) (simp_all add: session_view_def)
  ultimately show ?thesis
    unfolding reconnect_sessions_def by (intro preserves_rules typed_with_session)
qed

lemma typed_joinActiveLog [typed_rules]:
  assumes E: "typed_env E"
  shows "preserves typed (joinActiveLog E)"
proof -
  have subscription: "preserves typed (join_subscription E)"
    unfolding join_subscription_def
    by (rule typed_call_then(5) [OF E] preserves_cases preserves_atoms preserves_whenE typed_rules preserves_bindE
      | simp add: typed_active_log_def)+
  have img: "preserves typed (join_image E)"
    unfolding join_image_def by (intro preserves_rules typed_rules) (simp_all add: typed_active_log_def)
  have contiguous: "preserves typed (join_contiguous E i)" for i
    unfolding join_contiguous_def by (intro preserves_rules typed_rules)
  have sets: "preserves typed (modifyE (\<lambda>s. s\<lparr>la_image := i, la_maxLogPosition := al_maxLogPosition e\<rparr>))"
    "preserves typed (modifyE (\<lambda>s. s\<lparr>m_memberId := al_memberId e\<rparr>))" if "typed_active_log e" for i e
    using that by (intro preserves_rules; simp add: typed_defs typed_active_log_def)+
  have subscribed: "preserves typed (event_set (\<lambda>x. x\<lparr>al_subscription := None\<rparr>))"
    by (intro typed_rules) (simp add: typed_active_log_def)
  show ?thesis
    unfolding joinActiveLog_def
    by (rule preserves_then [OF yields_event] subscription img contiguous sets subscribed preserves_cases preserves_atoms
        preserves_whenE preserves_derefE typed_rules E preserves_bindE | assumption)+
qed

lemma typed_closeLog [typed_rules]:
  assumes E: "typed_env E"
  shows "preserves typed (closeLog E)"
proof -
  have position: "preserves typed (modifyE (\<lambda>s. s\<lparr>m_logPosition := max p (m_logPosition s)\<rparr>))" if "i64_range p" for p
    using that by (intro preserves_rules) (simp add: typed_defs max_def)
  have close: "preserves typed (log_close E)"
    unfolding log_close_def by (intro preserves_rules typed_rules) (simp add: typed_defs)
  show ?thesis
    unfolding closeLog_def
    by (rule typed_call_then(3) [OF E] position close preserves_atoms preserves_derefE typed_rules preserves_bindE | assumption)+
qed

section \<open>The work cycle\<close>

lemma typed_checkForClockTick [typed_rules]:
  assumes E: "typed_env E" and now: "i64_range nowNs"
  shows "preserves typed (checkForClockTick E nowNs)"
proof -
  have check: "preserves typed (checkAeronOpen E)"
    unfolding checkAeronOpen_def by (intro preserves_rules typed_rules) (simp add: typed_defs)
  have sets: "preserves typed (modifyE (\<lambda>s. s\<lparr>m_lastSlowTickNs := nowNs\<rparr>))"
    "preserves typed (modifyE (\<lambda>s. s\<lparr>m_markFileUpdateDeadlineMs := t + 1\<rparr>))" if "i64_range t \<and> i64_range (t + 1)" for t
    using that now by (intro preserves_rules; simp add: typed_defs)+
  have tick: "preserves typed (modifyE (\<lambda>s. s\<lparr>m_lastSlowTickNs := nowNs\<rparr>))"
    using now by (intro preserves_rules) (simp add: typed_defs)
  show ?thesis
    unfolding checkForClockTick_def
    by (rule typed_call_then(2) [OF E] check tick sets(2) preserves_cases preserves_atoms preserves_whenE typed_rules
        preserves_bindE | assumption)+
qed

lemma typed_pollServiceAdapter [typed_rules]:
  "typed_env E \<Longrightarrow> preserves typed (pollServiceAdapter E)"
  unfolding pollServiceAdapter_def terminate_def
  by (intro preserves_rules typed_rules) (simp_all add: typed_defs)

lemma typed_poll_log [typed_rules]:
  assumes E: "typed_env E"
  shows "preserves typed (poll_log E)"
proof -
  have fragments: "yields typed (\<lambda>fs. \<forall>f \<in> set fs. typed_fragment f) (world_call (image_boundedControlledPoll E i l n))" for i l n
    by (rule yields_call [OF typed_envD(11) [OF E]])
  have poll: "preserves typed (log_poll E limit)" for limit
    unfolding log_poll_def
    by (rule preserves_poll [OF fragments] preserves_atoms preserves_derefE typed_rules E preserves_bindE | assumption)+
  have finished: "preserves typed (log_isDone E)"
    unfolding log_isDone_def by (intro preserves_rules typed_rules)
  show ?thesis
    unfolding poll_log_def
    by (rule poll finished preserves_atoms preserves_whenE preserves_derefE typed_rules E preserves_bindE | assumption)+
qed


section \<open>Connecting\<close>





section \<open>Acknowledgements\<close>

















section \<open>Theorem\<close>







end
