(* ===== verification/Listeners.thy ===== *)
theory Listeners
  imports ClientConnect EgressProperties
begin

text \<open>
  What the user of the client may register for the messages of the egress stream: the consumers of
  the context with their defaults (\<open>ClusterConfiguration.h\<close>), and the listeners
  (\<open>EgressListener\<close>, \<open>ControlledEgressListener\<close>) with the default bodies of their callbacks.
\<close>

section \<open>Default consumers\<close>

definition defaultSessionMessageConsumer :: "('b, 'w) on_session_message_t" where
  "defaultSessionMessageConsumer = (\<lambda>sessionId correlationId buffer offset len header w. (Inr (), w))"

definition defaultSessionEventConsumer :: "'w on_session_event_t" where
  "defaultSessionEventConsumer =
     (\<lambda>correlationId clusterSessionId leadershipTermId leaderMemberId code errorMessage w. (Inr (), w))"

definition defaultNewLeaderEventConsumer :: "'w on_new_leader_event_t" where
  "defaultNewLeaderEventConsumer = (\<lambda>sessionId leadershipTermId leaderMemberId ingressEndpoints w. (Inr (), w))"

definition defaultAdminResponseConsumer :: "('b, 'w) on_admin_response_t" where
  "defaultAdminResponseConsumer =
     (\<lambda>sessionId correlationId requestType code message buffer offset len w. (Inr (), w))"

text \<open>The function that a member of the context holds, given the functions of the user.\<close>

definition held_function :: "'f \<Rightarrow> (nat \<Rightarrow> 'f) \<Rightarrow> consumer option \<Rightarrow> 'f option" where
  "held_function silent user x = map_option (case_consumer silent user) x"

text \<open>An adapter built from the consumers of a context.\<close>

definition context_adapter :: "(nat \<Rightarrow> ('b, 'w) on_session_message_t) \<Rightarrow> (nat \<Rightarrow> 'w on_session_event_t) \<Rightarrow>
    (nat \<Rightarrow> 'w on_new_leader_event_t) \<Rightarrow> (nat \<Rightarrow> ('b, 'w) on_admin_response_t) \<Rightarrow> client_context \<Rightarrow>
    i64 \<Rightarrow> sub \<Rightarrow> ('b, 'w) egress_adapter" where
  "context_adapter u v x y ctx clusterSessionId subscription = new_egress_adapter
     (held_function defaultSessionMessageConsumer u (cc_onSessionMessage ctx))
     (held_function defaultSessionEventConsumer v (cc_onSessionEvent ctx))
     (held_function defaultNewLeaderEventConsumer x (cc_onNewLeaderEvent ctx))
     (held_function defaultAdminResponseConsumer y (cc_onAdminResponse ctx))
     clusterSessionId subscription EGRESS_FRAGMENT_LIMIT_DEFAULT"

section \<open>Listeners\<close>

text \<open>The virtual functions of a listener; a class that overrides one replaces the field.\<close>

record ('b, 'w) egress_listener =
  el_onMessage :: "i64 \<Rightarrow> i64 \<Rightarrow> 'b \<Rightarrow> int \<Rightarrow> int \<Rightarrow> frag_header \<Rightarrow> ('w, unit) call"
  el_onSessionEvent :: "i64 \<Rightarrow> i64 \<Rightarrow> i64 \<Rightarrow> i32 \<Rightarrow> event_code \<Rightarrow> string \<Rightarrow> ('w, unit) call"
  el_onNewLeader :: "i64 \<Rightarrow> i64 \<Rightarrow> i32 \<Rightarrow> string \<Rightarrow> ('w, unit) call"
  el_onAdminResponse :: "i64 \<Rightarrow> i64 \<Rightarrow> int \<Rightarrow> int \<Rightarrow> string \<Rightarrow> 'b \<Rightarrow> i32 \<Rightarrow> i32 \<Rightarrow> ('w, unit) call"

definition EgressListener_onMessage :: "i64 \<Rightarrow> i64 \<Rightarrow> 'b \<Rightarrow> int \<Rightarrow> int \<Rightarrow> frag_header \<Rightarrow> ('w, unit) call" where
  "EgressListener_onMessage clusterSessionId timestamp buffer offset len header w = (Inr (), w)"

definition EgressListener_onSessionEvent :: "i64 \<Rightarrow> i64 \<Rightarrow> i64 \<Rightarrow> i32 \<Rightarrow> event_code \<Rightarrow> string \<Rightarrow> ('w, unit) call" where
  "EgressListener_onSessionEvent correlationId clusterSessionId leadershipTermId leaderMemberId code detail w = (Inr (), w)"

definition EgressListener_onNewLeader :: "i64 \<Rightarrow> i64 \<Rightarrow> i32 \<Rightarrow> string \<Rightarrow> ('w, unit) call" where
  "EgressListener_onNewLeader clusterSessionId leadershipTermId leaderMemberId ingressEndpoints w = (Inr (), w)"

definition EgressListener_onAdminResponse ::
    "i64 \<Rightarrow> i64 \<Rightarrow> int \<Rightarrow> int \<Rightarrow> string \<Rightarrow> 'b \<Rightarrow> i32 \<Rightarrow> i32 \<Rightarrow> ('w, unit) call" where
  "EgressListener_onAdminResponse clusterSessionId correlationId requestType responseCode message payload
     payloadOffset payloadLength w = (Inr (), w)"

definition base_listener :: "('b, 'w) egress_listener" where
  "base_listener = \<lparr> el_onMessage = EgressListener_onMessage, el_onSessionEvent = EgressListener_onSessionEvent,
     el_onNewLeader = EgressListener_onNewLeader, el_onAdminResponse = EgressListener_onAdminResponse \<rparr>"

text \<open>The controlled listener has the same callbacks, but its \<open>onMessage\<close> returns an action and has no
  default: a class that implements it supplies one.\<close>

record ('b, 'w) controlled_listener =
  cl_onMessage :: "i64 \<Rightarrow> i64 \<Rightarrow> 'b \<Rightarrow> int \<Rightarrow> int \<Rightarrow> frag_header \<Rightarrow> ('w, poll_action) call"
  cl_onSessionEvent :: "i64 \<Rightarrow> i64 \<Rightarrow> i64 \<Rightarrow> i32 \<Rightarrow> event_code \<Rightarrow> string \<Rightarrow> ('w, unit) call"
  cl_onNewLeader :: "i64 \<Rightarrow> i64 \<Rightarrow> i32 \<Rightarrow> string \<Rightarrow> ('w, unit) call"
  cl_onAdminResponse :: "i64 \<Rightarrow> i64 \<Rightarrow> int \<Rightarrow> int \<Rightarrow> string \<Rightarrow> 'b \<Rightarrow> int \<Rightarrow> int \<Rightarrow> ('w, unit) call"

definition Controlled_onSessionEvent :: "i64 \<Rightarrow> i64 \<Rightarrow> i64 \<Rightarrow> i32 \<Rightarrow> event_code \<Rightarrow> string \<Rightarrow> ('w, unit) call" where
  "Controlled_onSessionEvent correlationId clusterSessionId leadershipTermId leaderMemberId code detail w = (Inr (), w)"

definition Controlled_onNewLeader :: "i64 \<Rightarrow> i64 \<Rightarrow> i32 \<Rightarrow> string \<Rightarrow> ('w, unit) call" where
  "Controlled_onNewLeader clusterSessionId leadershipTermId leaderMemberId ingressEndpoints w = (Inr (), w)"

definition Controlled_onAdminResponse ::
    "i64 \<Rightarrow> i64 \<Rightarrow> int \<Rightarrow> int \<Rightarrow> string \<Rightarrow> 'b \<Rightarrow> int \<Rightarrow> int \<Rightarrow> ('w, unit) call" where
  "Controlled_onAdminResponse clusterSessionId correlationId requestType responseCode message payload
     payloadOffset payloadLength w = (Inr (), w)"

definition base_controlled_listener ::
    "(i64 \<Rightarrow> i64 \<Rightarrow> 'b \<Rightarrow> int \<Rightarrow> int \<Rightarrow> frag_header \<Rightarrow> ('w, poll_action) call) \<Rightarrow> ('b, 'w) controlled_listener" where
  "base_controlled_listener onMessage = \<lparr> cl_onMessage = onMessage, cl_onSessionEvent = Controlled_onSessionEvent,
     cl_onNewLeader = Controlled_onNewLeader, cl_onAdminResponse = Controlled_onAdminResponse \<rparr>"

section \<open>A client that registers nothing\<close>

lemmas default_consumers = defaultSessionMessageConsumer_def defaultSessionEventConsumer_def
  defaultNewLeaderEventConsumer_def defaultAdminResponseConsumer_def

text \<open>The default consumers do what the callbacks of a listener do that overrides none.\<close>

lemma base_listener_consumers:
  "el_onMessage base_listener = defaultSessionMessageConsumer"
  "el_onSessionEvent base_listener = defaultSessionEventConsumer"
  "el_onNewLeader base_listener = defaultNewLeaderEventConsumer"
  "el_onAdminResponse base_listener = defaultAdminResponseConsumer"
  by (simp_all add: base_listener_def default_consumers fun_eq_iff EgressListener_onMessage_def
    EgressListener_onSessionEvent_def EgressListener_onNewLeader_def EgressListener_onAdminResponse_def)

lemma client_conclude_consumers:
  assumes "client_conclude L (ctx, w) = Some (Inr (), c, w')"
  shows "cc_onSessionMessage c = default_consumer (cc_onSessionMessage ctx)"
    "cc_onSessionEvent c = default_consumer (cc_onSessionEvent ctx)"
    "cc_onNewLeaderEvent c = default_consumer (cc_onNewLeaderEvent ctx)"
    "cc_onAdminResponse c = default_consumer (cc_onAdminResponse ctx)"
  using assms by (auto simp: client_conclude_def bindE_def exec_run whenE_def zoomE_def
    split: option.splits sum.splits prod.splits if_splits)

text \<open>An adapter with the default consumers only decodes.\<close>

lemma silent_adapter:
  assumes "ea_onSessionMessage a = Some defaultSessionMessageConsumer" "ea_onSessionEvent a = Some defaultSessionEventConsumer"
    "ea_onNewLeaderEvent a = Some defaultNewLeaderEventConsumer" "ea_onAdminResponse a = Some defaultAdminResponseConsumer"
  shows "egress_onFragment L a f w = Some (map_sum id (\<lambda>_. ()) (egress_session L f), w)"
  using assms by (auto simp: egress_onFragment_def egress_session_def message_header_of_def decode_from_def function_of_def
    default_consumers bindE_def exec_run whenE_def Let_def map_sum_def split: sum.splits)

text \<open>A client that registers no consumer gets the ones that do nothing: after \<open>conclude\<close> an adapter that
  takes its consumers from the context handles any fragment of the egress stream, of its own session or
  not, without an effect; what it reports is what decoding the fragment reports, and no empty
  function is called. What the user's functions would do makes no difference.\<close>

theorem unset_consumers_silent:
  assumes "client_conclude L (ctx, w) = Some (Inr (), c, w')"
    "cc_onSessionMessage ctx = None" "cc_onSessionEvent ctx = None"
    "cc_onNewLeaderEvent ctx = None" "cc_onAdminResponse ctx = None"
  shows "egress_onFragment M (context_adapter f g h k c i subscription) x v
    = Some (map_sum id (\<lambda>_. ()) (egress_session M x), v)"
  using client_conclude_consumers [OF assms(1)] assms(2-)
  by (intro silent_adapter)
    (simp_all add: context_adapter_def new_egress_adapter_def held_function_def default_consumer_def)

theorem unset_consumers_silent_witness:
  "egress_onFragment accepting_env (context_adapter (\<lambda>_ _ _ _ _ _ _ w. (Inl (UserError 1), w))
       (\<lambda>_ _ _ _ _ _ _ w. (Inl (UserError 1), w)) (\<lambda>_ _ _ _ _ w. (Inl (UserError 1), w))
       (\<lambda>_ _ _ _ _ _ _ _ _ w. (Inl (UserError 1), w))
       (fst (snd (the (client_conclude (demo_client :: (nat, nat) client_env) (empty_client_context, 0))))) 9 0) demo_frame 5
     = Some (Inr (), 5)"
proof -
  let ?r = "client_conclude (demo_client :: (nat, nat) client_env) (empty_client_context, 0)"
  have "egress_session accepting_env demo_frame = Inr (Some 9)"
    by (simp add: egress_session_def accepting_env_def demo_frame_def Let_def)
  moreover obtain c w where run: "?r = Some (Inr (), c, w)"
    by (auto simp: client_conclude_def empty_client_context_def bindE_def exec_run whenE_def zoomE_def)
  have none: "cc_onSessionMessage empty_client_context = None" "cc_onSessionEvent empty_client_context = None"
    "cc_onNewLeaderEvent empty_client_context = None" "cc_onAdminResponse empty_client_context = None"
    by (simp_all add: empty_client_context_def)
  ultimately show ?thesis
    by (simp add: run unset_consumers_silent [OF run none])
qed

end
