(* ===== verification/Recovery.thy ===== *)
theory Recovery
  imports SnapshotProperties ConnectProperties ConnectInvariant
begin

text \<open>
  Recovery from a snapshot, from a new connect object to the agent it hands out and on through the
  rest of the log: from a snapshot without sessions the recovered replica is where the others are; the
  sessions of any other snapshot are lost.
\<close>

section \<open>The snapshot in pieces\<close>

text \<open>
  The replay of a snapshot without sessions arrives in batches, one for each poll of the image. What the loader is before the
  fragments that are still to come: nothing has been read; the first marker has been read; everything has been read.
\<close>

definition begins :: "('b, 'w, 'z) codecs_scheme \<Rightarrow> 'b fragment \<Rightarrow> bool" where
  "begins L f \<longleftrightarrow> (\<exists>position termId index unit version.
     reads_marker L f (SnapshotMarker SNAPSHOT_TYPE_ID position termId index BEGIN unit version))"

definition ends :: "('b, 'w, 'z) codecs_scheme \<Rightarrow> 'b fragment \<Rightarrow> bool" where
  "ends L f \<longleftrightarrow> (\<exists>position termId index unit version.
     reads_marker L f (SnapshotMarker SNAPSHOT_TYPE_ID position termId index END unit version))"

definition is_snapshot :: "('b, 'w, 'z) codecs_scheme \<Rightarrow> 'b fragment list \<Rightarrow> bool" where
  "is_snapshot L gs \<longleftrightarrow> (\<exists>f1 f2. gs = [f1, f2] \<and> begins L f1 \<and> ends L f2)"

definition awaits :: "('b, 'w, 'z) codecs_scheme \<Rightarrow> 'b fragment list \<Rightarrow> loader \<Rightarrow> bool" where
  "awaits L gs l \<longleftrightarrow>
     (if ld_isDone l then gs = [] else if ld_inSnapshot l then \<exists>f. gs = [f] \<and> ends L f else is_snapshot L gs)"

lemma awaits_fragment:
  assumes "awaits L (g # gs) l"
  shows "\<exists>a l'. loader_onFragment L g (l, s) = Some (Inr a, (l', s)) \<and> awaits L gs l'
     \<and> ld_image l' = ld_image l \<and> (a = CONTINUE \<or> a = BREAK \<and> gs = [])"
proof -
  have notdone: "\<not> ld_isDone l" using assms by (auto simp: awaits_def)
  show ?thesis
  proof (cases "ld_inSnapshot l")
    case False
    with notdone assms obtain f2 where g: "gs = [f2]" "begins L g" "ends L f2" by (auto simp: awaits_def is_snapshot_def)
    from g(2) obtain position termId index unit version where
      "reads_marker L g (SnapshotMarker SNAPSHOT_TYPE_ID position termId index BEGIN unit version)"
      by (auto simp: begins_def)
    note r = loader_marker_run [OF this]
    from g notdone have "awaits L gs (l\<lparr>ld_inSnapshot := True, ld_appVersion := version\<rparr>)" by (simp add: awaits_def)
    then show ?thesis using False by (auto simp: r loader_onMarker_def bindE_run exec_run)
  next
    case True
    with notdone assms have g: "gs = []" "ends L g" by (auto simp: awaits_def)
    from g(2) obtain position termId index unit version where
      "reads_marker L g (SnapshotMarker SNAPSHOT_TYPE_ID position termId index END unit version)"
      by (auto simp: ends_def)
    note r = loader_marker_run [OF this]
    from g have "awaits L gs (l\<lparr>ld_isDone := True\<rparr>)" by (simp add: awaits_def)
    with True g show ?thesis by (auto simp: r loader_onMarker_def bindE_run exec_run)
  qed
qed

lemma awaits_batch:
  assumes "awaits L (b @ gs) l"
  shows "\<exists>l'. deliver (loader_onFragment L) finish on_throw k b (l, s) = finish (k + length b) (l', s)
     \<and> awaits L gs l' \<and> ld_image l' = ld_image l"
  using assms
proof (induction b arbitrary: k l)
  case Nil
  then show ?case by (intro exI [of _ l]) simp
next
  case (Cons g b)
  then obtain a l1 where g: "loader_onFragment L g (l, s) = Some (Inr a, (l1, s))"
      "awaits L (b @ gs) l1" "ld_image l1 = ld_image l" "a = CONTINUE \<or> a = BREAK \<and> b = [] \<and> gs = []"
    using awaits_fragment [of L g "b @ gs" l s] by auto
  show ?case
  proof (cases "a = BREAK")
    case True
    with g show ?thesis by (auto simp: attemptE_def g(1))
  next
    case False
    from Cons.IH [OF g(2), of "Suc k"] obtain l' where
      "deliver (loader_onFragment L) finish on_throw (Suc k) b (l1, s) = finish (Suc k + length b) (l', s)"
      "awaits L gs l'" "ld_image l' = ld_image l1" by auto
    with g(3,4) False show ?thesis by (auto simp: attemptE_def g(1))
  qed
qed

section \<open>A replay that arrives\<close>

text \<open>
  The archive and the driver as seen from the replay: \<open>left\<close> is what the image has still to hand out.
  Starting the replay sets it, a poll of the image takes the next batch, and the other calls that are
  made meanwhile answer and leave it alone.
\<close>

definition replies :: "('w \<Rightarrow> 'l) \<Rightarrow> ('w, 'a) call \<Rightarrow> ('a \<Rightarrow> bool) \<Rightarrow> bool" where
  "replies left f P \<longleftrightarrow> (\<forall>w. \<exists>a w'. f w = (Inr a, w') \<and> P a \<and> left w' = left w)"

definition replaying :: "('b, 'w, 'z) env_scheme \<Rightarrow> surroundings \<Rightarrow> i64 \<Rightarrow> image \<Rightarrow>
    ('w \<Rightarrow> 'b fragment list list) \<Rightarrow> 'b fragment list list \<Rightarrow> bool" where
  "replaying E x session img left bs \<longleftrightarrow>
     (\<forall>a recording position n c stream w. \<exists>w'.
        archive_startReplay E a recording position n c stream w = (Inr session, w') \<and> left w' = bs)
   \<and> (\<forall>w. \<exists>w'. image_controlledPoll E img FRAGMENT_LIMIT w = (Inr (case left w of [] \<Rightarrow> [] | b # _ \<Rightarrow> b), w') \<and> left w' = tl (left w))
   \<and> (\<forall>k. replies left (poll_finish E k) (\<lambda>n. n = int k))
   \<and> replies left (aeron_countersReader E) (\<lambda>C. C = sur_counters x)
   \<and> (\<forall>c i. replies left (ChannelUri_addSessionId E c i) (\<lambda>_. True))
   \<and> (\<forall>c i. replies left (aeron_addSubscription E c i) (\<lambda>_. True))
   \<and> (\<forall>i. replies left (aeron_findSubscription E i) (\<lambda>p. p = Some (sur_subscription x)))
   \<and> replies left (sub_imageBySessionId E (sur_subscription x) (to_i32 session)) (\<lambda>i. i = Some img)
   \<and> (\<forall>a. replies left (archive_checkForErrorResponse E a) (\<lambda>_. True))
   \<and> replies left (image_isClosed E img) (\<lambda>closed. \<not> closed)"

lemma replies_call:
  assumes "replies left f P"
  shows "\<exists>a w'. P a \<and> left w' = left (world (ac_agent c))
    \<and> (\<forall>h. bindE (connect_call f) h c = h a (c\<lparr>ac_agent := (ac_agent c)\<lparr>world := w'\<rparr>\<rparr>))"
proof -
  obtain a w' where "f (world (ac_agent c)) = (Inr a, w')" "P a" "left w' = left (world (ac_agent c))"
    using assms unfolding replies_def by blast
  then show ?thesis
    by (intro exI [of _ a] exI [of _ w']) (simp add: bindE_def agentE_def zoomE_def world_exec_def exec_run)
qed

lemma repliesD: "replies left f P \<Longrightarrow> \<exists>a w'. f w = (Inr a, w') \<and> P a \<and> left w' = left w"
  by (simp add: replies_def)

lemma replies_asked:
  assumes "replaying E x session img left bs"
  shows "left (world (ac_agent (counters_asked E c))) = left (world (ac_agent c))"
proof -
  have "replies left (aeron_countersReader E) (\<lambda>C. C = sur_counters x)" using assms by (simp add: replaying_def)
  from repliesD [OF this, of "world (ac_agent c)"] show ?thesis by auto
qed

text \<open>The connect object while it waits for the snapshot.\<close>

definition loading :: "('b, 'w, 'z) env_scheme \<Rightarrow> surroundings \<Rightarrow> i64 \<Rightarrow> image \<Rightarrow> 'b fragment list \<Rightarrow>
    'w service_connect \<Rightarrow> bool" where
  "loading E x session img gs c \<longleftrightarrow> resolved E x c \<and> recovered E x c \<and> ac_step c = 2
     \<and> ac_snapshotSessionId c = to_i32 session
     \<and> (ac_snapshotSubscription c = None \<or> ac_snapshotSubscription c = Some (sur_subscription x))
     \<and> (ac_snapshotImage c = None \<or> ac_snapshotImage c = Some img)
     \<and> m_table (ac_agent c) = empty_table
     \<and> (case ac_snapshotLoader c of
          None \<Rightarrow> awaits E gs (new_loader img 0)
        | Some l \<Rightarrow> ld_image l = img \<and> awaits E gs l)"

lemma awaits_new: "awaits L gs (new_loader i u) = awaits L gs (new_loader j v)"
  by (simp add: awaits_def new_loader_def)

lemma resolved_frame [simp]:
  "resolved E x (c\<lparr>ac_snapshotLoader := l\<rparr>) = resolved E x c" "recovered E x (c\<lparr>ac_snapshotLoader := l\<rparr>) = recovered E x c"
  "resolved E x (c\<lparr>ac_snapshotImage := i\<rparr>) = resolved E x c" "recovered E x (c\<lparr>ac_snapshotImage := i\<rparr>) = recovered E x c"
  "resolved E x (c\<lparr>ac_snapshotSubscription := p\<rparr>) = resolved E x c" "recovered E x (c\<lparr>ac_snapshotSubscription := p\<rparr>) = recovered E x c"
  "resolved E x (c\<lparr>ac_step := n\<rparr>) = resolved E x c" "recovered E x (c\<lparr>ac_step := n\<rparr>) = recovered E x c"
  "recovered E x (counters_asked E c) = recovered E x c"
  by (simp_all add: resolved_def recovered_def counters_asked_def)

lemma resolved_agent:
  assumes "ac_agent c = a"
  shows "resolved E x (c\<lparr>ac_agent := a\<lparr>world := w\<rparr>\<rparr>) = resolved E x c" "recovered E x (c\<lparr>ac_agent := a\<lparr>world := w\<rparr>\<rparr>) = recovered E x c"
    "resolved E x (c\<lparr>ac_agent := a\<lparr>m_table := T\<rparr>\<rparr>) = resolved E x c" "recovered E x (c\<lparr>ac_agent := a\<lparr>m_table := T\<rparr>\<rparr>) = recovered E x c"
  using assms by (simp_all add: resolved_def recovered_def)

lemma loading_asked: "loading E x session img gs (counters_asked E c) = loading E x session img gs c"
  by (simp add: loading_def split: option.split)

text \<open>A poll finds the subscription and the image, if it has not yet, and reads from the image.\<close>

lemma to_replay:
  assumes rep: "replaying E x session img left bs" and c: "loading E x session img gs c"
  shows "\<exists>d. connect_step_2 E c = connect_replay E img d \<and> loading E x session img gs d
    \<and> ac_snapshotImage d = Some img \<and> left (world (ac_agent d)) = left (world (ac_agent c))"
proof -
  have found: "replies left (aeron_findSubscription E i) (\<lambda>p. p = Some (sur_subscription x))"
      "replies left (sub_imageBySessionId E (sur_subscription x) (to_i32 session)) (\<lambda>i. i = Some img)" for i
    using rep by (simp_all add: replaying_def)
  obtain d1 where d1: "loading E x session img gs d1" "ac_snapshotImage d1 = ac_snapshotImage c"
      "ac_snapshotSubscription d1 = Some (sur_subscription x)" "left (world (ac_agent d1)) = left (world (ac_agent c))"
      "\<And>h :: _ \<Rightarrow> (_, unit) exec. bindE (whenE (ac_snapshotSubscription c = None)
       (bindE (connect_call (aeron_findSubscription E (ac_snapshotSubscriptionId c))) (\<lambda>found.
        modifyE (\<lambda>c. c\<lparr>ac_snapshotSubscription := found\<rparr>)))) h c = h () d1"
  proof (cases "ac_snapshotSubscription c")
    case None
    from replies_call [OF found(1) [of "ac_snapshotSubscriptionId c"], of c] obtain w' where
      "left w' = left (world (ac_agent c))" "\<And>h :: _ \<Rightarrow> (_, unit) exec. bindE (connect_call (aeron_findSubscription E (ac_snapshotSubscriptionId c))) h c
        = h (Some (sur_subscription x)) (c\<lparr>ac_agent := (ac_agent c)\<lparr>world := w'\<rparr>\<rparr>)" by blast
    then show thesis
      using c None
      by (intro that [of "c\<lparr>ac_agent := (ac_agent c)\<lparr>world := w'\<rparr>, ac_snapshotSubscription := Some (sur_subscription x)\<rparr>"])
        (simp_all add: loading_def resolved_agent whenE_def bindE_run split: option.split_asm option.split)
  next
    case (Some p)
    with c show thesis by (intro that [of c]) (auto simp: loading_def whenE_def bindE_run)
  qed
  obtain d where d: "loading E x session img gs d" "ac_snapshotImage d = Some img"
      "left (world (ac_agent d)) = left (world (ac_agent d1))"
      "\<And>h :: _ \<Rightarrow> (_, unit) exec. bindE (whenE (ac_snapshotImage d1 = None)
           (bindE (connect_call (sub_imageBySessionId E (sur_subscription x) (to_i32 session))) (\<lambda>found.
            modifyE (\<lambda>c. c\<lparr>ac_snapshotImage := found\<rparr>)))) h d1 = h () d"
  proof (cases "ac_snapshotImage d1")
    case None
    from replies_call [OF found(2), of d1] obtain w' where
      "left w' = left (world (ac_agent d1))" "\<And>h :: _ \<Rightarrow> (_, unit) exec. bindE (connect_call (sub_imageBySessionId E (sur_subscription x) (to_i32 session))) h d1
        = h (Some img) (d1\<lparr>ac_agent := (ac_agent d1)\<lparr>world := w'\<rparr>\<rparr>)" by blast
    then show thesis
      using d1(1) None
      by (intro that [of "d1\<lparr>ac_agent := (ac_agent d1)\<lparr>world := w'\<rparr>, ac_snapshotImage := Some img\<rparr>"])
        (simp_all add: loading_def resolved_agent whenE_def bindE_run split: option.split_asm option.split)
  next
    case (Some p)
    with d1(1) show thesis by (intro that [of d1]) (auto simp: loading_def whenE_def bindE_run)
  qed
  have "ac_snapshotSessionId c = to_i32 session" using c by (simp add: loading_def)
  then have "connect_step_2 E c = connect_replay E img d"
    by (simp add: connect_step_2_def bindE_run(3) d1(5) d1(3) d1(2) [symmetric] d(4) d(2))
  with d d1(4) show ?thesis by auto
qed

text \<open>One poll of the loader.\<close>

lemma loader_poll_run:
  fixes E :: "('b, 'w, 'z) env_scheme"
  assumes "awaits E (b @ gs) l"
    "image_controlledPoll E (ld_image l) FRAGMENT_LIMIT (world s) = (Inr b, w1)"
    "poll_finish E (length b) w1 = (Inr n, w2)"
  shows "\<exists>l'. loader_poll E (l, s) = Some (Inr n, (l', s\<lparr>world := w2\<rparr>)) \<and> awaits E gs l' \<and> ld_image l' = ld_image l"
proof -
  let ?s = "s\<lparr>world := w1\<rparr>"
  have agent: "loader_agent (world_call f) (l, s) = Some (map_prod id (\<lambda>w. (l, s\<lparr>world := w\<rparr>)) (f (world s)))" for f :: "('w, 'c) call" and l s
    by (cases "f (world s)") (simp add: loader_agent_def zoomE_def world_exec_def exec_run)
  have polled: "loader_poll E (l, s) = deliver (loader_onFragment E) (\<lambda>k. loader_agent (world_call (poll_finish E k)))
      (\<lambda>k e. loader_agent (world_call (poll_on_throw E k e))) 0 b (l, ?s)"
    by (simp add: loader_poll_def pollE_def bindE_run(3) bindE_def exec_run agent assms(2))
  obtain l' where d: "loader_poll E (l, s) = loader_agent (world_call (poll_finish E (length b))) (l', ?s)"
      "awaits E gs l'" "ld_image l' = ld_image l"
    unfolding polled using awaits_batch [OF assms(1), of "\<lambda>k. loader_agent (world_call (poll_finish E k))"
      "\<lambda>k e. loader_agent (world_call (poll_on_throw E k e))" 0 ?s] by auto
  then show ?thesis using assms(3) by (auto simp: agent)
qed

definition loaded :: "'w service_connect \<Rightarrow> bool" where
  "loaded c \<longleftrightarrow> (\<exists>l. ac_snapshotLoader c = Some l \<and> ld_isDone l)"

lemma loading_loaded:
  "loading E x session img gs c \<Longrightarrow> gs \<noteq> [] \<Longrightarrow> \<not> loaded c"
  "loading E x session img [] c \<Longrightarrow> loaded c \<and> m_table (ac_agent c) = empty_table"
  by (auto simp: loading_def loaded_def awaits_def is_snapshot_def new_loader_def split: option.split_asm if_split_asm)

lemma loaderE_run:
  "ac_snapshotLoader c = Some l \<Longrightarrow> m (l, ac_agent c) = Some (r, (l', a)) \<Longrightarrow>
   loaderE m c = Some (r, c\<lparr>ac_snapshotLoader := Some l', ac_agent := a\<rparr>)"
  by (simp add: loaderE_def bindE_run(1,3) derefE_run zoomE_def)

lemma archive_call:
  assumes "m_archive (ac_agent c) = Some a"
  shows "bindE (agentE (with_archive m)) h c = bindE (connect_call (m a)) h c"
  using assms by (simp add: agentE_def with_archive_def bindE_def zoomE_def exec_run derefE_run)

lemma replay_poll:
  assumes rep: "replaying E x session img left bs0" and c: "loading E x session img (b @ gs) c"
    and img: "ac_snapshotImage c = Some img" and b: "left (world (ac_agent c)) = b # bs" and more: "b @ gs \<noteq> []"
  shows "\<exists>c'. connect_replay E img c = Some (Inr (), c') \<and> loading E x session img gs c' \<and> left (world (ac_agent c')) = bs"
proof -
  obtain l where l_eq: "l = (case ac_snapshotLoader c of None \<Rightarrow> new_loader img (uninit_int E Loader_appVersion (world (ac_agent c))) | Some l \<Rightarrow> l)"
    by blast
  have l: "ld_image l = img" "\<not> ld_isDone l" "awaits E (b @ gs) l" "m_table (ac_agent c) = empty_table"
    using c loading_loaded(1) [OF c more]
    by (auto simp: l_eq loading_def loaded_def new_loader_def split: option.split_asm intro: awaits_new [unfolded new_loader_def, THEN iffD1])
  obtain w1 where w1: "image_controlledPoll E img FRAGMENT_LIMIT (world (ac_agent c)) = (Inr b, w1)" "left w1 = bs"
    using rep b unfolding replaying_def by (metis list.case(2) list.sel(3))
  have "replies left (poll_finish E (length b)) (\<lambda>n. n = int (length b))" using rep by (simp add: replaying_def)
  from repliesD [OF this, of w1] obtain w2 where w2: "poll_finish E (length b) w1 = (Inr (int (length b)), w2)" "left w2 = left w1"
    by auto
  obtain l' where poll: "loader_poll E (l, ac_agent c) = Some (Inr (int (length b)), (l', (ac_agent c)\<lparr>world := w2\<rparr>))"
      "awaits E gs l'" "ld_image l' = img"
    using loader_poll_run [OF l(3), unfolded l(1), OF w1(1) w2(1)] by auto
  let ?c = "c\<lparr>ac_snapshotLoader := Some l\<rparr>" and ?d = "c\<lparr>ac_snapshotLoader := Some l', ac_agent := (ac_agent c)\<lparr>world := w2\<rparr>\<rparr>"
  have made: "bindE (whenE (ac_snapshotLoader c = None) (modifyE (\<lambda>c. c\<lparr>ac_snapshotLoader :=
          Some (new_loader img (uninit_int E Loader_appVersion (world (ac_agent c))))\<rparr>))) h c = h () ?c" for h :: "_ \<Rightarrow> (_, unit) exec"
    by (cases c; cases "ac_snapshotLoader c") (simp_all add: l_eq whenE_def bindE_run)
  have isDone: "loaderE (getsE (\<lambda>(l, _). ld_isDone l)) ?c = Some (Inr False, ?c)"
    using loaderE_run [where c = ?c and l = l and m = "getsE (\<lambda>(l, _). ld_isDone l)"] l(2) by (simp add: exec_run)
  have polled: "loaderE (loader_poll E) ?c = Some (Inr (int (length b)), ?d)"
    using loaderE_run [where c = ?c and l = l and m = "loader_poll E"] poll(1) by simp
  have run: "connect_replay E img c = whenE (int (length b) = 0)
         (bindE (agentE (with_archive (archive_checkForErrorResponse E))) (\<lambda>_.
          bindE (connect_call (image_isClosed E img)) (\<lambda>closed.
          whenE closed (throwE SnapshotEndedUnexpectedly)))) ?d"
    by (simp add: connect_replay_def bindE_run(3) made bindE_Some(1) [where m = "loaderE (getsE (\<lambda>(l, _). ld_isDone l))", OF isDone]
      bindE_Some(1) [where m = "loaderE (loader_poll E)", OF polled])
  have d: "loading E x session img gs ?d" "left (world (ac_agent ?d)) = bs"
    using c poll(2,3) w1(2) w2(2) by (simp_all add: loading_def resolved_def recovered_def)
  show ?thesis
  proof (cases "b = []")
    case False
    with run d show ?thesis by (intro exI [of _ ?d]) (simp add: whenE_def exec_run)
  next
    case True
    obtain a where a: "m_archive (ac_agent ?d) = Some a" using d(1) by (auto simp: loading_def resolved_def)
    have "replies left (archive_checkForErrorResponse E a) (\<lambda>_. True)" "replies left (image_isClosed E img) (\<lambda>closed. \<not> closed)"
      using rep by (simp_all add: replaying_def)
    note answers = this
    from replies_call [OF answers(1), of ?d] obtain u w3 where w3: "left w3 = bs"
      "\<And>h :: _ \<Rightarrow> (_, unit) exec. bindE (connect_call (archive_checkForErrorResponse E a)) h ?d
        = h u (?d\<lparr>ac_agent := (ac_agent ?d)\<lparr>world := w3\<rparr>\<rparr>)"
      unfolding d(2) by blast
    let ?e = "?d\<lparr>ac_agent := (ac_agent ?d)\<lparr>world := w3\<rparr>\<rparr>"
    from replies_call [OF answers(2), of ?e] obtain closed w4 where w4: "\<not> closed" "left w4 = left (world (ac_agent ?e))"
      "\<And>h :: _ \<Rightarrow> (_, unit) exec. bindE (connect_call (image_isClosed E img)) h ?e
        = h closed (?e\<lparr>ac_agent := (ac_agent ?e)\<lparr>world := w4\<rparr>\<rparr>)"
      by blast
    let ?f = "?d\<lparr>ac_agent := (ac_agent ?d)\<lparr>world := w4\<rparr>\<rparr>"
    have "connect_replay E img c = Some (Inr (), ?f)"
      unfolding run using True w4(1,3) by (simp add: whenE_def archive_call [OF a] w3(2) exec_run)
    moreover have "loading E x session img gs ?f" using d(1) by (simp add: loading_def resolved_def recovered_def)
    ultimately show ?thesis using w3(1) w4(2) by (intro exI [of _ ?f]) simp
  qed
qed

section \<open>Polling\<close>

text \<open>A number of polls that do not hand out the agent yet.\<close>

primrec polled :: "('b, 'w, 'z) env_scheme \<Rightarrow> nat \<Rightarrow> 'w service_connect \<Rightarrow> 'w service_connect \<Rightarrow> bool" where
  "polled E 0 c c' \<longleftrightarrow> c' = c"
| "polled E (Suc n) c c' \<longleftrightarrow> (\<exists>d. service_connect_poll E c = Some (Inr False, d) \<and> polled E n d c')"

lemma polled_add: "polled E m c d \<Longrightarrow> polled E n d e \<Longrightarrow> polled E (m + n) c e"
  by (induction m arbitrary: c) auto

lemma poll_at_2:
  assumes "answering E x" "loading E x session img gs c"
  shows "service_connect_poll E c = bindE (connect_step_2 E) (\<lambda>_. retE False) (counters_asked E c)"
    "loading E x session img gs (counters_asked E c)"
  using assms later_poll [OF assms(1), of c]
  by (simp_all add: loading_asked) (simp add: loading_def bindE_run(3))

lemma batch_poll:
  assumes sur: "answering E x" and rep: "replaying E x session img left bs0" and c: "loading E x session img (b @ gs) c"
    and b: "left (world (ac_agent c)) = b # bs" and more: "b @ gs \<noteq> []"
  shows "\<exists>c'. service_connect_poll E c = Some (Inr False, c') \<and> loading E x session img gs c' \<and> left (world (ac_agent c')) = bs"
proof -
  note p = poll_at_2 [OF sur c]
  obtain d where d: "connect_step_2 E (counters_asked E c) = connect_replay E img d" "loading E x session img (b @ gs) d"
      "ac_snapshotImage d = Some img" "left (world (ac_agent d)) = b # bs"
    using to_replay [OF rep p(2)] b replies_asked [OF rep, of c] by metis
  obtain c' where "connect_replay E img d = Some (Inr (), c')" "loading E x session img gs c'" "left (world (ac_agent c')) = bs"
    using replay_poll [OF rep d(2-4) more] by blast
  then show ?thesis
    by (auto simp: p(1) bindE_Some(1) [where m = "connect_step_2 E"] d(1) exec_run)
qed

lemma end_poll:
  assumes sur: "answering E x" and rep: "replaying E x session img left bs0" and c: "loading E x session img [] c"
  shows "\<exists>c'. service_connect_poll E c = Some (Inr False, c') \<and> resolved E x c' \<and> recovered E x c' \<and> ac_step c' = 3
    \<and> ac_snapshotImage c' = Some img \<and> m_table (ac_agent c') = empty_table"
proof -
  note p = poll_at_2 [OF sur c]
  obtain d where d: "connect_step_2 E (counters_asked E c) = connect_replay E img d" "loading E x session img [] d"
      "ac_snapshotImage d = Some img"
    using to_replay [OF rep p(2)] by blast
  note complete = loading_loaded(2) [OF d(2)]
  from complete obtain l where l: "ac_snapshotLoader d = Some l" "ld_isDone l" by (auto simp: loaded_def)
  have "loaderE (getsE (\<lambda>(l, _). ld_isDone l)) d = Some (Inr True, d)"
    using loaderE_run [where c = d and l = l and m = "getsE (\<lambda>(l, _). ld_isDone l)"] l by (cases d) (simp add: exec_run)
  then have "connect_replay E img d = Some (Inr (), d\<lparr>ac_step := 3\<rparr>)"
    using l by (simp add: connect_replay_def bindE_run(3) whenE_def bindE_run(1)
      bindE_Some(1) [where m = "loaderE (getsE (\<lambda>(l, _). ld_isDone l))"] exec_run)
  then have "service_connect_poll E c = Some (Inr False, d\<lparr>ac_step := 3\<rparr>)"
    by (simp add: p(1) bindE_Some(1) [where m = "connect_step_2 E"] d(1) exec_run)
  with d complete show ?thesis by (intro exI [of _ "d\<lparr>ac_step := 3\<rparr>"]) (auto simp: loading_def)
qed

lemma all_batches:
  assumes sur: "answering E x" and rep: "replaying E x session img left bs0"
  shows "loading E x session img (concat bs) c \<Longrightarrow> left (world (ac_agent c)) = bs \<Longrightarrow> (bs \<noteq> [] \<longrightarrow> last bs \<noteq> []) \<Longrightarrow>
    \<exists>c'. polled E (length bs) c c' \<and> loading E x session img [] c'"
proof (induction bs arbitrary: c)
  case Nil
  then show ?case by auto
next
  case (Cons b bs)
  have more: "b @ concat bs \<noteq> []" using Cons.prems(3) by (cases "bs = []") (auto dest: last_in_set)
  then obtain d where d: "service_connect_poll E c = Some (Inr False, d)" "loading E x session img (concat bs) d"
      "left (world (ac_agent d)) = bs"
    using batch_poll [OF sur rep _ Cons.prems(2) more] Cons.prems(1) by auto
  moreover have "bs \<noteq> [] \<longrightarrow> last bs \<noteq> []" using Cons.prems(3) by auto
  ultimately obtain c' where "polled E (length bs) d c'" "loading E x session img [] c'"
    using Cons.IH [of d] by auto
  with d(1) show ?case by auto
qed

text \<open>The first poll reads the recovery counter and starts the replay.\<close>

lemma replay_started:
  assumes sur: "answering E x" and rep: "replaying E x session img left bs" and res: "resolved E x c"
    and term_id: "getLeadershipTermId E (sur_counters x) (ac_recoveryCounterId c) \<noteq> NULL_VALUE E"
    and rec: "getSnapshotRecordingId E (sur_counters x) (ac_recoveryCounterId c) (ctx_serviceId (ac_ctx c)) = Inr recording"
    and new: "ac_snapshotSubscription c = None" "ac_snapshotImage c = None" "ac_snapshotLoader c = None"
      "m_table (ac_agent c) = empty_table" and snap: "is_snapshot E (concat bs)"
  shows "\<exists>c'. connect_step_1 E c = Some (Inr (), c') \<and> loading E x session img (concat bs) c' \<and> left (world (ac_agent c')) = bs"
proof -
  have ctr: "always (aeron_countersReader E) (sur_counters x)" using sur by (simp add: answering_def)
  let ?channel = "ctx_replayChannel (ac_ctx c)" and ?stream = "ctx_replayStreamId (ac_ctx c)"
  let ?rest = "\<lambda>session. bindE (modifyE (\<lambda>c. c\<lparr>ac_snapshotSessionId := to_i32 session\<rparr>)) (\<lambda>_.
       bindE (connect_call (ChannelUri_addSessionId E ?channel (to_i32 session))) (\<lambda>channel.
       bindE (connect_call (aeron_addSubscription E channel ?stream)) (\<lambda>subscriptionId.
       modifyE (\<lambda>c. c\<lparr>ac_snapshotSubscriptionId := subscriptionId, ac_step := 2\<rparr>))))"
  obtain c1 where c1: "connect_step_1 E c = bindE (agentE (with_archive (\<lambda>a. archive_startReplay E a recording 0 (NULL_VALUE E) ?channel ?stream))) ?rest c1"
    and keep: "resolved E x c1" "recovered E x c1" "ac_snapshotSubscription c1 = None" "ac_snapshotImage c1 = None"
      "ac_snapshotLoader c1 = None" "m_table (ac_agent c1) = empty_table"
    using term_id rec res new
    by (auto simp: connect_step_1_def bindE_run exec_run bindE_liftE connect_call_always [OF ctr] agentE_modify Let_def
      resolved_def recovered_def)
  obtain a where a: "m_archive (ac_agent c1) = Some a" using keep(1) by (auto simp: resolved_def)
  obtain w1 where w1: "archive_startReplay E a recording 0 (NULL_VALUE E) ?channel ?stream (world (ac_agent c1)) = (Inr session, w1)" "left w1 = bs"
    using rep unfolding replaying_def by blast
  let ?d = "c1\<lparr>ac_agent := (ac_agent c1)\<lparr>world := w1\<rparr>, ac_snapshotSessionId := to_i32 session\<rparr>"
  have started: "connect_step_1 E c = bindE (connect_call (ChannelUri_addSessionId E ?channel (to_i32 session))) (\<lambda>channel.
       bindE (connect_call (aeron_addSubscription E channel ?stream)) (\<lambda>subscriptionId.
       modifyE (\<lambda>c. c\<lparr>ac_snapshotSubscriptionId := subscriptionId, ac_step := 2\<rparr>))) ?d"
    unfolding c1 archive_call [OF a] using w1(1)
    by (simp add: bindE_def agentE_def zoomE_def world_exec_def exec_run)
  have answers: "replies left (ChannelUri_addSessionId E i n) (\<lambda>_. True)" "replies left (aeron_addSubscription E i n) (\<lambda>_. True)" for i n
    using rep by (simp_all add: replaying_def)
  from replies_call [OF answers(1) [of ?channel "to_i32 session"], of ?d] obtain channel w2 where
    w2: "left w2 = left (world (ac_agent ?d))" "\<And>h :: _ \<Rightarrow> (_, unit) exec. bindE (connect_call (ChannelUri_addSessionId E ?channel (to_i32 session))) h ?d
      = h channel (?d\<lparr>ac_agent := (ac_agent ?d)\<lparr>world := w2\<rparr>\<rparr>)" by blast
  let ?e = "?d\<lparr>ac_agent := (ac_agent ?d)\<lparr>world := w2\<rparr>\<rparr>"
  from replies_call [OF answers(2) [of channel ?stream], of ?e] obtain subscription w3 where
    w3: "left w3 = left (world (ac_agent ?e))" "\<And>h :: _ \<Rightarrow> (_, unit) exec. bindE (connect_call (aeron_addSubscription E channel ?stream)) h ?e
      = h subscription (?e\<lparr>ac_agent := (ac_agent ?e)\<lparr>world := w3\<rparr>\<rparr>)" by blast
  let ?f = "?e\<lparr>ac_agent := (ac_agent ?e)\<lparr>world := w3\<rparr>, ac_snapshotSubscriptionId := subscription, ac_step := 2\<rparr>"
  have "connect_step_1 E c = Some (Inr (), ?f)"
    unfolding started w2(2) w3(2) by (simp add: exec_run)
  moreover have "loading E x session img (concat bs) ?f"
    using keep snap by (simp add: loading_def resolved_def recovered_def awaits_def new_loader_def)
  ultimately show ?thesis using w1(2) w2(1) w3(1) by (intro exI [of _ ?f]) simp
qed

section \<open>Handing out the agent\<close>

lemma late_steps_view:
  fixes E :: "('b, 'w, 'z) env_scheme"
  shows "preserves (\<lambda>c. at_view V (ac_agent c)) (connect_step_3 E)"
    "preserves (\<lambda>c. at_view V (ac_agent c)) (connect_step_4 E)"
proof -
  have call: "preserves (at_view V) (world_call f)" for f :: "('w, 'c) call"
    by (intro keeps_at_view keeps_rules) simp
  have ack: "preserves (at_view V) (ack E i)" for i by (intro keeps_at_view keeps_ack) simp_all
  have active: "preserves (at_view V) (modifyE (\<lambda>s :: 'w sys. s\<lparr>m_isServiceActive := True\<rparr>))"
    by (intro keeps_at_view keeps_rules) simp
  show "preserves (\<lambda>c. at_view V (ac_agent c)) (connect_step_3 E)"
    unfolding connect_step_3_def
    by (intro preserves_bindE preserves_atoms preserves_whenE preserves_modifyE preserves_agentE callback_at_view) simp_all
  show "preserves (\<lambda>c. at_view V (ac_agent c)) (connect_step_4 E)"
    unfolding connect_step_4_def
    by (intro preserves_bindE preserves_atoms preserves_cases preserves_agentE call ack active)
qed

lemma late_poll_view:
  assumes "answering E x" "resolved E x c" "ac_step c = 3 \<or> ac_step c = 4" "service_connect_poll E c = Some (r, c')"
    "at_view V (ac_agent c)"
  shows "at_view V (ac_agent c')"
proof -
  let ?late = "if ac_step c = 3 then bindE (connect_step_3 E) (\<lambda>_. retE False) else connect_step_4 E"
  have "?late (counters_asked E c) = Some (r, c')"
    using later_poll [OF assms(1,2)] assms(3,4) by (auto simp: bindE_run(3))
  moreover have "preserves (\<lambda>c. at_view V (ac_agent c)) ?late"
    by (intro preserves_cases preserves_bindE preserves_atoms late_steps_view)
  moreover have "at_view V (ac_agent (counters_asked E c))" using assms(5) by (simp add: view_of_def)
  ultimately show ?thesis by (rule preservesD [rotated 2])
qed

text \<open>The context of a connect object stays the same.\<close>

lemma keeps_context: "keeps ac_ctx (service_connect_poll E)"
  unfolding service_connect_poll_def connect_parts_def connect_publication_def connect_subscription_def connect_proxy_def
    connect_adapter_def connect_archive_def connect_counters_def connect_step_0_def connect_step_1_def connect_step_2_def
    connect_step_3_def connect_step_4_def connect_replay_def loaderE_def agentE_def Let_def
  by (intro keeps_rules) (simp_all add: case_prod_unfold)

lemma polled_context: "polled E n c d \<Longrightarrow> ac_ctx d = ac_ctx c"
  by (induction n arbitrary: c) (auto dest: keepsD [OF keeps_context])

text \<open>A new connect object polled through to the agent, when the snapshot holds no session.\<close>

lemma recovers:
  assumes sur: "answering E x" and svc: "starts E (Some img)"
    and new: "new_service_connect E ctx w = Some (Inr c, w')"
    and ctr: "has_counters E (sur_counters x) (ctx_clusterId ctx)"
    and k: "k = findCounter E (sur_counters x) (ctx_clusterId ctx)"
    and term_id: "getLeadershipTermId E (sur_counters x) k \<noteq> NULL_VALUE E"
    and rec: "getSnapshotRecordingId E (sur_counters x) k (ctx_serviceId ctx) = Inr recording"
    and rep: "replaying E x session img left bs" and snap: "is_snapshot E (concat bs)" "last bs \<noteq> []"
  shows "\<exists>d e. polled E (length bs + 3) c d \<and> service_connect_poll E d = Some (Inr True, e) \<and> m_isServiceActive (ac_agent e)
    \<and> at_view \<lparr>cv_sessions = table_views empty_table, cv_logPosition = getLogPosition E (sur_counters x) k,
        cv_clusterTime = getTimestamp E (sur_counters x) k, cv_leadershipTermId = getLeadershipTermId E (sur_counters x) k\<rparr> (ac_agent e)"
proof -
  note fresh = new_service_connect_fresh [OF new]
  have none: "ac_snapshotSubscription c = None" "ac_snapshotImage c = None" "ac_snapshotLoader c = None"
    using new by (auto simp: new_service_connect_def bindE_eq_Some_Inr exec_run)
  obtain c0 where c0: "service_connect_poll E c = bindE (connect_step_1 E) (\<lambda>_. retE False) c0" "resolved E x c0"
      "snapshot_parts c0 = snapshot_parts c" "ac_recoveryCounterId c0 = k"
    using to_recovery [OF sur fresh(1)] ctr k fresh(2) by auto
  obtain c1 where c1: "connect_step_1 E c0 = Some (Inr (), c1)" "loading E x session img (concat bs) c1"
      "left (world (ac_agent c1)) = bs"
    using replay_started [OF sur rep c0(2), of recording] term_id rec c0(3,4) none fresh(2,3) snap(1)
    by (auto simp: snapshot_parts_def)
  have "bs \<noteq> []" using snap(1) by (auto simp: is_snapshot_def)
  with all_batches [OF sur rep c1(2,3)] snap(2) obtain c2 where
    c2: "polled E (length bs) c1 c2" "loading E x session img [] c2" by blast
  obtain c3 where c3: "service_connect_poll E c2 = Some (Inr False, c3)" "resolved E x c3" "recovered E x c3" "ac_step c3 = 3"
      "ac_snapshotImage c3 = Some img" "m_table (ac_agent c3) = empty_table"
    using end_poll [OF sur rep c2(2)] by blast
  obtain c4 where c4: "service_connect_poll E c3 = Some (Inr False, c4)" "resolved E x c4" "ac_step c4 = 4"
    using second_poll [OF sur c3(2,4,5) svc] by blast
  obtain c5 where c5: "service_connect_poll E c4 = Some (Inr True, c5)" "m_isServiceActive (ac_agent c5)"
    using third_poll [OF sur c4(2,3)] by blast
  have c01: "polled E 1 c c1" by (simp add: c0(1) bindE_Some(1) [where m = "connect_step_1 E", OF c1(1)] exec_run)
  from polled_add [OF c01 c2(1)] polled_add [of E "1 + length bs" c c2 2 c4] c3(1) c4(1)
  have polls: "polled E (length bs + 3) c c4" by (simp add: numeral_2_eq_2 numeral_3_eq_3)
  have "polled E (length bs + 2) c c3"
    using polled_add [OF polled_add [OF c01 c2(1)], of 1 c3] c3(1) by simp
  then have "ac_ctx c3 = ctx" using polled_context fresh(2) by metis
  with c3(3,6) k registry.invar_empty
  have "at_view \<lparr>cv_sessions = table_views empty_table, cv_logPosition = getLogPosition E (sur_counters x) k,
      cv_clusterTime = getTimestamp E (sur_counters x) k, cv_leadershipTermId = getLeadershipTermId E (sur_counters x) k\<rparr> (ac_agent c3)"
    by (simp add: recovered_def Let_def view_of_def)
  from late_poll_view [OF sur c3(2) _ c4(1) this] c3(4)
    late_poll_view [OF sur c4(2) _ c5(1)] c4(3) polls c5
  show ?thesis by blast
qed

section \<open>Sessions that are lost\<close>

text \<open>What the image of a snapshot hands out: markers, and messages of sessions that end with the principal.\<close>

definition snapshot_fragment :: "('b, 'w, 'z) codecs_scheme \<Rightarrow> ('b \<Rightarrow> int \<Rightarrow> int) \<Rightarrow> 'b fragment \<Rightarrow> bool" where
  "snapshot_fragment L prefix f \<longleftrightarrow> (\<exists>m. reads_marker L f m) \<or> (\<exists>i stream. reads_to_principal L prefix f i stream)"

inductive polls_to :: "('b, 'w, 'z) env_scheme \<Rightarrow> 'w service_connect \<Rightarrow> 'w service_connect \<Rightarrow> bool" for E :: "('b, 'w, 'z) env_scheme"
    and c :: "'w service_connect" where
  no_polls: "polls_to E c c"
| one_more_poll: "polls_to E c d \<Longrightarrow> service_connect_poll E d = Some (r, e) \<Longrightarrow> polls_to E c e"

definition no_sessions :: "'w sys \<Rightarrow> bool" where
  "no_sessions s \<longleftrightarrow> table_safe (m_table s) \<and> vector_views (m_table s) = []"

lemma no_sessions_loader:
  assumes "consuming_principal L prefix err" "SnapshotMarker_sbeTemplateId L \<noteq> ClientSession_sbeTemplateId L" "snapshot_fragment L prefix f"
  shows "preserves (\<lambda>(l, s). no_sessions s) (loader_onFragment L f)"
  using assms(3) unfolding snapshot_fragment_def
proof (elim disjE exE)
  fix m assume "reads_marker L f m"
  note run = loader_marker_run [OF this]
  show ?thesis
    unfolding run loader_onMarker_def by (cases "sm_mark m") (auto intro!: preserves_rules)
next
  fix i stream assume "reads_to_principal L prefix f i stream"
  note throws = loader_session_throws [OF assms(1,2) this]
  show ?thesis by (auto simp: preserves_def throws)
qed

lemma no_sessions_poll:
  fixes E :: "('b, 'w, 'z) env_scheme"
  assumes "consuming_principal E prefix err" "SnapshotMarker_sbeTemplateId E \<noteq> ClientSession_sbeTemplateId E"
    "\<forall>i n. returns (\<lambda>fs. \<forall>f \<in> set fs. snapshot_fragment E prefix f) (image_controlledPoll E i n)"
  shows "preserves (\<lambda>c. no_sessions (ac_agent c)) (service_connect_poll E)"
proof (rule preserves_service_connect_poll [where K = "\<lambda>_. True" and R = "snapshot_fragment E prefix"])
  show "preserves no_sessions (run_callback E (svc_onStart E i))" for i
    unfolding no_sessions_def by (rule preserves_run_callback [OF stable_vector])
  show "preserves no_sessions (ack E i)" for i
    unfolding no_sessions_def by (rule preserves_keeps [OF keeps_ack]) simp_all
  show "preserves (\<lambda>(l, s). no_sessions s) (loader_onFragment E f)" if "snapshot_fragment E prefix f" for f
    by (rule no_sessions_loader [OF assms(1,2) that])
qed (use assms(3) in \<open>simp_all add: no_sessions_def returns_def\<close>)

lemma no_sessions_polls:
  assumes "polls_to E c d" "new_service_connect E ctx w = Some (Inr c, w')" "snapshot_codec E carries prefix err"
    "\<forall>i n. returns (\<lambda>fs. \<forall>f \<in> set fs. snapshot_fragment E prefix f) (image_controlledPoll E i n)"
  shows "no_sessions (ac_agent d)"
  using assms(1)
proof induction
  case no_polls
  have "vector_views empty_table = []" by (simp add: vector_views_def table_elems_def empty_table_def)
  with new_service_connect_fresh(3) [OF assms(2)] show ?case by (simp add: no_sessions_def table_safe_empty)
next
  case (one_more_poll d r e)
  from assms(3) have "consuming_principal E prefix err" "SnapshotMarker_sbeTemplateId E \<noteq> ClientSession_sbeTemplateId E"
    by (simp_all add: snapshot_codec_def)
  from preservesD [OF no_sessions_poll [OF this assms(4)] _ one_more_poll.hyps(2)] one_more_poll.IH show ?case .
qed

section \<open>The theorem\<close>

text \<open>C2. What recovery from a snapshot recovers. A new connect
  object is given the recovery state of the moment another replica took a snapshot, and the replay of the messages that the other
  replica wrote, in any batches, also with polls that read nothing. If the other replica had no session, then three polls more than
  there are batches go by, the next one hands out the agent, and the agent
  and the other replica, given the rest of the log, agree on the sessions and their order, the log
  position, the cluster time and the term, whatever the two services do. But no session ever comes back: however often the
  connect object is polled and whatever the polls return or throw, the agent has no session, because the loader throws at
  the message of a session; so a replica that had sessions and one that recovers from its snapshot do not agree.\<close>

theorem recovery_from_snapshot:
  fixes E :: "('b, 'w, 'z) env_scheme" and F :: "('b, 'v, 'y) env_scheme"
  assumes "answering E x" "starts E (Some img)"
    "new_service_connect E ctx w = Some (Inr c, w')" "has_counters E (sur_counters x) (ctx_clusterId ctx)"
    "k = findCounter E (sur_counters x) (ctx_clusterId ctx)"
    "getLogPosition E (sur_counters x) k = m_logPosition s" "getTimestamp E (sur_counters x) k = m_clusterTime s"
    "getLeadershipTermId E (sur_counters x) k = m_leadershipTermId s" "m_leadershipTermId s \<noteq> NULL_VALUE E"
    "getSnapshotRecordingId E (sur_counters x) k (ctx_serviceId ctx) = Inr recording"
    "replaying E x session img left bs" "last bs \<noteq> []" "snapshot_codec E carries prefix err"
    "snapshot_messages E position termId version (table_elems (m_table s)) ms" "list_all2 carries (concat bs) ms"
    "\<forall>i n. returns (\<lambda>fs. \<forall>f \<in> set fs. snapshot_fragment E prefix f) (image_controlledPoll E i n)"
    "table_inv (m_table s)"
  shows "(table_elems (m_table s) = [] \<longrightarrow> (\<exists>d e t1 t2. polled E (length bs + 3) c d \<and> service_connect_poll E d = Some (Inr True, e)
      \<and> m_isServiceActive (ac_agent e) \<and> replay E evs (ac_agent e) = Some (Inr (), t1) \<and> replay F evs s = Some (Inr (), t2)
      \<and> view_of t1 = view_of t2 \<and> vector_views (m_table t1) = vector_views (m_table t2)))
    \<and> (\<forall>d. polls_to E c d \<longrightarrow> vector_views (m_table (ac_agent d)) = []
         \<and> (table_elems (m_table s) \<noteq> [] \<longrightarrow> vector_views (m_table (ac_agent d)) \<noteq> vector_views (m_table s)))"
proof (intro conjI allI impI)
  fix d assume d: "polls_to E c d"
  from no_sessions_polls [OF this assms(3,13,16)] show none: "vector_views (m_table (ac_agent d)) = []" by (simp add: no_sessions_def)
  show "vector_views (m_table (ac_agent d)) \<noteq> vector_views (m_table s)" if "table_elems (m_table s) \<noteq> []"
    using that none by (simp add: vector_views_def)
next
  assume empty: "table_elems (m_table s) = []"
  obtain f1 f2 b1 b2 where b: "concat bs = [f1, f2]" "carries f1 b1" "carries f2 b2"
      "encodes_marker E position termId BEGIN version b1" "encodes_marker E position termId END version b2"
    using assms(14,15) by (auto simp: snapshot_messages_def empty list_all2_Cons2)
  have snap: "is_snapshot E (concat bs)"
    using b(1) loader_written(1) [OF assms(13) b(2,4)] loader_written(1) [OF assms(13) b(3,5)]
    unfolding is_snapshot_def begins_def ends_def by blast
  have term_id: "getLeadershipTermId E (sur_counters x) k \<noteq> NULL_VALUE E" using assms(8,9) by simp
  have "table_views empty_table = table_views (m_table s)"
    using rebuilt_views(3) [OF assms(17), of "[]"] empty by simp
  then obtain d e where e: "polled E (length bs + 3) c d" "service_connect_poll E d = Some (Inr True, e)" "m_isServiceActive (ac_agent e)"
      "table_inv (m_table (ac_agent e))" "view_of (ac_agent e) = view_of s"
    using recovers [OF assms(1-5) term_id assms(10,11) snap assms(12)] assms(6-8) by (auto simp: view_of_def)
  from replays_agree [OF e(4) assms(17) e(5), of E evs F] e(1-3)
  show "\<exists>d e t1 t2. polled E (length bs + 3) c d \<and> service_connect_poll E d = Some (Inr True, e)
      \<and> m_isServiceActive (ac_agent e) \<and> replay E evs (ac_agent e) = Some (Inr (), t1) \<and> replay F evs s = Some (Inr (), t2)
      \<and> view_of t1 = view_of t2 \<and> vector_views (m_table t1) = vector_views (m_table t2)" by blast
qed

text \<open>A recovery state with a snapshot, and its replay: the world is what the image has still to hand out.\<close>

definition snapshot_counters :: counters where
  "snapshot_counters = ready_counters\<lparr>
     metaInt32 := \<lambda>a. if a = 44 then 1 else 0,
     metaInt64 := \<lambda>a. if a = 16 then 4 else if a = 24 then 64 else 7\<rparr>"

text \<open>The messages of a snapshot of the sessions \<open>xs\<close>, and the batches they arrive in.\<close>

definition written_snapshot :: "session list \<Rightarrow> snap_message list" where
  "written_snapshot xs = Inr (SnapshotMarker SNAPSHOT_TYPE_ID 64 4 0 BEGIN NANOS 1)
     # map (Inl \<circ> session_message) xs @ [Inr (SnapshotMarker SNAPSHOT_TYPE_ID 64 4 0 END NANOS 1)]"

definition snapshot_batches :: "session list \<Rightarrow> snap_message fragment list list" where
  "snapshot_batches xs =
     [[snap_fragment (Inr (SnapshotMarker SNAPSHOT_TYPE_ID 64 4 0 BEGIN NANOS 1))], [],
      map (snap_fragment \<circ> Inl \<circ> session_message) xs,
      [snap_fragment (Inr (SnapshotMarker SNAPSHOT_TYPE_ID 64 4 0 END NANOS 1))]]"

definition recovery_env :: "session list \<Rightarrow> (snap_message, snap_message fragment list list) env" where
  "recovery_env xs = snap_codecs\<lparr>
     pub_isConnected := \<lambda>_. demo_ret True, aeron_countersReader := demo_ret snapshot_counters,
     archive_startReplay := \<lambda>_ _ _ _ _ _ _. (Inr 9, snapshot_batches xs),
     image_controlledPoll := \<lambda>_ _ w. (Inr (case w of [] \<Rightarrow> [] | b # _ \<Rightarrow> b), tl w)\<rparr>"

lemmas recovery_env_defs = recovery_env_def snap_codecs_def

definition recovery_surroundings :: surroundings where
  "recovery_surroundings = ready_surroundings\<lparr>sur_counters := snapshot_counters\<rparr>"

lemma recovery_answers: "answering (recovery_env xs) recovery_surroundings" "starts (recovery_env xs) (Some 0)"
  by (auto simp: answering_def always_def recovery_env_defs recovery_surroundings_def ready_surroundings_def starts_def exec_run)

lemma recovery_replaying: "replaying (recovery_env xs) recovery_surroundings 9 0 id (snapshot_batches xs)"
  by (auto simp: replaying_def replies_def recovery_env_defs recovery_surroundings_def ready_surroundings_def)

lemma recovery_codec: "snapshot_codec (recovery_env xs) (\<lambda>f b. f = snap_fragment b) (\<lambda>_ _. 2) (LibraryError 100)"
  by (auto simp: snapshot_codec_def consuming_principal_def reads_marker_def reads_to_principal_def reads_client_session_def
    header_is_def recovery_env_defs snap_fragment_def Let_def)

lemma recovery_written: "snapshot_messages (recovery_env ys) 64 4 1 xs (written_snapshot xs)"
proof -
  have "list_all2 (encodes_session (recovery_env ys)) xs (map (Inl \<circ> session_message) xs)" for xs
    by (induction xs) (simp_all add: encodes_session_def recovery_env_defs)
  then show ?thesis
    by (auto simp: snapshot_messages_def encodes_marker_def written_snapshot_def recovery_env_defs)
qed

lemma recovery_carried: "list_all2 (\<lambda>f b. f = snap_fragment b) (concat (snapshot_batches xs)) (written_snapshot xs)"
proof -
  have "concat (snapshot_batches xs) = map snap_fragment (written_snapshot xs)"
    by (simp add: snapshot_batches_def written_snapshot_def comp_def)
  then show ?thesis by (simp only: list_all2_eq_map)
qed

text \<open>The decoders of the demonstration look at nothing but the message, so the image can hand out nothing else.\<close>

lemma recovery_fragments: "\<forall>i n. returns (\<lambda>fs. \<forall>f \<in> set fs. snapshot_fragment (recovery_env xs) (\<lambda>_ _. 2) f) (image_controlledPoll (recovery_env xs) i n)"
proof -
  have "snapshot_fragment (recovery_env xs) (\<lambda>_ _. 2) f" for f
    by (cases "frag_buffer f") (auto simp: snapshot_fragment_def reads_marker_def reads_to_principal_def reads_client_session_def
      header_is_def recovery_env_defs)
  then show ?thesis by (simp add: returns_def)
qed

lemma recovery_found:
  "findCounter (recovery_env xs) snapshot_counters 0 = 0"
  "find_counter (recovery_env xs) snapshot_counters 203 0 = Some \<lparr>counter_registrationId = 41, counter_id = 1\<rparr>"
  "getLeadershipTermId (recovery_env xs) snapshot_counters 0 = 4" "getLogPosition (recovery_env xs) snapshot_counters 0 = 64"
  "getTimestamp (recovery_env xs) snapshot_counters 0 = 7" "getSnapshotRecordingId (recovery_env xs) snapshot_counters 0 0 = Inr 7"
  by (simp_all add: findCounter_def findCounter_from.simps find_counter_def find_from.simps getCounterClusterId_def
    recovery_env_defs snapshot_counters_def ready_counters_def getLeadershipTermId_def getLogPosition_def getTimestamp_def
    getSnapshotRecordingId_def recovery_counter_def recovery_offsets)

definition recovery_connect :: "snap_message fragment list list service_connect" where
  "recovery_connect = projr (fst (the (new_service_connect (recovery_env []) demo_context [])))"

lemma recovery_connect_new: "new_service_connect (recovery_env xs) demo_context [] = Some (Inr recovery_connect, [])"
  by (simp add: recovery_connect_def new_service_connect_def recovery_env_defs bindE_def exec_run new_agent_def ready_context)

text \<open>The replica that took the snapshot, without and with sessions.\<close>

definition replica :: "session_table \<Rightarrow> 'w \<Rightarrow> 'w sys" where
  "replica T w = (demo_agent w)\<lparr>m_table := T, m_logPosition := 64, m_clusterTime := 7, m_leadershipTermId := 4\<rparr>"

lemma replica_fields: "m_table (replica T w) = T" "m_logPosition (replica T w) = 64" "m_clusterTime (replica T w) = 7"
  "m_leadershipTermId (replica T w) = 4"
  by (simp_all add: replica_def)

theorem recovery_from_snapshot_witness:
  "(\<exists>d e t1 t2. polled (recovery_env []) 7 recovery_connect d \<and> service_connect_poll (recovery_env []) d = Some (Inr True, e)
      \<and> replay (recovery_env []) [SessionClosed 4 96 2 102 0] (ac_agent e) = Some (Inr (), t1)
      \<and> replay (demo_env :: (snap_message, nat) env) [SessionClosed 4 96 2 102 0] (replica empty_table 0) = Some (Inr (), t2)
      \<and> view_of t1 = view_of t2)
   \<and> (\<lambda>d. vector_views (m_table (ac_agent d))) ` {d. polls_to (recovery_env (table_elems demo_table)) recovery_connect d} = {[]}
   \<and> vector_views demo_table \<noteq> []"
proof -
  have len: "length (snapshot_batches xs) + 3 = 7" "last (snapshot_batches xs) \<noteq> []" for xs by (simp_all add: snapshot_batches_def)
  have sur: "sur_counters recovery_surroundings = snapshot_counters" by (simp add: recovery_surroundings_def)
  have ids: "NULL_VALUE (recovery_env xs) = - 1" "NULL_COUNTER_ID (recovery_env xs) = - 1" "CLUSTER_COMMIT_POSITION_TYPE_ID (recovery_env xs) = 203" for xs
    by (simp_all add: recovery_env_defs)
  have ctx: "ctx_serviceId demo_context = 0" by (simp add: demo_context_def default_context_def SERVICE_ID_DEFAULT_def)
  have sessions: "table_elems empty_table = []" "table_elems demo_table \<noteq> []"
  proof -
    have "length (table_elems demo_table) = 3" by code_simp
    then show "table_elems demo_table \<noteq> []" by auto
    show "table_elems empty_table = []" by (simp add: table_elems_def empty_table_def)
  qed
  note facts = sur ctx ids ready_context recovery_found has_counters_def replica_fields
  note recovery = recovery_from_snapshot [OF recovery_answers recovery_connect_new _ refl _ _ _ _ _ recovery_replaying len(2)
      recovery_codec _ recovery_carried recovery_fragments, where F = "demo_env :: (snap_message, nat) env" and evs = "[SessionClosed 4 96 2 102 0]"]
  from recovery [OF _ _ _ _ _ _ recovery_written, where s = "replica empty_table 0"]
  have "\<exists>d e t1 t2. polled (recovery_env []) 7 recovery_connect d \<and> service_connect_poll (recovery_env []) d = Some (Inr True, e)
      \<and> replay (recovery_env []) [SessionClosed 4 96 2 102 0] (ac_agent e) = Some (Inr (), t1)
      \<and> replay (demo_env :: (snap_message, nat) env) [SessionClosed 4 96 2 102 0] (replica empty_table 0) = Some (Inr (), t2)
      \<and> view_of t1 = view_of t2"
    unfolding replica_fields sessions(1) len(1) by (simp add: facts registry.invar_empty) blast
  moreover from recovery [OF _ _ _ _ _ _ recovery_written, where s = "replica demo_table 0"]
  have none: "vector_views (m_table (ac_agent d)) = []" if "polls_to (recovery_env (table_elems demo_table)) recovery_connect d" for d
    unfolding replica_fields using that sessions(2) by (auto simp: facts)
  have "(\<lambda>d. vector_views (m_table (ac_agent d))) ` {d. polls_to (recovery_env (table_elems demo_table)) recovery_connect d} = {[]}"
    using none polls_to.intros(1) by (auto simp: image_iff)
  moreover have "vector_views demo_table \<noteq> []" using sessions(2) by (simp add: vector_views_def)
  ultimately show ?thesis by blast
qed

end
