(* ===== verification/TestPrograms.thy ===== *)
theory TestPrograms
  imports ServiceMain
begin

text \<open>
  The two test programs: \<open>ack-main.cpp\<close>, which sends one acknowledgement to the consensus module and
  then sleeps for ever, and \<open>archive-connect.cpp\<close>, which connects to the archive. What they print is
  left out; \<open>sleep\<close>, the lookup of a shared publication, the encoder of the request and the connection
  of the archive context are parameters.
\<close>

section \<open>ack-main.cpp\<close>

partial_function (option) ack_await_publication :: "(i64 \<Rightarrow> ('w, pub option) call) \<Rightarrow> ('w \<Rightarrow> 'w) \<Rightarrow> i64 \<Rightarrow> pub option \<Rightarrow> 'w \<Rightarrow>
    ((cluster_error + pub) \<times> 'w) option" where
  "ack_await_publication findPublication sleep pubId publication w =
     (case publication of
        Some p \<Rightarrow> retE p
      | None \<Rightarrow>
          bindE (callE (findPublication pubId)) (\<lambda>publication.
          bindE (modifyE sleep) (\<lambda>_.
          ack_await_publication findPublication sleep pubId publication))) w"

partial_function (option) sleep_forever :: "('w \<Rightarrow> 'w) \<Rightarrow> 'w \<Rightarrow> ((cluster_error + unit) \<times> 'w) option" where
  "sleep_forever sleep w = bindE (modifyE sleep) (\<lambda>_. sleep_forever sleep) w"

text \<open>The result of the offer is only printed.\<close>

definition ack_main :: "('b, 'w, 'z) aeron_scheme \<Rightarrow> (i64 \<Rightarrow> ('w, pub option) call) \<Rightarrow> (cm_request \<Rightarrow> cluster_error + 'b) \<Rightarrow>
    ('w \<Rightarrow> 'w) \<Rightarrow> ('w, unit) exec" where
  "ack_main L findPublication encode sleep =
     bindE (callE (aeron_connect L (defaultAeronPath L) (Some (defaultErrorHandler L)))) (\<lambda>_.
     bindE (callE (aeron_addPublication L ''aeron:ipc'' 105)) (\<lambda>pubId.
     bindE (callE (findPublication pubId)) (\<lambda>publication.
     bindE (ack_await_publication findPublication sleep pubId publication) (\<lambda>p.
     bindE (callE (aeron_clientId L)) (\<lambda>clientId.
     bindE (liftE (encode (ServiceAck 0 0 0 clientId 0))) (\<lambda>buffer.
     bindE (callE (pub_offer L p buffer)) (\<lambda>result.
     sleep_forever sleep)))))))"

section \<open>archive-connect.cpp\<close>

text \<open>The loop from the head of the \<open>for\<close> on.\<close>

partial_function (option) await_archive :: "('b, 'w, 'z) aeron_scheme \<Rightarrow> archive_context \<Rightarrow> 'w \<Rightarrow>
    ((cluster_error + unit) \<times> 'w) option" where
  "await_archive L ctx w =
     bindE (callE (archive_connect_poll L)) (\<lambda>cluster.
     if cluster \<noteq> None then retE ()
     else
       bindE (callE (idle_idle L)) (\<lambda>_.
       bindE (derefE ''aeron'' (arc_aeron ctx)) (\<lambda>_.
       bindE (callE (aeron_usesAgentInvoker L)) (\<lambda>invoker.
       bindE (whenE (\<not> invoker) (callE (aeron_invoke L))) (\<lambda>_.
       await_archive L ctx))))) w"

definition archive_main :: "('b, 'w, 'z) aeron_scheme \<Rightarrow> (archive_context \<Rightarrow> ('w, archive_context) call) \<Rightarrow>
    archive_context \<Rightarrow> ('w, unit) exec" where
  "archive_main L asyncConnect ctx =
     bindE (callE (asyncConnect (ctx\<lparr>arc_controlRequestChannel := ''aeron:ipc'', arc_controlResponseChannel := ''aeron:ipc''\<rparr>)))
       (\<lambda>ctx. await_archive L ctx)"

section \<open>What they do\<close>

lemma sleeps_forever: "sleep_forever sleep w = None"
proof -
  have False if "sleep_forever sleep w = Some y" for y
    by (rule sleep_forever.raw_induct [where P = "\<lambda>_ _ _. False", OF _ that]) (auto simp: bindE_run)
  then show ?thesis by (cases "sleep_forever sleep w") auto
qed

text \<open>\<open>ack-main\<close> ends only with an exception, of the libraries or of the encoder.\<close>

theorem ack_main_never_returns: "ack_main L findPublication encode sleep w \<noteq> Some (Inr (), w')"
  by (auto simp: ack_main_def bindE_eq_Some_Inr sleeps_forever)

text \<open>When the offer is not accepted, nothing is sent and nobody is told: the program goes to sleep all the same.\<close>

theorem ack_main_ignores_result:
  assumes "ack_await_publication findPublication sleep pubId publication w2 = Some (Inr p, w3)"
    "aeron_connect L (defaultAeronPath L) (Some (defaultErrorHandler L)) w = (Inr a, w0)"
    "aeron_addPublication L ''aeron:ipc'' 105 w0 = (Inr pubId, w1)" "findPublication pubId w1 = (Inr publication, w2)"
    "aeron_clientId L w3 = (Inr clientId, w4)" "encode (ServiceAck 0 0 0 clientId 0) = Inr buffer"
    "pub_offer L p buffer w4 = (Inr result, w5)"
  shows "ack_main L findPublication encode sleep w = None"
  using assms by (simp add: ack_main_def bindE_def exec_run sleeps_forever)

text \<open>\<open>archive-connect\<close> returns only when a poll has given it an archive.\<close>

lemma await_archive_connected:
  assumes "await_archive L ctx w = Some (Inr (), w')"
  shows "\<exists>w0 a. archive_connect_poll L w0 = (Inr (Some a), w')"
proof -
  have "fst y = Inr () \<longrightarrow> (\<exists>w0 a. archive_connect_poll L w0 = (Inr (Some a), snd y))" if "await_archive L ctx w = Some y" for y
  proof (rule await_archive.raw_induct [where P = "\<lambda>L ctx w y. fst y = Inr () \<longrightarrow>
      (\<exists>w0 a. archive_connect_poll L w0 = (Inr (Some a), snd y))", OF _ that], goal_cases)
    case (1 f L ctx w y)
    show ?case
    proof
      assume "fst y = Inr ()"
      then obtain z where y: "y = (Inr (), z)" by (cases y) auto
      from 1(2) [unfolded y] show "\<exists>w0 a. archive_connect_poll L w0 = (Inr (Some a), snd y)"
        using 1(1) unfolding y by (fastforce simp: bindE_eq_Some_Inr exec_run split: if_splits)
    qed
  qed
  from this [OF assms] show ?thesis by simp
qed

text \<open>
  The condition of the loop is the wrong way round: with a client that is to be driven by an invoker,
  the invoker is never called, whatever it would do.
\<close>

lemma await_archive_no_invoke:
  assumes "await_archive L ctx w = Some y" "\<forall>w. fst (aeron_usesAgentInvoker L w) = Inr True"
  shows "await_archive (L\<lparr>aeron_invoke := g\<rparr>) ctx w = Some y"
proof -
  have "(\<forall>w. fst (aeron_usesAgentInvoker L w) = Inr True) \<longrightarrow> await_archive (L\<lparr>aeron_invoke := g\<rparr>) ctx w = Some y"
  proof (rule await_archive.raw_induct [where P = "\<lambda>L ctx w y. (\<forall>w. fst (aeron_usesAgentInvoker L w) = Inr True) \<longrightarrow>
      await_archive (L\<lparr>aeron_invoke := g\<rparr>) ctx w = Some y", OF _ assms(1)], goal_cases)
    case (1 f L ctx w y)
    show ?case
    proof
      assume uses: "\<forall>w. fst (aeron_usesAgentInvoker L w) = Inr True"
      have skip: "bindE (callE (aeron_usesAgentInvoker L)) (\<lambda>invoker. bindE (whenE (\<not> invoker) m) (\<lambda>_. h))
          = bindE (callE (aeron_usesAgentInvoker L)) (\<lambda>_. h)" for m h
        using uses by (auto simp: fun_eq_iff bindE_def exec_run whenE_def split: prod.split sum.split) (metis fst_conv sum.inject(2))+
      have got: "aeron_usesAgentInvoker L u = (Inr b, v) \<Longrightarrow> b" for u b v
        using uses by (metis fst_conv sum.inject(2))
      have again: "f L c v = Some z \<Longrightarrow> await_archive (L\<lparr>aeron_invoke := g\<rparr>) c v = Some z" for c v z
        using 1(1) uses by blast
      from 1(2) [unfolded skip] show "await_archive (L\<lparr>aeron_invoke := g\<rparr>) ctx w = Some y"
        by (subst await_archive.simps) (auto simp: bindE_def exec_run derefE_def whenE_def intro: again dest: got
          split: prod.splits sum.splits option.splits if_splits)
    qed
  qed
  with assms(2) show ?thesis by blast
qed

theorem invoker_never_invoked:
  assumes "\<forall>w. fst (aeron_usesAgentInvoker L w) = Inr True"
  shows "archive_main (L\<lparr>aeron_invoke := g\<rparr>) asyncConnect ctx = archive_main L asyncConnect ctx"
proof -
  have "await_archive (L\<lparr>aeron_invoke := g\<rparr>) c w = await_archive L c w" for c w
  proof (cases "await_archive L c w")
    case (Some y)
    with await_archive_no_invoke [OF Some assms] show ?thesis by simp
  next
    case None
    have "await_archive L c w = Some y" if "await_archive (L\<lparr>aeron_invoke := g\<rparr>) c w = Some y" for y
      using await_archive_no_invoke [OF that, of "aeron_invoke L"] assms by simp
    with None show ?thesis by (cases "await_archive (L\<lparr>aeron_invoke := g\<rparr>) c w") auto
  qed
  then have "await_archive (L\<lparr>aeron_invoke := g\<rparr>) = await_archive L" by (intro ext)
  then show ?thesis by (simp add: archive_main_def)
qed

end
