(* ===== verification/Spec2Isabelle.thy ===== *)
theory Spec2Isabelle
  imports SafetyProperties SnapshotProperties CounterProperties ClientProperties MarkFileProperties MainProperties Reassembly ClientProtocol SnapshotProgress AckProperties Typed Listeners Recovery TestPrograms
begin

text \<open>
  A model of aeron-cluster-cpp: the container that runs a clustered service
  (\<open>src/src/service\<close>) and the client of a cluster (\<open>src/src/client\<close>), with what makes them
  correct and what is wrong with them.

  \<^bold>\<open>The program.\<close> A cluster replicates a service. On every member a container connects to the
  media driver, the archive and the consensus module, recovers its position and replays its
  snapshot (\<open>ClusteredServiceAgent::AsyncConnect\<close>); it then repeats a work cycle (\<open>doWork\<close>): a
  clock tick, the control events of the consensus module (\<open>ServiceAdapter\<close>), the snapshot in
  progress, and the log up to the commit position (\<open>BoundedLogAdapter\<close>), each log message going
  to a handler of the agent that changes its state and calls the user's service. The service may
  call back (\<open>Cluster\<close>); requests go to the consensus module (\<open>ConsensusModuleProxy\<close>). A client
  connects with another \<open>AsyncConnect\<close>, polls one response (\<open>EgressPoller\<close>) and then receives
  the messages of its session (\<open>EgressAdapter\<close>).

  \<^bold>\<open>How a method is modelled.\<close> A method is a function on a record that has the members of its
  class under their names; it returns a value, throws an exception of the datatype
  \<open>cluster_error\<close>, or does not return (\<open>Prelude\<close>: \<open>exec\<close>). Assignments made before a throw
  stay. The Aeron client, the archive client, the generated codecs, the clock, the file system and
  the memory that members without an initialiser are read from are fields of a record that every
  definition has as a parameter (\<open>Environment\<close>); nothing is assumed of them except in the
  hypotheses of a theorem. The user's service is arbitrary: a callback is a tree of what it does
  (\<open>Service\<close>), calls of the cluster included, so what is proved holds for every service.
  The owned vector of sessions and the map of pointers into it share objects, so both are kept,
  with the addresses (\<open>SessionTable\<close>); dereferencing a dangling or null pointer is an exception
  of its own, \<open>NullDereference\<close>, so that its absence can be stated.

  \<^bold>\<open>The theories\<close>, in the order of the code they model:

  \<^item> \<open>Prelude\<close>, \<open>Environment\<close>, \<open>Retry\<close>, \<open>Decoding\<close>: the execution monad with rules for frames
    (\<open>keeps\<close>), invariants (\<open>preserves\<close>) and termination (\<open>total\<close>); the parameters; the status
    checks of the offer loops; how fragments are decoded, which four handlers share.
  \<^item> \<open>Sessions\<close>, \<open>SessionTable\<close>: \<open>ContainerClientSession\<close> and the agent's two containers; the
    locale of a registry is interpreted on them.
  \<^item> \<open>ConsensusModuleProxy\<close>, \<open>SnapshotTaker\<close>, \<open>SnapshotLoader\<close>, \<open>Configuration\<close>, \<open>Service\<close>: the
    requests, the writing and the loading of a snapshot, the context, the interface of the service.
  \<^item> \<open>Agent\<close>, \<open>ServiceAdapter\<close>, \<open>LogAdapter\<close>, \<open>AgentWork\<close>: \<open>ClusteredServiceAgent\<close>, its handlers,
    the two adapters that call them, and the work cycle.
  \<^item> \<open>Counters\<close>, \<open>ServiceConnect\<close>: \<open>ClusterCounters\<close>, \<open>RecoveryState\<close>, the loops that wait, and
    the container's \<open>AsyncConnect\<close>, one definition per step.
  \<^item> \<open>IngressEndpoints\<close>, \<open>Egress\<close>, \<open>ClientConnect\<close>: the client: \<open>parseIngressEndpoints\<close>, poller and
    adapter of the egress, header of the ingress, the context, \<open>AsyncConnect\<close> and \<open>AeronCluster\<close>.
  \<^item> \<open>Listeners\<close>: the default consumers of \<open>ClusterConfiguration.h\<close> and the callbacks of
    \<open>EgressListener\<close> and \<open>ControlledEgressListener\<close>.
  \<^item> \<open>MarkFile\<close>: \<open>ClusterMarkFile\<close>.
  \<^item> \<open>ServiceMain\<close>, the end of \<open>ClientConnect\<close>: the example service and the two programs,
    \<open>service-main.cpp\<close> and \<open>client/main.cpp\<close>.
  \<^item> \<open>TestPrograms\<close>: \<open>ack-main.cpp\<close> and \<open>archive-connect.cpp\<close>, and how they end.

  \<^bold>\<open>What is proved.\<close>

  \<^item> \<open>LogEvents\<close>, \<open>LogProperties\<close>: the abstract state of a replica (sessions as a map, position,
    time, term) is a function of the log. The handlers refine it, whatever the service does, so
    replicas agree; opening and closing a session, clashes included.
  \<^item> \<open>Reassembly\<close>: a message of the log that arrives in any number of fragments is handled like
    one unfragmented fragment that carries the same bytes - those that the builder reads as, room at
    its front included, if it keeps any - and a missing fragment drops the rest of it.
  \<^item> \<open>AgentLemmas\<close>, \<open>WorkLemmas\<close>, \<open>AgentProperties\<close>: frames of all operations; close requests,
    role changes, acknowledgements, clock ticks, joining and closing a log.
  \<^item> \<open>AckProperties\<close>: an acknowledgement that was asked for stands over any rounds of work until one
    is sent, and every poll that comes to it tries.
  \<^item> \<open>SnapshotLemmas\<close>, \<open>SnapshotProperties\<close>: a snapshot is written completely and in order or not
    at all successfully, and the sessions are frozen while it is taken; but it is taken at a later
    position than the action that asked for it, since the poll of the log goes on with its batch; and
    it can be read back only if it holds no session: the loader asks for the principal of a
    session twice, which the accessor of the generated codec, that consumes the field, does not allow
    (\<open>snapshot_codec\<close> states what is documented of the codec).
  \<^item> \<open>Wp\<close>, \<open>SnapshotProgress\<close>: weakest preconditions; a snapshot is complete only when the service
    has finished, the recording has caught up and the acknowledgement is sent; and what an exception
    in the middle of writing it leads to.
  \<^item> \<open>Typed\<close>: from the constructor on, through polls of the connect object and rounds of work, the
    integers of the agent stay in the ranges of their types, the number of acknowledgements for the first
    \<open>2 ^ 61\<close> of them.
  \<^item> \<open>Clean\<close>, \<open>AgentSafety\<close>, \<open>WorkSafety\<close>, \<open>CycleSafety\<close>, \<open>ConnectSafety\<close>, \<open>SafetyProperties\<close>: a
    calculus of runs without a null dereference, carried through every operation; the states the
    container can reach, their invariant, and that no work cycle and no poll uses a null pointer
    as long as the commit counter is there, and that one does when it is not.
  \<^item> \<open>ConnectProperties\<close>, \<open>CounterProperties\<close>: the container connects in three polls; the scans of
    the counters are exact (one locale, interpreted on both); waiting for a recording; the context.
    \<open>ConnectInvariant\<close>: one rule that carries an invariant of the agent through a poll.
  \<^item> \<open>Recovery\<close>: from a new connect object through the replay of a snapshot, in any batches, to the
    agent it hands out: with a snapshot without sessions it agrees, after the rest of the log, with a
    replica that was never down; the sessions of any other snapshot never come back.
  \<^item> \<open>EgressProperties\<close>, \<open>ClientProperties\<close>: what a connected client holds, one response per poll,
    no messages of other sessions; no timeout, no use of endpoints, no redirect, no challenge.
  \<^item> \<open>ClientProtocol\<close>: the polls of a connecting client refine an automaton of seven phases.
  \<^item> \<open>MarkFileProperties\<close>: what opening a mark file leaves in it, and what cannot be read.
  \<^item> \<open>MainProperties\<close>: the service program as a whole ends only with an exception, which is no null
    dereference; its service takes a refused snapshot for a complete one.

  \<open>Demo\<close> holds the concrete environment that the witnesses start from: each theorem with
  hypotheses is applied to a concrete run.

  \<^bold>\<open>Bounds and loops.\<close> Nothing runs on fuel. Loops over data are structural or have a measure
  (the scans, the parsing of digits); loops that may run for ever (the offer of a snapshot message,
  the waiting loops, the parsing of endpoints) are partial functions, whose value
  \<open>None\<close> says that they do not return. Signed integers are mathematical integers with explicit
  conversions where the code narrows or compares them unsigned (\<open>to_i32\<close>, \<open>to_u64\<close>), and the
  flags of a frame are words. \<open>Typed\<close> justifies this for the agent: its members stay in the ranges
  of their types; the number of acknowledgements, which is counted up without a check, for the first
  \<open>2 ^ 61\<close> polls and rounds.
  Where C++ leaves the order of evaluation open and the order matters, it is a parameter
  (\<open>operands_right_to_left\<close>, \<open>arguments_right_to_left\<close>).

  \<^bold>\<open>Not modelled.\<close> What is printed; the interface \<open>ClusterClock\<close>, which nothing implements or
  calls; getters that only return a member, which are the selectors of the records; the stub \<open>AeronCluster::connect\<close>;
  the text of exceptions beyond the values it carries;
  concurrency, since the code is driven by one thread: the world may change between any two steps,
  which the reachable states of \<open>SafetyProperties\<close> allow.
\<close>

end
